(* ===== verification/JPrelude.thy ===== *)
theory JPrelude
  imports Main "HOL-Library.AList" "HOL-Library.Sublist"
begin

text \<open>
  Shared vocabulary of the development: Python strings as character lists with
  the string methods the sources call, insertion-ordered dictionaries as
  association lists, operations that thread a state and may raise (an exception
  leaves the mutated state behind, as it does in Python), and a small Hoare
  calculus over these operations that the component proofs use.
\<close>

named_theorems pyrun \<open>unfolding rules that run a state-passing operation\<close>
named_theorems pystr \<open>facts about the string operations\<close>

section \<open>Strings\<close>

definition startswith :: "string \<Rightarrow> string \<Rightarrow> bool" where
  "startswith s p = (take (length p) s = p)"

definition endswith :: "string \<Rightarrow> string \<Rightarrow> bool" where
  "endswith s p = (length p \<le> length s \<and> drop (length s - length p) s = p)"

fun str_find :: "string \<Rightarrow> string \<Rightarrow> nat option" where
  "str_find p [] = (if p = [] then Some 0 else None)"
| "str_find p (c # s) =
     (if take (length p) (c # s) = p then Some 0 else map_option Suc (str_find p s))"

definition str_in :: "string \<Rightarrow> string \<Rightarrow> bool" where
  "str_in p s = (str_find p s \<noteq> None)"

definition py_partition :: "string \<Rightarrow> string \<Rightarrow> string \<times> string \<times> string" where
  "py_partition s sep = (case str_find sep s of
      None \<Rightarrow> (s, [], [])
    | Some i \<Rightarrow> (take i s, sep, drop (i + length sep) s))"

text \<open>\<open>s.rpartition(c)\<close> for a one-character separator.\<close>

definition py_rpartition :: "string \<Rightarrow> char \<Rightarrow> string \<times> string \<times> string" where
  "py_rpartition s c =
     (if c \<in> set s
      then (rev (tl (dropWhile (\<lambda>x. x \<noteq> c) (rev s))), [c], rev (takeWhile (\<lambda>x. x \<noteq> c) (rev s)))
      else ([], [], s))"

text \<open>\<open>s.split(c)\<close> and \<open>c.join(parts)\<close> for a one-character separator.\<close>

fun py_split :: "char \<Rightarrow> string \<Rightarrow> string list" where
  "py_split c [] = [[]]"
| "py_split c (x # s) =
     (if x = c then [] # py_split c s
      else (case py_split c s of [] \<Rightarrow> [[x]] | p # ps \<Rightarrow> (x # p) # ps))"

fun py_join :: "char \<Rightarrow> string list \<Rightarrow> string" where
  "py_join c [] = []"
| "py_join c [p] = p"
| "py_join c (p # q # ps) = p @ c # py_join c (q # ps)"

definition char_upper :: "char \<Rightarrow> char" where
  "char_upper c = (let n = (of_char c :: nat) in if 97 \<le> n \<and> n \<le> 122 then char_of (n - 32) else c)"

definition char_lower :: "char \<Rightarrow> char" where
  "char_lower c = (let n = (of_char c :: nat) in if 65 \<le> n \<and> n \<le> 90 then char_of (n + 32) else c)"

definition str_upper :: "string \<Rightarrow> string" where
  "str_upper s = map char_upper s"

definition str_lower :: "string \<Rightarrow> string" where
  "str_lower s = map char_lower s"

definition str_isascii :: "string \<Rightarrow> bool" where
  "str_isascii s = list_all (\<lambda>c. (of_char c :: nat) < 128) s"

text \<open>Decimal printing, for the \<open>%d\<close> of a format string.\<close>

fun nat_str :: "nat \<Rightarrow> string" where
  "nat_str n = (if n < 10 then [char_of (48 + n)] else nat_str (n div 10) @ [char_of (48 + n mod 10)])"

declare nat_str.simps [simp del]

definition int_str :: "int \<Rightarrow> string" where
  "int_str i = (if i < 0 then CHR ''-'' # nat_str (nat (- i)) else nat_str (nat i))"

lemma py_split_nonempty [simp]: "py_split c s \<noteq> []"
  by (cases s) (auto split: list.splits)

lemma py_join_Cons: "ps \<noteq> [] \<Longrightarrow> py_join c (p # ps) = p @ c # py_join c ps"
  by (cases ps) simp_all

lemma py_join_Cons_char: "py_join c ((x # p) # ps) = x # py_join c (p # ps)"
  by (cases ps) simp_all

lemma py_join_split [simp, pystr]: "py_join c (py_split c s) = s"
proof (induction s)
  case Nil
  then show ?case by simp
next
  case (Cons x s)
  show ?case
  proof (cases "x = c")
    case True
    with Cons show ?thesis by (simp add: py_join_Cons)
  next
    case False
    obtain p ps where ps: "py_split c s = p # ps" by (cases "py_split c s") auto
    with False Cons show ?thesis by (simp add: py_join_Cons_char)
  qed
qed

lemma py_split_plain [pystr]: "c \<notin> set s \<Longrightarrow> py_split c s = [s]"
  by (induction s) auto

lemma py_split_append: "c \<notin> set p \<Longrightarrow> py_split c (p @ c # s) = p # py_split c s"
  by (induction p) auto

lemma py_split_join [pystr]:
  "ps \<noteq> [] \<Longrightarrow> \<forall>p\<in>set ps. c \<notin> set p \<Longrightarrow> py_split c (py_join c ps) = ps"
proof (induction ps rule: py_join.induct)
  case (3 c p q ps)
  then show ?case by (simp add: py_split_append)
qed (auto simp: py_split_plain)

lemma py_split_parts: "p \<in> set (py_split c s) \<Longrightarrow> c \<notin> set p"
proof (induction s arbitrary: p)
  case Nil
  then show ?case by simp
next
  case (Cons x s)
  obtain q qs where qs: "py_split c s = q # qs" by (cases "py_split c s") auto
  with Cons show ?case by (auto split: if_splits)
qed

lemma py_split_subset: "p \<in> set (py_split c s) \<Longrightarrow> set p \<subseteq> set s"
proof (induction s arbitrary: p)
  case Nil
  then show ?case by simp
next
  case (Cons x s)
  obtain q qs where qs: "py_split c s = q # qs" by (cases "py_split c s") auto
  with Cons.IH [of q] Cons.IH [of p] Cons.prems show ?case by (auto split: if_splits)
qed

lemma startswith_iff [pystr]: "startswith s p \<longleftrightarrow> prefix p s"
  by (metis append_eq_conv_conj prefix_def startswith_def)

lemma endswith_append [simp, pystr]: "endswith (s @ p) p"
  by (simp add: endswith_def)

lemma endswith_iff [pystr]: "endswith s p \<longleftrightarrow> (\<exists>q. s = q @ p)"
  by (metis append_take_drop_id endswith_append endswith_def)

lemma endswith_char: "endswith s [c] \<longleftrightarrow> s \<noteq> [] \<and> last s = c"
  by (auto simp: endswith_iff) (metis append_butlast_last_id)

lemma str_find_Some:
  "str_find p s = Some i \<Longrightarrow> take (length p) (drop i s) = p \<and> i \<le> length s"
  by (induction s arbitrary: i) (auto split: if_splits)

lemma str_find_split: "str_find p s = Some i \<Longrightarrow> s = take i s @ p @ drop (i + length p) s"
  by (metis add.commute append_take_drop_id drop_drop str_find_Some)

lemma str_find_None: "str_find p s = None \<longleftrightarrow> (\<forall>u v. s \<noteq> u @ p @ v)"
proof (induction s)
  case Nil
  then show ?case by auto
next
  case (Cons c s)
  show ?case
  proof (cases "take (length p) (c # s) = p")
    case True
    then have "c # s = [] @ p @ drop (length p) (c # s)" by (metis append_Nil append_take_drop_id)
    then have "\<exists>u v. c # s = u @ p @ v" by blast
    with True show ?thesis by simp
  next
    case False
    have "(\<forall>u v. c # s \<noteq> u @ p @ v) \<longleftrightarrow> (\<forall>u v. s \<noteq> u @ p @ v)"
    proof
      assume "\<forall>u v. c # s \<noteq> u @ p @ v"
      then show "\<forall>u v. s \<noteq> u @ p @ v" by (metis append_Cons)
    next
      assume no: "\<forall>u v. s \<noteq> u @ p @ v"
      show "\<forall>u v. c # s \<noteq> u @ p @ v"
      proof (intro allI)
        fix u v show "c # s \<noteq> u @ p @ v"
          using False no by (cases u) auto
      qed
    qed
    with False Cons.IH show ?thesis by auto
  qed
qed

lemma str_in_iff [pystr]: "str_in p s \<longleftrightarrow> (\<exists>u v. s = u @ p @ v)"
  using str_find_None [of p s] by (auto simp: str_in_def)

lemma rpartition_no_sep [simp]: "c \<notin> set s \<Longrightarrow> py_rpartition s c = ([], [], s)"
  by (simp add: py_rpartition_def)

lemma rpartition_append [simp]:
  assumes "c \<notin> set t"
  shows "py_rpartition (h @ c # t) c = (h, [c], t)"
proof -
  have "takeWhile (\<lambda>x. x \<noteq> c) (rev t @ c # rev h) = rev t"
    using assms by (subst takeWhile_append2) auto
  moreover have "dropWhile (\<lambda>x. x \<noteq> c) (rev t @ c # rev h) = c # rev h"
    using assms by (subst dropWhile_append2) auto
  ultimately show ?thesis by (simp add: py_rpartition_def)
qed

section \<open>Insertion-ordered dictionaries\<close>

text \<open>
  A Python dict is an association list with distinct keys, in insertion order:
  assigning an existing key keeps its position (\<open>AList.update\<close>), deleting a key
  removes it (\<open>AList.delete\<close>).
\<close>

type_synonym ('k, 'v) dict = "('k \<times> 'v) list"

definition dict_get :: "('k, 'v) dict \<Rightarrow> 'k \<Rightarrow> 'v option" where
  "dict_get d k = map_of d k"

definition dict_set :: "'k \<Rightarrow> 'v \<Rightarrow> ('k, 'v) dict \<Rightarrow> ('k, 'v) dict" where
  "dict_set k v d = AList.update k v d"

definition dict_del :: "'k \<Rightarrow> ('k, 'v) dict \<Rightarrow> ('k, 'v) dict" where
  "dict_del k d = AList.delete k d"

definition dict_keys :: "('k, 'v) dict \<Rightarrow> 'k list" where
  "dict_keys d = map fst d"

definition dict_ok :: "('k, 'v) dict \<Rightarrow> bool" where
  "dict_ok d = distinct (map fst d)"

text \<open>The contract every dictionary of the program is used under.\<close>

locale py_mapping =
  fixes get :: "'m \<Rightarrow> 'k \<Rightarrow> 'v option"
    and put :: "'k \<Rightarrow> 'v \<Rightarrow> 'm \<Rightarrow> 'm"
    and del :: "'k \<Rightarrow> 'm \<Rightarrow> 'm"
    and keys :: "'m \<Rightarrow> 'k list"
    and ok :: "'m \<Rightarrow> bool"
  assumes get_put: "get (put k v m) k' = (if k' = k then Some v else get m k')"
    and get_del: "get (del k m) k' = (if k' = k then None else get m k')"
    and keys_get: "k \<in> set (keys m) \<longleftrightarrow> get m k \<noteq> None"
    and ok_put: "ok m \<Longrightarrow> ok (put k v m)"
    and ok_del: "ok m \<Longrightarrow> ok (del k m)"
begin

text \<open>Storing a list of entries, left to right: the last entry for a key wins.\<close>

lemma get_fold_put:
  "get (fold (\<lambda>(k, v). put k v) kvs m) k' =
     (case map_of (rev kvs) k' of None \<Rightarrow> get m k' | Some v \<Rightarrow> Some v)"
  by (induction kvs arbitrary: m) (auto simp: get_put split: option.splits)

lemma ok_fold_put: "ok m \<Longrightarrow> ok (fold (\<lambda>(k, v). put k v) kvs m)"
  by (induction kvs arbitrary: m) (auto simp: ok_put)

lemma keys_put: "set (keys (put k v m)) = insert k (set (keys m))"
  by (auto simp: keys_get get_put split: if_splits)

lemma keys_del: "set (keys (del k m)) = set (keys m) - {k}"
  by (auto simp: keys_get get_del split: if_splits)

lemma put_same: "get (put k v m) k = Some v"
  by (simp add: get_put)

lemma put_other: "k' \<noteq> k \<Longrightarrow> get (put k v m) k' = get m k'"
  by (simp add: get_put)

lemma rename_get:
  "k \<noteq> k2 \<Longrightarrow> get m k = Some v \<Longrightarrow>
     get (put k2 v (del k m)) k2 = Some v \<and> get (put k2 v (del k m)) k = None"
  by (simp add: get_put get_del)

end

interpretation pd: py_mapping dict_get dict_set dict_del dict_keys dict_ok
proof unfold_locales
  fix k :: 'a and v :: 'b and m :: "('a, 'b) dict" and k'
  show "dict_get (dict_set k v m) k' = (if k' = k then Some v else dict_get m k')"
    by (simp add: dict_get_def dict_set_def update_conv')
  show "dict_get (dict_del k m) k' = (if k' = k then None else dict_get m k')"
    by (simp add: dict_get_def dict_del_def delete_conv')
  show "(k \<in> set (dict_keys m)) = (dict_get m k \<noteq> None)"
    by (auto simp: dict_keys_def dict_get_def map_of_eq_None_iff)
  show "dict_ok m \<Longrightarrow> dict_ok (dict_set k v m)"
    by (simp add: dict_ok_def dict_set_def distinct_update)
  show "dict_ok m \<Longrightarrow> dict_ok (dict_del k m)"
    by (simp add: dict_ok_def dict_del_def distinct_delete)
qed

lemmas dict_simps = pd.get_put pd.get_del pd.keys_put pd.keys_del

lemma dict_get_Nil [simp]: "dict_get [] k = None"
  by (simp add: dict_get_def)

lemma dict_ok_Nil [simp]: "dict_ok []"
  by (simp add: dict_ok_def)

lemma dict_get_in: "dict_get d k = Some v \<Longrightarrow> (k, v) \<in> set d"
  by (simp add: dict_get_def map_of_SomeD)

lemma dict_in_get: "dict_ok d \<Longrightarrow> (k, v) \<in> set d \<Longrightarrow> dict_get d k = Some v"
  by (simp add: dict_get_def dict_ok_def)

section \<open>Operations that raise and mutate\<close>

type_synonym ('s, 'e, 'a) pyop = "'s \<Rightarrow> ('e + 'a) \<times> 's"

definition ret :: "'a \<Rightarrow> ('s, 'e, 'a) pyop" where
  "ret x = (\<lambda>s. (Inr x, s))"

definition throw :: "'e \<Rightarrow> ('s, 'e, 'a) pyop" where
  "throw e = (\<lambda>s. (Inl e, s))"

definition pbind :: "('s, 'e, 'a) pyop \<Rightarrow> ('a \<Rightarrow> ('s, 'e, 'b) pyop) \<Rightarrow> ('s, 'e, 'b) pyop" where
  "pbind m f = (\<lambda>s. case m s of (Inl e, s') \<Rightarrow> (Inl e, s') | (Inr x, s') \<Rightarrow> f x s')"

definition pseq :: "('s, 'e, 'a) pyop \<Rightarrow> ('s, 'e, 'b) pyop \<Rightarrow> ('s, 'e, 'b) pyop" where
  "pseq m n = pbind m (\<lambda>_. n)"

text \<open>\<open>try: m except ...: h\<close>; the handler decides whether it takes the exception.\<close>

definition pcatch :: "('s, 'e, 'a) pyop \<Rightarrow> ('e \<Rightarrow> ('s, 'e, 'a) pyop) \<Rightarrow> ('s, 'e, 'a) pyop" where
  "pcatch m h = (\<lambda>s. case m s of (Inl e, s') \<Rightarrow> h e s' | (Inr x, s') \<Rightarrow> (Inr x, s'))"

definition pget :: "('s \<Rightarrow> 'a) \<Rightarrow> ('s, 'e, 'a) pyop" where
  "pget f = (\<lambda>s. (Inr (f s), s))"

definition pmod :: "('s \<Rightarrow> 's) \<Rightarrow> ('s, 'e, unit) pyop" where
  "pmod f = (\<lambda>s. (Inr (), f s))"

definition plift :: "'e + 'a \<Rightarrow> ('s, 'e, 'a) pyop" where
  "plift r = (\<lambda>s. (r, s))"

fun pfor :: "'a list \<Rightarrow> ('a \<Rightarrow> ('s, 'e, unit) pyop) \<Rightarrow> ('s, 'e, unit) pyop" where
  "pfor [] f = ret ()"
| "pfor (x # xs) f = pseq (f x) (pfor xs f)"

fun pmapM :: "'a list \<Rightarrow> ('a \<Rightarrow> ('s, 'e, 'b) pyop) \<Rightarrow> ('s, 'e, 'b list) pyop" where
  "pmapM [] f = ret []"
| "pmapM (x # xs) f = pbind (f x) (\<lambda>y. pbind (pmapM xs f) (\<lambda>ys. ret (y # ys)))"

lemma ret_run [pyrun]: "ret x s = (Inr x, s)"
  by (simp add: ret_def)

lemma throw_run [pyrun]: "throw e s = (Inl e, s)"
  by (simp add: throw_def)

lemma pget_run [pyrun]: "pget f s = (Inr (f s), s)"
  by (simp add: pget_def)

lemma pmod_run [pyrun]: "pmod f s = (Inr (), f s)"
  by (simp add: pmod_def)

lemma plift_run [pyrun]: "plift r s = (r, s)"
  by (simp add: plift_def)

lemma pbind_run [pyrun]:
  "pbind m f s = (case m s of (Inl e, s') \<Rightarrow> (Inl e, s') | (Inr x, s') \<Rightarrow> f x s')"
  by (simp add: pbind_def)

lemma pseq_run [pyrun]:
  "pseq m n s = (case m s of (Inl e, s') \<Rightarrow> (Inl e, s') | (Inr x, s') \<Rightarrow> n s')"
  by (simp add: pseq_def pbind_def)

lemma pcatch_run [pyrun]:
  "pcatch m h s = (case m s of (Inl e, s') \<Rightarrow> h e s' | (Inr x, s') \<Rightarrow> (Inr x, s'))"
  by (simp add: pcatch_def)

lemma pbind_ret [simp]: "pbind (ret x) f = f x"
  by (rule ext) (simp add: pyrun)

lemma pbind_ret_right [simp]: "pbind m ret = m"
  by (rule ext) (simp add: pyrun split: prod.splits sum.splits)

lemma pbind_assoc: "pbind (pbind m f) g = pbind m (\<lambda>x. pbind (f x) g)"
  by (rule ext) (simp add: pyrun split: prod.splits sum.splits)

lemma pbind_throw [simp]: "pbind (throw e) f = throw e"
  by (rule ext) (simp add: pyrun)

section \<open>A Hoare calculus for such operations\<close>

text \<open>
  \<open>triple P m Q E\<close>: from a state in \<open>P\<close>, a normal return \<open>x\<close> ends in \<open>Q x\<close> and an
  exception \<open>e\<close> ends in \<open>E e\<close>. Every operation returns one or the other.
\<close>

definition triple ::
  "('s \<Rightarrow> bool) \<Rightarrow> ('s, 'e, 'a) pyop \<Rightarrow> ('a \<Rightarrow> 's \<Rightarrow> bool) \<Rightarrow> ('e \<Rightarrow> 's \<Rightarrow> bool) \<Rightarrow> bool" where
  "triple P m Q E \<longleftrightarrow>
     (\<forall>s. P s \<longrightarrow> (case m s of (Inl e, s') \<Rightarrow> E e s' | (Inr x, s') \<Rightarrow> Q x s'))"

abbreviation keeps :: "('s \<Rightarrow> bool) \<Rightarrow> ('s, 'e, 'a) pyop \<Rightarrow> bool" where
  "keeps I m \<equiv> triple I m (\<lambda>_. I) (\<lambda>_. I)"

named_theorems pytriple \<open>rules of the Hoare calculus\<close>

lemma triple_ret [pytriple]: "(\<And>s. P s \<Longrightarrow> Q x s) \<Longrightarrow> triple P (ret x) Q E"
  by (simp add: triple_def pyrun)

lemma triple_throw [pytriple]: "(\<And>s. P s \<Longrightarrow> E e s) \<Longrightarrow> triple P (throw e) Q E"
  by (simp add: triple_def pyrun)

lemma triple_pget [pytriple]: "(\<And>s. P s \<Longrightarrow> Q (f s) s) \<Longrightarrow> triple P (pget f) Q E"
  by (simp add: triple_def pyrun)

lemma triple_pmod [pytriple]: "(\<And>s. P s \<Longrightarrow> Q () (f s)) \<Longrightarrow> triple P (pmod f) Q E"
  by (simp add: triple_def pyrun)

lemma triple_plift [pytriple]:
  "(\<And>s x. P s \<Longrightarrow> r = Inr x \<Longrightarrow> Q x s) \<Longrightarrow> (\<And>s e. P s \<Longrightarrow> r = Inl e \<Longrightarrow> E e s) \<Longrightarrow>
   triple P (plift r) Q E"
  by (cases r) (simp_all add: triple_def pyrun)

lemma triple_bind [pytriple]:
  "triple P m R E \<Longrightarrow> (\<And>x. triple (R x) (f x) Q E) \<Longrightarrow> triple P (pbind m f) Q E"
  by (fastforce simp: triple_def pyrun split: prod.splits sum.splits)

lemma triple_seq [pytriple]:
  "triple P m (\<lambda>_. R) E \<Longrightarrow> triple R n Q E \<Longrightarrow> triple P (pseq m n) Q E"
  by (fastforce simp: triple_def pyrun split: prod.splits sum.splits)

lemma triple_catch [pytriple]:
  "triple P m Q F \<Longrightarrow> (\<And>e. triple (F e) (h e) Q E) \<Longrightarrow> triple P (pcatch m h) Q E"
  by (fastforce simp: triple_def pyrun split: prod.splits sum.splits)

lemma triple_conseq:
  "triple P m Q E \<Longrightarrow> (\<And>s. P' s \<Longrightarrow> P s) \<Longrightarrow> (\<And>x s. Q x s \<Longrightarrow> Q' x s) \<Longrightarrow>
   (\<And>e s. E e s \<Longrightarrow> E' e s) \<Longrightarrow> triple P' m Q' E'"
  by (fastforce simp: triple_def split: prod.splits sum.splits)

lemma triple_for:
  "(\<And>x. x \<in> set xs \<Longrightarrow> triple I (f x) (\<lambda>_. I) E) \<Longrightarrow> triple I (pfor xs f) (\<lambda>_. I) E"
  by (induction xs) (auto intro!: pytriple)

lemma triple_mapM:
  "(\<And>x. x \<in> set xs \<Longrightarrow> triple I (f x) (\<lambda>_. I) E) \<Longrightarrow> triple I (pmapM xs f) (\<lambda>_. I) E"
proof (induction xs)
  case Nil
  then show ?case by (auto intro!: pytriple)
next
  case (Cons x xs)
  then have "triple I (f x) (\<lambda>_. I) E" "triple I (pmapM xs f) (\<lambda>_. I) E" by auto
  then show ?case by (auto intro!: pytriple)
qed

lemma triple_if [pytriple]:
  "(b \<Longrightarrow> triple P m Q E) \<Longrightarrow> (\<not> b \<Longrightarrow> triple P n Q E) \<Longrightarrow> triple P (if b then m else n) Q E"
  by simp

lemma tripleD:
  "triple P m Q E \<Longrightarrow> P s \<Longrightarrow> m s = (Inr x, s') \<Longrightarrow> Q x s'"
  by (fastforce simp: triple_def)

lemma tripleD_exn:
  "triple P m Q E \<Longrightarrow> P s \<Longrightarrow> m s = (Inl e, s') \<Longrightarrow> E e s'"
  by (fastforce simp: triple_def)

lemma keepsD: "keeps I m \<Longrightarrow> I s \<Longrightarrow> I (snd (m s))"
  by (cases "m s") (fastforce simp: triple_def split: sum.splits)

lemma keepsI: "(\<And>s. I s \<Longrightarrow> I (snd (m s))) \<Longrightarrow> keeps I m"
  by (fastforce simp: triple_def split: prod.splits sum.splits)

section \<open>Negative indices\<close>

text \<open>\<open>if i < 0: i += n\<close>, the normalisation every indexing method of the customizers makes.\<close>

definition wrap_index :: "int \<Rightarrow> nat \<Rightarrow> int" where
  "wrap_index i n = (if i < 0 then i + int n else i)"

lemma wrap_index_range:
  "0 \<le> wrap_index i n \<and> wrap_index i n < int n \<longleftrightarrow> - int n \<le> i \<and> i < int n"
  by (auto simp: wrap_index_def)

end
