(* ===== verification/PyExceptions.thy ===== *)
theory PyExceptions
  imports JPrelude
begin

text \<open>
  The exception classes the modelled code raises or catches, with the base-class
  lists of their declarations: Python's built-ins, the JVM finder's classes
  (\<open>_jvmfinder.py\<close>), the PEP 249 hierarchy (\<open>dbapi2.py\<close>), and the wrappers of
  Java throwables, whose extra Python bases \<open>_jcustomizer.py\<close> and \<open>dbapi2.py\<close>
  register as class hints. An \<open>except\<close> clause is a test \<open>exn_isa\<close> on the class.
\<close>

datatype exn_class =
    Exception | TypeError | ValueError | LookupError | KeyError | IndexError
  | AttributeError | OSError | ArithmeticError | OverflowError | RuntimeError
  | NotImplementedError | UnpicklingError | ImportError | ModuleNotFoundError | StopIteration | StructError | LocaleError
  | JVMNotRunning | JVMNotFoundException | JVMNotSupportedException
  | Warning | Error | InterfaceError | DatabaseError | DataError | OperationalError
  | IntegrityError | InternalError | ProgrammingError | NotSupportedError | UnsupportedTypeError
  | JException | JSQLException | JSQLFeatureNotSupportedException
  | JIndexOutOfBoundsException | JNullPointerException

fun exn_bases :: "exn_class \<Rightarrow> exn_class list" where
  "exn_bases Exception = []"
| "exn_bases KeyError = [LookupError]"
| "exn_bases IndexError = [LookupError]"
| "exn_bases OverflowError = [ArithmeticError]"
| "exn_bases NotImplementedError = [RuntimeError]"
| "exn_bases ModuleNotFoundError = [ImportError]"
| "exn_bases JVMNotRunning = [RuntimeError]"
| "exn_bases JVMNotFoundException = [ValueError]"
| "exn_bases JVMNotSupportedException = [ValueError]"
| "exn_bases InterfaceError = [Error, TypeError]"
| "exn_bases DatabaseError = [Error]"
| "exn_bases DataError = [DatabaseError]"
| "exn_bases OperationalError = [DatabaseError]"
| "exn_bases IntegrityError = [DatabaseError]"
| "exn_bases InternalError = [DatabaseError]"
| "exn_bases ProgrammingError = [DatabaseError]"
| "exn_bases NotSupportedError = [DatabaseError]"
| "exn_bases UnsupportedTypeError = [InterfaceError, TypeError]"
| "exn_bases JSQLException = [Error, JException]"
| "exn_bases JSQLFeatureNotSupportedException = [JSQLException]"
| "exn_bases JIndexOutOfBoundsException = [IndexError, JException]"
| "exn_bases JNullPointerException = [ValueError, JException]"
| "exn_bases _ = [Exception]"

text \<open>The depth of a class below \<open>Exception\<close>; every base is strictly nearer the root.\<close>

fun exn_rank :: "exn_class \<Rightarrow> nat" where
  "exn_rank Exception = 0"
| "exn_rank UnsupportedTypeError = 4"
| "exn_rank JSQLFeatureNotSupportedException = 4"
| "exn_rank InterfaceError = 3"
| "exn_rank JSQLException = 3"
| "exn_rank DatabaseError = 3"
| "exn_rank JIndexOutOfBoundsException = 3"
| "exn_rank JNullPointerException = 3"
| "exn_rank c = (if c \<in> {DataError, OperationalError, IntegrityError, InternalError,
                          ProgrammingError, NotSupportedError} then 4
                  else if c \<in> {KeyError, IndexError, OverflowError, NotImplementedError, ModuleNotFoundError, JVMNotRunning,
                          JVMNotFoundException, JVMNotSupportedException} then 2 else 1)"

lemma exn_bases_rank: "b \<in> set (exn_bases c) \<Longrightarrow> exn_rank b < exn_rank c"
  by (cases c) auto

text \<open>\<open>issubclass(c, d)\<close>.\<close>

function exn_isa :: "exn_class \<Rightarrow> exn_class \<Rightarrow> bool" where
  "exn_isa c d = (c = d \<or> list_ex (\<lambda>b. exn_isa b d) (exn_bases c))"
  by pat_completeness auto
termination
  by (relation "measure (exn_rank \<circ> fst)") (simp_all only: wf_measure in_measure comp_apply fst_conv exn_bases_rank)

declare exn_isa.simps [simp del]

lemma exn_isa_refl [simp]: "exn_isa c c"
  by (subst exn_isa.simps) simp

lemma exn_isa_Exception [simp]: "exn_isa c Exception"
proof (induction c "Exception" rule: exn_isa.induct)
  case (1 c)
  then show ?case by (subst exn_isa.simps) (cases c; simp)
qed

lemma exn_isa_trans: "exn_isa b c \<Longrightarrow> exn_isa c d \<Longrightarrow> exn_isa b d"
proof (induction b c rule: exn_isa.induct)
  case (1 b c)
  show ?case
  proof (cases "b = c")
    case True
    with "1.prems" show ?thesis by simp
  next
    case False
    with "1.prems"(1) obtain b' where "b' \<in> set (exn_bases b)" "exn_isa b' c"
      by (auto simp: exn_isa.simps [of b c] list_ex_iff)
    with "1.IH" "1.prems"(2) show ?thesis
      by (auto simp: exn_isa.simps [of b d] list_ex_iff)
  qed
qed

datatype pyexn = Exn (exn_kind: exn_class) (exn_msg: string)

text \<open>\<open>except c\<close> takes the exception.\<close>

definition catches :: "exn_class \<Rightarrow> pyexn \<Rightarrow> bool" where
  "catches c e = exn_isa (exn_kind e) c"

lemma catches_Exn [simp]: "catches c (Exn k m) = exn_isa k c"
  by (simp add: catches_def)

text \<open>\<open>try: m except c as e: h e\<close>.\<close>

definition except_clause ::
  "exn_class \<Rightarrow> (pyexn \<Rightarrow> ('s, pyexn, 'a) pyop) \<Rightarrow> ('s, pyexn, 'a) pyop \<Rightarrow> ('s, pyexn, 'a) pyop" where
  "except_clause c h m = pcatch m (\<lambda>e. if catches c e then h e else throw e)"

lemma except_clause_run [pyrun]:
  "except_clause c h m s =
     (case m s of (Inl e, s') \<Rightarrow> (if catches c e then h e s' else (Inl e, s'))
      | (Inr x, s') \<Rightarrow> (Inr x, s'))"
  by (auto simp: except_clause_def pyrun split: prod.splits sum.splits)

lemma triple_except [pytriple]:
  assumes "triple P m Q F"
    and "\<And>e. catches c e \<Longrightarrow> triple (F e) (h e) Q E"
    and "\<And>e s. \<not> catches c e \<Longrightarrow> F e s \<Longrightarrow> E e s"
  shows "triple P (except_clause c h m) Q E"
  unfolding except_clause_def using assms
  by (intro triple_catch [where F = F] triple_if triple_throw) auto

text \<open>Evaluation on a known class: the recursion only unfolds along the base lists.\<close>

definition exn_any :: "exn_class list \<Rightarrow> exn_class \<Rightarrow> bool" where
  "exn_any bs d = list_ex (\<lambda>b. exn_isa b d) bs"

lemma exn_any_Nil: "exn_any [] d = False"
  by (simp add: exn_any_def)

lemma exn_any_Cons: "exn_any (b # bs) d = (exn_isa b d \<or> exn_any bs d)"
  by (simp add: exn_any_def)

lemma exn_isa_step: "exn_isa c d = (c = d \<or> exn_any (exn_bases c) d)"
  by (subst exn_isa.simps) (simp add: exn_any_def)

lemmas exn_isa_eval = exn_isa_step exn_any_Nil exn_any_Cons

lemma dbapi_exceptions [simp]:
  "exn_isa InterfaceError Error" "exn_isa InterfaceError TypeError"
  "exn_isa UnsupportedTypeError Error" "exn_isa UnsupportedTypeError TypeError"
  "exn_isa UnsupportedTypeError InterfaceError"
  "exn_isa ProgrammingError Error" "exn_isa NotSupportedError Error"
  "exn_isa OperationalError Error" "exn_isa DatabaseError Error"
  "exn_isa JSQLException Error" "exn_isa JSQLFeatureNotSupportedException JSQLException"
  "exn_isa JSQLFeatureNotSupportedException Error"
  "\<not> exn_isa KeyError Error" "\<not> exn_isa AttributeError Error" "\<not> exn_isa IndexError Error"
  "\<not> exn_isa ProgrammingError TypeError" "\<not> exn_isa ProgrammingError JSQLException"
  by (simp_all add: exn_isa_eval)

lemma finder_exceptions [simp]:
  "\<not> exn_isa JVMNotFoundException NotImplementedError"
  "\<not> exn_isa JVMNotSupportedException NotImplementedError"
  "\<not> exn_isa JVMNotSupportedException JVMNotFoundException"
  "\<not> exn_isa JVMNotFoundException JVMNotSupportedException"
  "exn_isa JVMNotFoundException ValueError" "exn_isa JVMNotSupportedException ValueError"
  by (simp_all add: exn_isa_eval)

text \<open>Keeping an invariant, step by step.\<close>

lemma keeps_rules':
  "keeps I m \<Longrightarrow> (\<And>x. keeps I (f x)) \<Longrightarrow> keeps I (pbind m f)"
  "keeps I m' \<Longrightarrow> keeps I n \<Longrightarrow> keeps I (pseq m' n)"
  "keeps I m \<Longrightarrow> (\<And>e. keeps I (h e)) \<Longrightarrow> keeps I (except_clause c h m)"
  "keeps I (ret x)" "keeps I (throw e)" "keeps I (pget g)" "keeps I (plift r)"
  by (auto simp: except_clause_def intro!: triple_bind triple_seq triple_catch triple_if triple_throw
      intro: pytriple)

end
