(* ===== verification/Keywords.thy ===== *)
theory Keywords
  imports PyExceptions
begin

text \<open>
  Python keywords in Java names: \<open>jpype/_pykeywords.py\<close> (\<open>_KEYWORDS\<close>, \<open>pysafe\<close>) and
  the wrapping helpers of \<open>jpype/imports.py\<close> (\<open>_keywordWrap\<close>, \<open>_keywordUnwrap\<close>,
  \<open>unwrap\<close>).
\<close>

definition KEYWORDS :: "string list" where
  "KEYWORDS = [''False'', ''None'', ''True'', ''and'', ''as'', ''assert'', ''async'', ''await'',
     ''break'', ''class'', ''continue'', ''def'', ''del'', ''elif'', ''else'', ''except'',
     ''exec'', ''finally'', ''for'', ''from'', ''global'', ''if'', ''import'', ''in'', ''is'',
     ''lambda'', ''nonlocal'', ''not'', ''or'', ''pass'', ''print'', ''raise'', ''return'',
     ''try'', ''while'', ''with'', ''yield'']"

definition is_dunder :: "string \<Rightarrow> bool" where
  "is_dunder s = (startswith s ''__'' \<and> endswith s ''__'' \<and> length s \<ge> 4)"

definition pysafe :: "string \<Rightarrow> string option" where
  "pysafe s = (if is_dunder s then None
               else if s \<in> set KEYWORDS then Some (s @ ''_'')
               else Some s)"

definition keywordUnwrap :: "string \<Rightarrow> string" where
  "keywordUnwrap name =
     (if \<not> endswith name ''_'' then name
      else if butlast name \<in> set KEYWORDS then butlast name
      else name)"

definition keywordWrap :: "string \<Rightarrow> string" where
  "keywordWrap name = (if name \<in> set KEYWORDS then name @ ''_'' else name)"

definition unwrap :: "string \<Rightarrow> string" where
  "unwrap name =
     (if CHR ''_'' \<notin> set name then name
      else py_join (CHR ''.'') (map keywordUnwrap (py_split (CHR ''.'') name)))"

lemma keywords_plain: "k \<in> set KEYWORDS \<Longrightarrow> k \<noteq> [] \<and> last k \<noteq> CHR ''_'' \<and> CHR ''.'' \<notin> set k \<and> CHR ''_'' \<notin> set k"
  by (auto simp: KEYWORDS_def)

lemma keyword_no_suffix: "k \<in> set KEYWORDS \<Longrightarrow> k @ ''_'' \<notin> set KEYWORDS"
  using keywords_plain [of "k @ ''_''"] by auto

lemma keyword_not_dunder: "k \<in> set KEYWORDS \<Longrightarrow> \<not> is_dunder k \<and> \<not> is_dunder (k @ ''_'')"
  by (auto simp: KEYWORDS_def is_dunder_def startswith_def)

lemma keywordUnwrap_keyword [simp]: "k \<in> set KEYWORDS \<Longrightarrow> keywordUnwrap (k @ ''_'') = k"
  by (simp add: keywordUnwrap_def)

lemma keywordUnwrap_plain: "CHR ''_'' \<notin> set name \<Longrightarrow> keywordUnwrap name = name"
  by (metis endswith_char keywordUnwrap_def last_in_set)

text \<open>A component that would be read back as a different name.\<close>

definition wrapped_form :: "string \<Rightarrow> bool" where
  "wrapped_form name = (endswith name ''_'' \<and> butlast name \<in> set KEYWORDS)"

lemma keywordUnwrap_wrap: "\<not> wrapped_form name \<Longrightarrow> keywordUnwrap (keywordWrap name) = name"
  by (auto simp: keywordWrap_def keywordUnwrap_def wrapped_form_def)

lemma keywordUnwrap_not_wrapped: "\<not> wrapped_form (keywordUnwrap name)"
  using keywords_plain [of "butlast name"]
  by (auto simp: keywordUnwrap_def wrapped_form_def endswith_char)

lemma unwrap_shortcut:
  "unwrap name = py_join (CHR ''.'') (map keywordUnwrap (py_split (CHR ''.'') name))"
proof (cases "CHR ''_'' \<in> set name")
  case True
  then show ?thesis by (simp add: unwrap_def)
next
  case False
  have "map keywordUnwrap (py_split (CHR ''.'') name) = py_split (CHR ''.'') name"
    using False py_split_subset by (intro map_idI keywordUnwrap_plain) blast
  with False show ?thesis by (simp add: unwrap_def)
qed

lemma split_map_unwrap:
  assumes "ps \<noteq> []" and "\<forall>p\<in>set ps. CHR ''.'' \<notin> set p \<and> \<not> wrapped_form p"
  shows "map keywordUnwrap (py_split (CHR ''.'') (py_join (CHR ''.'') (map keywordWrap ps))) = ps"
proof -
  have "\<forall>p\<in>set (map keywordWrap ps). CHR ''.'' \<notin> set p"
    using assms(2) by (auto simp: keywordWrap_def)
  with assms(1) have "py_split (CHR ''.'') (py_join (CHR ''.'') (map keywordWrap ps)) = map keywordWrap ps"
    by (intro py_split_join) auto
  moreover have "map (keywordUnwrap \<circ> keywordWrap) ps = ps"
    using assms(2) by (intro map_idI) (auto simp: keywordUnwrap_wrap)
  ultimately show ?thesis by simp
qed

section \<open>Properties\<close>

text \<open>a name that \<open>pysafe\<close> returns is never a keyword nor a dunder name; it is the name
  itself unless that is a keyword, and \<open>None\<close> is returned exactly for dunder names.\<close>
theorem pysafe_safe:
  "(case pysafe s of
      None \<Rightarrow> is_dunder s
    | Some t \<Rightarrow> t \<notin> set KEYWORDS \<and> \<not> is_dunder t \<and>
        t = (if s \<in> set KEYWORDS then s @ ''_'' else s))"
  using keyword_no_suffix keyword_not_dunder by (auto simp: pysafe_def)

text \<open>a Java package path whose keyword components were wrapped for Python is read back by
  \<open>unwrap\<close>, provided no component already has the wrapped form of a keyword.\<close>
theorem unwrap_wrapped_path:
  assumes "ps \<noteq> []" and "\<forall>p\<in>set ps. CHR ''.'' \<notin> set p \<and> \<not> wrapped_form p"
  shows "unwrap (py_join (CHR ''.'') (map keywordWrap ps)) = py_join (CHR ''.'') ps"
  using split_map_unwrap [OF assms] by (simp add: unwrap_shortcut)

theorem unwrap_wrapped_path_witness:
  "unwrap ''org.is_.my_pkg'' = ''org.is.my_pkg''"
proof -
  have "unwrap (py_join (CHR ''.'') (map keywordWrap [''org'', ''is'', ''my_pkg''])) =
      py_join (CHR ''.'') [''org'', ''is'', ''my_pkg'']"
    by (rule unwrap_wrapped_path)
      (auto simp: wrapped_form_def endswith_def KEYWORDS_def)
  then show ?thesis by (simp add: keywordWrap_def KEYWORDS_def)
qed

end
