(* ===== verification/JvmFinder.thy ===== *)
theory JvmFinder
  imports PyExceptions "HOL-Library.List_Lexorder" "HOL-Library.Char_ord" "HOL-Library.Word"
begin

text \<open>
  The search for the JVM library, \<open>jpype/_jvmfinder.py\<close>: the base class
  \<open>JVMFinder\<close>, its Linux, macOS and Windows subclasses, the PE header check and
  the platform dispatch of \<open>getDefaultJVMPath\<close>. The file system, the environment
  variables, the Windows registry, \<open>packaging.version\<close> and the \<open>java_home\<close> tool are
  not part of the program: they are the fields of \<open>env\<close>, an argument of every
  definition.
\<close>

section \<open>The machine searched\<close>

record env =
  sep :: char
  exists :: "string \<Rightarrow> bool"
  isdir :: "string \<Rightarrow> bool"
  listdir :: "string \<Rightarrow> string list"
  realpath :: "string \<Rightarrow> string"
  abspath :: "string \<Rightarrow> string"
  walk :: "string \<Rightarrow> (string \<times> string list) list"
  contents :: "string \<Rightarrow> 8 word list option"
  java_home_var :: "string option"
  maxsize :: int
  platform :: string
  mac_ver :: string
  version_le :: "string \<Rightarrow> string \<Rightarrow> bool"
  java_home_tool :: "pyexn + string"
  has_winreg :: bool
  registry_key :: "string \<Rightarrow> pyexn + string"

definition path_join :: "env \<Rightarrow> string \<Rightarrow> string \<Rightarrow> string" where
  "path_join env a b =
     (if startswith b [sep env] then b
      else if a = [] \<or> endswith a [sep env] then a @ b
      else a @ sep env # b)"

definition basename :: "env \<Rightarrow> string \<Rightarrow> string" where
  "basename env p = snd (snd (py_rpartition p (sep env)))"

definition dirname :: "env \<Rightarrow> string \<Rightarrow> string" where
  "dirname env p = (let h = fst (py_rpartition p (sep env)) in
     if h = [] \<and> startswith p [sep env] then [sep env] else h)"

definition depth :: "env \<Rightarrow> string \<Rightarrow> nat" where
  "depth env p = length (py_split (sep env) p)"

section \<open>The base class\<close>

definition non_supported_jvm :: "string list" where
  "non_supported_jvm = [''cacao'', ''jamvm'']"

definition java_names :: "string list" where
  "java_names = [''jre'', ''jdk'', ''java'']"

definition not_found :: pyexn where
  "not_found = Exn JVMNotFoundException ''Sorry no JVM could be found. Please ensure your JAVA_HOME environment variable is pointing to correct installation.''"

definition not_supported :: "string \<Rightarrow> pyexn" where
  "not_supported candidate = Exn JVMNotSupportedException
     (''Sorry '' @ [CHR 0x27] @ candidate @ [CHR 0x27] @ '' is known to be broken. Please ensure your JAVA_HOME contains at least another JVM implementation (eg. server)'')"

definition no_library :: "string \<Rightarrow> pyexn" where
  "no_library libfile = Exn JVMNotFoundException
     (''No JVM shared library file ('' @ libfile @ '') found. Try setting up the JAVA_HOME environment variable properly.'')"

text \<open>The loop of \<open>find_libjvm\<close>; the last unsupported candidate seen goes into the error.\<close>

fun find_libjvm_loop ::
  "env \<Rightarrow> string \<Rightarrow> (string \<times> string list) list \<Rightarrow> string option \<Rightarrow> pyexn + string" where
  "find_libjvm_loop env libfile [] unsupported =
     (case unsupported of
        Some candidate \<Rightarrow> Inl (not_supported candidate)
      | None \<Rightarrow> Inl not_found)"
| "find_libjvm_loop env libfile ((root, names) # rest) unsupported =
     (if libfile \<in> set names
      then (let candidate = basename env root in
            if candidate \<in> set non_supported_jvm
            then find_libjvm_loop env libfile rest (Some candidate)
            else Inr (path_join env root libfile))
      else find_libjvm_loop env libfile rest unsupported)"

definition find_libjvm :: "env \<Rightarrow> string \<Rightarrow> string \<Rightarrow> pyexn + string" where
  "find_libjvm env libfile java_home =
     find_libjvm_loop env libfile (sort_key (\<lambda>t. depth env (fst t)) (walk env java_home)) None"

definition java_folder :: "env \<Rightarrow> string \<Rightarrow> bool" where
  "java_folder env path = list_ex (\<lambda>n. str_in n (str_lower (basename env path))) java_names"

text \<open>The children of one parent; \<open>homes\<close> are the paths already yielded.\<close>

fun possible_children :: "env \<Rightarrow> string \<Rightarrow> string list \<Rightarrow> string list \<Rightarrow> string list" where
  "possible_children env parent [] homes = homes"
| "possible_children env parent (childname # rest) homes =
     (let path = realpath env (path_join env parent childname) in
      if path \<in> set homes \<or> \<not> isdir env path then possible_children env parent rest homes
      else if java_folder env path then possible_children env parent rest (homes @ [path])
      else possible_children env parent rest homes)"

fun possible_homes :: "env \<Rightarrow> string list \<Rightarrow> string list \<Rightarrow> string list" where
  "possible_homes env [] homes = homes"
| "possible_homes env (parent # parents) homes =
     (if \<not> exists env parent then possible_homes env parents homes
      else possible_homes env parents (possible_children env parent (sort (listdir env parent)) homes))"

definition find_possible_homes :: "env \<Rightarrow> string list \<Rightarrow> string list" where
  "find_possible_homes env parents = possible_homes env parents []"

definition get_from_java_home :: "env \<Rightarrow> string \<Rightarrow> pyexn + string option" where
  "get_from_java_home env libfile =
     (case java_home_var env of
        None \<Rightarrow> Inr None
      | Some java_home \<Rightarrow>
          if java_home \<noteq> [] \<and> exists env java_home
          then (let real = realpath env java_home;
                    home = (if exists env real then real else java_home)
                in map_sum id Some (find_libjvm env libfile home))
          else Inr None)"

text \<open>\<open>find_libjvm\<close> never returns \<open>None\<close>, so the loop over the homes ends in its first round.\<close>

fun known_locations_loop :: "env \<Rightarrow> string \<Rightarrow> string list \<Rightarrow> pyexn + string option" where
  "known_locations_loop env libfile [] = Inr None"
| "known_locations_loop env libfile (home # homes) =
     (case find_libjvm env libfile home of
        Inl e \<Rightarrow> Inl e
      | Inr jvm \<Rightarrow> Inr (Some jvm))"

definition get_from_known_locations :: "env \<Rightarrow> string \<Rightarrow> string list \<Rightarrow> pyexn + string option" where
  "get_from_known_locations env libfile locations =
     known_locations_loop env libfile (find_possible_homes env locations)"

text \<open>
  The loop of \<open>get_jvm_path\<close> over the outcomes of the search methods: the \<open>try\<close>
  block runs a method and checks a non-empty result, the \<open>except\<close> clauses follow,
  and \<open>else\<close> returns a result that is not \<open>None\<close>.
\<close>

definition try_method ::
  "(string \<Rightarrow> pyexn + unit) \<Rightarrow> pyexn + string option \<Rightarrow> pyexn + string option" where
  "try_method check m = (case m of
      Inl e \<Rightarrow> Inl e
    | Inr None \<Rightarrow> Inr None
    | Inr (Some jvm) \<Rightarrow>
        if jvm \<noteq> [] then (case check jvm of Inl e \<Rightarrow> Inl e | Inr _ \<Rightarrow> Inr (Some jvm))
        else Inr (Some jvm))"

fun jvm_path_loop ::
  "(string \<Rightarrow> pyexn + unit) \<Rightarrow> string \<Rightarrow> (pyexn + string option) list \<Rightarrow> pyexn option \<Rightarrow> pyexn + string" where
  "jvm_path_loop check libfile [] notsupport =
     (case notsupport of Some e \<Rightarrow> Inl e | None \<Rightarrow> Inl (no_library libfile))"
| "jvm_path_loop check libfile (m # ms) notsupport =
     (case try_method check m of
        Inl e \<Rightarrow>
          if catches NotImplementedError e then jvm_path_loop check libfile ms notsupport
          else if catches JVMNotFoundException e then jvm_path_loop check libfile ms notsupport
          else if catches JVMNotSupportedException e then jvm_path_loop check libfile ms (Some e)
          else Inl e
      | Inr (Some jvm) \<Rightarrow> Inr jvm
      | Inr None \<Rightarrow> jvm_path_loop check libfile ms notsupport)"

definition get_jvm_path ::
  "(string \<Rightarrow> pyexn + unit) \<Rightarrow> string \<Rightarrow> (pyexn + string option) list \<Rightarrow> pyexn + string" where
  "get_jvm_path check libfile methods = jvm_path_loop check libfile methods None"

definition base_check :: "string \<Rightarrow> pyexn + unit" where
  "base_check jvm = Inr ()"

definition base_libfile :: string where
  "base_libfile = ''libjvm.so''"

definition base_locations :: "string list" where
  "base_locations = [''/usr/lib/jvm'', ''/usr/java'']"

definition base_methods :: "env \<Rightarrow> (pyexn + string option) list" where
  "base_methods env =
     [get_from_java_home env base_libfile, get_from_known_locations env base_libfile base_locations]"

section \<open>Linux\<close>

definition linux_java :: string where
  "linux_java = ''/usr/bin/java''"

definition linux_libfile :: string where
  "linux_libfile = ''libjvm.so''"

definition linux_locations :: "string list" where
  "linux_locations = [''/usr/lib/jvm'', ''/usr/java'', ''/opt/sun'']"

definition get_from_bin :: "env \<Rightarrow> string \<Rightarrow> pyexn + string option" where
  "get_from_bin env libfile =
     (let java_bin = realpath env linux_java in
      if exists env java_bin
      then (let java_home = abspath env (path_join env (dirname env java_bin) ''..'')
            in map_sum id Some (find_libjvm env libfile java_home))
      else Inr None)"

definition linux_methods :: "env \<Rightarrow> string \<Rightarrow> string list \<Rightarrow> (pyexn + string option) list" where
  "linux_methods env libfile locations =
     [get_from_java_home env libfile, get_from_bin env libfile,
      get_from_known_locations env libfile locations]"

section \<open>macOS\<close>

definition darwin_libfile :: string where
  "darwin_libfile = ''libjli.dylib''"

definition darwin_locations :: "string list" where
  "darwin_locations = [''/Library/Java/JavaVirtualMachines'']"

definition javahome_binary :: "env \<Rightarrow> pyexn + string option" where
  "javahome_binary env =
     (if version_le env ''10.6'' (take 4 (mac_ver env))
      then map_sum id Some (java_home_tool env)
      else Inr None)"

definition darwin_methods :: "env \<Rightarrow> (pyexn + string option) list" where
  "darwin_methods env = linux_methods env darwin_libfile darwin_locations @ [javahome_binary env]"

section \<open>Windows\<close>

text \<open>\<open>struct.unpack\<close> of a little-endian unsigned integer; a short read is a \<open>struct.error\<close>.\<close>

fun le_nat :: "8 word list \<Rightarrow> nat" where
  "le_nat [] = 0"
| "le_nat (b # bs) = unat b + 256 * le_nat bs"

definition unpack_le :: "nat \<Rightarrow> 8 word list \<Rightarrow> pyexn + nat" where
  "unpack_le n s =
     (if length s = n then Inr (le_nat s)
      else Inl (Exn StructError (''unpack requires a buffer of '' @ nat_str n @ '' bytes'')))"

definition file_read :: "8 word list \<Rightarrow> nat \<Rightarrow> nat \<Rightarrow> 8 word list" where
  "file_read f offset n = take n (drop offset f)"

definition IMAGE_FILE_MACHINE_I386 :: nat where
  "IMAGE_FILE_MACHINE_I386 = 332"

definition machines64 :: "nat list" where
  "machines64 = [512, 34404, 43620]"

definition read_machine :: "8 word list \<Rightarrow> pyexn + nat" where
  "read_machine f =
     (if file_read f 0 2 \<noteq> [0x4D, 0x5A] then Inl (Exn JVMNotSupportedException ''JVM not valid'')
      else (case unpack_le 4 (file_read f 60 4) of
              Inl e \<Rightarrow> Inl e
            | Inr header_offset \<Rightarrow> unpack_le 2 (file_read f (header_offset + 4) 2)))"

definition checkJVMArch :: "env \<Rightarrow> string \<Rightarrow> pyexn + unit" where
  "checkJVMArch env jvmPath =
     (let is64 = (maxsize env > 2 ^ 32) in
      case contents env jvmPath of
        None \<Rightarrow> Inl (Exn OSError jvmPath)
      | Some f \<Rightarrow>
         (case read_machine f of
            Inl e \<Rightarrow> Inl e
          | Inr machine \<Rightarrow>
              if machine = IMAGE_FILE_MACHINE_I386
              then (if is64 then Inl (Exn JVMNotSupportedException
                       ''JVM mismatch, python is 64 bit and JVM is 32 bit.'')
                    else Inr ())
              else if machine \<in> set machines64
              then (if \<not> is64 then Inl (Exn JVMNotSupportedException
                       ''JVM mismatch, python is 32 bit and JVM is 64 bit.'')
                    else Inr ())
              else Inl (Exn JVMNotSupportedException ''Unable to determine JVM Type'')))"

definition windows_libfile :: string where
  "windows_libfile = ''jvm.dll''"

definition windows_reg_keys :: "string list" where
  "windows_reg_keys =
     [''SOFTWARE'' @ [CHR 0x5C] @ ''JavaSoft'' @ [CHR 0x5C] @ ''Java Runtime Environment'',
      ''SOFTWARE'' @ [CHR 0x5C] @ ''JavaSoft'' @ [CHR 0x5C] @ ''JRE'']"

text \<open>
  \<open>registry_key env location\<close> stands for the \<open>winreg\<close> calls of one location: the
  \<open>RuntimeLib\<close> value of the current version, or the exception they raise.
\<close>

fun registry_loop :: "env \<Rightarrow> string list \<Rightarrow> pyexn + string option" where
  "registry_loop env [] = Inr None"
| "registry_loop env (location # rest) =
     (case registry_key env location of
        Inr lib \<Rightarrow> Inr (Some lib)
      | Inl e \<Rightarrow> if catches OSError e then registry_loop env rest else Inl e)"

definition get_from_registry :: "env \<Rightarrow> pyexn + string option" where
  "get_from_registry env =
     (if \<not> has_winreg env then Inr None else registry_loop env windows_reg_keys)"

definition windows_methods :: "env \<Rightarrow> (pyexn + string option) list" where
  "windows_methods env = [get_from_java_home env windows_libfile, get_from_registry env]"

section \<open>The entry point\<close>

definition getDefaultJVMPath :: "env \<Rightarrow> pyexn + string" where
  "getDefaultJVMPath env =
     (if platform env = ''win32''
      then get_jvm_path (checkJVMArch env) windows_libfile (windows_methods env)
      else if platform env = ''darwin''
      then get_jvm_path base_check darwin_libfile (darwin_methods env)
      else get_jvm_path base_check linux_libfile
             (linux_methods env linux_libfile linux_locations))"

section \<open>The library search\<close>

definition has_lib :: "string \<Rightarrow> string \<times> string list \<Rightarrow> bool" where
  "has_lib libfile t = (libfile \<in> set (snd t))"

definition usable :: "env \<Rightarrow> string \<Rightarrow> string \<times> string list \<Rightarrow> bool" where
  "usable env libfile t = (has_lib libfile t \<and> basename env (fst t) \<notin> set non_supported_jvm)"

lemma has_lib_pair [simp]: "has_lib libfile (root, names) = (libfile \<in> set names)"
  by (simp add: has_lib_def)

lemma usable_pair [simp]:
  "usable env libfile (root, names) =
     (libfile \<in> set names \<and> basename env root \<notin> set non_supported_jvm)"
  by (simp add: usable_def)

lemma find_libjvm_loop_find:
  "find_libjvm_loop env libfile ws u =
     (case List.find (usable env libfile) ws of
        Some t \<Rightarrow> Inr (path_join env (fst t) libfile)
      | None \<Rightarrow>
          (case (if filter (has_lib libfile) ws = [] then u
                 else Some (basename env (fst (last (filter (has_lib libfile) ws))))) of
             Some c \<Rightarrow> Inl (not_supported c) | None \<Rightarrow> Inl not_found))"
  by (induction env libfile ws u rule: find_libjvm_loop.induct)
    (auto simp: Let_def split: option.split)

lemma find_sorted_min:
  fixes key :: "'a \<Rightarrow> nat"
  assumes "List.find P (sort_key key xs) = Some x"
  shows "x \<in> set xs \<and> P x \<and> (\<forall>y\<in>set xs. P y \<longrightarrow> key x \<le> key y)"
proof -
  let ?s = "sort_key key xs"
  from assms obtain i where i: "i < length ?s" "P (?s ! i)" "x = ?s ! i" "\<forall>j<i. \<not> P (?s ! j)"
    by (auto simp: find_Some_iff)
  have "key x \<le> key y" if y: "y \<in> set xs" "P y" for y
  proof -
    from y(1) obtain j where j: "j < length ?s" "y = ?s ! j"
      by (metis in_set_conv_nth set_sort)
    with i(4) y(2) have "i \<le> j" by (metis leI)
    then have "map key ?s ! i \<le> map key ?s ! j"
      using j(1) by (intro sorted_nth_mono) (auto simp: sorted_sort_key)
    with i j show ?thesis by simp
  qed
  with i show ?thesis by (metis nth_mem set_sort)
qed

lemma find_libjvm_Inr:
  assumes "find_libjvm env libfile home = Inr p"
  shows "\<exists>t\<in>set (walk env home). usable env libfile t \<and> p = path_join env (fst t) libfile \<and>
     (\<forall>t'\<in>set (walk env home). usable env libfile t' \<longrightarrow> depth env (fst t) \<le> depth env (fst t'))"
proof -
  from assms obtain t where
    f: "List.find (usable env libfile) (sort_key (\<lambda>t. depth env (fst t)) (walk env home)) = Some t"
    and p: "p = path_join env (fst t) libfile"
    by (auto simp: find_libjvm_def find_libjvm_loop_find split: option.splits if_splits)
  from find_sorted_min [OF f] p show ?thesis by blast
qed

lemma find_libjvm_Inl:
  assumes "find_libjvm env libfile home = Inl e"
  shows "(\<forall>t\<in>set (walk env home). \<not> usable env libfile t) \<and>
     exn_kind e = (if \<exists>t\<in>set (walk env home). has_lib libfile t
                   then JVMNotSupportedException else JVMNotFoundException)"
  using assms
  by (auto simp: find_libjvm_def find_libjvm_loop_find find_None_iff filter_empty_conv
      not_supported_def not_found_def split: option.splits if_splits)

lemma find_libjvm_kinds:
  "find_libjvm env libfile home = Inl e \<Longrightarrow>
     exn_kind e \<in> {JVMNotFoundException, JVMNotSupportedException}"
  by (drule find_libjvm_Inl) (auto split: if_splits)

lemma find_libjvm_decides:
  "(\<exists>p. find_libjvm env libfile home = Inr p) \<longleftrightarrow> (\<exists>t\<in>set (walk env home). usable env libfile t)"
  by (cases "find_libjvm env libfile home") (auto dest: find_libjvm_Inl find_libjvm_Inr)

section \<open>The possible homes\<close>

definition homes_ok :: "env \<Rightarrow> string list \<Rightarrow> bool" where
  "homes_ok env homes = (distinct homes \<and> (\<forall>h\<in>set homes. isdir env h \<and> java_folder env h))"

lemma homes_ok_snoc:
  "homes_ok env homes \<Longrightarrow> p \<notin> set homes \<Longrightarrow> isdir env p \<Longrightarrow> java_folder env p \<Longrightarrow>
   homes_ok env (homes @ [p])"
  by (simp add: homes_ok_def)

lemma possible_children_ok: "homes_ok env homes \<Longrightarrow> homes_ok env (possible_children env parent cs homes)"
proof (induction env parent cs homes rule: possible_children.induct)
  case (2 env parent childname rest homes)
  then show ?case by (simp add: Let_def homes_ok_snoc)
qed simp

lemma possible_homes_ok: "homes_ok env homes \<Longrightarrow> homes_ok env (possible_homes env parents homes)"
  by (induction env parents homes rule: possible_homes.induct) (simp_all add: possible_children_ok)

lemma possible_children_mono: "set homes \<subseteq> set (possible_children env parent cs homes)"
  by (induction env parent cs homes rule: possible_children.induct) (auto simp: Let_def)

lemma possible_homes_mono: "set homes \<subseteq> set (possible_homes env parents homes)"
proof (induction env parents homes rule: possible_homes.induct)
  case (2 env parent parents homes)
  then show ?case using possible_children_mono by (fastforce split: if_splits)
qed simp

lemma possible_children_complete:
  "c \<in> set cs \<Longrightarrow> isdir env (realpath env (path_join env parent c)) \<Longrightarrow>
   java_folder env (realpath env (path_join env parent c)) \<Longrightarrow>
   realpath env (path_join env parent c) \<in> set (possible_children env parent cs homes)"
proof (induction env parent cs homes rule: possible_children.induct)
  case (2 env parent childname rest homes)
  then show ?case
    using possible_children_mono [of homes env parent rest]
      possible_children_mono [of "homes @ [realpath env (path_join env parent childname)]" env parent rest]
    by (auto simp: Let_def)
qed simp

lemma possible_homes_complete:
  "parent \<in> set parents \<Longrightarrow> exists env parent \<Longrightarrow> c \<in> set (listdir env parent) \<Longrightarrow>
   isdir env (realpath env (path_join env parent c)) \<Longrightarrow>
   java_folder env (realpath env (path_join env parent c)) \<Longrightarrow>
   realpath env (path_join env parent c) \<in> set (possible_homes env parents homes)"
proof (induction env parents homes rule: possible_homes.induct)
  case (2 env parent' parents homes)
  show ?case
  proof (cases "parent = parent'")
    case True
    let ?h = "possible_children env parent' (sort (listdir env parent')) homes"
    have "realpath env (path_join env parent c) \<in> set ?h"
      using 2 True by (auto intro: possible_children_complete)
    with True "2.prems"(2) show ?thesis using possible_homes_mono by auto
  next
    case False
    with 2 show ?thesis by auto
  qed
qed simp

section \<open>The interface of a finder\<close>

text \<open>
  What \<open>get_jvm_path\<close> documents: every outcome that is not a path is a
  \<open>ValueError\<close> of the module. A finder keeps this contract when the exceptions of
  its methods and of its check are of the module's two classes.
\<close>

definition finder_exn :: "pyexn \<Rightarrow> bool" where
  "finder_exn e = (exn_kind e \<in> {JVMNotFoundException, JVMNotSupportedException})"

locale jvm_finder =
  fixes methods :: "env \<Rightarrow> (pyexn + string option) list"
    and check :: "env \<Rightarrow> string \<Rightarrow> pyexn + unit"
    and libfile :: string
  assumes method_exn: "Inl e \<in> set (methods env) \<Longrightarrow> finder_exn e"
    and check_exn: "check env p = Inl e \<Longrightarrow> finder_exn e"
begin

lemma try_method_exn: "m \<in> set (methods env) \<Longrightarrow> try_method (check env) m = Inl e \<Longrightarrow> finder_exn e"
  by (auto simp: try_method_def dest: method_exn check_exn split: sum.splits option.splits if_splits)

lemma path_loop_raises:
  "set ms \<subseteq> set (methods env) \<Longrightarrow> (\<forall>e. ns = Some e \<longrightarrow> finder_exn e) \<Longrightarrow>
   jvm_path_loop (check env) libfile ms ns = Inl e \<Longrightarrow> finder_exn e"
proof (induction ms arbitrary: ns)
  case Nil
  then show ?case by (auto simp: finder_exn_def no_library_def split: option.splits)
next
  case (Cons m ms)
  show ?case
  proof (cases "try_method (check env) m")
    case (Inl e')
    then have "finder_exn e'" using Cons.prems(1) try_method_exn by auto
    then have "exn_kind e' = JVMNotFoundException \<or> exn_kind e' = JVMNotSupportedException"
      by (simp add: finder_exn_def)
    with Cons Inl \<open>finder_exn e'\<close> show ?thesis
      by (auto simp: catches_def split: if_splits)
  next
    case (Inr r)
    with Cons show ?thesis by (cases r) auto
  qed
qed

lemma path_raises_documented:
  "get_jvm_path (check env) libfile (methods env) = Inl e \<Longrightarrow> finder_exn e"
  unfolding get_jvm_path_def by (rule path_loop_raises [where ns = None]) auto

text \<open>A returned path is the result of the first method whose path passes the check.\<close>

lemma path_loop_first:
  "set ms \<subseteq> set (methods env) \<Longrightarrow> jvm_path_loop (check env) libfile ms ns = Inr p \<Longrightarrow>
   \<exists>pre post. ms = pre @ Inr (Some p) # post \<and> try_method (check env) (Inr (Some p)) = Inr (Some p) \<and>
     (\<forall>m\<in>set pre. \<forall>q. try_method (check env) m \<noteq> Inr (Some q))"
proof (induction ms arbitrary: ns)
  case Nil
  then show ?case by (auto split: option.splits)
next
  case (Cons m ms)
  have IH: ?case if "jvm_path_loop (check env) libfile ms ns' = Inr p"
    and "\<forall>q. try_method (check env) m \<noteq> Inr (Some q)" for ns'
  proof -
    from Cons.IH [OF _ that(1)] Cons.prems(1) obtain pre post where
      "ms = pre @ Inr (Some p) # post" "try_method (check env) (Inr (Some p)) = Inr (Some p)"
      "\<forall>m\<in>set pre. \<forall>q. try_method (check env) m \<noteq> Inr (Some q)" by auto
    with that(2) show ?thesis by (intro exI [of _ "m # pre"] exI [of _ post]) auto
  qed
  show ?case
  proof (cases "try_method (check env) m")
    case (Inl e)
    with Cons.prems(2) IH show ?thesis by (auto split: if_splits)
  next
    case (Inr r)
    show ?thesis
    proof (cases r)
      case None
      with Inr Cons.prems(2) IH show ?thesis by auto
    next
      case (Some q)
      with Inr Cons.prems(2) have "q = p" by simp
      moreover from Inr Some have "m = Inr (Some q)"
        by (auto simp: try_method_def split: sum.splits option.splits if_splits)
      ultimately show ?thesis using Inr Some by (intro exI [of _ "[]"] exI [of _ ms]) auto
    qed
  qed
qed

lemma path_is_first_checked:
  "get_jvm_path (check env) libfile (methods env) = Inr p \<Longrightarrow>
   \<exists>pre post. methods env = pre @ Inr (Some p) # post \<and>
     try_method (check env) (Inr (Some p)) = Inr (Some p) \<and>
     (\<forall>m\<in>set pre. \<forall>q. try_method (check env) m \<noteq> Inr (Some q))"
  unfolding get_jvm_path_def by (rule path_loop_first) auto

end

lemma map_find_exn: "map_sum id Some (find_libjvm env libfile home) = Inl e \<Longrightarrow> finder_exn e"
  using find_libjvm_kinds by (cases "find_libjvm env libfile home") (auto simp: finder_exn_def)

lemma java_home_exn: "get_from_java_home env libfile = Inl e \<Longrightarrow> finder_exn e"
  by (auto simp: get_from_java_home_def Let_def dest: map_find_exn split: option.splits if_splits)

lemma bin_exn: "get_from_bin env libfile = Inl e \<Longrightarrow> finder_exn e"
  by (auto simp: get_from_bin_def Let_def dest: map_find_exn split: if_splits)

lemma known_locations_exn: "get_from_known_locations env libfile locs = Inl e \<Longrightarrow> finder_exn e"
  unfolding get_from_known_locations_def
  by (cases "find_possible_homes env locs")
    (auto simp: finder_exn_def dest: find_libjvm_kinds split: sum.splits)

lemmas method_exns = java_home_exn bin_exn known_locations_exn

interpretation base: jvm_finder base_methods "\<lambda>_. base_check" base_libfile
  by unfold_locales (auto simp: base_methods_def base_check_def dest: method_exns sym)

interpretation linux: jvm_finder "\<lambda>env. linux_methods env linux_libfile linux_locations"
  "\<lambda>_. base_check" linux_libfile
  by unfold_locales (auto simp: linux_methods_def base_check_def dest: method_exns sym)

section \<open>A machine for the examples\<close>

definition sample_walk :: "string \<Rightarrow> (string \<times> string list) list" where
  "sample_walk home =
     (if home = ''/opt/jdk'' then
        [(''/opt/jdk'', [''release'']), (''/opt/jdk/lib'', [''jrt.jar'']),
         (''/opt/jdk/lib/jamvm'', [''libjvm.so'']), (''/opt/jdk/lib/server'', [''libjvm.so''])]
      else [])"

definition sample_env :: env where
  "sample_env = \<lparr>sep = CHR ''/'', exists = (\<lambda>p. p \<in> {''/opt/jdk'', ''/usr/lib/jvm''}),
     isdir = (\<lambda>p. True), listdir = (\<lambda>p. [''jre-broken'', ''java-11'']), realpath = (\<lambda>p. p),
     abspath = (\<lambda>p. p), walk = sample_walk, contents = (\<lambda>p. None),
     java_home_var = Some ''/opt/jdk'', maxsize = 9223372036854775807, platform = ''linux'',
     mac_ver = [], version_le = (\<lambda>a b. True), java_home_tool = Inr ''/opt/jdk'',
     has_winreg = False, registry_key = (\<lambda>k. Inl (Exn OSError k))\<rparr>"

section \<open>The PE header check\<close>

lemma read_machine_StructError:
  "(\<exists>m. read_machine f = Inl (Exn StructError m)) \<longleftrightarrow>
     take 2 f = [0x4D, 0x5A] \<and>
     (length f < 64 \<or> length f < le_nat (take 4 (drop 60 f)) + 6)"
  by (auto simp: read_machine_def unpack_le_def file_read_def min_def split: if_splits)

lemma read_machine_kinds:
  "read_machine f = Inl e \<Longrightarrow> exn_kind e \<in> {JVMNotSupportedException, StructError}"
  by (auto simp: read_machine_def unpack_le_def split: if_splits sum.splits)

lemma checkJVMArch_struct:
  "contents env p = Some f \<Longrightarrow>
   checkJVMArch env p = Inl (Exn StructError m) \<longleftrightarrow> read_machine f = Inl (Exn StructError m)"
  by (auto simp: checkJVMArch_def Let_def split: sum.splits if_splits)

lemma try_method_base: "try_method base_check m = m"
  by (auto simp: try_method_def base_check_def split: sum.splits option.splits)

section \<open>Properties\<close>

text \<open>C6: \<open>find_libjvm\<close> returns the library path of a directory of the walk that holds the
  library and is not one of the known broken JVMs, and no usable directory is nearer to the
  Java home: the sort by depth makes the search breadth first.\<close>
theorem find_libjvm_shallowest:
  assumes "find_libjvm env libfile home = Inr p"
  shows "\<exists>t\<in>set (walk env home). usable env libfile t \<and> p = path_join env (fst t) libfile \<and>
     (\<forall>t'\<in>set (walk env home). usable env libfile t' \<longrightarrow> depth env (fst t) \<le> depth env (fst t'))"
  using assms by (rule find_libjvm_Inr)

lemma sample_find:
  "find_libjvm sample_env ''libjvm.so'' ''/opt/jdk'' = Inr ''/opt/jdk/lib/server/libjvm.so''"
  by code_simp

theorem find_libjvm_shallowest_witness:
  "\<exists>t\<in>set (walk sample_env ''/opt/jdk''). usable sample_env ''libjvm.so'' t \<and>
     ''/opt/jdk/lib/server/libjvm.so'' = path_join sample_env (fst t) ''libjvm.so''"
  using find_libjvm_shallowest [OF sample_find] by blast

text \<open>\<open>find_libjvm\<close> fails exactly when no directory of the walk is usable, and the class of
  the error says whether a broken JVM was seen.\<close>
theorem find_libjvm_error_class:
  assumes "find_libjvm env libfile home = Inl e"
  shows "(\<forall>t\<in>set (walk env home). \<not> usable env libfile t) \<and>
     exn_kind e = (if \<exists>t\<in>set (walk env home). has_lib libfile t
                   then JVMNotSupportedException else JVMNotFoundException)"
  using assms by (rule find_libjvm_Inl)

theorem find_libjvm_error_class_witness:
  "exn_kind not_found = (if \<exists>t\<in>set (walk sample_env ''/srv''). has_lib ''libjvm.so'' t
     then JVMNotSupportedException else JVMNotFoundException)"
proof -
  have "find_libjvm sample_env ''libjvm.so'' ''/srv'' = Inl not_found" by code_simp
  from find_libjvm_error_class [OF this] show ?thesis by blast
qed

text \<open>the search of the known locations looks into the first possible home only: a first
  home without a library raises, and the exception leaves the loop before any other home is
  tried.\<close>
theorem known_locations_first_home_only:
  "get_from_known_locations env libfile locations =
     (case find_possible_homes env locations of
        [] \<Rightarrow> Inr None
      | home # _ \<Rightarrow> map_sum id Some (find_libjvm env libfile home))"
  by (simp add: get_from_known_locations_def split: list.split sum.split)

text \<open>\<open>find_possible_homes\<close> yields distinct directories with a Java name, and every such
  child of an existing parent is among them.\<close>
theorem find_possible_homes_exact:
  "distinct (find_possible_homes env parents) \<and>
   (\<forall>h\<in>set (find_possible_homes env parents). isdir env h \<and> java_folder env h) \<and>
   (\<forall>parent\<in>set parents. \<forall>c\<in>set (listdir env parent).
      exists env parent \<and> isdir env (realpath env (path_join env parent c)) \<and>
      java_folder env (realpath env (path_join env parent c)) \<longrightarrow>
      realpath env (path_join env parent c) \<in> set (find_possible_homes env parents))"
  using possible_homes_ok [of env "[]" parents] possible_homes_complete [of _ parents env _ "[]"]
  by (auto simp: find_possible_homes_def homes_ok_def)

lemma sample_homes:
  "find_possible_homes sample_env [''/usr/lib/jvm''] = [''/usr/lib/jvm/java-11'', ''/usr/lib/jvm/jre-broken'']"
  by code_simp

theorem find_possible_homes_exact_witness:
  "isdir sample_env ''/usr/lib/jvm/java-11'' \<and> java_folder sample_env ''/usr/lib/jvm/java-11''"
  using find_possible_homes_exact [of sample_env "[''/usr/lib/jvm'']"] by (simp add: sample_homes)

text \<open>on Linux every failure of \<open>getDefaultJVMPath\<close> is one of the two documented
  exceptions.\<close>
theorem linux_path_raises_documented:
  assumes "platform env = ''linux''" and "getDefaultJVMPath env = Inl e"
  shows "catches JVMNotFoundException e \<or> catches JVMNotSupportedException e"
  using linux.path_raises_documented [of env e] assms
  by (auto simp: getDefaultJVMPath_def finder_exn_def catches_def)

theorem linux_path_raises_documented_witness:
  "\<exists>e. catches JVMNotFoundException e \<or> catches JVMNotSupportedException e"
proof -
  let ?env = "sample_env\<lparr>java_home_var := None, exists := (\<lambda>_. False)\<rparr>"
  have "getDefaultJVMPath ?env = Inl (no_library ''libjvm.so'')" by code_simp
  moreover have "platform ?env = ''linux''" by (simp add: sample_env_def)
  ultimately show ?thesis using linux_path_raises_documented [of ?env] by blast
qed

text \<open>on Linux a returned path is the outcome of the first search method, in the order
  JAVA_HOME, the \<open>java\<close> binary, the known locations, that has a path.\<close>
theorem linux_path_order:
  assumes "platform env = ''linux''" and "getDefaultJVMPath env = Inr p"
  shows "\<exists>pre post. linux_methods env linux_libfile linux_locations = pre @ Inr (Some p) # post \<and>
     (\<forall>m\<in>set pre. \<forall>q. m \<noteq> Inr (Some q))"
proof -
  have "get_jvm_path base_check linux_libfile (linux_methods env linux_libfile linux_locations) = Inr p"
    using assms by (simp add: getDefaultJVMPath_def)
  from linux.path_is_first_checked [OF this] show ?thesis
    by (auto simp: try_method_base)
qed

theorem linux_path_order_witness:
  "\<exists>pre post. linux_methods sample_env linux_libfile linux_locations =
     pre @ Inr (Some ''/opt/jdk/lib/server/libjvm.so'') # post"
proof -
  have "getDefaultJVMPath sample_env = Inr ''/opt/jdk/lib/server/libjvm.so''" by code_simp
  moreover have "platform sample_env = ''linux''" by (simp add: sample_env_def)
  ultimately show ?thesis using linux_path_order [of sample_env] by blast
qed

text \<open>the architecture check of a readable DLL raises \<open>struct.error\<close>, and not the
  documented exception, exactly when the file starts like a PE image but ends before the
  header offset or before the machine field.\<close>
theorem checkJVMArch_truncated:
  assumes "contents env p = Some f"
  shows "(\<exists>m. checkJVMArch env p = Inl (Exn StructError m)) \<longleftrightarrow>
     take 2 f = [0x4D, 0x5A] \<and>
     (length f < 64 \<or> length f < le_nat (take 4 (drop 60 f)) + 6)"
  by (simp only: checkJVMArch_struct [OF assms] read_machine_StructError)

theorem checkJVMArch_truncated_witness:
  "\<exists>m. checkJVMArch (sample_env\<lparr>contents := (\<lambda>_. Some [0x4D, 0x5A])\<rparr>) ''jvm.dll'' =
     Inl (Exn StructError m)"
  using checkJVMArch_truncated [of "sample_env\<lparr>contents := (\<lambda>_. Some [0x4D, 0x5A])\<rparr>" "''jvm.dll''"]
  by simp

text \<open>a DLL is accepted exactly when its machine field names an architecture of the word
  size of the Python process.\<close>
theorem checkJVMArch_accepts:
  "checkJVMArch env p = Inr () \<longleftrightarrow>
     (\<exists>f m. contents env p = Some f \<and> read_machine f = Inr m \<and>
        m \<in> (if maxsize env > 2 ^ 32 then {512, 34404, 43620} else {332}))"
  by (auto simp: checkJVMArch_def Let_def IMAGE_FILE_MACHINE_I386_def machines64_def
      split: option.splits sum.splits if_splits)

end
