(* ===== verification/DbTypes.thy ===== *)
theory DbTypes
  imports PyExceptions
begin

text \<open>
  The JDBC types of \<open>jpype/dbapi2.py\<close>: the class \<open>JDBCType\<close> with its equality, hash
  and registration, the module's type constants and default tables, and the
  strategies that choose a getter for a column or a setter for a parameter. Which
  methods the JDBC interfaces have, and which Java classes implement which
  interfaces, are arguments (\<open>jdbc_api\<close>, \<open>issubclass\<close>). A class is named by its full
  name.
\<close>

section \<open>Type objects\<close>

record jdbc_type =
  jt_name :: "string option"
  jt_values :: "string option list"
  jt_code :: "int option"
  jt_getter :: "string option"
  jt_setter :: "string option"
  jt_primitive :: bool

datatype name_arg = NNone | NStr string | NList "string list"

datatype registry_key = RCode int | RName string

record type_tables =
  registry :: "(registry_key, jdbc_type) dict"
  types :: "jdbc_type list"

text \<open>
  \<open>other in self._values\<close>: an element, a string or \<open>None\<close>, is compared with the other
  type by the reflected \<open>__eq__\<close>, that is by membership in its values.
\<close>

definition jt_eq_value :: "jdbc_type \<Rightarrow> string option \<Rightarrow> bool" where
  "jt_eq_value t v = (v \<in> set (jt_values t))"

definition jt_eq :: "jdbc_type \<Rightarrow> jdbc_type \<Rightarrow> bool" where
  "jt_eq t u = list_ex (\<lambda>v. jt_eq_value u v) (jt_values t)"

text \<open>The value that is hashed; distinct names are taken to have distinct hashes.\<close>

definition jt_hash :: "jdbc_type \<Rightarrow> string option" where
  "jt_hash t = jt_name t"

definition jt_repr :: "jdbc_type \<Rightarrow> string" where
  "jt_repr t = (case jt_name t of None \<Rightarrow> [] | Some n \<Rightarrow> n)"

text \<open>The constructor: the name field and the values, then both registry entries.\<close>

definition mk_type ::
  "bool \<Rightarrow> string option \<Rightarrow> string option list \<Rightarrow> int option \<Rightarrow> string option \<Rightarrow>
   string option \<Rightarrow> jdbc_type" where
  "mk_type prim name values code getter setter =
     \<lparr>jt_name = name, jt_values = values, jt_code = code, jt_getter = getter,
      jt_setter = setter, jt_primitive = prim\<rparr>"

definition new_type ::
  "bool \<Rightarrow> name_arg \<Rightarrow> int option \<Rightarrow> string option \<Rightarrow> string option \<Rightarrow> pyexn + jdbc_type" where
  "new_type prim name code getter setter =
     (case name of
        NNone \<Rightarrow> Inr (mk_type prim None [None] code getter setter)
      | NStr n \<Rightarrow> Inr (mk_type prim (Some n) [Some n] code getter setter)
      | NList [] \<Rightarrow> Inl (Exn IndexError ''list index out of range'')
      | NList (n # ns) \<Rightarrow> Inr (mk_type prim (Some n) (map Some (n # ns)) code getter setter))"

definition register_type :: "jdbc_type \<Rightarrow> type_tables \<Rightarrow> type_tables" where
  "register_type t tt =
     (let r1 = (case jt_code t of None \<Rightarrow> registry tt | Some c \<Rightarrow> dict_set (RCode c) t (registry tt));
          r2 = (case jt_name t of None \<Rightarrow> r1 | Some n \<Rightarrow> dict_set (RName (str_upper n)) t r1)
      in tt\<lparr>registry := r2, types := types tt @ [t]\<rparr>)"

text \<open>
  \<open>_initialize\<close>: the default accessor names, and the methods bound on the JDBC
  interfaces. A missing result-set getter or setter is an \<open>AttributeError\<close>; a missing
  callable-statement getter is stored as \<open>None\<close>.
\<close>

record jdbc_api =
  rs_methods :: "string list"
  cs_methods :: "string list"
  ps_methods :: "string list"

record bound_type =
  b_type :: jdbc_type
  b_rsget :: string
  b_csget :: "string option"
  b_psset :: string

definition getattr_method :: "string list \<Rightarrow> string \<Rightarrow> pyexn + string" where
  "getattr_method methods n = (if n \<in> set methods then Inr n else Inl (Exn AttributeError n))"

definition initialize_type :: "jdbc_api \<Rightarrow> jdbc_type \<Rightarrow> pyexn + bound_type" where
  "initialize_type api t =
     (let getter = (case jt_getter t of None \<Rightarrow> ''getObject'' | Some g \<Rightarrow> g);
          setter = (case jt_setter t of None \<Rightarrow> ''setObject'' | Some s \<Rightarrow> s)
      in case getattr_method (rs_methods api) getter of
           Inl e \<Rightarrow> Inl e
         | Inr rsget \<Rightarrow>
             (case getattr_method (ps_methods api) setter of
                Inl e \<Rightarrow> Inl e
              | Inr psset \<Rightarrow>
                  Inr \<lparr>b_type = t\<lparr>jt_getter := Some getter, jt_setter := Some setter\<rparr>,
                       b_rsget = rsget,
                       b_csget = (if getter \<in> set (cs_methods api) then Some getter else None),
                       b_psset = psset\<rparr>))"

text \<open>The constructor as a whole: a type made while the JVM runs is bound at once.\<close>

definition JDBCType_init ::
  "bool \<Rightarrow> jdbc_api \<Rightarrow> bool \<Rightarrow> name_arg \<Rightarrow> int option \<Rightarrow> string option \<Rightarrow> string option \<Rightarrow>
   (type_tables, pyexn, jdbc_type) pyop" where
  "JDBCType_init started api prim name code getter setter =
     pbind (plift (new_type prim name code getter setter)) (\<lambda>t.
     pseq (pmod (register_type t))
       (if started then pbind (plift (initialize_type api t)) (\<lambda>_. ret t) else ret t))"

section \<open>The module's types\<close>

definition named_type ::
  "bool \<Rightarrow> string \<Rightarrow> int option \<Rightarrow> string option \<Rightarrow> string option \<Rightarrow> jdbc_type" where
  "named_type prim n code getter setter = mk_type prim (Some n) [Some n] code getter setter"

definition alias_type ::
  "bool \<Rightarrow> string list \<Rightarrow> int option \<Rightarrow> string option \<Rightarrow> string option \<Rightarrow> jdbc_type" where
  "alias_type prim ns code getter setter = mk_type prim (Some (hd ns)) (map Some ns) code getter setter"

definition stream_type :: "string option \<Rightarrow> string option \<Rightarrow> jdbc_type" where
  "stream_type getter setter = mk_type False None [None] None getter setter"

definition ARRAY :: jdbc_type where
  "ARRAY = named_type False ''ARRAY'' (Some 2003) (Some ''getArray'') (Some ''setArray'')"

definition BIGINT :: jdbc_type where
  "BIGINT = named_type True ''BIGINT'' (Some (-5)) (Some ''getLong'') (Some ''setLong'')"

definition BIT :: jdbc_type where
  "BIT = named_type False ''BIT'' (Some (-7)) (Some ''getBoolean'') (Some ''setBoolean'')"

definition BLOB :: jdbc_type where
  "BLOB = named_type False ''BLOB'' (Some 2004) (Some ''getBlob'') (Some ''setBlob'')"

definition BOOLEAN :: jdbc_type where
  "BOOLEAN = named_type True ''BOOLEAN'' (Some 16) (Some ''getBoolean'') (Some ''setBoolean'')"

definition CHAR_T :: jdbc_type where
  "CHAR_T = named_type False ''CHAR'' (Some 1) (Some ''getString'') (Some ''setString'')"

definition CLOB :: jdbc_type where
  "CLOB = named_type False ''CLOB'' (Some 2005) (Some ''getClob'') (Some ''setClob'')"

definition DATE :: jdbc_type where
  "DATE = named_type False ''DATE'' (Some 91) (Some ''getDate'') (Some ''setDate'')"

definition DOUBLE :: jdbc_type where
  "DOUBLE = named_type True ''DOUBLE'' (Some 8) (Some ''getDouble'') (Some ''setDouble'')"

definition INTEGER :: jdbc_type where
  "INTEGER = named_type True ''INTEGER'' (Some 4) (Some ''getInt'') (Some ''setInt'')"

definition OBJECT :: jdbc_type where
  "OBJECT = named_type False ''OBJECT'' (Some 2000) None None"

definition LONGNVARCHAR :: jdbc_type where
  "LONGNVARCHAR = named_type False ''LONGNVARCHAR'' (Some (-16)) (Some ''getString'') (Some ''setString'')"

definition LONGVARBINARY :: jdbc_type where
  "LONGVARBINARY = named_type False ''LONGVARBINARY'' (Some (-4)) (Some ''getBytes'') (Some ''setBytes'')"

definition LONGVARCHAR :: jdbc_type where
  "LONGVARCHAR = named_type False ''LONGVARCHAR'' (Some (-1)) (Some ''getString'') (Some ''setString'')"

definition NCHAR :: jdbc_type where
  "NCHAR = named_type False ''NCHAR'' (Some (-15)) (Some ''getString'') (Some ''setString'')"

definition NCLOB :: jdbc_type where
  "NCLOB = named_type False ''NCLOB'' (Some 2011) (Some ''getNClob'') (Some ''setNClob'')"

definition NULL :: jdbc_type where
  "NULL = named_type False ''NULL'' (Some 0) None None"

definition NUMERIC :: jdbc_type where
  "NUMERIC = named_type False ''NUMERIC'' (Some 2) (Some ''getBigDecimal'') (Some ''setBigDecimal'')"

definition NVARCHAR :: jdbc_type where
  "NVARCHAR = named_type False ''NVARCHAR'' (Some (-9)) (Some ''getClob'') (Some ''setClob'')"

definition OTHER :: jdbc_type where
  "OTHER = named_type False ''OTHER'' (Some 1111) None None"

definition REAL :: jdbc_type where
  "REAL = named_type True ''REAL'' (Some 7) (Some ''getFloat'') (Some ''setFloat'')"

definition REF :: jdbc_type where
  "REF = named_type False ''REF'' (Some 2006) (Some ''getRef'') (Some ''setRef'')"

definition ROWID :: jdbc_type where
  "ROWID = named_type False ''ROWID'' (Some (-8)) (Some ''getRowId'') (Some ''setRowId'')"

definition RESULTSET :: jdbc_type where
  "RESULTSET = named_type False ''RESULTSET'' (Some (-10)) (Some ''getObject'') (Some ''setObject'')"

definition SMALLINT :: jdbc_type where
  "SMALLINT = named_type True ''SMALLINT'' (Some 5) (Some ''getShort'') (Some ''setShort'')"

definition SQLXML :: jdbc_type where
  "SQLXML = named_type False ''SQLXML'' (Some 2009) (Some ''getSQLXML'') (Some ''setSQLXML'')"

definition TIME :: jdbc_type where
  "TIME = named_type False ''TIME'' (Some 92) (Some ''getTime'') (Some ''setTime'')"

definition TIME_WITH_TIMEZONE :: jdbc_type where
  "TIME_WITH_TIMEZONE = named_type False ''TIME_WITH_TIMEZONE'' (Some 2013) (Some ''getTime'') (Some ''setTime'')"

definition TIMESTAMP :: jdbc_type where
  "TIMESTAMP = named_type False ''TIMESTAMP'' (Some 93) (Some ''getTimestamp'') (Some ''setTimestamp'')"

definition TIMESTAMP_WITH_TIMEZONE :: jdbc_type where
  "TIMESTAMP_WITH_TIMEZONE = named_type False ''TIMESTAMP_WITH_TIMEZONE'' (Some 2014) (Some ''getTimestamp'') (Some ''setTimestamp'')"

definition TINYINT :: jdbc_type where
  "TINYINT = named_type True ''TINYINT'' (Some (-6)) (Some ''getShort'') (Some ''setShort'')"

definition VARBINARY :: jdbc_type where
  "VARBINARY = named_type False ''VARBINARY'' (Some (-3)) (Some ''getBytes'') (Some ''setBytes'')"

definition VARCHAR :: jdbc_type where
  "VARCHAR = named_type False ''VARCHAR'' (Some 12) (Some ''getString'') (Some ''setString'')"

definition STRING :: jdbc_type where
  "STRING = alias_type False [''STRING'', ''CHAR'', ''NCHAR'', ''NVARCHAR'', ''VARCHAR'', ''OTHER''] None
     (Some ''getString'') (Some ''setString'')"

definition TEXT :: jdbc_type where
  "TEXT = alias_type False [''TEXT'', ''CLOB'', ''LONGVARCHAR'', ''LONGNVARCHAR'', ''NCLOB'', ''SQLXML''] None
     (Some ''getString'') (Some ''setString'')"

definition BINARY :: jdbc_type where
  "BINARY = alias_type False [''BINARY'', ''BLOB'', ''LONGVARBINARY'', ''VARBINARY''] (Some (-2))
     (Some ''getBytes'') (Some ''setBytes'')"

definition NUMBER :: jdbc_type where
  "NUMBER = alias_type False
     [''NUMBER'', ''BOOLEAN'', ''BIGINT'', ''BIT'', ''INTEGER'', ''SMALLINT'', ''TINYINT''] None
     (Some ''getObject'') (Some ''setObject'')"

definition FLOAT :: jdbc_type where
  "FLOAT = alias_type True [''FLOAT'', ''REAL'', ''DOUBLE''] (Some 6)
     (Some ''getDouble'') (Some ''setDouble'')"

definition DECIMAL :: jdbc_type where
  "DECIMAL = alias_type False [''DECIMAL'', ''NUMERIC''] (Some 3)
     (Some ''getBigDecimal'') (Some ''setBigDecimal'')"

definition ASCII_STREAM :: jdbc_type where
  "ASCII_STREAM = stream_type (Some ''getAsciiStream'') (Some ''setAsciiStream'')"

definition BINARY_STREAM :: jdbc_type where
  "BINARY_STREAM = stream_type (Some ''getBinaryStream'') (Some ''setBinaryStream'')"

definition CHARACTER_STREAM :: jdbc_type where
  "CHARACTER_STREAM = stream_type (Some ''getCharacterStream'') (Some ''setCharacterStream'')"

definition NCHARACTER_STREAM :: jdbc_type where
  "NCHARACTER_STREAM = stream_type (Some ''getNCharacterStream'') (Some ''setNCharacterStream'')"

definition URL :: jdbc_type where
  "URL = stream_type (Some ''getURL'') (Some ''setURL'')"

text \<open>The types in the order of their declaration; \<open>DATETIME\<close> is the object \<open>TIMESTAMP\<close>.\<close>

definition declared :: "jdbc_type list" where
  "declared =
    [ARRAY, BIGINT, BIT, BLOB, BOOLEAN, CHAR_T, CLOB, DATE, DOUBLE, INTEGER, OBJECT,
     LONGNVARCHAR, LONGVARBINARY, LONGVARCHAR, NCHAR, NCLOB, NULL, NUMERIC, NVARCHAR,
     OTHER, REAL, REF, ROWID, RESULTSET, SMALLINT, SQLXML, TIME, TIME_WITH_TIMEZONE,
     TIMESTAMP, TIMESTAMP_WITH_TIMEZONE, TINYINT, VARBINARY, VARCHAR, STRING, TEXT,
     BINARY, NUMBER, FLOAT, DECIMAL, ASCII_STREAM, BINARY_STREAM, CHARACTER_STREAM,
     NCHARACTER_STREAM, URL]"

definition DATETIME :: jdbc_type where
  "DATETIME = TIMESTAMP"

definition empty_tables :: type_tables where
  "empty_tables = \<lparr>registry = [], types = []\<rparr>"

definition module_tables :: type_tables where
  "module_tables = fold register_type declared empty_tables"

text \<open>The default getter table.\<close>

definition default_map :: "(jdbc_type \<times> jdbc_type) list" where
  "default_map =
    [(ARRAY, OBJECT), (OBJECT, OBJECT), (NULL, OBJECT), (REF, OBJECT), (ROWID, OBJECT),
     (RESULTSET, OBJECT), (TIME_WITH_TIMEZONE, OBJECT),
     (TIMESTAMP_WITH_TIMEZONE, OBJECT), (NVARCHAR, STRING), (CHAR_T, STRING),
     (NCHAR, STRING), (VARCHAR, STRING), (BINARY, BINARY), (BLOB, BINARY),
     (LONGVARBINARY, BINARY), (VARBINARY, BINARY), (NUMBER, NUMBER),
     (BOOLEAN, BOOLEAN), (BIGINT, BIGINT), (BIT, BIT), (INTEGER, INTEGER),
     (SMALLINT, SMALLINT), (TINYINT, TINYINT), (FLOAT, FLOAT), (REAL, REAL),
     (DECIMAL, DECIMAL), (NUMERIC, NUMERIC), (DATE, DATE), (TIMESTAMP, TIMESTAMP),
     (TIME, TIME), (CLOB, STRING), (NCLOB, STRING), (STRING, STRING), (TEXT, STRING),
     (SQLXML, STRING), (LONGVARCHAR, STRING), (LONGNVARCHAR, STRING), (DOUBLE, DOUBLE),
     (OTHER, OBJECT)]"

text \<open>A dict lookup by a type object: equal hashes and \<open>==\<close>.\<close>

fun type_dict_get :: "(jdbc_type \<times> 'a) list \<Rightarrow> jdbc_type \<Rightarrow> 'a option" where
  "type_dict_get [] t = None"
| "type_dict_get ((k, v) # d) t =
     (if jt_hash k = jt_hash t \<and> jt_eq k t then Some v else type_dict_get d t)"

section \<open>Choosing getters and setters\<close>

text \<open>What the strategies read of a column or of a parameter.\<close>

record column_meta =
  cm_type :: int
  cm_typeName :: string

definition key_error :: "string \<Rightarrow> pyexn" where
  "key_error k = Exn KeyError k"

definition registry_lookup :: "type_tables \<Rightarrow> int \<Rightarrow> pyexn + jdbc_type" where
  "registry_lookup tt c = (case dict_get (registry tt) (RCode c) of
      None \<Rightarrow> Inl (key_error (int_str c)) | Some t \<Rightarrow> Inr t)"

definition default_lookup :: "jdbc_type \<Rightarrow> pyexn + jdbc_type" where
  "default_lookup t = (case type_dict_get default_map t of
      None \<Rightarrow> Inl (key_error (jt_repr t)) | Some u \<Rightarrow> Inr u)"

definition SETTERS_BY_META :: "type_tables \<Rightarrow> int \<Rightarrow> pyexn + jdbc_type option" where
  "SETTERS_BY_META tt parameterType =
     (case registry_lookup tt parameterType of
        Inl e \<Rightarrow> Inl e
      | Inr t \<Rightarrow> map_sum id Some (default_lookup t))"

fun first_interface ::
  "(string \<Rightarrow> string \<Rightarrow> bool) \<Rightarrow> string \<Rightarrow> (string \<times> 'a) list \<Rightarrow> 'a option" where
  "first_interface issubclass ptype [] = None"
| "first_interface issubclass ptype ((jtype, t) # rest) =
     (if issubclass ptype jtype then Some t else first_interface issubclass ptype rest)"

definition SETTERS_BY_TYPE ::
  "(string \<Rightarrow> string \<Rightarrow> bool) \<Rightarrow> (string, jdbc_type) dict \<Rightarrow> (string \<times> jdbc_type) list \<Rightarrow>
   string \<Rightarrow> jdbc_type option" where
  "SETTERS_BY_TYPE issubclass default_setters by_interface ptype =
     (case dict_get default_setters ptype of
        Some s \<Rightarrow> Some s
      | None \<Rightarrow> first_interface issubclass ptype by_interface)"

definition GETTERS_BY_TYPE :: "type_tables \<Rightarrow> column_meta \<Rightarrow> pyexn + jdbc_type" where
  "GETTERS_BY_TYPE tt col =
     (case registry_lookup tt (cm_type col) of
        Inl e \<Rightarrow> Inl e
      | Inr tp \<Rightarrow>
          if jt_eq tp (OTHER)
          then (case dict_get (registry tt) (RName (str_upper (cm_typeName col))) of
                  None \<Rightarrow> Inr tp | Some t \<Rightarrow> Inr t)
          else default_lookup tp)"

definition GETTERS_BY_NAME :: "type_tables \<Rightarrow> column_meta \<Rightarrow> pyexn + jdbc_type" where
  "GETTERS_BY_NAME tt col =
     (case (case dict_get (registry tt) (RName (str_upper (cm_typeName col))) of
              Some t \<Rightarrow> Inr t
            | None \<Rightarrow> registry_lookup tt (cm_type col)) of
        Inl e \<Rightarrow> Inl e
      | Inr tp \<Rightarrow> Inr (case type_dict_get default_map tp of None \<Rightarrow> tp | Some u \<Rightarrow> u))"

text \<open>The tables \<open>_populateTypes\<close> fills once the JVM runs.\<close>

definition default_setters :: "(string, jdbc_type) dict" where
  "default_setters =
    [(''java.lang.String'', STRING), (''java.sql.Date'', DATE), (''java.sql.Time'', TIME),
     (''java.sql.Timestamp'', TIMESTAMP), (''byte[]'', BINARY),
     (''java.math.BigDecimal'', DECIMAL), (''JFloat'', REAL), (''JDouble'', DOUBLE),
     (''JBoolean'', BOOLEAN), (''JShort'', INTEGER), (''JInt'', INTEGER),
     (''JLong'', BIGINT), (''bool'', BOOLEAN), (''int'', BIGINT), (''float'', DOUBLE),
     (''str'', STRING), (''memoryview'', BINARY), (''bytes'', BINARY),
     (''bytearray'', BINARY), (''NoneType'', OBJECT), (''java.sql.Clob'', CLOB),
     (''java.sql.Blob'', BLOB), (''datetime.datetime'', TIMESTAMP),
     (''datetime.date'', DATE), (''datetime.time'', TIME)]"

definition default_setters_by_interface :: "(string \<times> jdbc_type) list" where
  "default_setters_by_interface =
    [(''java.sql.Array'', ARRAY), (''java.sql.Blob'', BLOB), (''java.sql.Clob'', CLOB),
     (''java.sql.NClob'', NCLOB), (''java.sql.SQLXML'', SQLXML), (''java.sql.Ref'', REF),
     (''java.sql.RowId'', ROWID)]"

fun initialize_types :: "jdbc_api \<Rightarrow> jdbc_type list \<Rightarrow> pyexn + bound_type list" where
  "initialize_types api [] = Inr []"
| "initialize_types api (t # ts) =
     (case initialize_type api t of
        Inl e \<Rightarrow> Inl e
      | Inr b \<Rightarrow> (case initialize_types api ts of Inl e \<Rightarrow> Inl e | Inr bs \<Rightarrow> Inr (b # bs)))"

lemmas type_defs =
  ARRAY_def BIGINT_def BIT_def BLOB_def BOOLEAN_def CHAR_T_def CLOB_def DATE_def DOUBLE_def
  INTEGER_def OBJECT_def LONGNVARCHAR_def LONGVARBINARY_def LONGVARCHAR_def NCHAR_def
  NCLOB_def NULL_def NUMERIC_def NVARCHAR_def OTHER_def REAL_def REF_def ROWID_def
  RESULTSET_def SMALLINT_def SQLXML_def TIME_def TIME_WITH_TIMEZONE_def TIMESTAMP_def
  TIMESTAMP_WITH_TIMEZONE_def TINYINT_def VARBINARY_def VARCHAR_def STRING_def TEXT_def
  BINARY_def FLOAT_def DECIMAL_def ASCII_STREAM_def BINARY_STREAM_def CHARACTER_STREAM_def
  NCHARACTER_STREAM_def URL_def NUMBER_def
  named_type_def alias_type_def stream_type_def mk_type_def

section \<open>Equality and hash\<close>

definition type_wf :: "jdbc_type \<Rightarrow> bool" where
  "type_wf t = (jt_name t \<in> set (jt_values t))"

lemma jt_eq_iff: "jt_eq t u \<longleftrightarrow> set (jt_values t) \<inter> set (jt_values u) \<noteq> {}"
  by (auto simp: jt_eq_def jt_eq_value_def list_ex_iff)

lemma jt_eq_sym: "jt_eq t u = jt_eq u t"
  by (auto simp: jt_eq_iff)

lemma jt_eq_same_name: "type_wf t \<Longrightarrow> type_wf u \<Longrightarrow> jt_hash t = jt_hash u \<Longrightarrow> jt_eq t u"
  by (auto simp: jt_eq_iff type_wf_def jt_hash_def)

lemma new_type_wf: "new_type prim n c g s = Inr t \<Longrightarrow> type_wf t"
  by (auto simp: new_type_def mk_type_def type_wf_def split: name_arg.splits list.splits)

lemma declared_wf: "t \<in> set declared \<Longrightarrow> type_wf t"
  by (auto simp: declared_def type_defs type_wf_def)

lemma type_dict_get_wf:
  "type_wf t \<Longrightarrow> (\<And>k v. (k, v) \<in> set d \<Longrightarrow> type_wf k) \<Longrightarrow>
   type_dict_get d t = map_of (map (\<lambda>(k, v). (jt_name k, v)) d) (jt_name t)"
proof (induction d)
  case Nil
  then show ?case by simp
next
  case (Cons kv d)
  obtain k v where kv: "kv = (k, v)" by (cases kv)
  with Cons have "type_wf k" by auto
  with Cons kv show ?case by (auto simp: jt_eq_same_name jt_hash_def)
qed

section \<open>Registration\<close>

definition registry_ok :: "type_tables \<Rightarrow> bool" where
  "registry_ok tt = (\<forall>k t. dict_get (registry tt) k = Some t \<longrightarrow> t \<in> set (types tt) \<and>
     (case k of RCode c \<Rightarrow> jt_code t = Some c | RName n \<Rightarrow> map_option str_upper (jt_name t) = Some n))"

lemma registry_get_register:
  "dict_get (registry (register_type t tt)) k =
     (case k of
        RCode c \<Rightarrow> if jt_code t = Some c then Some t else dict_get (registry tt) k
      | RName n \<Rightarrow> if map_option str_upper (jt_name t) = Some n then Some t
                   else dict_get (registry tt) k)"
  by (cases k) (auto simp: register_type_def Let_def dict_simps split: option.splits)

lemma types_register [simp]: "types (register_type t tt) = types tt @ [t]"
  by (simp add: register_type_def Let_def)

lemma registry_ok_empty: "registry_ok empty_tables"
  by (simp add: registry_ok_def empty_tables_def)

lemma registry_ok_register: "registry_ok tt \<Longrightarrow> registry_ok (register_type t tt)"
  by (auto simp: registry_ok_def registry_get_register split: registry_key.splits if_splits)

lemma registry_ok_fold: "registry_ok tt \<Longrightarrow> registry_ok (fold register_type ts tt)"
  by (induction ts arbitrary: tt) (auto simp: registry_ok_register)

lemma types_fold: "types (fold register_type ts tt) = types tt @ ts"
  by (induction ts arbitrary: tt) auto

lemma registered_code_kept:
  "dict_get (registry tt) (RCode c) \<noteq> None \<Longrightarrow> dict_get (registry (fold register_type ts tt)) (RCode c) \<noteq> None"
  by (induction ts arbitrary: tt) (auto simp: registry_get_register)

lemma code_registered:
  "t \<in> set ts \<Longrightarrow> jt_code t = Some c \<Longrightarrow>
   dict_get (registry (fold register_type ts tt)) (RCode c) \<noteq> None"
proof (induction ts arbitrary: tt)
  case Nil
  then show ?case by simp
next
  case (Cons u ts)
  show ?case
  proof (cases "t \<in> set ts")
    case True
    with Cons show ?thesis by simp
  next
    case False
    with Cons.prems have "u = t" by simp
    moreover have "dict_get (registry (register_type t tt)) (RCode c) \<noteq> None"
      using Cons.prems by (simp add: registry_get_register)
    ultimately show ?thesis using registered_code_kept by simp
  qed
qed

lemma module_registry_ok: "registry_ok module_tables"
  unfolding module_tables_def by (intro registry_ok_fold registry_ok_empty)

lemma module_types: "types module_tables = declared"
  by (simp add: module_tables_def types_fold empty_tables_def)

lemma registry_lookup_Inr:
  "registry_ok tt \<Longrightarrow> registry_lookup tt c = Inr t \<Longrightarrow> t \<in> set (types tt) \<and> jt_code t = Some c"
  by (fastforce simp: registry_lookup_def registry_ok_def split: option.splits)

lemma module_lookup_Inr:
  "registry_lookup module_tables c = Inr t \<Longrightarrow> t \<in> set declared \<and> jt_code t = Some c"
  using registry_lookup_Inr [OF module_registry_ok] by (simp add: module_types)

lemma module_lookup_Inl:
  "registry_lookup module_tables c = Inl e \<Longrightarrow>
     exn_kind e = KeyError \<and> (\<forall>t\<in>set declared. jt_code t \<noteq> Some c)"
  using code_registered [of _ declared c empty_tables]
  by (auto simp: registry_lookup_def key_error_def module_tables_def split: option.splits)

section \<open>The default tables\<close>

lemma default_keys_wf: "(k, v) \<in> set default_map \<Longrightarrow> type_wf k"
  by (auto simp: default_map_def type_defs type_wf_def)

lemma default_map_keys: "set declared \<inter> {t. jt_code t \<noteq> None} \<subseteq> set (map fst default_map)"
  by (auto simp: declared_def default_map_def)
    (simp_all add: stream_type_def mk_type_def TEXT_def STRING_def NUMBER_def alias_type_def
      ASCII_STREAM_def BINARY_STREAM_def CHARACTER_STREAM_def NCHARACTER_STREAM_def URL_def)

lemma default_lookup_Inr:
  assumes "t \<in> set (map fst default_map)"
  shows "\<exists>u. default_lookup t = Inr u"
proof -
  have wf: "type_wf t" using assms default_keys_wf by auto
  have "type_dict_get default_map t = map_of (map (\<lambda>(k, v). (jt_name k, v)) default_map) (jt_name t)"
    by (rule type_dict_get_wf [OF wf]) (rule default_keys_wf)
  moreover have "jt_name t \<in> fst ` set (map (\<lambda>(k, v). (jt_name k, v)) default_map)"
    using assms by force
  ultimately have "type_dict_get default_map t \<noteq> None"
    by (metis map_of_eq_None_iff)
  then show ?thesis by (auto simp: default_lookup_def)
qed

lemma coded_default: "t \<in> set declared \<Longrightarrow> jt_code t = Some c \<Longrightarrow> \<exists>u. default_lookup t = Inr u"
  using default_map_keys by (intro default_lookup_Inr) auto

lemma first_interface_Some:
  "first_interface issubclass p its = Some t \<Longrightarrow> \<exists>j. (j, t) \<in> set its \<and> issubclass p j"
  by (induction its) (auto split: if_splits)

lemma first_interface_None:
  "first_interface issubclass p its = None \<longleftrightarrow> (\<forall>(j, t)\<in>set its. \<not> issubclass p j)"
  by (induction its) (auto split: if_splits)

section \<open>Properties\<close>

text \<open>\<open>JDBCType\<close> equality means a common value; it is symmetric but not transitive, and
  equal types need not have equal hashes.\<close>
theorem jdbc_type_equality:
  "jt_eq t u = (set (jt_values t) \<inter> set (jt_values u) \<noteq> {}) \<and> jt_eq t u = jt_eq u t \<and>
   jt_eq CHAR_T STRING \<and> jt_eq STRING VARCHAR \<and> \<not> jt_eq CHAR_T VARCHAR \<and>
   jt_hash CHAR_T \<noteq> jt_hash STRING"
proof (intro conjI)
  show "jt_eq t u = (set (jt_values t) \<inter> set (jt_values u) \<noteq> {})" by (rule jt_eq_iff)
  show "jt_eq t u = jt_eq u t" by (rule jt_eq_sym)
qed (simp_all add: jt_eq_iff type_defs jt_hash_def)

text \<open>the five special stream types, which have no name, are equal to one another and have
  the same hash, so a dictionary with one of them as a key is read under any other.\<close>
theorem stream_types_conflated:
  assumes "t \<in> set declared" and "u \<in> set declared" and "jt_name t = None" and "jt_name u = None"
  shows "jt_eq t u \<and> jt_hash t = jt_hash u \<and> type_dict_get [(t, v)] u = Some v"
  using jt_eq_same_name [OF declared_wf [OF assms(1)] declared_wf [OF assms(2)]] assms(3,4)
  by (simp add: jt_hash_def)

theorem stream_types_conflated_witness:
  "type_dict_get [(ASCII_STREAM, ''handler'')] URL = Some ''handler''"
  using stream_types_conflated [of ASCII_STREAM URL "''handler''"]
  by (simp add: declared_def ASCII_STREAM_def URL_def stream_type_def mk_type_def)

text \<open>making a type registers it under its code and its upper-case name, appends it to the
  module's list, and leaves every other key as it was.\<close>
theorem JDBCType_init_registers:
  assumes "JDBCType_init started api prim name code getter setter tt = (Inr t, tt')"
  shows "types tt' = types tt @ [t] \<and> type_wf t \<and>
     (\<forall>k. dict_get (registry tt') k =
        (case k of
           RCode c \<Rightarrow> if code = Some c then Some t else dict_get (registry tt) k
         | RName n \<Rightarrow> if map_option str_upper (jt_name t) = Some n then Some t
                      else dict_get (registry tt) k))"
proof -
  from assms obtain nt: "new_type prim name code getter setter = Inr t" and tt': "tt' = register_type t tt"
    by (auto simp: JDBCType_init_def pyrun split: sum.splits if_splits)
  from nt have "jt_code t = code"
    by (auto simp: new_type_def mk_type_def split: name_arg.splits list.splits)
  with tt' new_type_wf [OF nt] show ?thesis
    by (simp add: registry_get_register split: registry_key.split)
qed

theorem JDBCType_init_registers_witness:
  "dict_get (registry (snd (JDBCType_init False \<lparr>rs_methods = [], cs_methods = [], ps_methods = []\<rparr>
      False (NStr ''Json'') (Some 77) None None empty_tables))) (RName ''JSON'') =
    Some (named_type False ''Json'' (Some 77) None None)"
proof -
  let ?t = "named_type False ''Json'' (Some 77) None None"
  have run: "JDBCType_init False \<lparr>rs_methods = [], cs_methods = [], ps_methods = []\<rparr>
      False (NStr ''Json'') (Some 77) None None empty_tables = (Inr ?t, register_type ?t empty_tables)"
    by (simp add: JDBCType_init_def new_type_def named_type_def pyrun)
  have "map_option str_upper (jt_name ?t) = Some ''JSON''"
    by code_simp
  with JDBCType_init_registers [OF run] show ?thesis by (simp add: run)
qed

text \<open>\<open>GETTERS_BY_TYPE\<close> on the module's tables answers every column whose JDBC type code
  is declared, and raises \<open>KeyError\<close>, which is not a PEP 249 error, for every other code.\<close>
theorem getters_by_type_total:
  "case GETTERS_BY_TYPE module_tables col of
     Inr _ \<Rightarrow> \<exists>t\<in>set declared. jt_code t = Some (cm_type col)
   | Inl e \<Rightarrow> exn_kind e = KeyError \<and> \<not> catches Error e \<and>
       (\<forall>t\<in>set declared. jt_code t \<noteq> Some (cm_type col))"
proof (cases "registry_lookup module_tables (cm_type col)")
  case (Inl e)
  with module_lookup_Inl [OF Inl] show ?thesis by (simp add: GETTERS_BY_TYPE_def catches_def)
next
  case (Inr t)
  from module_lookup_Inr [OF Inr] have t: "t \<in> set declared" "jt_code t = Some (cm_type col)" by auto
  then obtain u where u: "default_lookup t = Inr u" using coded_default by blast
  have "\<exists>r. GETTERS_BY_TYPE module_tables col = Inr r"
    using Inr u by (auto simp: GETTERS_BY_TYPE_def split: option.split)
  with t show ?thesis by auto
qed

theorem getters_by_type_total_witness:
  "\<not> catches Error (key_error (int_str 70))"
proof -
  have no: "dict_get (registry module_tables) (RCode 70) = None"
  proof (rule ccontr)
    assume "dict_get (registry module_tables) (RCode 70) \<noteq> None"
    then obtain t where "registry_lookup module_tables 70 = Inr t" by (auto simp: registry_lookup_def)
    from module_lookup_Inr [OF this] show False
      by (auto simp: declared_def type_defs)
  qed
  have "GETTERS_BY_TYPE module_tables \<lparr>cm_type = 70, cm_typeName = ''DATALINK''\<rparr> =
      Inl (key_error (int_str 70))"
    using no by (simp add: GETTERS_BY_TYPE_def registry_lookup_def)
  with getters_by_type_total [of "\<lparr>cm_type = 70, cm_typeName = ''DATALINK''\<rparr>"] show ?thesis
    by simp
qed

text \<open>\<open>SETTERS_BY_TYPE\<close> prefers the exact class; otherwise the chosen type is that of an
  interface the class implements, and \<open>None\<close> is returned only when it implements none.\<close>
theorem setters_by_type_choice:
  "case SETTERS_BY_TYPE issubclass ds its p of
     Some t \<Rightarrow> dict_get ds p = Some t \<or>
       (dict_get ds p = None \<and> (\<exists>j. (j, t) \<in> set its \<and> issubclass p j))
   | None \<Rightarrow> dict_get ds p = None \<and> (\<forall>(j, t)\<in>set its. \<not> issubclass p j)"
  by (auto simp: SETTERS_BY_TYPE_def first_interface_None
      dest: first_interface_Some split: option.splits)

theorem setters_by_type_choice_witness:
  "dict_get default_setters ''org.h2.jdbc.JdbcBlob'' = None \<and>
   SETTERS_BY_TYPE (\<lambda>c j. c = ''org.h2.jdbc.JdbcBlob'' \<and> j = ''java.sql.Blob'') default_setters
     default_setters_by_interface ''org.h2.jdbc.JdbcBlob'' = Some BLOB"
proof -
  let ?sub = "\<lambda>c j. c = ''org.h2.jdbc.JdbcBlob'' \<and> j = ''java.sql.Blob''"
  have none: "dict_get default_setters ''org.h2.jdbc.JdbcBlob'' = None"
    by (simp add: default_setters_def dict_get_def)
  have "SETTERS_BY_TYPE ?sub default_setters default_setters_by_interface ''org.h2.jdbc.JdbcBlob'' = Some BLOB"
    using none by (simp add: SETTERS_BY_TYPE_def default_setters_by_interface_def)
  with setters_by_type_choice [where issubclass = ?sub and ds = default_setters
      and its = default_setters_by_interface and p = "''org.h2.jdbc.JdbcBlob''"] none show ?thesis by simp
qed

end
