(* ===== verification/DbDriver.thy ===== *)
theory DbDriver
  imports DbTypes
begin

text \<open>
  The JDBC driver as \<open>dbapi2.py\<close> sees it. The driver is not part of the program: it
  is the record \<open>driver\<close>, one operation per JDBC method the module calls, over a
  driver state \<open>'j\<close> of its own, and it is an argument of every definition that talks
  to the database. Values are the Python and Java objects that pass through a
  statement or a result set; \<open>VJava c n\<close> is an object of the Java class \<open>c\<close>, where
  \<open>n\<close> is 0 exactly when the object compares equal to 0. This theory also holds
  \<open>JDBCType.get\<close> and \<open>JDBCType.set\<close>.
\<close>

datatype pyval = VNone | VBool bool | VInt int | VStr string | VJava string int

fun class_of :: "pyval \<Rightarrow> string" where
  "class_of VNone = ''NoneType''"
| "class_of (VBool b) = ''bool''"
| "class_of (VInt i) = ''int''"
| "class_of (VStr s) = ''str''"
| "class_of (VJava c n) = c"

fun is_zero :: "pyval \<Rightarrow> bool" where
  "is_zero (VBool b) = (\<not> b)"
| "is_zero (VInt i) = (i = 0)"
| "is_zero (VJava c n) = (n = 0)"
| "is_zero _ = False"

type_synonym pyfun = "pyval \<Rightarrow> pyexn + pyval"

text \<open>The metadata of a result column and of a statement parameter.\<close>

record column = column_meta +
  cm_label :: string
  cm_displaySize :: int
  cm_precision :: int
  cm_scale :: int
  cm_nullable :: int

record parameter_meta =
  pm_typeName :: string
  pm_type :: int
  pm_mode :: int
  pm_precision :: int
  pm_scale :: int
  pm_nullable :: int

record 'j driver =
  d_isClosed :: "('j, pyexn, bool) pyop"
  d_close :: "('j, pyexn, unit) pyop"
  d_setAutoCommit :: "bool \<Rightarrow> ('j, pyexn, unit) pyop"
  d_getAutoCommit :: "('j, pyexn, bool) pyop"
  d_commit :: "('j, pyexn, unit) pyop"
  d_rollback :: "('j, pyexn, unit) pyop"
  d_getIsolation :: "('j, pyexn, int) pyop"
  d_setIsolation :: "int \<Rightarrow> ('j, pyexn, unit) pyop"
  d_supportsBatch :: "('j, pyexn, bool) pyop"
  d_typeInfo :: "('j, pyexn, (string \<times> int) list) pyop"
  d_prepareStatement :: "string \<Rightarrow> bool \<Rightarrow> ('j, pyexn, nat) pyop"
  d_prepareCall :: "string \<Rightarrow> ('j, pyexn, nat) pyop"
  d_parameters :: "nat \<Rightarrow> ('j, pyexn, parameter_meta list) pyop"
  d_matches :: "string \<Rightarrow> nat \<Rightarrow> nat \<Rightarrow> pyval \<Rightarrow> ('j, pyexn, bool) pyop"
  d_set :: "string \<Rightarrow> nat \<Rightarrow> nat \<Rightarrow> pyval \<Rightarrow> ('j, pyexn, unit) pyop"
  d_execute :: "nat \<Rightarrow> ('j, pyexn, bool) pyop"
  d_getResultSet :: "nat \<Rightarrow> ('j, pyexn, nat) pyop"
  d_getUpdateCount :: "nat \<Rightarrow> ('j, pyexn, int) pyop"
  d_getMoreResults :: "nat \<Rightarrow> ('j, pyexn, bool) pyop"
  d_addBatch :: "nat \<Rightarrow> ('j, pyexn, unit) pyop"
  d_executeBatch :: "nat \<Rightarrow> ('j, pyexn, int list) pyop"
  d_generatedKeys :: "nat \<Rightarrow> ('j, pyexn, int list option) pyop"
  d_closeStatement :: "nat \<Rightarrow> ('j, pyexn, unit) pyop"
  d_columns :: "nat \<Rightarrow> ('j, pyexn, column list) pyop"
  d_next :: "nat \<Rightarrow> ('j, pyexn, bool) pyop"
  d_get :: "bool \<Rightarrow> string \<Rightarrow> nat \<Rightarrow> nat \<Rightarrow> ('j, pyexn, pyval) pyop"
  d_wasNull :: "bool \<Rightarrow> nat \<Rightarrow> ('j, pyexn, bool) pyop"
  d_setFetchSize :: "nat \<Rightarrow> int \<Rightarrow> ('j, pyexn, unit) pyop"
  d_closeResultSet :: "nat \<Rightarrow> ('j, pyexn, unit) pyop"
  d_api :: jdbc_api

definition is_java :: "pyexn \<Rightarrow> bool" where
  "is_java e = exn_isa (exn_kind e) JException"

text \<open>\<open>ex.message()\<close>: only the wrapper of a Java throwable has the method.\<close>

definition message_of :: "pyexn \<Rightarrow> pyexn + string" where
  "message_of e = (if is_java e then Inr (exn_msg e) else Inl (Exn AttributeError ''message''))"

text \<open>\<open>raise X(ex.message()) from ex\<close>.\<close>

definition raise_with_message :: "exn_class \<Rightarrow> pyexn \<Rightarrow> ('s, pyexn, 'a) pyop" where
  "raise_with_message c e = (case message_of e of Inl e' \<Rightarrow> throw e' | Inr m \<Rightarrow> throw (Exn c m))"

definition quoted :: "string \<Rightarrow> string" where
  "quoted s = [CHR 0x27] @ s @ [CHR 0x27]"

definition name_str :: "string option \<Rightarrow> string" where
  "name_str n = (case n of None \<Rightarrow> ''None'' | Some s \<Rightarrow> s)"

section \<open>Reading and writing a typed value\<close>

definition getter_of :: "jdbc_type \<Rightarrow> string" where
  "getter_of t = (case jt_getter t of None \<Rightarrow> ''getObject'' | Some g \<Rightarrow> g)"

definition setter_of :: "jdbc_type \<Rightarrow> string" where
  "setter_of t = (case jt_setter t of None \<Rightarrow> ''setObject'' | Some s \<Rightarrow> s)"

text \<open>
  The call of the bound getter. On a callable statement (\<open>st\<close>) the interface may
  lack the getter, and then \<open>None\<close> is called.
\<close>

definition call_getter :: "'j driver \<Rightarrow> jdbc_type \<Rightarrow> bool \<Rightarrow> nat \<Rightarrow> nat \<Rightarrow> ('j, pyexn, pyval) pyop" where
  "call_getter d t st h col =
     (if st \<and> getter_of t \<notin> set (cs_methods (d_api d))
      then throw (Exn TypeError ''NoneType object is not callable'')
      else d_get d st (getter_of t) h col)"

definition unable_to_get :: "jdbc_type \<Rightarrow> pyexn" where
  "unable_to_get t = Exn InterfaceError
     (''Unable to get '' @ quoted (name_str (jt_name t)) @ '' using '' @ quoted (getter_of t))"

definition JDBCType_get :: "'j driver \<Rightarrow> jdbc_type \<Rightarrow> bool \<Rightarrow> nat \<Rightarrow> nat \<Rightarrow> ('j, pyexn, pyval) pyop" where
  "JDBCType_get d t st h col =
     except_clause JSQLException (\<lambda>_. throw (unable_to_get t)) (call_getter d t st h col)"

definition JDBCTypePrimitive_get ::
  "'j driver \<Rightarrow> jdbc_type \<Rightarrow> bool \<Rightarrow> nat \<Rightarrow> nat \<Rightarrow> ('j, pyexn, pyval) pyop" where
  "JDBCTypePrimitive_get d t st h col =
     except_clause JSQLException (\<lambda>_. throw (unable_to_get t))
       (pbind (call_getter d t st h col) (\<lambda>rc.
          if is_zero rc
          then pbind (d_wasNull d st h) (\<lambda>n. ret (if n then VNone else rc))
          else ret rc))"

definition type_get :: "'j driver \<Rightarrow> jdbc_type \<Rightarrow> bool \<Rightarrow> nat \<Rightarrow> nat \<Rightarrow> ('j, pyexn, pyval) pyop" where
  "type_get d t st h col =
     (if jt_primitive t then JDBCTypePrimitive_get d t st h col else JDBCType_get d t st h col)"

definition JDBCType_set :: "'j driver \<Rightarrow> jdbc_type \<Rightarrow> nat \<Rightarrow> nat \<Rightarrow> pyval \<Rightarrow> ('j, pyexn, unit) pyop" where
  "JDBCType_set d t ps col value =
     pcatch
       (pbind (d_matches d (setter_of t) ps col value) (\<lambda>ok.
          if ok then d_set d (setter_of t) ps col value
          else d_set d ''setObject'' ps col value))
       (\<lambda>e. if catches TypeError e
            then throw (Exn InterfaceError (''Unable to convert '' @ quoted (class_of value) @
                   '' into '' @ quoted (name_str (jt_name t))))
            else if catches OverflowError e
            then throw (Exn InterfaceError (''Unable to convert '' @ quoted (class_of value) @
                   '' into '' @ quoted (name_str (jt_name t)) @ '' calling '' @ quoted (setter_of t)))
            else throw e)"

lemma type_get_exn:
  "type_get d t st h col j = (Inl e, j') \<Longrightarrow> \<not> catches JSQLException e \<or> exn_kind e = InterfaceError"
  by (auto simp: type_get_def JDBCType_get_def JDBCTypePrimitive_get_def unable_to_get_def pyrun
      split: prod.splits sum.splits if_splits)

lemma InterfaceError_not_SQL [simp]: "\<not> exn_isa InterfaceError JSQLException"
  by (simp add: exn_isa_eval)

lemma JDBCType_set_exn:
  "JDBCType_set d t ps col v j = (Inl e, j') \<Longrightarrow>
     exn_kind e = InterfaceError \<or> (\<not> catches TypeError e \<and> \<not> catches OverflowError e)"
  by (auto simp: JDBCType_set_def pyrun split: prod.splits sum.splits if_splits)

section \<open>The documented behaviour of a driver\<close>

text \<open>
  What the module relies on: a result set is read forwards, row by row, and reading
  the columns of a row does not move it. \<open>left j rs\<close> is the number of rows that
  result set \<open>rs\<close> still has in driver state \<open>j\<close>.
\<close>

definition unmoved :: "('j \<Rightarrow> 'n) \<Rightarrow> ('j, 'e, 'a) pyop \<Rightarrow> bool" where
  "unmoved left m \<longleftrightarrow> (\<forall>j. left (snd (m j)) = left j)"

definition forward_only :: "'j driver \<Rightarrow> ('j \<Rightarrow> nat \<Rightarrow> nat) \<Rightarrow> bool" where
  "forward_only d left \<longleftrightarrow>
     (\<forall>rs j b j'. d_next d rs j = (Inr b, j') \<longrightarrow>
        b = (0 < left j rs) \<and> left j' rs = left j rs - 1) \<and>
     (\<forall>st g rs col. unmoved left (d_get d st g rs col)) \<and>
     (\<forall>st rs. unmoved left (d_wasNull d st rs)) \<and>
     (\<forall>rs n. unmoved left (d_setFetchSize d rs n)) \<and>
     unmoved left (d_isClosed d)"

lemma unmovedD: "unmoved left m \<Longrightarrow> m j = (r, j') \<Longrightarrow> left j' = left j"
  unfolding unmoved_def by (metis snd_conv)

lemma forward_next:
  "forward_only d left \<Longrightarrow> d_next d rs j = (Inr b, j') \<Longrightarrow>
     b = (0 < left j rs) \<and> left j' rs = left j rs - 1"
  unfolding forward_only_def by (elim conjE) blast

lemma forward_unmoved:
  assumes "forward_only d left"
  shows "unmoved left (d_get d st g rs col)" and "unmoved left (d_wasNull d st rs)"
    and "unmoved left (d_setFetchSize d rs n)" and "unmoved left (d_isClosed d)"
  using assms by (simp_all add: forward_only_def)

lemmas forward_get = unmovedD [OF forward_unmoved(1)]
  and forward_wasNull = unmovedD [OF forward_unmoved(2)]
  and forward_setFetchSize = unmovedD [OF forward_unmoved(3)]
  and forward_isClosed = unmovedD [OF forward_unmoved(4)]

lemma call_getter_left:
  "forward_only d left \<Longrightarrow> call_getter d t st h col j = (r, j') \<Longrightarrow> left j' = left j"
  by (auto simp: call_getter_def pyrun split: if_splits dest: forward_get)

lemma except_clause_throw_state:
  "except_clause c (\<lambda>_. throw e) m j = (r, j') \<Longrightarrow> snd (m j) = j'"
  by (auto simp: except_clause_def pyrun split: prod.splits sum.splits if_splits)

lemma type_get_left:
  assumes f: "forward_only d left" and run: "type_get d t st h col j = (r, j')"
  shows "left j' = left j"
proof (cases "jt_primitive t")
  case False
  then have "snd (call_getter d t st h col j) = j'"
    using run by (auto simp: type_get_def JDBCType_get_def dest!: except_clause_throw_state)
  then show ?thesis using call_getter_left [OF f] by (metis surjective_pairing)
next
  case True
  let ?m = "pbind (call_getter d t st h col) (\<lambda>rc.
          if is_zero rc then pbind (d_wasNull d st h) (\<lambda>n. ret (if n then VNone else rc)) else ret rc)"
  have "snd (?m j) = j'"
    using run True by (auto simp: type_get_def JDBCTypePrimitive_get_def dest!: except_clause_throw_state)
  then show ?thesis
    using call_getter_left [OF f, of t st h col j] forward_wasNull [OF f]
    by (auto simp: pyrun split: prod.splits sum.splits if_splits) (metis+)?
qed

text \<open>
  A small driver with these laws, for concrete runs: one connection, one
  one-column result set over a list of values, a journal of the statements.
\<close>

record demo =
  dm_closed :: bool
  dm_auto :: bool
  dm_rows :: "pyval list"
  dm_cur :: pyval
  dm_params :: "parameter_meta list"
  dm_log :: "string list"

definition note_call :: "string \<Rightarrow> (demo, pyexn, unit) pyop" where
  "note_call m = pmod (\<lambda>j. j\<lparr>dm_log := dm_log j @ [m]\<rparr>)"

definition demo_next :: "(demo, pyexn, bool) pyop" where
  "demo_next = (\<lambda>j. case dm_rows j of [] \<Rightarrow> (Inr False, j)
                 | v # vs \<Rightarrow> (Inr True, j\<lparr>dm_rows := vs, dm_cur := v\<rparr>))"

definition demo_driver :: "demo driver" where
  "demo_driver = \<lparr>
     d_isClosed = pget dm_closed,
     d_close = pmod (\<lambda>j. j\<lparr>dm_closed := True\<rparr>),
     d_setAutoCommit = (\<lambda>b. pmod (\<lambda>j. j\<lparr>dm_auto := b\<rparr>)),
     d_getAutoCommit = pget dm_auto,
     d_commit = note_call ''commit'', d_rollback = note_call ''rollback'',
     d_getIsolation = ret 2, d_setIsolation = (\<lambda>_. ret ()),
     d_supportsBatch = ret True, d_typeInfo = ret [],
     d_prepareStatement = (\<lambda>sql _. pseq (note_call sql) (ret 1)),
     d_prepareCall = (\<lambda>sql. pseq (note_call sql) (ret 2)),
     d_parameters = (\<lambda>_. pget dm_params),
     d_matches = (\<lambda>_ _ _ _. ret True), d_set = (\<lambda>s _ _ _. note_call s),
     d_execute = (\<lambda>_. ret True), d_getResultSet = (\<lambda>_. ret 7),
     d_getUpdateCount = (\<lambda>_. ret (- 1)), d_getMoreResults = (\<lambda>_. ret False),
     d_addBatch = (\<lambda>_. note_call ''addBatch''), d_executeBatch = (\<lambda>_. ret [1, 1]),
     d_generatedKeys = (\<lambda>_. ret None), d_closeStatement = (\<lambda>_. note_call ''closeStatement''),
     d_columns = (\<lambda>_. ret [\<lparr>cm_type = 4, cm_typeName = ''INTEGER'', cm_label = ''X'',
        cm_displaySize = 10, cm_precision = 10, cm_scale = 0, cm_nullable = 1\<rparr>]),
     d_next = (\<lambda>_. demo_next), d_get = (\<lambda>_ _ _ _. pget dm_cur), d_wasNull = (\<lambda>_ _. ret False),
     d_setFetchSize = (\<lambda>_ _. ret ()), d_closeResultSet = (\<lambda>_. note_call ''closeResultSet''),
     d_api = \<lparr>rs_methods = [], cs_methods = [], ps_methods = []\<rparr>\<rparr>"

definition demo_left :: "demo \<Rightarrow> nat \<Rightarrow> nat" where
  "demo_left j rs = length (dm_rows j)"

lemma demo_forward_only: "forward_only demo_driver demo_left"
  by (auto simp: forward_only_def unmoved_def demo_driver_def demo_left_def demo_next_def pyrun fun_eq_iff
      split: list.splits)

definition demo_state :: "pyval list \<Rightarrow> demo" where
  "demo_state rows = \<lparr>dm_closed = False, dm_auto = False, dm_rows = rows, dm_cur = VNone, dm_params = [], dm_log = []\<rparr>"

end
