(* ===== verification/DbConnection.thy ===== *)
theory DbConnection
  imports DbDriver
begin

text \<open>
  \<open>dbapi2.connect\<close> and the class \<open>Connection\<close>: construction, the properties with
  their setters, \<open>commit\<close>, \<open>rollback\<close>, \<open>close\<close> and the type information. An
  operation runs on a state that holds the connection object and the driver's
  state; whether the JVM runs is part of it.
\<close>

section \<open>State\<close>

record setter_strategy =
  ss_pick :: "parameter_meta \<Rightarrow> string \<Rightarrow> pyexn + jdbc_type option"
  ss_cachable :: bool

record connection =
  cx_closed :: bool
  cx_batch :: bool
  cx_adapters :: "(string, pyfun) dict"
  cx_converters :: "(string, pyfun) dict"
  cx_getters :: "column_meta \<Rightarrow> pyexn + jdbc_type"
  cx_setters :: setter_strategy

record 'j cx_state =
  jvm_started :: bool
  cx :: connection
  jdb :: 'j

text \<open>A call of the driver.\<close>

definition drv :: "('j, pyexn, 'a) pyop \<Rightarrow> (('j, 'z) cx_state_scheme, pyexn, 'a) pyop" where
  "drv m = (\<lambda>w. case m (jdb w) of (r, j') \<Rightarrow> (r, w\<lparr>jdb := j'\<rparr>))"

lemma drv_run [pyrun]: "drv m w = (case m (jdb w) of (r, j') \<Rightarrow> (r, w\<lparr>jdb := j'\<rparr>))"
  by (simp add: drv_def)

section \<open>Construction\<close>

text \<open>
  A table given to the constructor: the module's \<open>_default\<close> object, \<open>None\<close> or a
  mapping. The setters of the properties also meet objects of other classes.
\<close>

datatype 'a opt_arg = Default | ANone | AMap 'a

datatype 'a mapping_arg = MNone | MMapping 'a | MOther

definition default_converters :: "(pyval \<Rightarrow> pyexn + pyval) \<Rightarrow> pyfun \<Rightarrow> pyfun \<Rightarrow> pyfun \<Rightarrow> pyfun \<Rightarrow> (string, pyfun) dict" where
  "default_converters to_str asPython to_bytes offsetTime offsetDateTime =
    [(''java.lang.String'', to_str), (''java.sql.Date'', asPython), (''java.sql.Time'', asPython),
     (''java.sql.Timestamp'', asPython), (''java.math.BigDecimal'', asPython), (''byte[]'', to_bytes),
     (''NoneType'', Inr), (''java.time.OffsetTime'', offsetTime),
     (''java.time.OffsetDateTime'', offsetDateTime)]"

definition default_adapters :: "pyfun \<Rightarrow> (string, pyfun) dict" where
  "default_adapters big_decimal = [(''decimal.Decimal'', big_decimal)]"

definition table_arg :: "('k, 'v) dict \<Rightarrow> ('k, 'v) dict opt_arg \<Rightarrow> ('k, 'v) dict" where
  "table_arg default_table arg = (case arg of Default \<Rightarrow> default_table | ANone \<Rightarrow> [] | AMap m \<Rightarrow> m)"

text \<open>
  Switching autocommit off; a driver that does not support it says so with an
  \<open>SQLFeatureNotSupportedException\<close>, which is ignored. The handler asks any other
  exception for its Java class, which a Python exception does not have.
\<close>

definition disable_autocommit :: "'j driver \<Rightarrow> ('j, pyexn, unit) pyop" where
  "disable_autocommit d =
     pcatch (d_setAutoCommit d False)
       (\<lambda>e. if \<not> is_java e then throw (Exn AttributeError ''getClass'')
            else if exn_kind e \<noteq> JSQLFeatureNotSupportedException then throw e
            else ret ())"

definition Connection_init ::
  "'j driver \<Rightarrow> (string, pyfun) dict \<Rightarrow> (string, pyfun) dict \<Rightarrow>
   (string, pyfun) dict opt_arg \<Rightarrow> (string, pyfun) dict opt_arg \<Rightarrow>
   setter_strategy \<Rightarrow> (column_meta \<Rightarrow> pyexn + jdbc_type) \<Rightarrow> ('j, pyexn, connection) pyop" where
  "Connection_init d dflt_adapters dflt_converters adapters converters setters getters =
     pseq (disable_autocommit d)
       (pbind (d_supportsBatch d) (\<lambda>batch.
          ret \<lparr>cx_closed = False, cx_batch = batch,
               cx_adapters = table_arg dflt_adapters adapters,
               cx_converters = table_arg dflt_converters converters,
               cx_getters = getters, cx_setters = setters\<rparr>))"

text \<open>
  \<open>connect\<close>: what is passed to \<open>DriverManager.getConnection\<close>, a URL and the
  properties, depends on the class of \<open>driver_args\<close> only.
\<close>

type_synonym properties = "(string, string) dict"

datatype driver_args = ArgsNone | ArgsProperties properties | ArgsMapping "(string \<times> string) list" | ArgsOther

definition set_properties :: "(string \<times> string) list \<Rightarrow> properties" where
  "set_properties kvs = fold (\<lambda>(k, v). dict_set k v) kvs []"

definition connect_request ::
  "string \<Rightarrow> driver_args \<Rightarrow> (string \<times> string) list \<Rightarrow> string option \<times> properties option" where
  "connect_request dsn args kwargs = (case args of
      ArgsProperties props \<Rightarrow> (Some dsn, Some props)
    | ArgsMapping m \<Rightarrow> (Some dsn, Some (set_properties m))
    | ArgsNone \<Rightarrow> (Some dsn, None)
    | ArgsOther \<Rightarrow> (None, Some (set_properties kwargs)))"

definition connect ::
  "'j driver \<Rightarrow> (string \<Rightarrow> ('j, pyexn, unit) pyop) \<Rightarrow>
   (string option \<times> properties option \<Rightarrow> ('j, pyexn, unit) pyop) \<Rightarrow>
   (string, pyfun) dict \<Rightarrow> (string, pyfun) dict \<Rightarrow>
   string \<Rightarrow> string option \<Rightarrow> driver_args \<Rightarrow> (string \<times> string) list \<Rightarrow>
   (string, pyfun) dict opt_arg \<Rightarrow> (string, pyfun) dict opt_arg \<Rightarrow>
   (column_meta \<Rightarrow> pyexn + jdbc_type) \<Rightarrow> setter_strategy \<Rightarrow> ('j, pyexn, connection) pyop" where
  "connect d load_driver getConnection dflt_adapters dflt_converters
      dsn driver_class args kwargs adapters converters getters setters =
     pseq (case driver_class of Some c \<Rightarrow> if c \<noteq> [] then load_driver c else ret () | None \<Rightarrow> ret ())
     (pseq (getConnection (connect_request dsn args kwargs))
       (Connection_init d dflt_adapters dflt_converters adapters converters setters getters))"

section \<open>Properties of a connection object\<close>

definition property_names :: "string list" where
  "property_names = [''adapters'', ''converters'', ''getters'', ''setters'', ''connection'',
     ''autocommit'', ''isolation_level'', ''typeinfo'']"

datatype setattr_outcome = SetProperty | SetField | CannotSet

definition Connection_setattr :: "string \<Rightarrow> setattr_outcome" where
  "Connection_setattr name =
     (if name \<in> set property_names then SetProperty
      else if \<not> startswith name ''_'' then CannotSet
      else SetField)"

definition mapping_required :: pyexn where
  "mapping_required = Exn UnsupportedTypeError ''Mapping is required''"

definition set_adapters :: "(string, pyfun) dict mapping_arg \<Rightarrow> (('j, 'z) cx_state_scheme, pyexn, unit) pyop" where
  "set_adapters v = (case v of
      MNone \<Rightarrow> pmod (\<lambda>w. w\<lparr>cx := (cx w)\<lparr>cx_adapters := []\<rparr>\<rparr>)
    | MMapping m \<Rightarrow> pmod (\<lambda>w. w\<lparr>cx := (cx w)\<lparr>cx_adapters := m\<rparr>\<rparr>)
    | MOther \<Rightarrow> throw mapping_required)"

definition set_converters :: "(string, pyfun) dict mapping_arg \<Rightarrow> (('j, 'z) cx_state_scheme, pyexn, unit) pyop" where
  "set_converters v = (case v of
      MNone \<Rightarrow> pmod (\<lambda>w. w\<lparr>cx := (cx w)\<lparr>cx_converters := []\<rparr>\<rparr>)
    | MMapping m \<Rightarrow> pmod (\<lambda>w. w\<lparr>cx := (cx w)\<lparr>cx_converters := m\<rparr>\<rparr>)
    | MOther \<Rightarrow> throw mapping_required)"

definition set_getters :: "(column_meta \<Rightarrow> pyexn + jdbc_type) \<Rightarrow> (('j, 'z) cx_state_scheme, pyexn, unit) pyop" where
  "set_getters v = pmod (\<lambda>w. w\<lparr>cx := (cx w)\<lparr>cx_getters := v\<rparr>\<rparr>)"

definition set_setters :: "setter_strategy \<Rightarrow> (('j, 'z) cx_state_scheme, pyexn, unit) pyop" where
  "set_setters v = pmod (\<lambda>w. w\<lparr>cx := (cx w)\<lparr>cx_setters := v\<rparr>\<rparr>)"

section \<open>Operations\<close>

definition programming_error :: "string \<Rightarrow> pyexn" where
  "programming_error m = Exn ProgrammingError m"

definition cx_validate :: "'j driver \<Rightarrow> (('j, 'z) cx_state_scheme, pyexn, unit) pyop" where
  "cx_validate d =
     pbind (pget (\<lambda>w. cx_closed (cx w))) (\<lambda>closed.
       if closed then throw (programming_error [])
       else pbind (drv (d_isClosed d)) (\<lambda>c. if c then throw (programming_error []) else ret ()))"

definition cx_shut :: "'j driver \<Rightarrow> (('j, 'z) cx_state_scheme, pyexn, unit) pyop" where
  "cx_shut d =
     pbind (pget (\<lambda>w. cx_closed (cx w) \<or> \<not> jvm_started w)) (\<lambda>skip.
       if skip then ret ()
       else pbind (drv (d_isClosed d)) (\<lambda>c.
         pseq (if c then ret () else drv (d_close d))
           (pmod (\<lambda>w. w\<lparr>cx := (cx w)\<lparr>cx_closed := True\<rparr>\<rparr>))))"

definition cx_exit :: "'j driver \<Rightarrow> (('j, 'z) cx_state_scheme, pyexn, unit) pyop" where
  "cx_exit d = cx_shut d"

definition cx_del :: "'j driver \<Rightarrow> (('j, 'z) cx_state_scheme, pyexn, unit) pyop" where
  "cx_del d = pcatch (cx_shut d) (\<lambda>_. ret ())"

definition cx_close :: "'j driver \<Rightarrow> (('j, 'z) cx_state_scheme, pyexn, unit) pyop" where
  "cx_close d = pseq (cx_validate d) (cx_shut d)"

definition autocommit :: "'j driver \<Rightarrow> (('j, 'z) cx_state_scheme, pyexn, bool) pyop" where
  "autocommit d = pseq (cx_validate d) (drv (d_getAutoCommit d))"

definition set_autocommit :: "'j driver \<Rightarrow> bool \<Rightarrow> (('j, 'z) cx_state_scheme, pyexn, unit) pyop" where
  "set_autocommit d enabled = pseq (cx_validate d) (drv (d_setAutoCommit d enabled))"

definition commit :: "'j driver \<Rightarrow> (('j, 'z) cx_state_scheme, pyexn, unit) pyop" where
  "commit d =
     pseq (cx_validate d)
       (pbind (drv (d_getAutoCommit d)) (\<lambda>auto.
          if auto then throw (Exn NotSupportedError ''Autocommit is enabled'')
          else pcatch (drv (d_commit d)) (raise_with_message OperationalError)))"

text \<open>The second argument of the error \<open>rollback\<close> raises is the \<open>autocommit\<close> property.\<close>

definition rollback :: "'j driver \<Rightarrow> (('j, 'z) cx_state_scheme, pyexn, unit) pyop" where
  "rollback d =
     pseq (cx_validate d)
       (pbind (drv (d_getAutoCommit d)) (\<lambda>auto.
          if auto then pbind (autocommit d) (\<lambda>_. throw (Exn NotSupportedError ''Autocommit is enabled''))
          else pcatch (drv (d_rollback d)) (raise_with_message OperationalError)))"

definition isolation_level :: "'j driver \<Rightarrow> (('j, 'z) cx_state_scheme, pyexn, int) pyop" where
  "isolation_level d = pseq (cx_validate d) (drv (d_getIsolation d))"

definition set_isolation_level :: "'j driver \<Rightarrow> int \<Rightarrow> (('j, 'z) cx_state_scheme, pyexn, unit) pyop" where
  "set_isolation_level d level =
     pseq (cx_validate d)
       (except_clause JSQLException (raise_with_message NotSupportedError) (drv (d_setIsolation d level)))"

fun typeinfo_rows ::
  "type_tables \<Rightarrow> (string \<times> int) list \<Rightarrow> (string, jdbc_type) dict \<Rightarrow> pyexn + (string, jdbc_type) dict" where
  "typeinfo_rows tt [] out = Inr out"
| "typeinfo_rows tt ((key, data_type) # rows) out =
     (case registry_lookup tt data_type of
        Inr t \<Rightarrow> typeinfo_rows tt rows (dict_set key t out)
      | Inl e \<Rightarrow> Inl (if catches KeyError e
                     then Exn DatabaseError (''Unknown data type '' @ quoted key) else e))"

definition typeinfo ::
  "'j driver \<Rightarrow> type_tables \<Rightarrow> (('j, 'z) cx_state_scheme, pyexn, (string, jdbc_type) dict) pyop" where
  "typeinfo d tt =
     pseq (cx_validate d)
       (pbind (drv (d_typeInfo d)) (\<lambda>rows. plift (typeinfo_rows tt rows [])))"

section \<open>The closing contract\<close>

text \<open>
  A connection and a cursor promise the same: once closed, whatever validates first
  raises \<open>ProgrammingError\<close>, and shutting it down again does nothing. \<open>strip\<close> is
  what an operation refused on a closed object may not touch.
\<close>

locale closable =
  fixes validate :: "('w, pyexn, unit) pyop"
    and shut :: "('w, pyexn, unit) pyop"
    and closed :: "'w \<Rightarrow> bool"
    and started :: "'w \<Rightarrow> bool"
  assumes validate_closed: "closed w \<Longrightarrow> \<exists>m. validate w = (Inl (Exn ProgrammingError m), w)"
    and shut_closed: "closed w \<Longrightarrow> shut w = (Inr (), w)"
    and shut_stopped: "\<not> started w \<Longrightarrow> shut w = (Inr (), w)"
    and shut_closes: "started w \<Longrightarrow> shut w = (Inr (), w') \<Longrightarrow> closed w'"
begin

lemma guarded_closed: "closed w \<Longrightarrow> \<exists>m. pseq validate n w = (Inl (Exn ProgrammingError m), w)"
  using validate_closed [of w] by (auto simp: pyrun)

lemma close_closes: "started w \<Longrightarrow> pseq validate shut w = (Inr (), w') \<Longrightarrow>
    (\<And>u. validate w = (Inr (), u) \<Longrightarrow> started u) \<Longrightarrow> closed w'"
  by (cases "validate w") (auto simp: pyrun split: sum.splits dest: shut_closes)

lemma close_twice:
  "closed w \<Longrightarrow> \<exists>m. pseq validate shut w = (Inl (Exn ProgrammingError m), w)"
  by (rule guarded_closed)

lemma shut_again: "started w \<Longrightarrow> shut w = (Inr (), w') \<Longrightarrow> shut w' = (Inr (), w')"
  using shut_closes shut_closed by blast

end

interpretation conn: closable "cx_validate d" "cx_shut d" "\<lambda>w. cx_closed (cx w)" jvm_started for d
proof unfold_locales
  fix w w' :: "('a, 'b) cx_state_scheme"
  show "cx_closed (cx w) \<Longrightarrow> \<exists>m. cx_validate d w = (Inl (Exn ProgrammingError m), w)"
    by (auto simp: cx_validate_def programming_error_def pyrun)
  show "cx_closed (cx w) \<Longrightarrow> cx_shut d w = (Inr (), w)"
    by (auto simp: cx_shut_def pyrun)
  show "\<not> jvm_started w \<Longrightarrow> cx_shut d w = (Inr (), w)"
    by (auto simp: cx_shut_def pyrun)
  show "jvm_started w \<Longrightarrow> cx_shut d w = (Inr (), w') \<Longrightarrow> cx_closed (cx w')"
    by (auto simp: cx_shut_def pyrun split: prod.splits sum.splits if_splits)
qed

text \<open>The operations of a connection, as the calls a program can make.\<close>

datatype cx_call = CxClose | CxCommit | CxRollback | CxAutocommit | CxSetAutocommit bool
  | CxIsolation | CxSetIsolation int | CxTypeinfo

definition discard :: "('s, 'e, 'a) pyop \<Rightarrow> ('s, 'e, unit) pyop" where
  "discard m = pseq m (ret ())"

definition cx_run :: "'j driver \<Rightarrow> type_tables \<Rightarrow> cx_call \<Rightarrow> (('j, 'z) cx_state_scheme, pyexn, unit) pyop" where
  "cx_run d tt c = (case c of
      CxClose \<Rightarrow> cx_close d
    | CxCommit \<Rightarrow> commit d
    | CxRollback \<Rightarrow> rollback d
    | CxAutocommit \<Rightarrow> discard (autocommit d)
    | CxSetAutocommit b \<Rightarrow> set_autocommit d b
    | CxIsolation \<Rightarrow> discard (isolation_level d)
    | CxSetIsolation l \<Rightarrow> set_isolation_level d l
    | CxTypeinfo \<Rightarrow> discard (typeinfo d tt))"

lemma discard_pseq: "discard (pseq m n) = pseq m (discard n)"
  by (simp add: discard_def pseq_def pbind_assoc)

lemmas cx_call_defs = cx_close_def commit_def rollback_def autocommit_def set_autocommit_def
  isolation_level_def set_isolation_level_def typeinfo_def discard_pseq

lemma cx_run_guarded: "\<exists>n. cx_run d tt c = pseq (cx_validate d) n"
  by (cases c) (auto simp: cx_run_def cx_call_defs)

section \<open>Properties of a connection\<close>

text \<open>On a closed connection every operation of the database raises
  \<open>ProgrammingError\<close>, reaches no driver method and leaves the state as it was, and
  leaving the \<open>with\<close> block or collecting the object does nothing.\<close>
theorem closed_connection_refuses:
  assumes "cx_closed (cx w)"
  shows "(\<exists>m. cx_run d tt c w = (Inl (Exn ProgrammingError m), w)) \<and>
         cx_exit d w = (Inr (), w) \<and> cx_del d w = (Inr (), w)"
proof -
  obtain n where n: "cx_run d tt c w = pseq (cx_validate d) n w" using cx_run_guarded by metis
  have "\<exists>m. cx_run d tt c w = (Inl (Exn ProgrammingError m), w)"
    unfolding n by (rule conn.guarded_closed [OF assms])
  moreover have "cx_exit d w = (Inr (), w) \<and> cx_del d w = (Inr (), w)"
    using assms by (simp add: cx_exit_def cx_del_def conn.shut_closed pyrun)
  ultimately show ?thesis by blast
qed

definition demo_connection :: connection where
  "demo_connection = \<lparr>cx_closed = False, cx_batch = True, cx_adapters = [], cx_converters = [],
     cx_getters = (\<lambda>_. Inr INTEGER), cx_setters = \<lparr>ss_pick = (\<lambda>_ _. Inr (Some INTEGER)), ss_cachable = False\<rparr>\<rparr>"

definition demo_cx :: "pyval list \<Rightarrow> demo cx_state" where
  "demo_cx rows = \<lparr>jvm_started = True, cx = demo_connection, jdb = demo_state rows\<rparr>"

lemma closed_connection_refuses_witness:
  "\<exists>m. cx_run demo_driver empty_tables CxCommit ((demo_cx [])\<lparr>cx := demo_connection\<lparr>cx_closed := True\<rparr>\<rparr>) =
     (Inl (Exn ProgrammingError m), (demo_cx [])\<lparr>cx := demo_connection\<lparr>cx_closed := True\<rparr>\<rparr>)"
  using closed_connection_refuses [of "(demo_cx [])\<lparr>cx := demo_connection\<lparr>cx_closed := True\<rparr>\<rparr>" demo_driver empty_tables CxCommit]
  by simp

text \<open>A successful \<open>close\<close> on a running JVM really closes the connection: it was
  open before, the flag is set, and a driver connection the driver reports open has had
  its \<open>close\<close> called. A second \<open>close\<close> raises \<open>ProgrammingError\<close>.\<close>
theorem close_connection_once:
  assumes "jvm_started w" and "cx_close d w = (Inr (), w')"
  shows "\<not> cx_closed (cx w) \<and> cx_closed (cx w') \<and>
    (\<exists>j1 j2. d_isClosed d (jdb w) = (Inr False, j1) \<and>
       ((\<exists>j3. d_isClosed d j1 = (Inr False, j2) \<and> d_close d j2 = (Inr (), j3) \<and> jdb w' = j3) \<or>
        (d_isClosed d j1 = (Inr True, j2) \<and> jdb w' = j2))) \<and>
    (\<exists>m. cx_close d w' = (Inl (Exn ProgrammingError m), w'))"
proof -
  have "\<not> cx_closed (cx w)"
    using assms conn.guarded_closed [of w d "cx_shut d"] by (auto simp: cx_close_def)
  moreover from this have "cx_closed (cx w') \<and> (\<exists>j1 j2. d_isClosed d (jdb w) = (Inr False, j1) \<and>
       ((\<exists>j3. d_isClosed d j1 = (Inr False, j2) \<and> d_close d j2 = (Inr (), j3) \<and> jdb w' = j3) \<or>
        (d_isClosed d j1 = (Inr True, j2) \<and> jdb w' = j2)))"
    using assms
    by (auto simp: cx_close_def cx_validate_def cx_shut_def pyrun split: prod.splits sum.splits if_splits)
  moreover from this have "\<exists>m. cx_close d w' = (Inl (Exn ProgrammingError m), w')"
    by (simp add: cx_close_def conn.guarded_closed)
  ultimately show ?thesis by blast
qed

lemma close_connection_once_witness:
  "\<exists>w'. cx_close demo_driver (demo_cx []) = (Inr (), w') \<and> cx_closed (cx w')"
proof -
  obtain w' where "cx_close demo_driver (demo_cx []) = (Inr (), w')"
    by (simp add: cx_close_def cx_validate_def cx_shut_def demo_cx_def demo_connection_def
        demo_driver_def demo_state_def pyrun)
  with close_connection_once [of "demo_cx []" demo_driver w'] show ?thesis
    by (simp add: demo_cx_def)
qed

text \<open>What a transaction operation does on an open connection, on every branch.\<close>

definition transaction_outcome ::
  "'j driver \<Rightarrow> ('j, pyexn, unit) pyop \<Rightarrow> bool \<Rightarrow> 'j \<Rightarrow> (pyexn + unit) \<times> 'j" where
  "transaction_outcome d m auto j =
     (if auto then (Inl (Exn NotSupportedError ''Autocommit is enabled''), j)
      else (case m j of
          (Inr u, j') \<Rightarrow> (Inr u, j')
        | (Inl e, j') \<Rightarrow> (Inl (if is_java e then Exn OperationalError (exn_msg e)
                              else Exn AttributeError ''message''), j')))"

lemma raise_with_message_run:
  "raise_with_message c e w =
     (Inl (if is_java e then Exn c (exn_msg e) else Exn AttributeError ''message''), w)"
  by (simp add: raise_with_message_def message_of_def pyrun)

text \<open>\<open>commit\<close> on an open connection never reaches the driver's \<open>commit\<close> while
  autocommit is on (\<open>NotSupportedError\<close>); otherwise it is the driver's \<open>commit\<close>, a
  Java failure reported as \<open>OperationalError\<close> with the Java message.\<close>
theorem commit_outcome:
  assumes "\<not> cx_closed (cx w)" and "d_isClosed d (jdb w) = (Inr False, j1)"
    and "d_getAutoCommit d j1 = (Inr auto, j2)"
  shows "commit d w = (case transaction_outcome d (d_commit d) auto j2 of (r, j) \<Rightarrow> (r, w\<lparr>jdb := j\<rparr>))"
  using assms
  by (simp add: commit_def cx_validate_def transaction_outcome_def raise_with_message_run pyrun
      split: prod.split sum.split)

lemma commit_outcome_witness:
  "commit demo_driver (demo_cx []) = (Inr (), (demo_cx [])\<lparr>jdb := (demo_state [])\<lparr>dm_log := [''commit'']\<rparr>\<rparr>)"
  by (subst commit_outcome [where ?j1.0 = "demo_state []" and ?j2.0 = "demo_state []" and auto = False])
     (simp_all add: demo_cx_def demo_connection_def demo_driver_def demo_state_def note_call_def
      transaction_outcome_def pyrun)

text \<open>\<open>rollback\<close> has the same outcomes as \<open>commit\<close>, with the driver's \<open>rollback\<close>,
  when the driver answers its two queries and asking again under autocommit (the
  error carries the value of the property) succeeds.\<close>
theorem rollback_outcome:
  assumes "\<not> cx_closed (cx w)" and "d_isClosed d (jdb w) = (Inr False, j1)"
    and "d_getAutoCommit d j1 = (Inr auto, j2)"
    and "auto \<Longrightarrow> d_isClosed d j2 = (Inr False, j3) \<and> d_getAutoCommit d j3 = (Inr again, j4)"
  shows "rollback d w = (case transaction_outcome d (d_rollback d) auto (if auto then j4 else j2) of
           (r, j) \<Rightarrow> (r, w\<lparr>jdb := j\<rparr>))"
  using assms
  by (simp add: rollback_def autocommit_def cx_validate_def transaction_outcome_def
      raise_with_message_run pyrun split: prod.split sum.split)

lemma rollback_outcome_witness:
  "rollback demo_driver (demo_cx []) = (Inr (), (demo_cx [])\<lparr>jdb := (demo_state [])\<lparr>dm_log := [''rollback'']\<rparr>\<rparr>)"
  by (subst rollback_outcome [where ?j1.0 = "demo_state []" and ?j2.0 = "demo_state []" and auto = False])
     (simp_all add: demo_cx_def demo_connection_def demo_driver_def demo_state_def note_call_def
      transaction_outcome_def pyrun)

text \<open>The keyword arguments reach the driver only for a \<open>driver_args\<close> that is
  neither a mapping nor \<open>Properties\<close> nor \<open>None\<close>, and in that case the data source
  name does not; every other call passes the name and ignores them.\<close>
theorem connect_kwargs_use:
  "(args \<noteq> ArgsOther \<longrightarrow>
      connect d load getC da dc dsn drvc args kwargs a c g s =
      connect d load getC da dc dsn drvc args [] a c g s \<and>
      fst (connect_request dsn args kwargs) = Some dsn) \<and>
   fst (connect_request dsn ArgsOther kwargs) = None"
  by (cases args) (auto simp: connect_def connect_request_def)

lemma connect_kwargs_use_witness:
  "fst (connect_request ''jdbc:x'' ArgsNone [(''user'', ''sa'')]) = Some ''jdbc:x''"
  using connect_kwargs_use [of ArgsNone demo_driver "\<lambda>_. ret ()" "\<lambda>_. ret ()" "[]" "[]" "''jdbc:x''" None
      "[(''user'', ''sa'')]" Default Default "\<lambda>_. Inr INTEGER" "cx_setters demo_connection"] by simp

text \<open>A connection object starts open, with autocommit switched off or with a
  driver that does not support switching it, and with the tables the arguments ask for.
  Any other Java exception of the switch reaches the caller.\<close>
theorem Connection_init_outcome:
  assumes "Connection_init d da dc a c s g j = (r, j')"
  shows "(\<forall>x. r = Inr x \<longrightarrow> \<not> cx_closed x \<and>
            cx_adapters x = (case a of Default \<Rightarrow> da | ANone \<Rightarrow> [] | AMap m \<Rightarrow> m) \<and>
            cx_converters x = (case c of Default \<Rightarrow> dc | ANone \<Rightarrow> [] | AMap m \<Rightarrow> m) \<and>
            (\<exists>j1. (d_setAutoCommit d False j = (Inr (), j1) \<or>
                   (\<exists>e. d_setAutoCommit d False j = (Inl e, j1) \<and>
                        exn_kind e = JSQLFeatureNotSupportedException)) \<and>
                  d_supportsBatch d j1 = (Inr (cx_batch x), j'))) \<and>
         (\<forall>e. d_setAutoCommit d False j = (Inl e, j') \<and> is_java e \<and>
              exn_kind e \<noteq> JSQLFeatureNotSupportedException \<longrightarrow> r = Inl e)"
  using assms
  by (auto simp: Connection_init_def disable_autocommit_def table_arg_def pyrun
      split: prod.splits sum.splits if_splits)

lemma Connection_init_outcome_witness:
  "\<exists>x. fst (Connection_init demo_driver [] [] Default ANone (cx_setters demo_connection)
      (\<lambda>_. Inr INTEGER) (demo_state [])) = Inr x \<and> \<not> cx_closed x"
proof -
  obtain x j' where x: "Connection_init demo_driver [] [] Default ANone (cx_setters demo_connection)
      (\<lambda>_. Inr INTEGER) (demo_state []) = (Inr x, j')"
    by (simp add: Connection_init_def disable_autocommit_def demo_driver_def demo_state_def pyrun)
  from Connection_init_outcome [OF x] x show ?thesis by simp
qed

text \<open>\<open>connection.typeinfo\<close> returns a dictionary that maps each type name the
  driver reports to the registered JDBC type of its last row; a code the module does not
  register is the error \<open>DatabaseError\<close>, and no \<open>KeyError\<close> escapes.\<close>
theorem typeinfo_rows_outcome:
  "(\<forall>out'. typeinfo_rows tt rows out = Inr out' \<longrightarrow>
      (\<forall>k. dict_get out' k = (case map_of (rev rows) k of
          None \<Rightarrow> dict_get out k
        | Some code \<Rightarrow> (case registry_lookup tt code of Inr t \<Rightarrow> Some t | Inl _ \<Rightarrow> None)))) \<and>
   (\<forall>e. typeinfo_rows tt rows out = Inl e \<longrightarrow>
      exn_kind e = DatabaseError \<and> (\<exists>k code. (k, code) \<in> set rows \<and> (\<exists>e'. registry_lookup tt code = Inl e')))"
proof (induction rows arbitrary: out)
  case Nil
  then show ?case by simp
next
  case (Cons row rows)
  obtain k code where row: "row = (k, code)" by (cases row)
  show ?case
  proof (cases "registry_lookup tt code")
    case (Inl e)
    then have "catches KeyError e"
      by (auto simp: registry_lookup_def key_error_def catches_def exn_isa_eval split: option.splits)
    with Inl row show ?thesis by (auto simp: exn_isa_eval)
  next
    case (Inr t)
    have "map_of (rev rows @ [(k, code)]) k' =
        (case map_of (rev rows) k' of None \<Rightarrow> if k' = k then Some code else None | Some c \<Rightarrow> Some c)" for k'
      by (auto simp: map_add_def split: option.splits)
    with Cons.IH [of "dict_set k t out"] Inr row show ?thesis
      by (auto simp: dict_simps split: option.splits) blast+
  qed
qed

lemma typeinfo_rows_outcome_witness:
  "\<exists>e. typeinfo_rows empty_tables [(''INT'', 4)] [] = Inl e \<and> exn_kind e = DatabaseError"
proof -
  obtain e where e: "typeinfo_rows empty_tables [(''INT'', 4)] [] = Inl e"
    by (simp add: registry_lookup_def empty_tables_def)
  with typeinfo_rows_outcome [of empty_tables "[(''INT'', 4)]" "[]"] show ?thesis by simp
qed

end
