(* ===== verification/DbCursor.thy ===== *)
theory DbCursor
  imports DbConnection
begin

text \<open>
  The class \<open>Cursor\<close> of \<open>dbapi2.py\<close>: preparing and executing statements, binding
  parameters, fetching rows, result sets and the cursor's own properties. The state
  extends that of the connection by the cursor object and the identity of the running
  thread. A loop that a driver could keep going for ever (\<open>fetchall\<close>) takes fuel and
  says whether it ran out.
\<close>

section \<open>State\<close>

datatype last_row_id = LastNone | LastOne int | LastMany "int list"

type_synonym column_description = "string \<times> string \<times> int \<times> int \<times> int \<times> int \<times> int"

record cursor =
  cu_resultSet :: "nat option"
  cu_meta :: "column list"
  cu_count :: nat
  cu_statement :: "nat option"
  cu_rowcount :: int
  cu_arraysize :: int
  cu_description :: "column_description list option"
  cu_closed :: bool
  cu_thread :: nat
  cu_last :: last_row_id
  cu_parameterTypes :: "jdbc_type option list option"
  cu_columnTypes :: "jdbc_type list option"
  cu_saved_converters :: "(string, pyfun) dict option"
  cu_saved_adapters :: "(string, pyfun) dict option"
  cu_saved_getters :: "(column_meta \<Rightarrow> pyexn + jdbc_type) option"
  cu_saved_setters :: "setter_strategy option"

record 'j cu_state = "'j cx_state" +
  cu :: cursor
  get_ident :: nat

type_synonym ('j, 'a) cu_op = "('j cu_state, pyexn, 'a) pyop"

definition upd_cu :: "(cursor \<Rightarrow> cursor) \<Rightarrow> ('j, unit) cu_op" where
  "upd_cu f = pmod (\<lambda>w. w\<lparr>cu := f (cu w)\<rparr>)"

lemma upd_cu_run [pyrun]: "upd_cu f w = (Inr (), w\<lparr>cu := f (cu w)\<rparr>)"
  by (simp add: upd_cu_def pyrun)

definition Cursor_init :: "nat \<Rightarrow> cursor" where
  "Cursor_init ident = \<lparr>cu_resultSet = None, cu_meta = [], cu_count = 0, cu_statement = None,
     cu_rowcount = - 1, cu_arraysize = 1, cu_description = None, cu_closed = False, cu_thread = ident,
     cu_last = LastNone, cu_parameterTypes = None, cu_columnTypes = None,
     cu_saved_converters = None, cu_saved_adapters = None, cu_saved_getters = None, cu_saved_setters = None\<rparr>"

definition cx_cursor :: "'j driver \<Rightarrow> ('j, unit) cu_op" where
  "cx_cursor d = pseq (cx_validate d) (pmod (\<lambda>w. w\<lparr>cu := Cursor_init (get_ident w)\<rparr>))"

section \<open>Guards, finishing and closing\<close>

definition cu_validate :: "'j driver \<Rightarrow> ('j, unit) cu_op" where
  "cu_validate d =
     pbind (pget (\<lambda>w. cu_closed (cu w))) (\<lambda>closed.
     pbind (if closed then ret True else drv (d_isClosed d)) (\<lambda>shut.
       if shut then throw (programming_error ''Cursor is closed'')
       else pbind (pget (\<lambda>w. get_ident w \<noteq> cu_thread (cu w))) (\<lambda>other.
         if other then throw (programming_error ''Threading error'') else ret ())))"

definition check_executed :: "'j driver \<Rightarrow> ('j, unit) cu_op" where
  "check_executed d =
     pbind (pget (\<lambda>w. cu_closed (cu w))) (\<lambda>closed.
     pbind (if closed then ret True else drv (d_isClosed d)) (\<lambda>shut.
     pbind (pget (\<lambda>w. (get_ident w \<noteq> cu_thread (cu w), cu_resultSet (cu w)))) (\<lambda>(other, rs).
       if shut \<or> other then throw (programming_error ''Cursor is closed'')
       else if rs = None then throw (programming_error ''execute() first'')
       else ret ())))"

definition finish :: "'j driver \<Rightarrow> ('j, unit) cu_op" where
  "finish d =
     pseq (pbind (pget (\<lambda>w. cu_resultSet (cu w))) (\<lambda>rs. case rs of None \<Rightarrow> ret ()
        | Some h \<Rightarrow> pseq (drv (d_closeResultSet d h)) (upd_cu (\<lambda>c. c\<lparr>cu_resultSet := None\<rparr>))))
     (pseq (pbind (pget (\<lambda>w. cu_statement (cu w))) (\<lambda>st. case st of None \<Rightarrow> ret ()
        | Some h \<Rightarrow> pseq (drv (d_closeStatement d h)) (upd_cu (\<lambda>c. c\<lparr>cu_statement := None\<rparr>))))
       (upd_cu (\<lambda>c. c\<lparr>cu_rowcount := - 1, cu_description := None, cu_last := LastNone\<rparr>)))"

definition cu_shut :: "'j driver \<Rightarrow> ('j, unit) cu_op" where
  "cu_shut d =
     pbind (pget (\<lambda>w. cu_closed (cu w) \<or> \<not> jvm_started w)) (\<lambda>skip.
       if skip then ret ()
       else pseq (finish d) (upd_cu (\<lambda>c. c\<lparr>cu_closed := True\<rparr>)))"

definition cu_close :: "'j driver \<Rightarrow> ('j, unit) cu_op" where
  "cu_close d = pseq (cu_validate d) (cu_shut d)"

definition cu_exit :: "'j driver \<Rightarrow> ('j, unit) cu_op" where
  "cu_exit d = cu_shut d"

definition cu_del :: "'j driver \<Rightarrow> ('j, unit) cu_op" where
  "cu_del d = pcatch (cu_shut d) (\<lambda>_. ret ())"

section \<open>Binding parameters\<close>

datatype params_arg = PNone | PStr string | PMapping | PSeq "pyval list" | POther string

definition unsupported :: "string \<Rightarrow> pyexn" where
  "unsupported m = Exn UnsupportedTypeError m"

text \<open>The statement a cursor works on; using it when there is none is an attribute of \<open>None\<close>.\<close>

definition the_statement :: "string \<Rightarrow> ('j, nat) cu_op" where
  "the_statement attr = pbind (pget (\<lambda>w. cu_statement (cu w))) (\<lambda>st. case st of
      None \<Rightarrow> throw (Exn AttributeError attr) | Some h \<Rightarrow> ret h)"

text \<open>
  One parameter. When \<open>shared\<close>, the list \<open>types\<close> is the cursor's own
  \<open>_parameterTypes\<close> (the caller's list, or the cached one) and an entry found is
  stored there at once.
\<close>

definition adapt :: "(string, pyfun) dict \<Rightarrow> pyval \<Rightarrow> pyexn + pyval" where
  "adapt adapters p = (case dict_get adapters (class_of p) of None \<Rightarrow> Inr p | Some a \<Rightarrow> a p)"

definition pick_setter ::
  "bool \<Rightarrow> parameter_meta list \<Rightarrow> nat \<Rightarrow> pyval \<Rightarrow> jdbc_type option list \<Rightarrow> ('j, jdbc_type option list) cu_op" where
  "pick_setter shared meta i p tys =
     (if length tys \<le> i then throw (Exn IndexError ''list index out of range'')
      else if tys ! i \<noteq> None then ret tys
      else pbind (pget (\<lambda>w. cx_setters (cx w))) (\<lambda>setters.
           pbind (plift (ss_pick setters (meta ! i) (class_of p))) (\<lambda>s.
             let tys' = tys[i := s] in
             pseq (if shared then upd_cu (\<lambda>c. c\<lparr>cu_parameterTypes := Some tys'\<rparr>) else ret ())
               (ret tys'))))"

fun bind_params ::
  "'j driver \<Rightarrow> nat \<Rightarrow> bool \<Rightarrow> parameter_meta list \<Rightarrow> nat \<Rightarrow> pyval list \<Rightarrow> jdbc_type option list \<Rightarrow>
   ('j, jdbc_type option list) cu_op" where
  "bind_params d st shared meta i [] tys = ret tys"
| "bind_params d st shared meta i (p # ps) tys =
     pbind (pget (\<lambda>w. cx_adapters (cx w))) (\<lambda>adapters.
     pbind (plift (adapt adapters p)) (\<lambda>q.
     pbind (pick_setter shared meta i q tys) (\<lambda>tys'.
       case tys' ! i of
         None \<Rightarrow> throw (unsupported (''no setter found for '' @ quoted (class_of q)))
       | Some s \<Rightarrow> pseq (drv (JDBCType_set d s st (i + 1) q))
                     (bind_params d st shared meta (i + 1) ps tys'))))"

definition set_params :: "'j driver \<Rightarrow> params_arg \<Rightarrow> ('j, unit) cu_op" where
  "set_params d params = (case params of
      PStr _ \<Rightarrow> throw (unsupported ''parameters must be a sequence of values'')
    | PMapping \<Rightarrow> throw (unsupported ''mapping parameters not supported'')
    | PNone \<Rightarrow> throw (unsupported (quoted ''NoneType'' @ '' parameters not supported''))
    | POther c \<Rightarrow> throw (unsupported (quoted c @ '' parameters not supported''))
    | PSeq ps \<Rightarrow>
        (if ps = [] then ret ()
         else pbind (the_statement ''getParameterMetaData'') (\<lambda>st.
              pbind (drv (d_parameters d st)) (\<lambda>meta.
                if length ps \<noteq> length meta
                then throw (programming_error (''incorrect number of parameters ('' @
                       nat_str (length meta) @ ''!='' @ nat_str (length ps) @ '')''))
                else pbind (pget (\<lambda>w. cu_parameterTypes (cu w))) (\<lambda>own.
                     let shared = (own \<noteq> None \<and> own \<noteq> Some []);
                         tys = (if shared then the own else replicate (length meta) None) in
                     pbind (bind_params d st shared meta 0 ps tys) (\<lambda>tys'.
                     pbind (pget (\<lambda>w. ss_cachable (cx_setters (cx w)))) (\<lambda>cachable.
                       if cachable then upd_cu (\<lambda>c. c\<lparr>cu_parameterTypes := Some tys'\<rparr>)
                       else ret ())))))))"

section \<open>Executing\<close>

definition onResultSet :: "'j driver \<Rightarrow> nat \<Rightarrow> ('j, unit) cu_op" where
  "onResultSet d rs =
     pbind (drv (d_columns d rs)) (\<lambda>meta.
       upd_cu (\<lambda>c. c\<lparr>cu_resultSet := Some rs, cu_meta := meta, cu_count := length meta,
                     cu_columnTypes := None\<rparr>))"

text \<open>\<open>if statement.execute(): onResultSet(...)\<close> and the update count.\<close>

definition run_statement :: "'j driver \<Rightarrow> nat \<Rightarrow> ('j, int) cu_op" where
  "run_statement d st =
     pbind (drv (d_execute d st)) (\<lambda>has.
     pseq (if has then pbind (drv (d_getResultSet d st)) (onResultSet d) else ret ())
     (pbind (drv (d_getUpdateCount d st)) (\<lambda>n.
      pseq (upd_cu (\<lambda>c. c\<lparr>cu_rowcount := n\<rparr>)) (ret n))))"

definition executeone :: "'j driver \<Rightarrow> params_arg \<Rightarrow> ('j, int) cu_op" where
  "executeone d params =
     pseq (set_params d params) (pbind (the_statement ''execute'') (run_statement d))"

text \<open>Preparing; \<open>prep_error\<close> is the message for an SQL exception.\<close>

definition prepare :: "'j driver \<Rightarrow> string \<Rightarrow> bool \<Rightarrow> (pyexn \<Rightarrow> pyexn + string) \<Rightarrow> ('j, unit) cu_op" where
  "prepare d operation keys prep_error =
     pcatch (pbind (drv (d_prepareStatement d operation keys))
              (\<lambda>st. upd_cu (\<lambda>c. c\<lparr>cu_statement := Some st\<rparr>)))
       (\<lambda>e. if catches TypeError e then throw (unsupported (exn_msg e))
            else if catches JSQLException e
            then (case prep_error e of Inl e' \<Rightarrow> throw e' | Inr m \<Rightarrow> throw (programming_error m))
            else throw e)"

definition execute ::
  "'j driver \<Rightarrow> string \<Rightarrow> params_arg \<Rightarrow> jdbc_type option list option \<Rightarrow> bool \<Rightarrow> ('j, unit) cu_op" where
  "execute d operation params tys keys =
     pseq (upd_cu (\<lambda>c. c\<lparr>cu_last := LastNone, cu_parameterTypes := tys\<rparr>))
     (pseq (cu_validate d)
     (pseq (finish d)
        (let params' = (if params = PNone then PSeq [] else params) in
         case params' of
           POther c \<Rightarrow> throw (unsupported (''parameters are of unsupported type '' @ quoted c))
         | _ \<Rightarrow> pseq (prepare d operation keys message_of) (discard (executeone d params')))))"

text \<open>The second argument of \<open>executemany\<close>: an iterable is the list of its items.\<close>

datatype seq_arg = SNone | SSeq "params_arg list" | SOther string

definition settle_rowcount :: "int \<Rightarrow> ('j, unit) cu_op" where
  "settle_rowcount n = upd_cu (\<lambda>c. c\<lparr>cu_rowcount := (if n < 0 then - 1 else n)\<rparr>)"

definition executeBatch :: "'j driver \<Rightarrow> seq_arg \<Rightarrow> ('j, unit) cu_op" where
  "executeBatch d rows =
     pseq (case rows of
         SSeq items \<Rightarrow> pfor items (\<lambda>params. pseq (set_params d params)
             (pbind (the_statement ''addBatch'') (\<lambda>st. drv (d_addBatch d st))))
       | SNone \<Rightarrow> throw (unsupported (quoted ''NoneType'' @ '' is not supported''))
       | SOther c \<Rightarrow> throw (unsupported (quoted c @ '' is not supported'')))
     (pbind (the_statement ''executeBatch'') (\<lambda>st.
      pbind (except_clause JSQLException (raise_with_message ProgrammingError) (drv (d_executeBatch d st)))
        (\<lambda>counts. settle_rowcount (sum_list counts))))"

text \<open>\<open>str(type(x))\<close>.\<close>

definition class_repr :: "string \<Rightarrow> string" where
  "class_repr c = ''<class '' @ quoted c @ ''>''"

definition executeRepeat :: "'j driver \<Rightarrow> seq_arg \<Rightarrow> ('j, unit) cu_op" where
  "executeRepeat d rows =
     (case rows of
         SSeq items \<Rightarrow> pbind (pmapM items (executeone d)) (\<lambda>counts. settle_rowcount (sum_list counts))
       | SNone \<Rightarrow> throw (unsupported (quoted (class_repr ''NoneType'') @ '' is not supported''))
       | SOther c \<Rightarrow> throw (unsupported (quoted (class_repr c) @ '' is not supported'')))"

definition executemany ::
  "'j driver \<Rightarrow> string \<Rightarrow> seq_arg \<Rightarrow> jdbc_type option list option \<Rightarrow> bool \<Rightarrow> ('j, unit) cu_op" where
  "executemany d operation rows tys keys =
     pseq (upd_cu (\<lambda>c. c\<lparr>cu_last := LastNone, cu_parameterTypes := tys\<rparr>))
     (pseq (cu_validate d)
        (let rows' = (if rows = SNone then SSeq [] else rows) in
         pseq (finish d)
         (pseq (prepare d operation keys (\<lambda>_. Inr (''Failed to prepare '' @ quoted operation)))
         (pbind (pget (\<lambda>w. cx_batch (cx w))) (\<lambda>batch.
            if batch then executeBatch d rows' else executeRepeat d rows')))))"

section \<open>Stored procedures\<close>

datatype procname_arg = ProcName string | ProcOther string

datatype proc_params = ProcSeq "pyval list" | ProcParamsOther

definition call_query :: "string \<Rightarrow> nat \<Rightarrow> string" where
  "call_query name n =
     ''{CALL '' @ name @ ''('' @ py_join (CHR '','') (replicate n ''?'') @ '')}''"

text \<open>The cursor has no method \<open>registerOutParameter\<close>; the statement has.\<close>

definition no_register :: pyexn where
  "no_register = Exn AttributeError ''Cursor object has no attribute registerOutParameter''"

definition bind_mode :: "'j driver \<Rightarrow> nat \<Rightarrow> int \<Rightarrow> jdbc_type \<Rightarrow> nat \<Rightarrow> pyval \<Rightarrow> ('j, unit) cu_op" where
  "bind_mode d st mode t i p =
     (if mode = 1 then drv (JDBCType_set d t st (i + 1) p)
      else if mode = 2 then pseq (drv (JDBCType_set d t st (i + 1) p)) (throw no_register)
      else if mode = 4 then throw no_register
      else ret ())"

text \<open>The parameters of the procedure, and the type list to fill.\<close>

definition proc_metadata ::
  "'j driver \<Rightarrow> nat \<Rightarrow> jdbc_type option list option \<Rightarrow>
   ('j, parameter_meta list \<times> jdbc_type option list) cu_op" where
  "proc_metadata d st tys = pbind (drv (d_parameters d st)) (\<lambda>meta. case tys of
      None \<Rightarrow> ret (meta, replicate (length meta) None)
    | Some ts \<Rightarrow>
        if length ts \<noteq> length meta
        then throw (programming_error (''expected '' @ quoted (nat_str (length meta)) @
               '' types, got '' @ quoted (nat_str (length ts))))
        else ret (meta, ts))"

fun bind_proc ::
  "'j driver \<Rightarrow> nat \<Rightarrow> pyval list \<Rightarrow> nat \<Rightarrow> parameter_meta list \<Rightarrow> jdbc_type option list \<Rightarrow>
   ('j, jdbc_type option list) cu_op" where
  "bind_proc d st ps i [] tys = ret tys"
| "bind_proc d st ps i (m # ms) tys =
     (if length ps \<le> i then throw (Exn IndexError ''tuple index out of range'')
      else
        pbind (pget (\<lambda>w. cx_adapters (cx w))) (\<lambda>adapters.
        pbind (plift (adapt adapters (ps ! i))) (\<lambda>p.
        pbind (if tys ! i \<noteq> None then ret (tys ! i)
               else pbind (pget (\<lambda>w. cx_setters (cx w))) (\<lambda>setters.
                      plift (ss_pick setters m (class_of p)))) (\<lambda>t.
        case t of
          None \<Rightarrow> throw (unsupported (''no setter found for '' @ quoted (class_of p)))
        | Some jt \<Rightarrow>
            pseq (bind_mode d st (pm_mode m) jt i p)
              (bind_proc d st ps (i + 1) ms (tys[i := (if pm_mode m = 1 then None else Some jt)]))))))"

fun proc_outputs ::
  "'j driver \<Rightarrow> nat \<Rightarrow> nat \<Rightarrow> jdbc_type option list \<Rightarrow> pyval list \<Rightarrow> ('j, pyval list) cu_op" where
  "proc_outputs d st i [] out = ret out"
| "proc_outputs d st i (None # ts) out = proc_outputs d st (i + 1) ts out"
| "proc_outputs d st i (Some t # ts) out =
     pbind (drv (type_get d t True st (i + 1))) (\<lambda>v.
     pbind (pget (\<lambda>w. dict_get (cx_converters (cx w)) (class_of v))) (\<lambda>conv. case conv of
         None \<Rightarrow> throw (Exn KeyError (class_of v))
       | Some f \<Rightarrow> pbind (plift (f v)) (\<lambda>v'. proc_outputs d st (i + 1) ts (out[i := v']))))"

definition callproc_body ::
  "'j driver \<Rightarrow> procname_arg \<Rightarrow> proc_params \<Rightarrow> jdbc_type option list option \<Rightarrow> ('j, pyval list) cu_op" where
  "callproc_body d procname params tys =
     pseq (cu_validate d) (pseq (finish d)
       (case procname of
          ProcOther c \<Rightarrow> throw (unsupported (''procname must be str, not '' @ quoted c))
        | ProcName name \<Rightarrow>
       (case params of
          ProcParamsOther \<Rightarrow> throw (unsupported (''parameters must be sequence, not '' @ quoted ''str''))
        | ProcSeq ps \<Rightarrow>
            pseq (except_clause JSQLException (raise_with_message ProgrammingError)
                   (pbind (drv (d_prepareCall d (call_query name (length ps))))
                      (\<lambda>st. upd_cu (\<lambda>c. c\<lparr>cu_statement := Some st\<rparr>))))
            (pbind (the_statement ''getParameterMetaData'') (\<lambda>st.
             pbind (if ps = [] then ret ([], []) else proc_metadata d st tys) (\<lambda>(meta, ts).
             pbind (bind_proc d st ps 0 meta ts) (\<lambda>ts'.
             pseq (discard (run_statement d st))
               (proc_outputs d st 0 ts' ps))))))))"

text \<open>
  The \<open>except\<close> and \<open>finally\<close> clauses: the tables the connection has are remembered
  in the cursor, where nothing reads them.
\<close>

definition save_on_error :: "('j, unit) cu_op" where
  "save_on_error = pmod (\<lambda>w. w\<lparr>cu := (cu w)\<lparr>cu_saved_converters := Some (cx_converters (cx w)),
     cu_saved_getters := Some (cx_getters (cx w))\<rparr>\<rparr>)"

definition save_finally :: "('j, unit) cu_op" where
  "save_finally = pmod (\<lambda>w. w\<lparr>cu := (cu w)\<lparr>cu_saved_adapters := Some (cx_adapters (cx w)),
     cu_saved_setters := Some (cx_setters (cx w))\<rparr>\<rparr>)"

definition callproc ::
  "'j driver \<Rightarrow> procname_arg \<Rightarrow> proc_params \<Rightarrow> jdbc_type option list option \<Rightarrow> ('j, pyval list) cu_op" where
  "callproc d procname params tys =
     pbind (pcatch (callproc_body d procname params tys)
              (\<lambda>e. pseq save_on_error (pseq save_finally (throw e))))
       (\<lambda>out. pseq save_finally (ret out))"

section \<open>Fetching\<close>

datatype converters_arg = CDefault | CNone | CSeq "pyfun list" | CMap "(string, pyfun) dict"

text \<open>
  The effective converters: the default is the connection's mapping. A sequence is
  applied by position; for a mapping the code looks the class up in the connection's
  table, whatever mapping the caller passed.
\<close>

definition convert ::
  "(string, pyfun) dict \<Rightarrow> converters_arg \<Rightarrow> nat \<Rightarrow> pyval \<Rightarrow> pyexn + pyval" where
  "convert cx_table conv idx v =
     (if v = VNone \<or> conv = CNone then Inr v
      else (case conv of
          CSeq fs \<Rightarrow> (fs ! idx) v
        | _ \<Rightarrow> (case dict_get cx_table (class_of v) of None \<Rightarrow> Inr v | Some f \<Rightarrow> f v)))"

fun fetch_columns ::
  "'j driver \<Rightarrow> nat \<Rightarrow> converters_arg \<Rightarrow> nat \<Rightarrow> jdbc_type list \<Rightarrow> ('j, pyval list) cu_op" where
  "fetch_columns d rs conv idx [] = ret []"
| "fetch_columns d rs conv idx (tp # tps) =
     pbind (drv (type_get d tp False rs (idx + 1))) (\<lambda>value.
     pbind (pget (\<lambda>w. cx_converters (cx w))) (\<lambda>table.
     pbind (plift (convert table conv idx value)) (\<lambda>v.
     pbind (fetch_columns d rs conv (idx + 1) tps) (\<lambda>vs. ret (v # vs)))))"

definition the_resultSet :: "string \<Rightarrow> ('j, nat) cu_op" where
  "the_resultSet attr = pbind (pget (\<lambda>w. cu_resultSet (cu w))) (\<lambda>rs. case rs of
      None \<Rightarrow> throw (Exn AttributeError attr) | Some h \<Rightarrow> ret h)"

definition column_types :: "('j, jdbc_type list) cu_op" where
  "column_types =
     pbind (pget (\<lambda>w. cu_columnTypes (cu w))) (\<lambda>known. case known of
         Some ts \<Rightarrow> ret ts
       | None \<Rightarrow>
           pbind (pget (\<lambda>w. (cx_getters (cx w), cu_meta (cu w)))) (\<lambda>(gk, meta).
           pbind (pmapM meta (\<lambda>c. plift (gk (column_meta.truncate c)))) (\<lambda>ts.
           pseq (upd_cu (\<lambda>c. c\<lparr>cu_columnTypes := Some ts\<rparr>)) (ret ts))))"

definition converters_fit :: "converters_arg \<Rightarrow> nat \<Rightarrow> bool" where
  "converters_fit conv n = (case conv of CSeq fs \<Rightarrow> length fs = n | _ \<Rightarrow> True)"

definition fetchRow :: "'j driver \<Rightarrow> converters_arg \<Rightarrow> ('j, pyval list) cu_op" where
  "fetchRow d conv =
     pbind (pget (\<lambda>w. cu_count (cu w))) (\<lambda>n.
       if \<not> converters_fit conv n then throw (programming_error ''converter list size incorrect'')
       else pbind column_types (\<lambda>ts.
         if length ts \<noteq> n then throw (programming_error ''incorrect number of columns'')
         else except_clause TypeError (\<lambda>e. throw (unsupported (exn_msg e)))
                (pbind (the_resultSet ''get'') (\<lambda>rs. fetch_columns d rs conv 0 ts))))"

definition next_row :: "'j driver \<Rightarrow> ('j, bool) cu_op" where
  "next_row d = pbind (the_resultSet ''next'') (\<lambda>rs. drv (d_next d rs))"

definition use_types :: "jdbc_type list option \<Rightarrow> ('j, unit) cu_op" where
  "use_types tys = (case tys of None \<Rightarrow> ret () | Some ts \<Rightarrow> upd_cu (\<lambda>c. c\<lparr>cu_columnTypes := Some ts\<rparr>))"

definition fetchone ::
  "'j driver \<Rightarrow> jdbc_type list option \<Rightarrow> converters_arg \<Rightarrow> ('j, pyval list option) cu_op" where
  "fetchone d tys conv =
     pseq (check_executed d) (pbind (next_row d) (\<lambda>more.
       if \<not> more then ret None
       else pseq (use_types tys) (pbind (fetchRow d conv) (\<lambda>row. ret (Some row)))))"

text \<open>
  The row loop of the fetch methods, at most \<open>n\<close> times round. The flag says that it
  stopped because of \<open>n\<close>, before the result set was seen to end.
\<close>

fun fetch_rows :: "'j driver \<Rightarrow> converters_arg \<Rightarrow> nat \<Rightarrow> ('j, pyval list list \<times> bool) cu_op" where
  "fetch_rows d conv 0 = ret ([], True)"
| "fetch_rows d conv (Suc n) =
     pbind (next_row d) (\<lambda>more.
       if \<not> more then ret ([], False)
       else pbind (fetchRow d conv) (\<lambda>row.
            pbind (fetch_rows d conv n) (\<lambda>(rows, cut). ret (row # rows, cut))))"

definition set_fetch_size :: "'j driver \<Rightarrow> int \<Rightarrow> ('j, unit) cu_op" where
  "set_fetch_size d n = pbind (the_resultSet ''setFetchSize'') (\<lambda>rs. drv (d_setFetchSize d rs n))"

definition fetchmany ::
  "'j driver \<Rightarrow> int option \<Rightarrow> jdbc_type list option \<Rightarrow> converters_arg \<Rightarrow> ('j, pyval list list) cu_op" where
  "fetchmany d size_arg tys conv =
     pseq (check_executed d)
     (pbind (pget (\<lambda>w. case size_arg of None \<Rightarrow> cu_arraysize (cu w) | Some n \<Rightarrow> n)) (\<lambda>n.
      pseq (set_fetch_size d n)
     (pseq (use_types tys)
     (pbind (fetch_rows d conv (nat n)) (\<lambda>(rows, _).
      pseq (set_fetch_size d 0) (ret rows))))))"

text \<open>\<open>None\<close>: the fuel did not suffice.\<close>

definition fetchall ::
  "nat \<Rightarrow> 'j driver \<Rightarrow> jdbc_type list option \<Rightarrow> converters_arg \<Rightarrow> ('j, pyval list list option) cu_op" where
  "fetchall fuel d tys conv =
     pseq (check_executed d)
     (pseq (use_types tys)
     (pbind (fetch_rows d conv fuel) (\<lambda>(rows, cut). ret (if cut then None else Some rows))))"

text \<open>The generator of \<open>__iter__\<close>, asked for its first \<open>n\<close> items.\<close>

definition cu_iter :: "nat \<Rightarrow> 'j driver \<Rightarrow> ('j, pyval list list \<times> bool) cu_op" where
  "cu_iter n d = pseq (check_executed d) (fetch_rows d CDefault n)"

definition nextset :: "'j driver \<Rightarrow> ('j, bool) cu_op" where
  "nextset d =
     pseq (pbind (the_resultSet ''close'') (\<lambda>rs. drv (d_closeResultSet d rs)))
     (pbind (the_statement ''getMoreResults'') (\<lambda>st.
      pbind (drv (d_getMoreResults d st)) (\<lambda>more.
        if more then pseq (pbind (drv (d_getResultSet d st)) (onResultSet d)) (ret True)
        else pbind (drv (d_getUpdateCount d st)) (\<lambda>n.
             pseq (upd_cu (\<lambda>c. c\<lparr>cu_rowcount := n\<rparr>)) (ret False)))))"

section \<open>Properties of a cursor object\<close>

definition arraysize :: "('j, int) cu_op" where
  "arraysize = pget (\<lambda>w. cu_arraysize (cu w))"

definition set_arraysize :: "int \<Rightarrow> ('j, unit) cu_op" where
  "set_arraysize n = upd_cu (\<lambda>c. c\<lparr>cu_arraysize := n\<rparr>)"

definition rowcount :: "('j, int) cu_op" where
  "rowcount = pget (\<lambda>w. cu_rowcount (cu w))"

definition resultSet :: "('j, nat option) cu_op" where
  "resultSet = pget (\<lambda>w. cu_resultSet (cu w))"

type_synonym parameter_info = "string \<times> jdbc_type \<times> int \<times> int \<times> int \<times> int"

definition parameter_row :: "type_tables \<Rightarrow> parameter_meta \<Rightarrow> pyexn + parameter_info" where
  "parameter_row tt m = (case registry_lookup tt (pm_type m) of
      Inl e \<Rightarrow> Inl e
    | Inr t \<Rightarrow> Inr (pm_typeName m, t, pm_mode m, pm_precision m, pm_scale m, pm_nullable m))"

definition parameters :: "'j driver \<Rightarrow> type_tables \<Rightarrow> ('j, parameter_info list) cu_op" where
  "parameters d tt =
     pbind (pget (\<lambda>w. cu_statement (cu w))) (\<lambda>st. case st of
         None \<Rightarrow> throw (programming_error ''No statement'')
       | Some h \<Rightarrow> pbind (drv (d_parameters d h)) (\<lambda>ms. pmapM ms (\<lambda>m. plift (parameter_row tt m))))"

definition describe :: "column \<Rightarrow> column_description" where
  "describe c = (cm_label c, cm_typeName c, cm_displaySize c, cm_displaySize c, cm_precision c,
     cm_scale c, cm_nullable c)"

definition description :: "'j driver \<Rightarrow> ('j, column_description list option) cu_op" where
  "description d =
     pbind (pget (\<lambda>w. (cu_description (cu w), cu_resultSet (cu w)))) (\<lambda>(known, rs).
       if known \<noteq> None then ret known
       else (case rs of None \<Rightarrow> ret None
        | Some h \<Rightarrow> pbind (drv (d_columns d h)) (\<lambda>meta.
            let desc = map describe meta in
            pseq (upd_cu (\<lambda>c. c\<lparr>cu_description := Some desc\<rparr>)) (ret (Some desc)))))"

definition row_ids :: "int list \<Rightarrow> last_row_id" where
  "row_ids ids = (case ids of [] \<Rightarrow> LastNone | [i] \<Rightarrow> LastOne i | _ \<Rightarrow> LastMany ids)"

definition lastrowid :: "'j driver \<Rightarrow> ('j, last_row_id) cu_op" where
  "lastrowid d =
     pbind (pget (\<lambda>w. cu_last (cu w))) (\<lambda>known.
       if known \<noteq> LastNone then ret known
       else pbind (the_statement ''getGeneratedKeys'') (\<lambda>st.
            pbind (drv (d_generatedKeys d st)) (\<lambda>keys. case keys of
                None \<Rightarrow> ret known
              | Some ids \<Rightarrow>
                  pseq (upd_cu (\<lambda>c. c\<lparr>cu_last := row_ids ids\<rparr>)) (ret (row_ids ids)))))"

definition setinputsizes :: "int list \<Rightarrow> ('j, unit) cu_op" where
  "setinputsizes sizes = ret ()"

definition setoutputsize :: "int \<Rightarrow> int option \<Rightarrow> ('j, unit) cu_op" where
  "setoutputsize n col = ret ()"

section \<open>The cursor invariant\<close>

text \<open>
  A result set belongs to a statement, a closed cursor has neither, and the column
  count is that of the metadata. A cursor that is open with a statement satisfies it
  whatever the result set is.
\<close>

definition cursor_wf :: "'j cu_state \<Rightarrow> bool" where
  "cursor_wf w \<longleftrightarrow>
     (cu_resultSet (cu w) \<noteq> None \<longrightarrow> cu_statement (cu w) \<noteq> None) \<and>
     (cu_closed (cu w) \<longrightarrow> cu_resultSet (cu w) = None \<and> cu_statement (cu w) = None) \<and>
     cu_count (cu w) = length (cu_meta (cu w))"

definition in_statement :: "'j cu_state \<Rightarrow> bool" where
  "in_statement w \<longleftrightarrow> \<not> cu_closed (cu w) \<and> cu_statement (cu w) \<noteq> None \<and>
     cu_count (cu w) = length (cu_meta (cu w))"

definition wf_open :: "'j cu_state \<Rightarrow> bool" where
  "wf_open w \<longleftrightarrow> cursor_wf w \<and> \<not> cu_closed (cu w)"

lemma in_statement_wf_open: "in_statement w \<Longrightarrow> wf_open w"
  by (simp add: in_statement_def wf_open_def cursor_wf_def)

lemma wf_open_wf: "wf_open w \<Longrightarrow> cursor_wf w"
  by (simp add: wf_open_def)

lemma wf_in_statement: "cursor_wf w \<Longrightarrow> cu_resultSet (cu w) = Some rs \<Longrightarrow> in_statement w"
  by (auto simp: in_statement_def cursor_wf_def)

named_theorems cuinv \<open>cursor operations keep an invariant\<close>

lemma drv_keeps: "(\<And>w j. I w \<Longrightarrow> I (w\<lparr>jdb := j\<rparr>)) \<Longrightarrow> keeps I (drv m)"
  by (rule keepsI) (simp add: pyrun split: prod.splits)

lemma drv_wf [cuinv]: "keeps cursor_wf (drv m)"
  by (rule drv_keeps) (simp add: cursor_wf_def)

lemma drv_open [cuinv]: "keeps wf_open (drv m)"
  by (rule drv_keeps) (simp add: wf_open_def cursor_wf_def)

lemma drv_stmt [cuinv]: "keeps in_statement (drv m)"
  by (rule drv_keeps) (simp add: in_statement_def)

text \<open>What every operation after a successful validation may assume.\<close>

lemma validate_wf [cuinv]:
  "triple cursor_wf (cu_validate d) (\<lambda>_. wf_open) (\<lambda>_. cursor_wf)"
  by (auto simp: triple_def cu_validate_def wf_open_def cursor_wf_def pyrun
      split: prod.splits sum.splits if_splits)

lemma check_wf [cuinv]:
  "triple cursor_wf (check_executed d) (\<lambda>_. in_statement) (\<lambda>_. cursor_wf)"
  by (auto simp: triple_def check_executed_def in_statement_def cursor_wf_def pyrun
      split: prod.splits sum.splits if_splits)

lemma finish_open [cuinv]: "keeps wf_open (finish d)"
  by (auto simp: triple_def finish_def wf_open_def cursor_wf_def pyrun
      split: prod.splits sum.splits option.splits)

lemma cu_shut_wf [cuinv]: "keeps cursor_wf (cu_shut d)"
  by (auto simp: triple_def cu_shut_def finish_def cursor_wf_def pyrun
      split: prod.splits sum.splits option.splits if_splits)

lemma keeps_bind: "keeps I m \<Longrightarrow> (\<And>x. keeps I (f x)) \<Longrightarrow> keeps I (pbind m f)"
  by (rule triple_bind)

lemma keeps_seq: "keeps I m \<Longrightarrow> keeps I n \<Longrightarrow> keeps I (pseq m n)"
  by (rule triple_seq)

lemma keeps_catch: "keeps I m \<Longrightarrow> (\<And>e. keeps I (h e)) \<Longrightarrow> keeps I (pcatch m h)"
  by (rule triple_catch)

lemma keeps_except: "keeps I m \<Longrightarrow> (\<And>e. keeps I (h e)) \<Longrightarrow> keeps I (except_clause c h m)"
  by (auto simp: except_clause_def intro!: keeps_catch triple_if triple_throw)

lemma keeps_simple:
  "keeps I (ret x)" "keeps I (throw e)" "keeps I (pget f)" "keeps I (plift r)"
  by (auto intro: pytriple)

lemma upd_cu_stmt:
  "(\<And>c. cu_closed (f c) = cu_closed c) \<Longrightarrow> (\<And>c. cu_statement (f c) = cu_statement c) \<Longrightarrow>
   (\<And>c. cu_count (f c) = cu_count c) \<Longrightarrow> (\<And>c. cu_meta (f c) = cu_meta c) \<Longrightarrow>
   keeps in_statement (upd_cu f)"
  by (rule keepsI) (simp add: in_statement_def pyrun)

lemma discard_keeps: "keeps I m \<Longrightarrow> keeps I (discard m)"
  by (auto simp: discard_def intro: keeps_seq keeps_simple)

lemmas keeps_rules = keeps_bind keeps_seq keeps_except keeps_simple discard_keeps triple_if triple_for triple_mapM

lemma raise_with_message_keeps [cuinv]: "keeps I (raise_with_message c e)"
  by (auto simp: raise_with_message_def intro: keeps_simple split: sum.split)

lemma the_statement_keeps [cuinv]: "keeps I (the_statement a)"
  by (auto simp: the_statement_def intro!: keeps_rules split: option.split)

lemma the_resultSet_keeps [cuinv]: "keeps I (the_resultSet a)"
  by (auto simp: the_resultSet_def intro!: keeps_rules split: option.split)

lemma pick_setter_stmt [cuinv]: "keeps in_statement (pick_setter sh meta i p ts)"
  by (auto simp: pick_setter_def Let_def intro!: keeps_rules upd_cu_stmt)

lemma bind_params_stmt [cuinv]: "keeps in_statement (bind_params d st sh meta i ps ts)"
  by (induction ps arbitrary: i ts) (auto intro!: keeps_rules cuinv split: option.split)

lemma set_params_stmt [cuinv]: "keeps in_statement (set_params d params)"
  by (auto simp: set_params_def Let_def intro!: keeps_rules cuinv upd_cu_stmt split: params_arg.split)

lemma onResultSet_stmt [cuinv]: "keeps in_statement (onResultSet d rs)"
proof -
  have "keeps in_statement (upd_cu (\<lambda>c. c\<lparr>cu_resultSet := Some rs, cu_meta := meta,
      cu_count := length meta, cu_columnTypes := None\<rparr>))" for meta :: "column list"
    by (rule keepsI) (simp add: in_statement_def pyrun)
  then show ?thesis by (auto simp: onResultSet_def intro!: keeps_rules cuinv)
qed

lemma run_statement_stmt [cuinv]: "keeps in_statement (run_statement d st)"
  by (auto simp: run_statement_def intro!: keeps_rules cuinv upd_cu_stmt)

lemma executeone_stmt [cuinv]: "keeps in_statement (executeone d params)"
  by (auto simp: executeone_def intro!: keeps_rules cuinv)

lemma settle_stmt [cuinv]: "keeps in_statement (settle_rowcount n)"
  by (auto simp: settle_rowcount_def intro!: upd_cu_stmt)

lemma executeBatch_stmt [cuinv]: "keeps in_statement (executeBatch d rows)"
  by (auto simp: executeBatch_def intro!: keeps_rules cuinv split: seq_arg.split)

lemma executeRepeat_stmt [cuinv]: "keeps in_statement (executeRepeat d rows)"
  by (auto simp: executeRepeat_def intro!: keeps_rules cuinv split: seq_arg.split)

lemma bind_proc_stmt [cuinv]: "keeps in_statement (bind_proc d st ps i ms ts)"
  by (induction ms arbitrary: i ts)
     (auto simp: bind_mode_def intro!: keeps_rules cuinv split: option.split)

lemma proc_outputs_stmt [cuinv]: "keeps in_statement (proc_outputs d st i ts out)"
  by (induction ts arbitrary: i out rule: list.induct)
     (auto intro!: keeps_rules cuinv split: option.split, case_tac x1, auto intro!: keeps_rules cuinv split: option.split)

lemma fetch_columns_stmt [cuinv]: "keeps in_statement (fetch_columns d rs conv i ts)"
  by (induction ts arbitrary: i) (auto intro!: keeps_rules cuinv)

lemma column_types_stmt [cuinv]: "keeps in_statement column_types"
  by (auto simp: column_types_def intro!: keeps_rules upd_cu_stmt split: option.split)

lemma fetchRow_stmt [cuinv]: "keeps in_statement (fetchRow d conv)"
  by (auto simp: fetchRow_def intro!: keeps_rules cuinv)

lemma next_row_stmt [cuinv]: "keeps in_statement (next_row d)"
  by (auto simp: next_row_def intro!: keeps_rules cuinv)

lemma fetch_rows_stmt [cuinv]: "keeps in_statement (fetch_rows d conv n)"
  by (induction n) (auto intro!: keeps_rules cuinv)

lemma use_types_stmt [cuinv]: "keeps in_statement (use_types ts)"
  by (auto simp: use_types_def intro!: keeps_rules upd_cu_stmt split: option.split)

lemma set_fetch_size_stmt [cuinv]: "keeps in_statement (set_fetch_size d n)"
  by (auto simp: set_fetch_size_def intro!: keeps_rules cuinv)

text \<open>Preparing leads from an open cursor into a statement.\<close>

lemma prepare_wf:
  "triple wf_open (prepare d op keys pe) (\<lambda>_. in_statement) (\<lambda>_. cursor_wf)"
  by (auto simp: triple_def prepare_def wf_open_def cursor_wf_def in_statement_def pyrun
      split: prod.splits sum.splits if_splits)

lemma in_statement_wf: "in_statement w \<Longrightarrow> cursor_wf w"
  by (simp add: in_statement_wf_open wf_open_wf)

lemma stmt_to_wf: "keeps in_statement m \<Longrightarrow> triple in_statement m (\<lambda>_. cursor_wf) (\<lambda>_. cursor_wf)"
  by (erule triple_conseq) (auto intro: in_statement_wf)

lemma open_to_wf: "keeps wf_open m \<Longrightarrow> triple wf_open m (\<lambda>_. wf_open) (\<lambda>_. cursor_wf)"
  by (erule triple_conseq) (auto intro: wf_open_wf)

lemma throw_open_wf: "triple wf_open (throw e) Q (\<lambda>_. cursor_wf)"
  by (rule triple_throw) (rule wf_open_wf)

lemma upd_cu_wf:
  "(\<And>c. cu_closed (f c) = cu_closed c) \<Longrightarrow> (\<And>c. cu_statement (f c) = cu_statement c) \<Longrightarrow>
   (\<And>c. cu_count (f c) = cu_count c) \<Longrightarrow> (\<And>c. cu_meta (f c) = cu_meta c) \<Longrightarrow>
   (\<And>c. cu_resultSet (f c) = cu_resultSet c) \<Longrightarrow> keeps cursor_wf (upd_cu f)"
  by (rule keepsI) (simp add: cursor_wf_def pyrun)

lemma begin_operation_wf:
  assumes "triple wf_open m (\<lambda>_. cursor_wf) (\<lambda>_. cursor_wf)"
  shows "keeps cursor_wf (pseq (cu_validate d) (pseq (finish d) m))"
  by (rule triple_seq, rule validate_wf, rule triple_seq, rule open_to_wf [OF finish_open], rule assms)

lemma reset_wf: "keeps cursor_wf (upd_cu (\<lambda>c. c\<lparr>cu_last := l, cu_parameterTypes := ts\<rparr>))"
  by (rule upd_cu_wf) simp_all

lemma execute_wf [cuinv]: "keeps cursor_wf (execute d op params ts keys)"
proof -
  have run: "triple wf_open (pseq (prepare d op keys message_of) (discard (executeone d p)))
      (\<lambda>_. cursor_wf) (\<lambda>_. cursor_wf)" for p
    by (rule triple_seq [OF prepare_wf], rule stmt_to_wf, rule discard_keeps, rule executeone_stmt)
  show ?thesis
    unfolding execute_def
    by (rule keeps_seq, rule reset_wf, rule begin_operation_wf)
       (auto simp: Let_def intro!: run throw_open_wf split: params_arg.split)
qed

lemma executemany_wf [cuinv]: "keeps cursor_wf (executemany d op rows ts keys)"
proof -
  have "keeps in_statement (pbind (pget (\<lambda>w. cx_batch (cx w)))
      (\<lambda>batch. if batch then executeBatch d r else executeRepeat d r))" for r
    by (auto intro!: keeps_rules cuinv)
  then have run: "triple wf_open (pseq (prepare d op keys pe) (pbind (pget (\<lambda>w. cx_batch (cx w)))
      (\<lambda>batch. if batch then executeBatch d r else executeRepeat d r))) (\<lambda>_. cursor_wf) (\<lambda>_. cursor_wf)" for r pe
    by (rule triple_seq [OF prepare_wf stmt_to_wf])
  show ?thesis
    unfolding executemany_def Let_def
    by (rule keeps_seq, rule reset_wf, rule begin_operation_wf, rule run)
qed

lemma proc_metadata_stmt [cuinv]: "keeps in_statement (proc_metadata d st tys)"
  by (auto simp: proc_metadata_def intro!: keeps_rules cuinv split: option.split)

lemma callproc_body_wf [cuinv]: "keeps cursor_wf (callproc_body d name params ts)"
proof -
  let ?prep = "\<lambda>q. except_clause JSQLException (raise_with_message ProgrammingError)
     (pbind (drv (d_prepareCall d q)) (\<lambda>st. upd_cu (\<lambda>c. c\<lparr>cu_statement := Some st\<rparr>)))"
  have prep: "triple wf_open (?prep q) (\<lambda>_. in_statement) (\<lambda>_. cursor_wf)" for q
    by (auto simp: triple_def except_clause_def raise_with_message_run wf_open_def cursor_wf_def
        in_statement_def pyrun split: prod.splits sum.splits if_splits)
  show ?thesis
    unfolding callproc_body_def
    by (rule begin_operation_wf)
       (auto intro!: throw_open_wf triple_seq [OF prep] stmt_to_wf keeps_rules cuinv
          split: procname_arg.split proc_params.split option.split prod.split)
qed

lemma save_wf: "keeps cursor_wf save_on_error" "keeps cursor_wf save_finally"
  by (auto simp: save_on_error_def save_finally_def cursor_wf_def intro!: keepsI simp: pyrun)

lemma callproc_wf [cuinv]: "keeps cursor_wf (callproc d name params ts)"
  unfolding callproc_def
  by (auto intro!: keeps_rules keeps_catch cuinv save_wf)

lemma checked_wf:
  "keeps in_statement m \<Longrightarrow> keeps cursor_wf (pseq (check_executed d) m)"
  by (rule triple_seq, rule check_wf, rule stmt_to_wf)

lemma fetch_wf [cuinv]:
  "keeps cursor_wf (fetchone d ts conv)" "keeps cursor_wf (fetchmany d n ts conv)"
  "keeps cursor_wf (fetchall fuel d ts conv)" "keeps cursor_wf (cu_iter k d)"
  unfolding fetchone_def fetchmany_def fetchall_def cu_iter_def
  subgoal by (rule checked_wf) (auto intro!: keeps_rules cuinv)
  subgoal by (rule checked_wf) (auto intro!: keeps_rules cuinv)
  subgoal by (rule checked_wf) (auto intro!: keeps_rules cuinv)
  subgoal by (rule checked_wf) (rule fetch_rows_stmt)
  done

lemma resultSet_in_statement:
  "triple cursor_wf (the_resultSet a) (\<lambda>_. in_statement) (\<lambda>_. cursor_wf)"
  by (auto simp: triple_def the_resultSet_def pyrun intro: wf_in_statement split: option.splits)

lemma nextset_wf [cuinv]: "keeps cursor_wf (nextset d)"
proof -
  have "keeps in_statement (pbind (the_statement ''getMoreResults'') (\<lambda>st.
      pbind (drv (d_getMoreResults d st)) (\<lambda>more.
        if more then pseq (pbind (drv (d_getResultSet d st)) (onResultSet d)) (ret True)
        else pbind (drv (d_getUpdateCount d st)) (\<lambda>n.
             pseq (upd_cu (\<lambda>c. c\<lparr>cu_rowcount := n\<rparr>)) (ret False)))))"
    by (auto intro!: keeps_rules cuinv upd_cu_stmt)
  moreover have "triple cursor_wf (pbind (the_resultSet ''close'') (\<lambda>rs. drv (d_closeResultSet d rs)))
      (\<lambda>_. in_statement) (\<lambda>_. cursor_wf)"
    by (rule triple_bind [OF resultSet_in_statement], rule triple_conseq [OF drv_stmt])
       (auto intro: in_statement_wf)
  ultimately show ?thesis
    unfolding nextset_def by (rule triple_seq [OF _ stmt_to_wf, rotated])
qed

lemma close_wf [cuinv]:
  "keeps cursor_wf (cu_close d)" "keeps cursor_wf (cu_exit d)" "keeps cursor_wf (cu_del d)"
proof -
  show "keeps cursor_wf (cu_close d)"
    unfolding cu_close_def
    by (rule triple_seq, rule validate_wf, rule triple_conseq [OF cu_shut_wf]) (auto intro: wf_open_wf)
qed (auto simp: cu_exit_def cu_del_def intro!: cuinv keeps_catch keeps_simple)

lemma property_wf [cuinv]:
  "keeps cursor_wf (set_arraysize n)" "keeps cursor_wf (parameters d tt)"
  "keeps cursor_wf (description d)" "keeps cursor_wf (lastrowid d)"
  unfolding set_arraysize_def parameters_def description_def lastrowid_def Let_def
  by (auto intro!: keeps_rules cuinv upd_cu_wf split: option.split)

end
