(* ===== verification/DbCursorSpec.thy ===== *)
theory DbCursorSpec
  imports DbCursor
begin

text \<open>
  What a cursor guarantees: the invariant over every sequence of calls, the closing
  contract, the rows a fetch returns, the binding of parameters, and the row counts.
\<close>

section \<open>The calls a program can make\<close>

datatype cu_call =
    CuClose | CuExit | CuDel
  | CuExecute string params_arg "jdbc_type option list option" bool
  | CuExecutemany string seq_arg "jdbc_type option list option" bool
  | CuCallproc procname_arg proc_params "jdbc_type option list option"
  | CuFetchone "jdbc_type list option" converters_arg
  | CuFetchmany "int option" "jdbc_type list option" converters_arg
  | CuFetchall nat "jdbc_type list option" converters_arg
  | CuIter nat | CuNextset | CuDescription | CuParameters | CuLastrowid | CuArraysize int

definition cu_run :: "'j driver \<Rightarrow> type_tables \<Rightarrow> cu_call \<Rightarrow> ('j, unit) cu_op" where
  "cu_run d tt c = (case c of
      CuClose \<Rightarrow> cu_close d
    | CuExit \<Rightarrow> cu_exit d
    | CuDel \<Rightarrow> cu_del d
    | CuExecute op params ts keys \<Rightarrow> execute d op params ts keys
    | CuExecutemany op rows ts keys \<Rightarrow> executemany d op rows ts keys
    | CuCallproc name params ts \<Rightarrow> discard (callproc d name params ts)
    | CuFetchone ts conv \<Rightarrow> discard (fetchone d ts conv)
    | CuFetchmany n ts conv \<Rightarrow> discard (fetchmany d n ts conv)
    | CuFetchall fuel ts conv \<Rightarrow> discard (fetchall fuel d ts conv)
    | CuIter n \<Rightarrow> discard (cu_iter n d)
    | CuNextset \<Rightarrow> discard (nextset d)
    | CuDescription \<Rightarrow> discard (description d)
    | CuParameters \<Rightarrow> discard (parameters d tt)
    | CuLastrowid \<Rightarrow> discard (lastrowid d)
    | CuArraysize n \<Rightarrow> set_arraysize n)"




section \<open>The closing contract\<close>

lemma cu_validate_closed:
  "cu_closed (cu w) \<Longrightarrow> cu_validate d w = (Inl (Exn ProgrammingError ''Cursor is closed''), w)"
  by (simp add: cu_validate_def programming_error_def pyrun)

lemma check_executed_closed:
  "cu_closed (cu w) \<Longrightarrow> check_executed d w = (Inl (Exn ProgrammingError ''Cursor is closed''), w)"
  by (simp add: check_executed_def programming_error_def pyrun)

interpretation curs: closable "cu_validate d" "cu_shut d" "\<lambda>w. cu_closed (cu w)" jvm_started for d
proof unfold_locales
  fix w w' :: "'a cu_state"
  show "cu_closed (cu w) \<Longrightarrow> \<exists>m. cu_validate d w = (Inl (Exn ProgrammingError m), w)"
    by (simp add: cu_validate_closed)
  show "cu_closed (cu w) \<Longrightarrow> cu_shut d w = (Inr (), w)"
    by (simp add: cu_shut_def pyrun)
  show "\<not> jvm_started w \<Longrightarrow> cu_shut d w = (Inr (), w)"
    by (simp add: cu_shut_def pyrun)
  show "jvm_started w \<Longrightarrow> cu_shut d w = (Inr (), w') \<Longrightarrow> cu_closed (cu w')"
    by (auto simp: cu_shut_def pyrun split: prod.splits sum.splits if_splits)
qed

text \<open>The calls that need an open cursor.\<close>

fun needs_open :: "cu_call \<Rightarrow> bool" where
  "needs_open CuClose = True"
| "needs_open (CuExecute _ _ _ _) = True"
| "needs_open (CuExecutemany _ _ _ _) = True"
| "needs_open (CuCallproc _ _ _) = True"
| "needs_open (CuFetchone _ _) = True"
| "needs_open (CuFetchmany _ _ _) = True"
| "needs_open (CuFetchall _ _ _) = True"
| "needs_open (CuIter _) = True"
| "needs_open CuParameters = True"
| "needs_open _ = False"

lemma closed_run:
  assumes "cursor_wf w" and "cu_closed (cu w)" and "needs_open c"
  shows "\<exists>m w'. cu_run d tt c w = (Inl (Exn ProgrammingError m), w') \<and> jdb w' = jdb w \<and> cu_closed (cu w')"
  using assms
  by (cases c)
     (auto simp: cu_run_def cu_close_def execute_def executemany_def callproc_def callproc_body_def
       fetchone_def fetchmany_def fetchall_def cu_iter_def parameters_def discard_def cursor_wf_def
       cu_validate_closed check_executed_closed save_on_error_def save_finally_def programming_error_def pyrun)

text \<open>C34: On a closed cursor every call that works with the database raises
  \<open>ProgrammingError\<close>, reaches no driver method and leaves the cursor closed;
  \<open>nextset\<close> and \<open>lastrowid\<close> do not check, and raise \<open>AttributeError\<close> (or return the
  remembered id), which is not a database error.\<close>
theorem closed_cursor_refuses:
  assumes "cursor_wf w" and "cu_closed (cu w)"
  shows "(needs_open c \<longrightarrow> (\<exists>m w'. cu_run d tt c w = (Inl (Exn ProgrammingError m), w') \<and>
            jdb w' = jdb w \<and> cu_closed (cu w'))) \<and>
         nextset d w = (Inl (Exn AttributeError ''close''), w) \<and>
         (cu_last (cu w) = LastNone \<longrightarrow>
            lastrowid d w = (Inl (Exn AttributeError ''getGeneratedKeys''), w)) \<and>
         cu_exit d w = (Inr (), w)"
  using assms closed_run [OF assms]
  by (auto simp: nextset_def the_resultSet_def lastrowid_def the_statement_def cursor_wf_def
      cu_exit_def curs.shut_closed pyrun)

definition demo_cu :: "pyval list \<Rightarrow> demo cu_state" where
  "demo_cu rows = \<lparr>jvm_started = True, cx = demo_connection, jdb = demo_state rows,
     cu = Cursor_init 1, get_ident = 1\<rparr>"

lemma closed_cursor_refuses_witness:
  "nextset demo_driver ((demo_cu [])\<lparr>cu := (Cursor_init 1)\<lparr>cu_closed := True\<rparr>\<rparr>) =
     (Inl (Exn AttributeError ''close''), (demo_cu [])\<lparr>cu := (Cursor_init 1)\<lparr>cu_closed := True\<rparr>\<rparr>)"
  using closed_cursor_refuses [of "(demo_cu [])\<lparr>cu := (Cursor_init 1)\<lparr>cu_closed := True\<rparr>\<rparr>" CuClose demo_driver empty_tables]
  by (simp add: cursor_wf_def Cursor_init_def)

text \<open>Closing a cursor closes its result set and then its statement in the driver,
  before the flag is set: a successful \<open>close\<close> leaves a closed cursor with neither, and
  the driver state is that of the two calls.\<close>
theorem cursor_close_releases:
  assumes "jvm_started w" and "cu_close d w = (Inr (), w')"
  shows "cu_closed (cu w') \<and> cu_resultSet (cu w') = None \<and> cu_statement (cu w') = None \<and>
    (\<exists>j0 j1. d_isClosed d (jdb w) = (Inr False, j0) \<and>
       (case cu_resultSet (cu w) of None \<Rightarrow> j1 = j0 | Some rs \<Rightarrow> d_closeResultSet d rs j0 = (Inr (), j1)) \<and>
       (case cu_statement (cu w) of None \<Rightarrow> jdb w' = j1 | Some st \<Rightarrow> d_closeStatement d st j1 = (Inr (), jdb w')))"
  using assms
  by (auto simp: cu_close_def cu_validate_def cu_shut_def finish_def pyrun
      split: prod.splits sum.splits option.splits if_splits)

lemma cursor_close_releases_witness:
  "\<exists>w'. cu_close demo_driver (demo_cu []) = (Inr (), w') \<and> cu_closed (cu w')"
proof -
  obtain w' where "cu_close demo_driver (demo_cu []) = (Inr (), w')"
    by (simp add: cu_close_def cu_validate_def cu_shut_def finish_def demo_cu_def
        demo_driver_def demo_state_def Cursor_init_def pyrun)
  with cursor_close_releases [of "demo_cu []" demo_driver w'] show ?thesis
    by (simp add: demo_cu_def)
qed

section \<open>Fetching\<close>

lemma pbind_result:
  "pbind m f w = (Inr y, w') \<longleftrightarrow> (\<exists>x u. m w = (Inr x, u) \<and> f x u = (Inr y, w'))"
  by (auto simp: pyrun split: prod.splits sum.splits)

lemma pseq_result:
  "pseq m n w = (Inr y, w') \<longleftrightarrow> (\<exists>x u. m w = (Inr x, u) \<and> n u = (Inr y, w'))"
  by (auto simp: pyrun split: prod.splits sum.splits)

lemma drv_result: "drv m w = (Inr x, w') \<longleftrightarrow> (\<exists>j. m (jdb w) = (Inr x, j) \<and> w' = w\<lparr>jdb := j\<rparr>)"
  by (auto simp: drv_run split: prod.splits)

lemmas result_simps = pbind_result pseq_result drv_result ret_run throw_run pget_run plift_run upd_cu_run

text \<open>Reading the rows of a result set in two goes is reading them in one.\<close>

lemma fetch_rows_add:
  "fetch_rows d conv (m + n) = pbind (fetch_rows d conv m) (\<lambda>(rows, cut).
     if cut then pbind (fetch_rows d conv n) (\<lambda>(more, cut'). ret (rows @ more, cut'))
     else ret (rows, False))"
proof (induction m)
  case 0
  show ?case by (rule ext) (simp add: pyrun split: prod.split sum.split)
next
  case (Suc m)
  show ?case
    by (rule ext)
       (simp add: Suc.IH pbind_assoc pyrun split: prod.split sum.split)
qed
text \<open>The position of the open result set, and that reading a row does not move it.\<close>

definition rows_left :: "('j \<Rightarrow> nat \<Rightarrow> nat) \<Rightarrow> nat \<Rightarrow> nat \<Rightarrow> 'j cu_state \<Rightarrow> bool" where
  "rows_left left rs k w \<longleftrightarrow> cu_resultSet (cu w) = Some rs \<and> left (jdb w) rs = k"

lemma drv_left:
  "(\<And>j r j'. m j = (r, j') \<Longrightarrow> left j' = left j) \<Longrightarrow> keeps (rows_left left rs k) (drv m)"
  by (rule keepsI) (auto simp: rows_left_def pyrun split: prod.splits)

lemma upd_cu_left:
  "(\<And>c. cu_resultSet (f c) = cu_resultSet c) \<Longrightarrow> keeps (rows_left left rs k) (upd_cu f)"
  by (rule keepsI) (simp add: rows_left_def pyrun)

lemma fetch_columns_left:
  assumes fwd: "forward_only d left"
  shows "keeps (rows_left left rs k) (fetch_columns d h conv i ts)"
  by (induction ts arbitrary: i) (auto intro!: keeps_rules drv_left type_get_left [OF fwd])

lemma fetchRow_left:
  assumes fwd: "forward_only d left"
  shows "keeps (rows_left left rs k) (fetchRow d conv)"
proof -
  have "keeps (rows_left left rs k) column_types"
    by (auto simp: column_types_def intro!: keeps_rules upd_cu_left split: option.split)
  then show ?thesis
    by (auto simp: fetchRow_def intro!: keeps_rules cuinv fetch_columns_left [OF fwd])
qed

lemma next_row_left:
  assumes fwd: "forward_only d left"
  shows "triple (rows_left left rs k) (next_row d)
     (\<lambda>more w. more = (0 < k) \<and> rows_left left rs (k - 1) w) (\<lambda>_ _. True)"
  by (auto simp: triple_def next_row_def the_resultSet_def rows_left_def pyrun
      split: prod.splits sum.splits dest: forward_next [OF fwd])

lemma fetch_rows_count:
  assumes fwd: "forward_only d left"
  shows "triple (rows_left left rs k) (fetch_rows d conv n)
     (\<lambda>(rows, cut) w. length rows = min n k \<and> cut = (n \<le> k) \<and> rows_left left rs (k - n) w) (\<lambda>_ _. True)"
proof (induction n arbitrary: k)
  case 0
  show ?case by (auto intro!: triple_ret)
next
  case (Suc n)
  have row: "triple (rows_left left rs k) (fetchRow d conv) (\<lambda>_. rows_left left rs k) (\<lambda>_ _. True)" for k
    by (rule triple_conseq [OF fetchRow_left [OF fwd]]) auto
  have rest: "triple (rows_left left rs (k - 1)) (fetch_rows d conv n)
     (\<lambda>(rows, cut) w. length rows = min n (k - 1) \<and> cut = (n \<le> k - 1) \<and> rows_left left rs (k - 1 - n) w)
     (\<lambda>_ _. True)"
    by (rule Suc.IH)
  have loop: "0 < k \<Longrightarrow> triple (rows_left left rs (k - 1))
     (pbind (fetchRow d conv) (\<lambda>row. pbind (fetch_rows d conv n) (\<lambda>(rows, cut). ret (row # rows, cut))))
     (\<lambda>(rows, cut) w. length rows = min (Suc n) k \<and> cut = (Suc n \<le> k) \<and> rows_left left rs (k - Suc n) w)
     (\<lambda>_ _. True)"
    by (rule triple_bind [OF row], rule triple_bind [OF rest])
       (auto split: prod.split intro!: triple_ret)
  show ?case
    unfolding fetch_rows.simps
  proof (rule triple_bind [OF next_row_left [OF fwd]])
    fix more
    show "triple (\<lambda>w. more = (0 < k) \<and> rows_left left rs (k - 1) w)
      (if \<not> more then ret ([], False)
       else pbind (fetchRow d conv) (\<lambda>row. pbind (fetch_rows d conv n) (\<lambda>(rows, cut). ret (row # rows, cut))))
      (\<lambda>(rows, cut) w. length rows = min (Suc n) k \<and> cut = (Suc n \<le> k) \<and> rows_left left rs (k - Suc n) w)
      (\<lambda>_ _. True)"
    proof (cases "more \<and> 0 < k")
      case True
      then show ?thesis by (auto intro: triple_conseq [OF loop])
    next
      case False
      then show ?thesis by (cases more) (auto simp: triple_def pyrun)
    qed
  qed
qed

lemma check_executed_left:
  assumes fwd: "forward_only d left"
  shows "keeps (rows_left left rs k) (check_executed d)"
  by (auto simp: check_executed_def intro!: keeps_rules drv_left forward_isClosed [OF fwd] split: prod.split)

lemma use_types_left: "keeps (rows_left left rs k) (use_types ts)"
  by (auto simp: use_types_def intro!: keeps_rules upd_cu_left split: option.split)

lemma set_fetch_size_left:
  assumes fwd: "forward_only d left"
  shows "keeps (rows_left left rs k) (set_fetch_size d n)"
  by (auto simp: set_fetch_size_def intro!: keeps_rules cuinv drv_left forward_setFetchSize [OF fwd])

lemma triple_any_exn: "triple P m Q E \<Longrightarrow> triple P m Q (\<lambda>_ _. True)"
  by (erule triple_conseq) auto



definition demo_open :: "pyval list \<Rightarrow> demo cu_state" where
  "demo_open rows = (demo_cu rows)\<lparr>cu := (Cursor_init 1)\<lparr>cu_resultSet := Some 7, cu_statement := Some 1,
     cu_meta := [], cu_count := 0\<rparr>\<rparr>"



text \<open>\<open>fetchmany\<close> returns as many rows as it is asked for (the cursor's
  \<open>arraysize\<close> when no size is given, none for a negative size), or all that are left when
  they are fewer, and moves the result set on by that number.\<close>
theorem fetchmany_count:
  assumes "forward_only d left" and "cu_resultSet (cu w) = Some rs"
    and "fetchmany d size_arg ts conv w = (Inr rows, w')"
  shows "length rows = min (nat (case size_arg of None \<Rightarrow> cu_arraysize (cu w) | Some n \<Rightarrow> n)) (left (jdb w) rs) \<and>
         left (jdb w') rs = left (jdb w) rs - length rows"
proof -
  let ?k = "left (jdb w) rs" and ?n = "case size_arg of None \<Rightarrow> cu_arraysize (cu w) | Some n \<Rightarrow> n"
  let ?rest = "\<lambda>n. pseq (set_fetch_size d n) (pseq (use_types ts)
     (pbind (fetch_rows d conv (nat n)) (\<lambda>(rows, _). pseq (set_fetch_size d 0) (ret rows))))"
  have rest: "triple (rows_left left rs ?k) (?rest n)
      (\<lambda>rows w. length rows = min (nat n) ?k \<and> rows_left left rs (?k - nat n) w) (\<lambda>_ _. True)" for n
  proof -
    have "triple (\<lambda>w. length rows = min (nat n) ?k \<and> rows_left left rs (?k - nat n) w)
        (pseq (set_fetch_size d 0) (ret rows))
        (\<lambda>rows w. length rows = min (nat n) ?k \<and> rows_left left rs (?k - nat n) w) (\<lambda>_ _. True)" for rows :: "pyval list list"
      using set_fetch_size_left [OF assms(1), of rs "?k - nat n" 0]
      by (fastforce simp: triple_def pyrun split: prod.splits sum.splits)
    then show ?thesis
      by (intro triple_seq [OF triple_any_exn [OF set_fetch_size_left [OF assms(1)]]]
          triple_seq [OF triple_any_exn [OF use_types_left]] triple_bind [OF fetch_rows_count [OF assms(1)]])
         (auto split: prod.split intro: triple_conseq)
  qed
  obtain u where u: "check_executed d w = (Inr (), u)"
      "?rest (case size_arg of None \<Rightarrow> cu_arraysize (cu u) | Some n \<Rightarrow> n) u = (Inr rows, w')"
    using assms(3) by (auto simp: fetchmany_def pbind_result pseq_result pget_run)
  have same: "cu u = cu w"
    using u(1) by (auto simp: check_executed_def pyrun split: prod.splits sum.splits if_splits)
  have "rows_left left rs ?k w" using assms(2) by (simp add: rows_left_def)
  then have "rows_left left rs ?k u" by (rule tripleD [OF check_executed_left [OF assms(1)] _ u(1)])
  from tripleD [OF rest this u(2) [unfolded same]] show ?thesis by (auto simp: rows_left_def)
qed

lemma fetchmany_count_witness:
  "\<exists>rows w'. fetchmany demo_driver (Some 1) None CDefault (demo_open [VInt 5, VNone]) = (Inr rows, w') \<and>
     length rows = 1"
proof -
  obtain rows w' where run: "fetchmany demo_driver (Some 1) None CDefault (demo_open [VInt 5, VNone]) = (Inr rows, w')"
    by (simp add: fetchmany_def set_fetch_size_def check_executed_def use_types_def next_row_def the_resultSet_def fetchRow_def
      column_types_def converters_fit_def upd_cu_def demo_open_def demo_cu_def demo_driver_def demo_next_def demo_state_def
      Cursor_init_def demo_connection_def except_clause_def pyrun)
  with fetchmany_count [OF demo_forward_only, of "demo_open [VInt 5, VNone]" 7 "Some 1" None CDefault rows w']
  show ?thesis by (simp add: demo_left_def demo_open_def demo_cu_def demo_state_def)
qed

text \<open>Iterating over a cursor can be broken off and resumed: taking \<open>m + n\<close> items
  from its generator is taking \<open>m\<close> and, unless the rows have ended, \<open>n\<close> more.\<close>
theorem cu_iter_resume:
  "cu_iter (m + n) d = pbind (cu_iter m d) (\<lambda>(rows, cut).
     if cut then pbind (fetch_rows d CDefault n) (\<lambda>(more, cut'). ret (rows @ more, cut'))
     else ret (rows, False))"
  by (simp add: cu_iter_def fetch_rows_add pseq_def pbind_assoc)

lemma convert_ignores_mapping: "convert table (CMap m) idx v = convert table CDefault idx v"
  by (simp add: convert_def)

lemma fetch_columns_ignores_mapping: "fetch_columns d rs (CMap m) i ts = fetch_columns d rs CDefault i ts"
  by (induction ts arbitrary: i) (simp_all add: convert_ignores_mapping)

lemma fetchRow_ignores_mapping: "fetchRow d (CMap m) = fetchRow d CDefault"
  by (simp add: fetchRow_def fetch_columns_ignores_mapping converters_fit_def cong: if_cong)

lemma fetch_rows_ignores_mapping: "fetch_rows d (CMap m) n = fetch_rows d CDefault n"
  by (induction n) (simp_all add: fetchRow_ignores_mapping cong: if_cong)

text \<open>A mapping passed as \<open>converters\<close> to a fetch method has no effect: the
  values are converted by the connection's table, as if nothing had been passed.\<close>
theorem fetch_mapping_ignored:
  "fetchone d ts (CMap m) = fetchone d ts CDefault \<and>
   fetchmany d n ts (CMap m) = fetchmany d n ts CDefault \<and>
   fetchall fuel d ts (CMap m) = fetchall fuel d ts CDefault"
  by (simp add: fetchone_def fetchmany_def fetchall_def fetchRow_ignores_mapping fetch_rows_ignores_mapping
      cong: if_cong)

lemma fetch_columns_length: "fetch_columns d rs conv i ts w = (Inr row, w') \<Longrightarrow> length row = length ts"
proof (induction ts arbitrary: i w row)
  case Nil
  then show ?case by (simp add: ret_run)
next
  case (Cons t ts)
  from Cons.prems obtain u vs v where "fetch_columns d rs conv (i + 1) ts u = (Inr vs, w')" "row = v # vs"
    by (auto simp: pbind_result ret_run)
  with Cons.IH show ?case by simp
qed

text \<open>A fetched row has one value for each column of the result set, and a list of
  converters of another length is refused before anything is read; reading and
  converting never raises a bare \<open>TypeError\<close> (nor the \<open>InterfaceError\<close> of a getter):
  it is reported as the unsupported-type error.\<close>
theorem fetchRow_outcome:
  assumes "fetchRow d conv w = (r, w')"
    and "\<And>c e. cx_getters (cx w) c = Inl e \<Longrightarrow> \<not> catches TypeError e"
  shows "(\<forall>row. r = Inr row \<longrightarrow> length row = cu_count (cu w)) \<and>
         (\<forall>e. r = Inl e \<and> catches TypeError e \<longrightarrow> exn_kind e = UnsupportedTypeError) \<and>
         (\<forall>fs. conv = CSeq fs \<and> length fs \<noteq> cu_count (cu w) \<longrightarrow>
            r = Inl (Exn ProgrammingError ''converter list size incorrect'') \<and> w' = w)"
proof -
  have types: "\<not> catches TypeError e" if "column_types w = (Inl e, u)" for e u
  proof -
    have "pmapM ms (\<lambda>c. plift (cx_getters (cx w) (column_meta.truncate c))) v = (Inl e, v') \<Longrightarrow>
        \<not> catches TypeError e" for ms v v'
      by (induction ms arbitrary: v) (auto simp: pyrun assms(2) split: prod.splits sum.splits)
    with that show ?thesis
      by (auto simp: column_types_def pyrun split: option.splits prod.splits sum.splits)
  qed
  have "\<not> catches TypeError (programming_error m)" for m
    by (simp add: programming_error_def catches_def exn_isa_eval)
  with assms(1) types show ?thesis
    by (auto simp: fetchRow_def except_clause_def converters_fit_def unsupported_def pyrun programming_error_def
        split: converters_arg.splits if_splits prod.splits sum.splits dest!: fetch_columns_length)
qed

lemma fetchRow_outcome_witness:
  "fetchRow demo_driver (CSeq [Inr]) (demo_open []) =
     (Inl (Exn ProgrammingError ''converter list size incorrect''), demo_open [])"
proof -
  obtain r w' where run: "fetchRow demo_driver (CSeq [Inr]) (demo_open []) = (r, w')"
    by (cases "fetchRow demo_driver (CSeq [Inr]) (demo_open [])")
  have "cu_count (cu (demo_open [])) = 0" by (simp add: demo_open_def)
  with fetchRow_outcome [OF run] run show ?thesis
    by (simp add: demo_open_def demo_cu_def demo_connection_def)
qed

section \<open>Binding parameters\<close>

lemma pfor_enumerate_Cons:
  "pfor (enumerate i (x # xs)) f = pseq (f (i, x)) (pfor (enumerate (Suc i) xs) f)"
  by simp

text \<open>What parameter \<open>k\<close> is bound with: the adapted value, and the type the caller (or
  the cache) gives or else the one the strategy picks.\<close>

definition binding :: "connection \<Rightarrow> parameter_meta \<Rightarrow> jdbc_type option \<Rightarrow> pyval \<Rightarrow> pyval \<times> jdbc_type \<Rightarrow> bool" where
  "binding c m given p b \<longleftrightarrow>
     adapt (cx_adapters c) p = Inr (fst b) \<and>
     (case given of Some s \<Rightarrow> snd b = s
      | None \<Rightarrow> ss_pick (cx_setters c) m (class_of (fst b)) = Inr (Some (snd b)))"

definition set_binding :: "'j driver \<Rightarrow> nat \<Rightarrow> nat \<times> pyval \<times> jdbc_type \<Rightarrow> ('j, pyexn, unit) pyop" where
  "set_binding d st = (\<lambda>(i, q, s). JDBCType_set d s st (i + 1) q)"

lemma pick_setter_result:
  assumes "pick_setter sh meta i q ts w = (Inr ts', u)"
  shows "i < length ts \<and> length ts' = length ts \<and> cx u = cx w \<and> jdb u = jdb w \<and>
     (\<forall>k. k \<noteq> i \<longrightarrow> ts' ! k = ts ! k) \<and>
     (case ts ! i of Some s \<Rightarrow> ts' = ts
      | None \<Rightarrow> ss_pick (cx_setters (cx w)) (meta ! i) (class_of q) = Inr (ts' ! i))"
  using assms
  by (auto simp: pick_setter_def Let_def pyrun split: if_splits option.splits sum.splits prod.splits)

lemma bind_params_result:
  "bind_params d st sh meta i ps ts w = (Inr ts', w') \<Longrightarrow>
   cx w' = cx w \<and>
   (\<exists>bs. length bs = length ps \<and> i + length ps \<le> max i (length ts) \<and>
      (\<forall>k<length ps. binding (cx w) (meta ! (i + k)) (ts ! (i + k)) (ps ! k) (bs ! k)) \<and>
      (\<forall>k. (k < i \<or> i + length ps \<le> k) \<longrightarrow> ts' ! k = ts ! k) \<and> length ts' = length ts \<and>
      (\<forall>k<length ps. ts' ! (i + k) = Some (snd (bs ! k))) \<and>
      pfor (enumerate i bs) (set_binding d st) (jdb w) = (Inr (), jdb w'))"
proof (induction ps arbitrary: i ts w)
  case Nil
  then show ?case by (auto simp: ret_run)
next
  case (Cons p ps)
  from Cons.prems obtain q u ts1 s j where
    q: "adapt (cx_adapters (cx w)) p = Inr q" and
    pick: "pick_setter sh meta i q ts w = (Inr ts1, u)" and
    s: "ts1 ! i = Some s" and
    set: "JDBCType_set d s st (i + 1) q (jdb u) = (Inr (), j)" and
    rest: "bind_params d st sh meta (i + 1) ps ts1 (u\<lparr>jdb := j\<rparr>) = (Inr ts', w')"
    by (auto simp: result_simps split: option.splits)
  note P = pick_setter_result [OF pick]
  from Cons.IH [OF rest] obtain bs where
    cx: "cx w' = cx u" and len: "length bs = length ps" and
    room: "Suc i + length ps \<le> max (Suc i) (length ts1)" and
    b: "\<forall>k<length ps. binding (cx u) (meta ! (Suc i + k)) (ts1 ! (Suc i + k)) (ps ! k) (bs ! k)" and
    keep: "\<forall>k. (k < Suc i \<or> Suc i + length ps \<le> k) \<longrightarrow> ts' ! k = ts1 ! k" and len': "length ts' = length ts1" and
    out: "\<forall>k<length ps. ts' ! (Suc i + k) = Some (snd (bs ! k))" and
    run: "pfor (enumerate (Suc i) bs) (set_binding d st) j = (Inr (), jdb w')"
    by auto
  have first: "binding (cx w) (meta ! i) (ts ! i) p (q, s)"
    using q s P by (auto simp: binding_def split: option.splits)
  have b': "\<forall>k<length (p # ps). binding (cx w) (meta ! (i + k)) (ts ! (i + k)) ((p # ps) ! k) (((q, s) # bs) ! k)"
    using first b P by (auto simp: nth_Cons split: nat.splits)
  have out': "\<forall>k<length (p # ps). ts' ! (i + k) = Some (snd (((q, s) # bs) ! k))"
    using out keep s by (auto simp: nth_Cons split: nat.splits)
  have keep': "\<forall>k. (k < i \<or> i + length (p # ps) \<le> k) \<longrightarrow> ts' ! k = ts ! k"
    using keep P by auto
  have "pfor (enumerate i ((q, s) # bs)) (set_binding d st) (jdb w) = (Inr (), jdb w')"
    using set run P by (simp add: pyrun set_binding_def)
  with b' out' keep' len len' room cx P show ?case
    by (intro conjI exI [of _ "(q, s) # bs"]) auto
qed

text \<open>The types a parameter list starts with, given the list the cursor holds.\<close>

definition given_types :: "jdbc_type option list option \<Rightarrow> nat \<Rightarrow> jdbc_type option list" where
  "given_types own n = (if own \<noteq> None \<and> own \<noteq> Some [] then the own else replicate n None)"

lemma set_params_start:
  assumes "set_params d (PSeq ps) w = (Inr (), w')" and "ps \<noteq> []"
  obtains st meta j where "cu_statement (cu w) = Some st" "d_parameters d st (jdb w) = (Inr meta, j)"
    "length meta = length ps"
  using assms
  by (auto simp: set_params_def the_statement_def result_simps split: option.splits if_splits)

lemma set_params_run:
  assumes "cu_statement (cu w) = Some st" and "d_parameters d st (jdb w) = (Inr meta, j)"
    and "length meta = length ps" and "ps \<noteq> []"
  defines "own \<equiv> cu_parameterTypes (cu w)"
  shows "set_params d (PSeq ps) w =
    pbind (bind_params d st (own \<noteq> None \<and> own \<noteq> Some []) meta 0 ps (given_types own (length ps)))
      (\<lambda>ts. pbind (pget (\<lambda>w. ss_cachable (cx_setters (cx w)))) (\<lambda>cachable.
          if cachable then upd_cu (\<lambda>c. c\<lparr>cu_parameterTypes := Some ts\<rparr>) else ret ())) (w\<lparr>jdb := j\<rparr>)"
  using assms by (simp add: set_params_def the_statement_def given_types_def Let_def pyrun)

text \<open>Binding a parameter list. When it succeeds, the driver was asked for the
  parameters, there are as many as values, and the driver state is that of setting
  parameter 1, 2, ... in order, each with the adapted value and with the type the
  cursor's list names or the connection's strategy picks. With a strategy marked
  cachable, the types are kept for the next list; so is the caller's list, in place.\<close>
theorem set_params_binds:
  assumes "set_params d (PSeq ps) w = (Inr (), w')" and "ps \<noteq> []"
  shows "\<exists>st meta j bs. cu_statement (cu w) = Some st \<and> d_parameters d st (jdb w) = (Inr meta, j) \<and>
     length meta = length ps \<and> length bs = length ps \<and>
     (\<forall>k<length ps. binding (cx w) (meta ! k) (given_types (cu_parameterTypes (cu w)) (length ps) ! k)
        (ps ! k) (bs ! k)) \<and>
     (ss_cachable (cx_setters (cx w)) \<longrightarrow>
         (\<exists>ts. cu_parameterTypes (cu w') = Some ts \<and> (\<forall>k<length ps. ts ! k = Some (snd (bs ! k))))) \<and>
     pfor (enumerate 0 bs) (set_binding d st) j = (Inr (), jdb w')"
proof -
  let ?own = "cu_parameterTypes (cu w)"
  obtain st meta j where st: "cu_statement (cu w) = Some st"
    and meta: "d_parameters d st (jdb w) = (Inr meta, j)" and len: "length meta = length ps"
    using set_params_start [OF assms] .
  obtain sh ts u where
    run: "bind_params d st sh meta 0 ps (given_types ?own (length ps)) (w\<lparr>jdb := j\<rparr>) = (Inr ts, u)" and
    w': "(if ss_cachable (cx_setters (cx u)) then upd_cu (\<lambda>c. c\<lparr>cu_parameterTypes := Some ts\<rparr>) else ret ()) u = (Inr (), w')"
    using assms(1) unfolding set_params_run [OF st meta len assms(2)] pbind_result pget_run by blast
  from bind_params_result [OF run] obtain bs where
    bs: "cx u = cx w" "length bs = length ps"
      "\<forall>k<length ps. binding (cx w) (meta ! k) (given_types ?own (length ps) ! k) (ps ! k) (bs ! k)"
      "\<forall>k<length ps. ts ! k = Some (snd (bs ! k))"
      "pfor (enumerate 0 bs) (set_binding d st) j = (Inr (), jdb u)"
    by auto
  have "jdb w' = jdb u" using w' by (auto simp: result_simps split: if_splits)
  moreover have "ss_cachable (cx_setters (cx w)) \<longrightarrow> cu_parameterTypes (cu w') = Some ts"
    using w' bs(1) by (auto simp: result_simps)
  ultimately show ?thesis using st meta len bs by metis
qed

definition one_param :: "int \<Rightarrow> parameter_meta" where
  "one_param mode = \<lparr>pm_typeName = ''INTEGER'', pm_type = 4, pm_mode = mode, pm_precision = 10, pm_scale = 0, pm_nullable = 1\<rparr>"

definition demo_bind :: "demo cu_state" where
  "demo_bind = (demo_cu [])\<lparr>jdb := (demo_state [])\<lparr>dm_params := [one_param 1]\<rparr>,
     cu := (Cursor_init 1)\<lparr>cu_statement := Some 1\<rparr>\<rparr>"

lemma set_params_binds_witness:
  "\<exists>w'. set_params demo_driver (PSeq [VInt 3]) demo_bind = (Inr (), w') \<and>
     (\<exists>bs. length bs = 1 \<and> pfor (enumerate 0 bs) (set_binding demo_driver 1) (jdb demo_bind) = (Inr (), jdb w'))"
proof -
  have m: "d_parameters demo_driver 1 (jdb demo_bind) = (Inr [one_param 1], jdb demo_bind)"
    by (simp add: demo_driver_def demo_bind_def pyrun)
  obtain w' where run: "set_params demo_driver (PSeq [VInt 3]) demo_bind = (Inr (), w')"
    using m by (simp add: set_params_def the_statement_def demo_bind_def demo_cu_def Cursor_init_def Let_def
        adapt_def pick_setter_def demo_connection_def JDBCType_set_def demo_driver_def note_call_def pyrun)
  from set_params_binds [OF run] m show ?thesis
    using run by (auto simp: demo_bind_def Cursor_init_def Let_def)
qed

text \<open>A parameter list that is a string, a mapping or no iterable is refused, an empty
  one never asks the driver for parameter metadata, and one of the wrong length is
  refused with \<open>ProgrammingError\<close> before any parameter is set.\<close>
theorem set_params_guards:
  "set_params d (PSeq []) w = (Inr (), w) \<and>
   (\<exists>e. set_params d (PStr s) w = (Inl e, w) \<and> exn_kind e = UnsupportedTypeError) \<and>
   (\<exists>e. set_params d PMapping w = (Inl e, w) \<and> exn_kind e = UnsupportedTypeError) \<and>
   (\<exists>e. set_params d (POther c) w = (Inl e, w) \<and> exn_kind e = UnsupportedTypeError) \<and>
   (\<forall>ps st meta j. cu_statement (cu w) = Some st \<and> d_parameters d st (jdb w) = (Inr meta, j) \<and>
      length ps \<noteq> length meta \<and> ps \<noteq> [] \<longrightarrow>
      (\<exists>m. set_params d (PSeq ps) w = (Inl (Exn ProgrammingError m), w\<lparr>jdb := j\<rparr>)))"
  by (auto simp: set_params_def unsupported_def the_statement_def programming_error_def pyrun)

lemma set_params_guards_witness:
  "\<exists>m. set_params demo_driver (PSeq [VNone, VNone]) demo_bind = (Inl (Exn ProgrammingError m), demo_bind)"
proof -
  have "d_parameters demo_driver 1 (jdb demo_bind) = (Inr [one_param 1], jdb demo_bind)"
    "cu_statement (cu demo_bind) = Some 1"
    by (simp_all add: demo_driver_def demo_bind_def Cursor_init_def pyrun)
  with set_params_guards [of demo_driver demo_bind "[]" "[]"] show ?thesis by fastforce
qed

section \<open>Executing\<close>

text \<open>Preparing a statement does not touch the connection object.\<close>

lemma drv_cx: "keeps (\<lambda>w. cx w = c) (drv m)"
  by (rule drv_keeps) simp

lemma upd_cu_cx: "keeps (\<lambda>w. cx w = c) (upd_cu f)"
  by (rule keepsI) (simp add: pyrun)

lemma prepared_cx:
  "keeps (\<lambda>w. cx w = c) (cu_validate d)" "keeps (\<lambda>w. cx w = c) (finish d)"
  "keeps (\<lambda>w. cx w = c) (prepare d op keys pe)"
  unfolding cu_validate_def finish_def prepare_def
  by (auto intro!: keeps_rules keeps_catch drv_cx upd_cu_cx split: option.split sum.split)

lemma settle_rowcount_bound: "settle_rowcount n v = (Inr (), w') \<Longrightarrow> - 1 \<le> cu_rowcount (cu w')"
  by (auto simp: settle_rowcount_def pyrun)

text \<open>After a successful \<open>executemany\<close> the row count is what the driver's batch
  counts (or the update counts of the single executions) add up to, and -1 when that is
  negative: it never goes below -1.\<close>
theorem executemany_rowcount:
  assumes "executemany d op rows ts keys w = (Inr (), w')"
  shows "- 1 \<le> cu_rowcount (cu w') \<and>
     (cx_batch (cx w) \<longrightarrow>
        (\<exists>st j counts. d_executeBatch d st j = (Inr counts, jdb w') \<and>
           cu_rowcount (cu w') = (if sum_list counts < 0 then - 1 else sum_list counts)))"
proof -
  let ?w1 = "w\<lparr>cu := (cu w)\<lparr>cu_last := LastNone, cu_parameterTypes := ts\<rparr>\<rparr>"
  obtain v1 v2 u rows' where run: "cu_validate d ?w1 = (Inr (), v1)" "finish d v1 = (Inr (), v2)"
      "prepare d op keys (\<lambda>_. Inr (''Failed to prepare '' @ quoted op)) v2 = (Inr (), u)"
    and u: "(if cx_batch (cx u) then executeBatch d rows' else executeRepeat d rows') u = (Inr (), w')"
    using assms by (auto simp: executemany_def Let_def result_simps split del: if_split)
  have same: "cx u = cx w"
    using tripleD [OF prepared_cx(1) _ run(1), of "cx w"] tripleD [OF prepared_cx(2) _ run(2), of "cx w"]
      tripleD [OF prepared_cx(3) _ run(3), of "cx w"] by simp
  have batch: "\<exists>st j counts. d_executeBatch d st j = (Inr counts, jdb w') \<and>
           cu_rowcount (cu w') = (if sum_list counts < 0 then - 1 else sum_list counts)"
    if run_batch: "executeBatch d rows' u = (Inr (), w')"
  proof -
    obtain st v v' counts where "except_clause JSQLException (raise_with_message ProgrammingError)
        (drv (d_executeBatch d st)) v = (Inr counts, v')" "settle_rowcount (sum_list counts) v' = (Inr (), w')"
      using run_batch by (auto simp: executeBatch_def result_simps)
    then have "d_executeBatch d st (jdb v) = (Inr counts, jdb w') \<and>
        cu_rowcount (cu w') = (if sum_list counts < 0 then - 1 else sum_list counts)"
      by (auto simp: except_clause_def pcatch_run raise_with_message_run settle_rowcount_def pyrun
          split: prod.splits sum.splits if_splits)
    then show ?thesis by blast
  qed
  have "- 1 \<le> cu_rowcount (cu w')" if "executeRepeat d rows' u = (Inr (), w')"
    using that settle_rowcount_bound by (auto simp: executeRepeat_def result_simps split: seq_arg.splits)
  with u batch same show ?thesis by (fastforce split: if_splits)
qed

lemma executemany_rowcount_witness:
  "\<exists>w'. executemany demo_driver ''insert'' (SSeq [PSeq [], PSeq []]) None False (demo_cu []) = (Inr (), w') \<and>
     - 1 \<le> cu_rowcount (cu w')"
proof -
  obtain w' where run: "executemany demo_driver ''insert'' (SSeq [PSeq [], PSeq []]) None False (demo_cu []) = (Inr (), w')"
    by (simp add: executemany_def cu_validate_def finish_def prepare_def executeBatch_def set_params_def
        the_statement_def settle_rowcount_def except_clause_def demo_cu_def demo_driver_def demo_state_def
        Cursor_init_def demo_connection_def note_call_def Let_def pyrun)
  with executemany_rowcount [OF run] show ?thesis by blast
qed

section \<open>Stored procedures\<close>

lemma bind_proc_modes:
  "bind_proc d st ps i ms ts w = (Inr ts', w') \<Longrightarrow> m \<in> set ms \<Longrightarrow> pm_mode m \<noteq> 2 \<and> pm_mode m \<noteq> 4"
proof (induction ms arbitrary: i ts w)
  case Nil
  then show ?case by simp
next
  case (Cons m' ms)
  from Cons.prems(1) obtain v jt p u ts1 where
    mode: "bind_mode d st (pm_mode m') jt i p v = (Inr (), u)" and
    rest: "bind_proc d st ps (i + 1) ms ts1 u = (Inr ts', w')"
    by (auto simp: result_simps split: if_splits option.splits)
  have "pm_mode m' \<noteq> 2 \<and> pm_mode m' \<noteq> 4"
    using mode by (auto simp: bind_mode_def result_simps split: if_splits)
  with Cons.IH [OF rest] Cons.prems(2) show ?case by auto
qed

lemma callproc_binds:
  assumes "callproc d (ProcName name) (ProcSeq ps) ts w = (Inr out, w')" and "ps \<noteq> []"
  obtains st j0 meta j where "d_parameters d st j0 = (Inr meta, j)"
    "\<forall>m\<in>set meta. pm_mode m \<noteq> 2 \<and> pm_mode m \<noteq> 4"
proof -
  obtain u1 where body: "callproc_body d (ProcName name) (ProcSeq ps) ts w = (Inr out, u1)"
    using assms(1)
    by (auto simp: callproc_def result_simps pcatch_run save_on_error_def save_finally_def pmod_run pseq_run
        split: prod.splits sum.splits)
  obtain v st u meta ts0 ts1 u2 u3 where
    meta: "proc_metadata d st ts u = (Inr (meta, ts0), u2)" and
    bind: "bind_proc d st ps 0 meta ts0 u2 = (Inr ts1, u3)"
    using body assms(2) by (auto simp: callproc_body_def pseq_result pbind_result split: prod.splits)
  from meta obtain j where "d_parameters d st (jdb u) = (Inr meta, j)"
    by (auto simp: proc_metadata_def result_simps split: option.splits if_splits)
  moreover have "\<forall>m\<in>set meta. pm_mode m \<noteq> 2 \<and> pm_mode m \<noteq> 4"
    using bind_proc_modes [OF bind] by blast
  ultimately show thesis using that by blast
qed

text \<open>A stored procedure with an output or input/output parameter cannot be called:
  if the driver reports a parameter of mode 2 or 4, \<open>callproc\<close> never returns a result,
  because it registers the parameter through a method the cursor does not have.\<close>
theorem callproc_output_fails:
  assumes "\<And>st j meta j'. d_parameters d st j = (Inr meta, j') \<Longrightarrow>
      \<exists>m\<in>set meta. pm_mode m = 2 \<or> pm_mode m = 4" and "ps \<noteq> []"
  shows "\<exists>e. fst (callproc d (ProcName name) (ProcSeq ps) ts w) = Inl e"
proof (cases "callproc d (ProcName name) (ProcSeq ps) ts w")
  case (Pair r w')
  show ?thesis
  proof (cases r)
    case (Inl e)
    with Pair show ?thesis by simp
  next
    case (Inr out)
    with Pair callproc_binds [of d name ps ts w out w'] assms show ?thesis by metis
  qed
qed

lemma callproc_output_fails_witness:
  "\<exists>e. fst (callproc (demo_driver\<lparr>d_parameters := \<lambda>_. ret [one_param 4]\<rparr>) (ProcName ''p'')
      (ProcSeq [VInt 1]) None (demo_cu [])) = Inl e"
  by (rule callproc_output_fails) (auto simp: ret_def one_param_def)

text \<open>The description of a result set is read once: until the next statement is
  executed, asking again returns the remembered description and does not reach the driver.\<close>
theorem description_cached:
  assumes "description d w = (Inr (Some desc), w')"
  shows "description d' w' = (Inr (Some desc), w')"
  using assms by (auto simp: description_def pyrun Let_def split: option.splits prod.splits sum.splits if_splits)

lemma description_cached_witness:
  "\<exists>desc w'. description demo_driver (demo_open []) = (Inr (Some desc), w') \<and>
     description demo_driver w' = (Inr (Some desc), w')"
proof -
  obtain desc w' where run: "description demo_driver (demo_open []) = (Inr (Some desc), w')"
    by (simp add: description_def demo_open_def demo_cu_def demo_driver_def Cursor_init_def Let_def pyrun)
  with description_cached [OF run, of demo_driver] show ?thesis by blast
qed

end
