(* ===== verification/DbClosing.thy ===== *)
theory DbClosing
  imports DbCursorSpec
begin

text \<open>
  A connection and its cursors together: what closing the connection (\<open>Connection.close\<close> of
  \<open>dbapi2.py\<close>) does to the cursors made from it. The cursor state extends that of its
  connection, so the operations of both run on it.
\<close>

section \<open>A refused call\<close>

text \<open>The connection behind a cursor is closed, and asking it again does not change that.\<close>

definition shut_driver :: "'j driver \<Rightarrow> 'j \<Rightarrow> bool" where
  "shut_driver d j \<longleftrightarrow> d_isClosed d j = (Inr True, j)"

lemma cu_validate_shut:
  "shut_driver d (jdb w) \<Longrightarrow> cu_validate d w = (Inl (Exn ProgrammingError ''Cursor is closed''), w)"
  by (simp add: shut_driver_def cu_validate_def programming_error_def pyrun)

lemma check_executed_shut:
  "shut_driver d (jdb w) \<Longrightarrow> check_executed d w = (Inl (Exn ProgrammingError ''Cursor is closed''), w)"
  by (simp add: shut_driver_def check_executed_def programming_error_def pyrun)

lemma shut_call:
  assumes "shut_driver d (jdb w)" and "needs_open c" and "c \<noteq> CuParameters"
  shows "\<exists>w'. cu_run d tt c w = (Inl (Exn ProgrammingError ''Cursor is closed''), w') \<and> jdb w' = jdb w \<and>
    cu_closed (cu w') = cu_closed (cu w) \<and> cu_statement (cu w') = cu_statement (cu w)"
  using assms
  by (cases c)
    (auto simp: cu_run_def cu_close_def execute_def executemany_def callproc_def callproc_body_def
      fetchone_def fetchmany_def fetchall_def cu_iter_def parameters_def discard_def
      cu_validate_shut check_executed_shut save_on_error_def save_finally_def programming_error_def pyrun)

section \<open>The driver's side\<close>

text \<open>Documented of JDBC: \<open>isClosed\<close> only tells whether the connection was closed, which closing it
  does; closing a result set or statement of a closed connection has no effect.\<close>

locale jdbc_closing =
  fixes d :: "'j driver" and closed :: "'j \<Rightarrow> bool"
  assumes is_closed: "d_isClosed d j = (Inr (closed j), j)"
    and close: "d_close d j = (Inr u, j') \<Longrightarrow> closed j'"
    and release_statement: "closed j \<Longrightarrow> \<exists>j'. d_closeStatement d h j = (Inr (), j') \<and> closed j'"
    and release_results: "closed j \<Longrightarrow> \<exists>j'. d_closeResultSet d h j = (Inr (), j') \<and> closed j'"
begin

lemma shut: "closed (jdb w) \<Longrightarrow> shut_driver d (jdb w)"
  using is_closed by (simp add: shut_driver_def)

lemma connection_closes:
  assumes "cx_close d w = (Inr (), w1)" and "jvm_started w"
  shows "closed (jdb w1) \<and> cx_closed (cx w1) \<and> cu w1 = cu w \<and> jvm_started w1"
  using assms close
  by (auto simp: cx_close_def cx_validate_def cx_shut_def is_closed programming_error_def pyrun
      split: if_splits prod.splits sum.splits)

lemma finish_closed:
  assumes "closed (jdb w)"
  shows "\<exists>w'. finish d w = (Inr (), w') \<and> closed (jdb w') \<and> cu_resultSet (cu w') = None \<and> cu_statement (cu w') = None"
proof -
  have 1: "\<exists>w1. (case cu_resultSet (cu w) of None \<Rightarrow> ret ()
        | Some h \<Rightarrow> pseq (drv (d_closeResultSet d h)) (upd_cu (\<lambda>c. c\<lparr>cu_resultSet := None\<rparr>))) w = (Inr (), w1) \<and>
      closed (jdb w1) \<and> cu_resultSet (cu w1) = None"
  proof (cases "cu_resultSet (cu w)")
    case (Some h)
    obtain j where "d_closeResultSet d h (jdb w) = (Inr (), j)" "closed j" using release_results [OF assms] by blast
    with Some show ?thesis by (simp add: upd_cu_def pyrun)
  qed (use assms in \<open>simp add: pyrun\<close>)
  then obtain w1 where w1: "(case cu_resultSet (cu w) of None \<Rightarrow> ret ()
        | Some h \<Rightarrow> pseq (drv (d_closeResultSet d h)) (upd_cu (\<lambda>c. c\<lparr>cu_resultSet := None\<rparr>))) w = (Inr (), w1)"
      "closed (jdb w1)" "cu_resultSet (cu w1) = None" by blast
  have "\<exists>w2. (case cu_statement (cu w1) of None \<Rightarrow> ret ()
        | Some h \<Rightarrow> pseq (drv (d_closeStatement d h)) (upd_cu (\<lambda>c. c\<lparr>cu_statement := None\<rparr>))) w1 = (Inr (), w2) \<and>
      closed (jdb w2) \<and> cu_resultSet (cu w2) = None \<and> cu_statement (cu w2) = None"
  proof (cases "cu_statement (cu w1)")
    case (Some h)
    obtain j where "d_closeStatement d h (jdb w1) = (Inr (), j)" "closed j" using release_statement [OF w1(2)] by blast
    with Some w1 show ?thesis by (simp add: upd_cu_def pyrun)
  qed (use w1 in \<open>simp add: pyrun\<close>)
  with w1 show ?thesis by (auto simp: finish_def pyrun)
qed

lemma exit_releases:
  assumes "closed (jdb w)" and "jvm_started w" and "\<not> cu_closed (cu w)"
  shows "\<exists>w'. cu_exit d w = (Inr (), w') \<and> cu_closed (cu w') \<and> cu_statement (cu w') = None"
  using finish_closed [OF assms(1)] assms(2,3) by (auto simp: cu_exit_def cu_shut_def upd_cu_def pyrun)

end

interpretation demo_closing: jdbc_closing demo_driver dm_closed
  by unfold_locales (auto simp: demo_driver_def note_call_def pyrun)

text \<open>C17: After a connection is closed, every guarded call on a cursor made from it raises
  ProgrammingError, close included, and reaches the driver with no statement: the cursor stays
  as it was, not closed. Only leaving its \<open>with\<close> block releases and closes it, and does so
  without error.\<close>
theorem closing_connection_stops_cursors:
  assumes "jdbc_closing d closed" and "jvm_started w" and "cx_close d w = (Inr (), w1)"
    and "needs_open c" and "c \<noteq> CuParameters"
  shows "(\<exists>w2. cu_run d tt c w1 = (Inl (Exn ProgrammingError ''Cursor is closed''), w2) \<and> jdb w2 = jdb w1 \<and>
      cu_closed (cu w2) = cu_closed (cu w) \<and> cu_statement (cu w2) = cu_statement (cu w)) \<and>
    (\<not> cu_closed (cu w) \<longrightarrow> (\<exists>w2. cu_exit d w1 = (Inr (), w2) \<and> cu_closed (cu w2) \<and> cu_statement (cu w2) = None))"
proof -
  have w1: "closed (jdb w1)" "cu w1 = cu w" "jvm_started w1"
    using jdbc_closing.connection_closes [OF assms(1,3,2)] by simp_all
  show ?thesis
    using shut_call [OF jdbc_closing.shut [OF assms(1) w1(1)] assms(4,5), of tt]
      jdbc_closing.exit_releases [OF assms(1) w1(1,3)] w1(2) by simp
qed

theorem closing_connection_stops_cursors_witness:
  "\<exists>w1 w2. cx_close demo_driver (demo_cu []) = (Inr (), w1) \<and>
     cu_run demo_driver module_tables CuClose w1 = (Inl (Exn ProgrammingError ''Cursor is closed''), w2) \<and> \<not> cu_closed (cu w2)"
proof -
  obtain w1 where r: "cx_close demo_driver (demo_cu []) = (Inr (), w1)"
    by (auto simp: cx_close_def cx_validate_def cx_shut_def demo_cu_def demo_connection_def demo_driver_def
        demo_state_def pyrun)
  have "jvm_started (demo_cu [])" "\<not> cu_closed (cu (demo_cu []))"
    by (simp_all add: demo_cu_def Cursor_init_def)
  with closing_connection_stops_cursors [OF demo_closing.jdbc_closing_axioms _ r, of CuClose module_tables] r
  show ?thesis by auto
qed

end
