(* ===== verification/ClassPath.thy ===== *)
theory ClassPath
  imports PyExceptions
begin

text \<open>
  The class path: \<open>_classpath.py\<close> (\<open>addClassPath\<close>, \<open>getClassPath\<close>) and the option and
  class path handling of \<open>_core.py\<close> (\<open>_getOption\<close>, \<open>_expandClassPath\<close>). Paths are
  pathlib's POSIX paths, a root and a list of components. Which jars a directory
  holds and what a glob pattern matches are arguments, and so is the class loader.
\<close>

section \<open>POSIX paths\<close>

record path =
  p_root :: string
  p_parts :: "string list"

definition slash :: char where
  "slash = CHR ''/''"

text \<open>Exactly two leading slashes are a root of their own.\<close>

definition root_of :: "string \<Rightarrow> string" where
  "root_of s =
     (if startswith s ''//'' \<and> \<not> startswith s ''///'' then ''//''
      else if startswith s ''/'' then ''/'' else [])"

definition Path :: "string \<Rightarrow> path" where
  "Path s = \<lparr>p_root = root_of s, p_parts = [p \<leftarrow> py_split slash s. p \<noteq> [] \<and> p \<noteq> ''.'']\<rparr>"

definition path_str :: "path \<Rightarrow> string" where
  "path_str p = (if p_root p = [] \<and> p_parts p = [] then ''.'' else p_root p @ py_join slash (p_parts p))"

definition path_name :: "path \<Rightarrow> string" where
  "path_name p = (if p_parts p = [] then [] else last (p_parts p))"

definition path_parent :: "path \<Rightarrow> path" where
  "path_parent p = p\<lparr>p_parts := butlast (p_parts p)\<rparr>"

definition is_absolute :: "path \<Rightarrow> bool" where
  "is_absolute p = (p_root p \<noteq> [])"

definition joinpath :: "path \<Rightarrow> path \<Rightarrow> path" where
  "joinpath p q = (if is_absolute q then q else p\<lparr>p_parts := p_parts p @ p_parts q\<rparr>)"

definition path_ok :: "path \<Rightarrow> bool" where
  "path_ok p \<longleftrightarrow> p_root p \<in> {[], ''/'', ''//''} \<and>
     (\<forall>x\<in>set (p_parts p). x \<noteq> [] \<and> x \<noteq> ''.'' \<and> slash \<notin> set x)"

section \<open>The module \<open>_classpath\<close>\<close>

record 'l cp_state =
  CLASSPATHS :: "path list"
  cp_started :: bool
  loader :: 'l

text \<open>\<open>jars d\<close> is what \<open>d.glob("*.jar")\<close> lists, \<open>add_path\<close> the class loader's \<open>addPath\<close>.\<close>

definition addClassPath ::
  "(path \<Rightarrow> path list) \<Rightarrow> (string \<Rightarrow> ('l, pyexn, unit) pyop) \<Rightarrow> path \<Rightarrow> string \<Rightarrow>
   ('l cp_state, pyexn, unit) pyop" where
  "addClassPath jars add_path caller_dir path1 =
     (let p0 = Path path1;
          p = (if is_absolute p0 then p0 else joinpath caller_dir p0);
          load = (\<lambda>q w. case add_path (path_str q) (loader w) of (r, l) \<Rightarrow> (r, w\<lparr>loader := l\<rparr>));
          record_it = pmod (\<lambda>w. w\<lparr>CLASSPATHS := CLASSPATHS w @ [p]\<rparr>)
      in pbind (pget cp_started) (\<lambda>started.
           if started
           then (if path_name p = ''*''
                 then (let paths = jars (path_parent p) in
                       if paths = [] then ret () else pseq (pfor paths load) record_it)
                 else pseq (load p) record_it)
           else record_it))"

text \<open>One entry of the merged list; a path object never equals the empty string.\<close>

definition expand_entry :: "(path \<Rightarrow> path list) \<Rightarrow> path \<Rightarrow> path list" where
  "expand_entry jars p = (if path_name p = ''*'' then jars (path_parent p) else [p])"

definition merged_paths :: "path list \<Rightarrow> char \<Rightarrow> bool \<Rightarrow> string option \<Rightarrow> path list" where
  "merged_paths user sep env envPath =
     user @ (case envPath of
         Some s \<Rightarrow> if env \<and> s \<noteq> [] then map Path (py_split sep s) else []
       | None \<Rightarrow> [])"

definition getClassPath ::
  "(path \<Rightarrow> path list) \<Rightarrow> char \<Rightarrow> string option \<Rightarrow> path list \<Rightarrow> bool \<Rightarrow> string" where
  "getClassPath jars sep envPath user env =
     py_join sep (map path_str (concat (map (expand_entry jars) (merged_paths user sep env envPath))))"

section \<open>Options and class path elements\<close>

text \<open>A positional argument of \<open>startJVM\<close>.\<close>

datatype jvm_arg = ArgStr string | ArgNone | ArgPath string

text \<open>
  \<open>_getOption\<close>: the value of the first string argument that contains \<open>var=\<close> followed by
  something, wherever it stands, and the arguments without it.
\<close>

definition option_value :: "string \<Rightarrow> jvm_arg \<Rightarrow> string option" where
  "option_value var a = (case a of
      ArgStr v \<Rightarrow> (case py_partition v (var @ ''='') of (_, _, val) \<Rightarrow> if val = [] then None else Some val)
    | _ \<Rightarrow> None)"

fun getOption :: "string \<Rightarrow> bool \<Rightarrow> jvm_arg list \<Rightarrow> string option \<times> jvm_arg list" where
  "getOption var keep [] = (None, [])"
| "getOption var keep (a # args) =
     (case option_value var a of
        Some v \<Rightarrow> (Some v, if keep then a # args else args)
      | None \<Rightarrow> (case getOption var keep args of (r, rest) \<Rightarrow> (r, a # rest)))"

datatype cp_element = ElemStr string | ElemBytes | ElemOther

datatype cp_arg = CpOne string | CpMany "cp_element list" | CpOther

definition cp_error :: pyexn where
  "cp_error = Exn TypeError ''Classpath elements must be strings or Path-like''"

fun expand_elements :: "(string \<Rightarrow> string list) \<Rightarrow> cp_element list \<Rightarrow> pyexn + string list" where
  "expand_elements glob [] = Inr []"
| "expand_elements glob (ElemStr p # es) =
     map_sum id (\<lambda>rest. (if endswith p ''*'' then glob (p @ ''.jar'') else [p]) @ rest) (expand_elements glob es)"
| "expand_elements glob (_ # es) = Inl cp_error"

definition expandClassPath :: "(string \<Rightarrow> string list) \<Rightarrow> cp_arg \<Rightarrow> pyexn + string list" where
  "expandClassPath glob cp = (case cp of
      CpOne s \<Rightarrow> expand_elements glob [ElemStr s]
    | CpMany es \<Rightarrow> expand_elements glob es
    | CpOther \<Rightarrow> Inl (Exn TypeError ''Unknown class path element''))"

section \<open>Lemmas on paths\<close>

lemma Path_ok: "path_ok (Path s)"
  by (auto simp: Path_def path_ok_def root_of_def dest: py_split_parts)

lemma joinpath_ok: "path_ok p \<Longrightarrow> path_ok q \<Longrightarrow> path_ok (joinpath p q)"
  by (auto simp: joinpath_def path_ok_def)

lemma joinpath_absolute: "is_absolute p \<Longrightarrow> is_absolute (joinpath p q)"
  by (simp add: joinpath_def is_absolute_def)

lemma parent_ok: "path_ok p \<Longrightarrow> path_ok (path_parent p)"
  by (auto simp: path_ok_def path_parent_def dest: in_set_butlastD)

lemma py_split_slash_prefix: "py_split slash (slash # s) = [] # py_split slash s"
  by simp

lemma plain_parts_split:
  assumes "\<forall>x\<in>set xs. x \<noteq> [] \<and> x \<noteq> ''.'' \<and> slash \<notin> set x" and "xs \<noteq> []"
  shows "[p \<leftarrow> py_split slash (py_join slash xs). p \<noteq> [] \<and> p \<noteq> ''.''] = xs"
proof -
  have "py_split slash (py_join slash xs) = xs" using assms by (intro py_split_join) auto
  with assms(1) show ?thesis by (simp add: filter_id_conv)
qed

lemma join_head:
  assumes "x \<noteq> []" and "slash \<notin> set x"
  shows "\<exists>c s. py_join slash (x # xs) = c # s \<and> c \<noteq> slash"
  using assms by (cases xs; cases x) auto

text \<open>Paths read back: turning a path object into a string and parsing it again gives the
  same path, and every parsed path is in normal form.\<close>
theorem path_roundtrip:
  "path_ok (Path s) \<and> (path_ok p \<longrightarrow> Path (path_str p) = p)"
proof (intro conjI impI)
  show "path_ok (Path s)" by (rule Path_ok)
  assume ok: "path_ok p"
  then obtain root xs where p: "p = \<lparr>p_root = root, p_parts = xs\<rparr>"
    and root: "root = [] \<or> root = ''/'' \<or> root = ''//''"
    and xs: "\<forall>x\<in>set xs. x \<noteq> [] \<and> x \<noteq> ''.'' \<and> slash \<notin> set x"
    by (cases p) (auto simp: path_ok_def)
  show "Path (path_str p) = p"
  proof (cases "xs = []")
    case True
    with root p show ?thesis
      by (auto simp: path_str_def Path_def root_of_def startswith_def slash_def)
  next
    case False
    then obtain y ys where ys: "xs = y # ys" by (cases xs) auto
    obtain c t where ct: "py_join slash xs = c # t" "c \<noteq> slash"
      using join_head [of y ys] xs ys by auto
    note parts = plain_parts_split [OF xs False]
    have "root_of (root @ c # t) = root"
      using root ct(2) by (auto simp: root_of_def startswith_def slash_def)
    moreover have "[p \<leftarrow> py_split slash (root @ c # t). p \<noteq> [] \<and> p \<noteq> ''.''] = xs"
      using root parts ct by (auto simp: slash_def)
    ultimately show ?thesis using p False ct(1) by (simp add: path_str_def Path_def)
  qed
qed

lemma path_roundtrip_witness:
  "Path (path_str (Path ''/opt//lib/./x.jar'')) = Path ''/opt//lib/./x.jar''"
  using path_roundtrip [of "[]" "Path ''/opt//lib/./x.jar''"] path_roundtrip [of "''/opt//lib/./x.jar''"] by blast
section \<open>What the class path holds\<close>

lemma getClassPath_split:
  assumes "\<forall>p\<in>set (concat (map (expand_entry jars) (merged_paths user sep env envPath))). sep \<notin> set (path_str p)"
    and "concat (map (expand_entry jars) (merged_paths user sep env envPath)) \<noteq> []"
  shows "py_split sep (getClassPath jars sep envPath user env) =
     map path_str (concat (map (expand_entry jars) (merged_paths user sep env envPath)))"
  unfolding getClassPath_def using assms by (intro py_split_join) auto

lemma no_entry_skipped: "path_name p \<noteq> ''*'' \<Longrightarrow> expand_entry jars p = [p]"
  by (simp add: expand_entry_def)

text \<open>The class path is a faithful list: read back at its separator it is the user's
  entries in the order they were added and then those of the environment variable, each
  directory wildcard replaced by the jars of its directory, and no other entry skipped,
  provided no entry contains the separator.\<close>
theorem getClassPath_entries:
  assumes "entries = concat (map (expand_entry jars)
      (user @ (if env \<and> envPath \<noteq> [] then map Path (py_split sep envPath) else [])))"
    and "\<forall>p\<in>set entries. sep \<notin> set (path_str p)" and "entries \<noteq> []"
  shows "py_split sep (getClassPath jars sep (Some envPath) user env) = map path_str entries \<and>
         (\<forall>p\<in>set user. path_name p \<noteq> ''*'' \<longrightarrow> p \<in> set entries) \<and>
         (\<forall>p\<in>set user. path_name p = ''*'' \<longrightarrow> set (jars (path_parent p)) \<subseteq> set entries)"
proof -
  have e: "entries = concat (map (expand_entry jars) (merged_paths user sep env (Some envPath)))"
    using assms(1) by (simp add: merged_paths_def)
  have "py_split sep (getClassPath jars sep (Some envPath) user env) = map path_str entries"
    using getClassPath_split [of jars user sep env "Some envPath"] assms(2,3) unfolding e by blast
  then show ?thesis using assms(1) by (auto simp: expand_entry_def)
qed

lemma getClassPath_entries_witness:
  "py_split (CHR '':'') (getClassPath (\<lambda>_. []) (CHR '':'') (Some ''/b'') [Path ''/a''] True) = [''/a'', ''/b'']"
proof -
  have "path_str (Path ''/a'') = ''/a''" "path_str (Path ''/b'') = ''/b''"
    "path_name (Path ''/a'') = ''a''" "path_name (Path ''/b'') = ''b''" "py_split (CHR '':'') ''/b'' = [''/b'']"
    by code_simp+
  then show ?thesis
    using getClassPath_entries [of "[Path ''/a'', Path ''/b'']" "\<lambda>_. []" "[Path ''/a'']" True "''/b''" "CHR '':''"]
    by (simp add: expand_entry_def)
qed

lemma pfor_loader_keeps:
  "triple (\<lambda>w. CLASSPATHS w = cs) (pfor paths (\<lambda>q w. case add_path (path_str q) (loader w) of (r, l) \<Rightarrow> (r, w\<lparr>loader := l\<rparr>)))
     (\<lambda>_ w. CLASSPATHS w = cs) (\<lambda>_ w. CLASSPATHS w = cs)"
  by (rule triple_for) (auto simp: triple_def split: prod.splits sum.splits)

text \<open>\<open>addClassPath\<close> records at most one entry, at the end and absolute: the path given,
  or that path below the caller's directory. It records none when the running class
  loader refuses a jar or the wildcard matches nothing, and always does so when the JVM
  is not running, without touching the loader.\<close>
theorem addClassPath_records:
  assumes "is_absolute caller"
  shows "case addClassPath jars add_path caller s w of
      (r, w') \<Rightarrow> (CLASSPATHS w' = CLASSPATHS w \<or>
         (r = Inr () \<and> (\<exists>p. CLASSPATHS w' = CLASSPATHS w @ [p] \<and> is_absolute p \<and>
            (p = Path s \<or> p = joinpath caller (Path s))))) \<and>
         (\<not> cp_started w \<longrightarrow> loader w' = loader w \<and> length (CLASSPATHS w') = Suc (length (CLASSPATHS w)))"
proof -
  define p where "p = (if is_absolute (Path s) then Path s else joinpath caller (Path s))"
  have p: "is_absolute p \<and> (p = Path s \<or> p = joinpath caller (Path s))"
    using assms by (simp add: p_def joinpath_absolute)
  have loop: "CLASSPATHS u = CLASSPATHS w"
    if "pfor paths (\<lambda>q w. case add_path (path_str q) (loader w) of (r, l) \<Rightarrow> (r, w\<lparr>loader := l\<rparr>)) w = (x, u)" for paths x u
    using pfor_loader_keeps [of "CLASSPATHS w" paths add_path] that
    by (fastforce simp: triple_def split: sum.splits)
  show ?thesis
    unfolding addClassPath_def p_def [symmetric] Let_def
    using p loop by (auto simp: pyrun split: prod.split sum.split)
qed

lemma addClassPath_records_witness:
  "\<exists>p. CLASSPATHS (snd (addClassPath (\<lambda>_. []) (\<lambda>_. ret ()) (Path ''/home/me'') ''lib''
     \<lparr>CLASSPATHS = [], cp_started = False, loader = ()\<rparr>)) = [p]"
proof -
  have "is_absolute (Path ''/home/me'')" by code_simp
  from addClassPath_records [OF this, where jars = "\<lambda>_. []" and add_path = "\<lambda>_. ret ()" and s = "''lib''"
      and w = "\<lparr>CLASSPATHS = [], cp_started = False, loader = ()\<rparr>"]
  show ?thesis by (auto simp: length_Suc_conv split: prod.splits)
qed

section \<open>Options\<close>

lemma option_value_Some:
  "option_value var a = Some v \<longleftrightarrow>
     (\<exists>s i. a = ArgStr s \<and> str_find (var @ ''='') s = Some i \<and> v = drop (i + Suc (length var)) s \<and> v \<noteq> [])"
  by (auto simp: option_value_def py_partition_def split: jvm_arg.splits option.splits if_splits)

lemma getOption_None: "getOption var keep args = (None, rest) \<longleftrightarrow>
    rest = args \<and> (\<forall>a\<in>set args. option_value var a = None)"
proof (induction args arbitrary: rest)
  case Nil
  show ?case by auto
next
  case (Cons a args)
  show ?case
  proof (cases "option_value var a")
    case None
    obtain r rest' where r: "getOption var keep args = (r, rest')" by (cases "getOption var keep args")
    with None Cons.IH [of rest'] Cons.IH [of args] show ?thesis by (cases r) auto
  qed simp
qed

lemma getOption_Some:
  "getOption var keep args = (Some v, rest) \<Longrightarrow>
     \<exists>i<length args. option_value var (args ! i) = Some v \<and>
        (\<forall>k<i. option_value var (args ! k) = None) \<and>
        rest = (if keep then args else take i args @ drop (Suc i) args)"
proof (induction args arbitrary: rest)
  case Nil
  then show ?case by simp
next
  case (Cons a args)
  show ?case
  proof (cases "option_value var a")
    case (Some u)
    with Cons.prems show ?thesis by (intro exI [of _ 0]) auto
  next
    case None
    with Cons.prems obtain rest' where "getOption var keep args = (Some v, rest')" "rest = a # rest'"
      by (auto split: prod.splits)
    with Cons.IH obtain i where i: "i < length args" "option_value var (args ! i) = Some v"
      "\<forall>k<i. option_value var (args ! k) = None"
      "rest' = (if keep then args else take i args @ drop (Suc i) args)" by blast
    with None \<open>rest = a # rest'\<close> show ?thesis
      by (intro exI [of _ "Suc i"]) (auto simp: nth_Cons split: nat.splits)
  qed
qed

text \<open>\<open>_getOption\<close> takes the first argument that holds \<open>var=\<close> with a value, at any place
  in the string, and removes that argument and no other unless told to keep it; with no
  such argument the list is unchanged, so an option with an empty value stays.\<close>
theorem getOption_exact:
  "getOption var keep args = (r, rest) \<longleftrightarrow>
     (case r of
        None \<Rightarrow> rest = args \<and> (\<forall>a\<in>set args. option_value var a = None)
      | Some v \<Rightarrow> \<exists>i<length args. option_value var (args ! i) = Some v \<and>
          (\<forall>k<i. option_value var (args ! k) = None) \<and>
          rest = (if keep then args else take i args @ drop (Suc i) args))"
proof (cases r)
  case None
  then show ?thesis using getOption_None [of var keep args rest] by simp
next
  case (Some v)
  have "getOption var keep args = (Some v, rest)"
    if "i < length args" "option_value var (args ! i) = Some v" "\<forall>k<i. option_value var (args ! k) = None"
      "rest = (if keep then args else take i args @ drop (Suc i) args)" for i
  proof (cases "getOption var keep args")
    case (Pair r' rest')
    show ?thesis
    proof (cases r')
      case None
      with Pair that(1,2) getOption_None [of var keep args rest'] show ?thesis by force
    next
      case (Some u)
      with Pair getOption_Some [of var keep args u rest'] obtain j where
        j: "j < length args" "option_value var (args ! j) = Some u" "\<forall>k<j. option_value var (args ! k) = None"
        "rest' = (if keep then args else take j args @ drop (Suc j) args)" by auto
      have "j = i" using j that by (metis linorder_neqE_nat option.distinct(1))
      with j that Pair Some show ?thesis by simp
    qed
  qed
  then have "getOption var keep args = (Some v, rest) \<longleftrightarrow>
      (\<exists>i<length args. option_value var (args ! i) = Some v \<and> (\<forall>k<i. option_value var (args ! k) = None) \<and>
         rest = (if keep then args else take i args @ drop (Suc i) args))"
    using getOption_Some [of var keep args v rest] by blast
  with Some show ?thesis by simp
qed

lemma getOption_exact_witness:
  "getOption ''-Dx'' False [ArgStr ''-Dx='', ArgStr ''-Dx=1'', ArgStr ''-Dx=2''] =
     (Some ''1'', [ArgStr ''-Dx='', ArgStr ''-Dx=2''])"
proof -
  have "option_value ''-Dx'' (ArgStr ''-Dx='') = None" "option_value ''-Dx'' (ArgStr ''-Dx=1'') = Some ''1''"
    by code_simp+
  then show ?thesis
    using getOption_exact [of "''-Dx''" False "[ArgStr ''-Dx='', ArgStr ''-Dx=1'', ArgStr ''-Dx=2'']" "Some ''1''"
        "[ArgStr ''-Dx='', ArgStr ''-Dx=2'']"]
    by (auto simp: less_Suc_eq intro!: exI [of _ 1])
qed

lemma expand_elements_append:
  "expand_elements glob (es @ fs) = (case expand_elements glob es of
     Inl e \<Rightarrow> Inl e | Inr xs \<Rightarrow> map_sum id (\<lambda>ys. xs @ ys) (expand_elements glob fs))"
  by (induction glob es rule: expand_elements.induct)
     (auto split: sum.splits simp: sum.map_comp comp_def map_sum_def)

end
