(* ===== verification/Lifecycle.thy ===== *)
theory Lifecycle
  imports ClassPath JvmFinder Keywords
begin

text \<open>
  Starting and stopping the JVM: \<open>startJVM\<close>, \<open>initializeResources\<close>, \<open>shutdownJVM\<close> and
  the helpers of \<open>_core.py\<close>, with the initializer list of \<open>_jinit.py\<close>. The extension
  module \<open>_jpype\<close>, the Java classes and the locale are the record \<open>runtime\<close>; what the
  call finds on the machine (paths, files, the temporary directory) is the record
  \<open>boot\<close>. An initializer is a function on the Python world \<open>'w\<close>.
\<close>

section \<open>State\<close>

record 'n runtime =
  rt_isStarted :: "'n \<Rightarrow> bool"
  rt_startup :: "string \<Rightarrow> jvm_arg list \<Rightarrow> bool \<times> bool \<times> bool \<Rightarrow> string option \<Rightarrow> ('n, pyexn, unit) pyop"
  rt_JClass :: "string \<Rightarrow> ('n, pyexn, unit) pyop"
  rt_setKeywords :: "string list \<Rightarrow> ('n, pyexn, unit) pyop"
  rt_context :: "('n, pyexn, unit) pyop"
  rt_javaVersion :: "('n, pyexn, string) pyop"
  rt_freeResources :: "bool \<Rightarrow> ('n, pyexn, unit) pyop"
  rt_shutdown :: "bool \<Rightarrow> ('n, pyexn, unit) pyop"
  rt_getlocale :: "string \<Rightarrow> ('n, pyexn, string) pyop"
  rt_setlocale :: "string \<Rightarrow> string \<Rightarrow> ('n, pyexn, unit) pyop"

record class_tables =
  bindings :: "(string, string) dict"
  class_hints :: "(string, string) dict"
  object_classes :: "(string, string) dict"
  type_classes :: "(string, string) dict"

record ('n, 'w, 'f) lifecycle =
  native :: 'n
  world :: 'w
  jvm_was_started :: bool
  JInitializers :: "'f list"
  tables :: class_tables
  import_hook :: bool

type_synonym ('n, 'w, 'f, 'a) lc_op = "(('n, 'w, 'f) lifecycle, pyexn, 'a) pyop"

definition nat_op :: "('n, pyexn, 'a) pyop \<Rightarrow> ('n, 'w, 'f, 'a) lc_op" where
  "nat_op m = (\<lambda>w. case m (native w) of (r, n) \<Rightarrow> (r, w\<lparr>native := n\<rparr>))"

definition world_op :: "('w, pyexn, 'a) pyop \<Rightarrow> ('n, 'w, 'f, 'a) lc_op" where
  "world_op m = (\<lambda>w. case m (world w) of (r, u) \<Rightarrow> (r, w\<lparr>world := u\<rparr>))"

lemma nat_op_run [pyrun]: "nat_op m w = (case m (native w) of (r, n) \<Rightarrow> (r, w\<lparr>native := n\<rparr>))"
  by (simp add: nat_op_def)

lemma world_op_run [pyrun]: "world_op m w = (case m (world w) of (r, u) \<Rightarrow> (r, w\<lparr>world := u\<rparr>))"
  by (simp add: world_op_def)

section \<open>The deprecation wrapper\<close>

record wrapper =
  w_warned :: bool
  w_warning :: string
  w_log :: "string list"

definition deprecated_new :: "string option \<Rightarrow> string \<Rightarrow> string \<Rightarrow> wrapper" where
  "deprecated_new replacement module name =
     \<lparr>w_warned = False,
      w_warning = (case replacement of
          Some r \<Rightarrow> module @ ''.'' @ name @ '' is deprecated, use '' @ r @ '' instead''
        | None \<Rightarrow> module @ ''.'' @ name @ '' is deprecated''),
      w_log = []\<rparr>"

text \<open>A call: the warning is issued the first time, then the real function runs.\<close>

definition deprecated_call :: "(wrapper, pyexn, unit) pyop" where
  "deprecated_call =
     pseq (pbind (pget (\<lambda>w. (w_warned w, w_warning w))) (\<lambda>(warned, msg).
            if warned then ret () else pmod (\<lambda>w. w\<lparr>w_log := w_log w @ [msg]\<rparr>)))
       (pmod (\<lambda>w. w\<lparr>w_warned := True\<rparr>))"

section \<open>Initializers\<close>

definition isJVMStarted :: "'n runtime \<Rightarrow> ('n, 'w, 'f, bool) lc_op" where
  "isJVMStarted rt = pget (\<lambda>w. rt_isStarted rt (native w))"

definition registerJVMInitializer ::
  "'n runtime \<Rightarrow> ('f \<Rightarrow> ('w, pyexn, unit) pyop) \<Rightarrow> 'f \<Rightarrow> ('n, 'w, 'f, unit) lc_op" where
  "registerJVMInitializer rt run f =
     pbind (isJVMStarted rt) (\<lambda>started.
       if \<not> started then pmod (\<lambda>w. w\<lparr>JInitializers := JInitializers w @ [f]\<rparr>)
       else world_op (run f))"

definition onJVMStart ::
  "'n runtime \<Rightarrow> ('f \<Rightarrow> ('w, pyexn, unit) pyop) \<Rightarrow> 'f \<Rightarrow> ('n, 'w, 'f, 'f) lc_op" where
  "onJVMStart rt run f = pseq (registerJVMInitializer rt run f) (ret f)"

definition runJVMInitializers :: "('f \<Rightarrow> ('w, pyexn, unit) pyop) \<Rightarrow> ('n, 'w, 'f, unit) lc_op" where
  "runJVMInitializers run =
     pbind (pget JInitializers) (\<lambda>fs.
       pseq (pfor fs (\<lambda>f. world_op (run f))) (pmod (\<lambda>w. w\<lparr>JInitializers := []\<rparr>)))"

section \<open>Resources\<close>

definition preloaded :: "string list" where
  "preloaded = map (\<lambda>n. ''java.lang.'' @ n)
     [''Object'', ''Throwable'', ''Exception'', ''Class'', ''String'', ''RuntimeException'',
      ''Boolean'', ''Byte'', ''Character'', ''Short'', ''Integer'', ''Long'', ''Float'', ''Double'']"

definition bound_types :: "(string, string) dict" where
  "bound_types =
     [(''JString'', ''java.lang.String''), (''JObject'', ''java.lang.Object''),
      (''JBoolean'', ''java.lang.Boolean.TYPE''), (''JByte'', ''java.lang.Byte.TYPE''),
      (''JChar'', ''java.lang.Character.TYPE''), (''JShort'', ''java.lang.Short.TYPE''),
      (''JInt'', ''java.lang.Integer.TYPE''), (''JLong'', ''java.lang.Long.TYPE''),
      (''JFloat'', ''java.lang.Float.TYPE''), (''JDouble'', ''java.lang.Double.TYPE'')]"

definition primitive_hints :: "(string, string) dict" where
  "primitive_hints =
     [(''JBoolean'', ''boolean''), (''JByte'', ''byte''), (''JChar'', ''char''), (''JShort'', ''short''),
      (''JInt'', ''int''), (''JLong'', ''long''), (''JFloat'', ''float''), (''JDouble'', ''double'')]"

text \<open>\<open>JObject(value, type)\<close> and \<open>JArray(type)\<close> look up a Python type here.\<close>

definition object_table :: "(string, string) dict" where
  "object_table = fold (\<lambda>(k, v). dict_set k v)
     [(''bool'', ''java.lang.Boolean''), (''int'', ''java.lang.Long''), (''float'', ''java.lang.Double''),
      (''str'', ''java.lang.String''), (''type'', ''java.lang.Class''), (''object'', ''java.lang.Object''),
      (''_JClass'', ''java.lang.Class''), (''JBoolean'', ''java.lang.Boolean''), (''JByte'', ''java.lang.Byte''),
      (''JChar'', ''java.lang.Character''), (''JShort'', ''java.lang.Short''), (''JInt'', ''java.lang.Integer''),
      (''JLong'', ''java.lang.Long''), (''JFloat'', ''java.lang.Float''), (''JDouble'', ''java.lang.Double''),
      (''NoneType'', ''java.lang.Object''), (''JString'', ''java.lang.String'')] []"

definition type_table :: "(string, string) dict" where
  "type_table = fold (\<lambda>(k, v). dict_set k v)
     [(''bool'', ''JBoolean''), (''int'', ''JLong''), (''float'', ''JDouble''), (''str'', ''java.lang.String''),
      (''type'', ''java.lang.Class''), (''object'', ''java.lang.Object''), (''JString'', ''java.lang.String''),
      (''JObject'', ''java.lang.Object''), (''JClass'', ''java.lang.Class'')] []"

definition initializeResources ::
  "'n runtime \<Rightarrow> ('f \<Rightarrow> ('w, pyexn, unit) pyop) \<Rightarrow> ('n, 'w, 'f, unit) lc_op" where
  "initializeResources rt run =
     pseq (pfor preloaded (\<lambda>c. nat_op (rt_JClass rt c)))
     (pseq (pmod (\<lambda>w. w\<lparr>tables := \<lparr>bindings = bound_types, class_hints = primitive_hints,
              object_classes = object_table, type_classes = type_table\<rparr>\<rparr>))
     (pseq (runJVMInitializers run)
     (pseq (nat_op (rt_setKeywords rt KEYWORDS))
     (pseq (nat_op (rt_context rt))
       (pmod (\<lambda>w. w\<lparr>jvm_was_started := True\<rparr>))))))"

section \<open>The temporary directory\<close>

record temp_env =
  te_getenv :: "string \<Rightarrow> string option"
  te_nt_dirs :: "string list option"
  te_pid :: string
  te_touch :: "string \<Rightarrow> bool"

text \<open>
  The candidates: three environment variables, then the system's directories (on
  Windows after expansion of the variables in them, \<open>te_nt_dirs\<close>).
\<close>

definition temp_candidates :: "temp_env \<Rightarrow> string list" where
  "temp_candidates te =
     [d. n \<leftarrow> [''TMPDIR'', ''TEMP'', ''TMP''],
         d \<leftarrow> (case te_getenv te n of None \<Rightarrow> [] | Some d \<Rightarrow> if d \<noteq> [] \<and> str_isascii d then [d] else [])] @
     (case te_nt_dirs te of
        Some dirs \<Rightarrow> [d \<leftarrow> dirs. d \<noteq> [] \<and> str_isascii d]
      | None \<Rightarrow> [''/tmp'', ''/var/tmp'', ''/usr/tmp''])"

fun first_writable :: "temp_env \<Rightarrow> string list \<Rightarrow> pyexn + string" where
  "first_writable te [] = Inl (Exn RuntimeError ''Unable to find non-ansii path.'')"
| "first_writable te (d # ds) =
     (if te_touch te (d @ ''/'' @ te_pid te) then Inr d else first_writable te ds)"

definition findTemp :: "temp_env \<Rightarrow> pyexn + string" where
  "findTemp te = first_writable te (temp_candidates te)"

section \<open>Starting\<close>

record boot =
  b_env :: env
  b_jars :: "path \<Rightarrow> path list"
  b_glob :: "string \<Rightarrow> string list"
  b_sep :: char
  b_envClassPath :: "string option"
  b_user_paths :: "path list"
  b_support_lib :: string
  b_support_exists :: bool
  b_quote :: "string \<Rightarrow> string"
  b_temp :: temp_env
  b_mkstemp :: "string \<Rightarrow> pyexn + string"
  b_copyfile :: "string \<Rightarrow> string \<Rightarrow> pyexn + unit"
  b_version_gt :: "string \<Rightarrow> string \<Rightarrow> bool"
  b_lc_categories :: "string list"
  b_lazy_imports :: bool

record start_args =
  sa_jvmargs :: "jvm_arg list"
  sa_jvmpath :: jvm_arg
  sa_classpath :: "cp_arg option"
  sa_ignoreUnrecognized :: bool
  sa_convertStrings :: bool
  sa_interrupt :: bool
  sa_minimum_version :: "string option"

fun arg_true :: "jvm_arg \<Rightarrow> bool" where
  "arg_true ArgNone = False"
| "arg_true (ArgStr s) = (s \<noteq> [])"
| "arg_true (ArgPath p) = True"

text \<open>The path of the JVM library among the arguments, and the arguments left.\<close>

definition first_is_path :: "jvm_arg list \<Rightarrow> bool" where
  "first_is_path args = (case args of
      ArgNone # _ \<Rightarrow> True | ArgStr s # _ \<Rightarrow> \<not> startswith s ''-'' | _ \<Rightarrow> False)"

definition split_path_arg :: "jvm_arg list \<Rightarrow> jvm_arg \<Rightarrow> pyexn + jvm_arg \<times> jvm_arg list" where
  "split_path_arg args jvmpath =
     (if first_is_path args
      then (if arg_true jvmpath then Inl (Exn TypeError ''jvmpath specified twice'')
            else Inr (hd args, tl args))
      else Inr (jvmpath, args))"

definition resolve_path :: "env \<Rightarrow> jvm_arg \<Rightarrow> pyexn + string" where
  "resolve_path env p = (case p of
      ArgStr s \<Rightarrow> if s = [] then getDefaultJVMPath env else Inr s
    | ArgPath s \<Rightarrow> Inr s
    | ArgNone \<Rightarrow> getDefaultJVMPath env)"

text \<open>The class path: an old style option, the keyword, or the default.\<close>

definition choose_classpath ::
  "boot \<Rightarrow> jvm_arg list \<Rightarrow> cp_arg option \<Rightarrow> pyexn + cp_arg \<times> jvm_arg list" where
  "choose_classpath b args classpath =
     (case getOption ''-Djava.class.path'' False args of
        (Some v, rest) \<Rightarrow>
          (if classpath \<noteq> None then Inl (Exn TypeError ''classpath specified twice'')
           else Inr (CpMany (map ElemStr (py_split (b_sep b) v)), rest))
      | (None, rest) \<Rightarrow>
          (case classpath of
             Some c \<Rightarrow> Inr (c, rest)
           | None \<Rightarrow> Inr (CpOne (getClassPath (b_jars b) (b_sep b) (b_envClassPath b) (b_user_paths b) True), rest)))"

definition java_class_path :: "boot \<Rightarrow> cp_arg \<Rightarrow> pyexn + string" where
  "java_class_path b cp =
     map_sum id (\<lambda>xs. py_join (b_sep b) [x \<leftarrow> xs @ [b_support_lib b]. x \<noteq> []]) (expandClassPath (b_glob b) cp)"

text \<open>A copy of the support library on an ASCII path.\<close>

definition ascii_support :: "boot \<Rightarrow> pyexn + string \<times> string option" where
  "ascii_support b =
     (if str_isascii (b_support_lib b) then Inr (b_support_lib b, None)
      else (case findTemp (b_temp b) of Inl e \<Rightarrow> Inl e | Inr d \<Rightarrow>
           (case b_mkstemp b d of Inl e \<Rightarrow> Inl e | Inr p \<Rightarrow>
            if \<not> str_isascii p then Inl (Exn ValueError ''Unable to find ascii temp directory.'')
            else (case b_copyfile b (b_support_lib b) p of Inl e \<Rightarrow> Inl e | Inr _ \<Rightarrow> Inr (p, Some p)))))"

definition extra_args :: "boot \<Rightarrow> bool \<Rightarrow> string \<Rightarrow> pyexn + jvm_arg list \<times> string option" where
  "extra_args b system_class_loader classpath =
     (if \<not> str_isascii classpath
      then (if system_class_loader
            then Inl (Exn ValueError ''system classloader cannot be specified with non ascii characters in the classpath'')
            else map_sum id (\<lambda>(lib, tmp).
                   ([ArgStr ''-Djava.system.class.loader=org.jpype.JPypeClassLoader'',
                     ArgStr (''-Djava.class.path='' @ lib),
                     ArgStr (''-Djpype.class.path='' @ b_quote b classpath),
                     ArgStr ''-Xshare:off''], tmp)) (ascii_support b))
      else Inr ([ArgStr (''-Djava.class.path='' @ classpath)], None))"

text \<open>Everything before the JVM is touched: the library, its arguments, the temporary copy.\<close>

definition prepare_start :: "boot \<Rightarrow> start_args \<Rightarrow> pyexn + string \<times> jvm_arg list \<times> string option" where
  "prepare_start b a =
     (case split_path_arg (sa_jvmargs a) (sa_jvmpath a) of Inl e \<Rightarrow> Inl e | Inr (p, args) \<Rightarrow>
     (case resolve_path (b_env b) p of Inl e \<Rightarrow> Inl e | Inr path \<Rightarrow>
     (case choose_classpath b args (sa_classpath a) of Inl e \<Rightarrow> Inl e | Inr (cp, args') \<Rightarrow>
      if \<not> b_support_exists b
      then Inl (Exn RuntimeError (''Unable to find org.jpype.jar support library at '' @ b_support_lib b))
      else
     (case java_class_path b cp of Inl e \<Rightarrow> Inl e | Inr classpath \<Rightarrow>
     (case extra_args b (fst (getOption ''-Djava.system.class.loader'' True args') \<noteq> None) classpath of
        Inl e \<Rightarrow> Inl e
      | Inr (extra, tmp) \<Rightarrow> Inr (path, args' @ extra, tmp))))))"

text \<open>The number of a class file version in an error text: \<open>re.search("([0-9]+)\.[0-9]+")\<close>.\<close>

definition is_digit :: "char \<Rightarrow> bool" where
  "is_digit c = (48 \<le> (of_char c :: nat) \<and> (of_char c :: nat) \<le> 57)"

definition digit_val :: "char \<Rightarrow> nat" where
  "digit_val c = of_char c - 48"

definition nat_of_digits :: "string \<Rightarrow> nat" where
  "nat_of_digits s = foldl (\<lambda>n c. 10 * n + digit_val c) 0 s"

definition match_version_here :: "string \<Rightarrow> nat option" where
  "match_version_here s =
     (let ds = takeWhile is_digit s; rest = dropWhile is_digit s in
      case rest of
        c # d # _ \<Rightarrow> if ds \<noteq> [] \<and> c = CHR ''.'' \<and> is_digit d then Some (nat_of_digits ds) else None
      | _ \<Rightarrow> None)"

fun search_version :: "string \<Rightarrow> nat option" where
  "search_version [] = None"
| "search_version (c # s) =
     (case match_version_here (c # s) of Some n \<Rightarrow> Some n | None \<Rightarrow> search_version s)"

definition explain_start_error :: "string \<Rightarrow> pyexn \<Rightarrow> pyexn" where
  "explain_start_error path e =
     (if str_in ''UnsupportedClassVersion'' (exn_msg e)
      then (case search_version (exn_msg e) of
              Some n \<Rightarrow> Exn RuntimeError (path @ '' is older than required Java version'' @ int_str (int n - 44))
            | None \<Rightarrow> e)
      else e)"

definition check_minimum :: "'n runtime \<Rightarrow> boot \<Rightarrow> string \<Rightarrow> string option \<Rightarrow> ('n, 'w, 'f, unit) lc_op" where
  "check_minimum rt b path minimum = (case minimum of
      None \<Rightarrow> ret ()
    | Some v1 \<Rightarrow> pbind (nat_op (rt_javaVersion rt)) (\<lambda>v2.
        if b_version_gt b v1 v2
        then throw (Exn RuntimeError (''Version of JVM is less than minimum requested. ('' @ v2 @ ''<'' @ v1 @
               '', path='' @ path @ '')''))
        else ret ()))"

definition restore_locale :: "'n runtime \<Rightarrow> (string \<times> string) list \<Rightarrow> ('n, 'w, 'f, unit) lc_op" where
  "restore_locale rt saved =
     pfor saved (\<lambda>(cat, loc). except_clause LocaleError (\<lambda>_. ret ()) (nat_op (rt_setlocale rt cat loc)))"

definition start_native ::
  "'n runtime \<Rightarrow> ('f \<Rightarrow> ('w, pyexn, unit) pyop) \<Rightarrow> boot \<Rightarrow> start_args \<Rightarrow> string \<times> jvm_arg list \<times> string option \<Rightarrow>
   ('n, 'w, 'f, unit) lc_op" where
  "start_native rt run b a = (\<lambda>(path, args, tmp).
     except_clause RuntimeError (\<lambda>e. throw (explain_start_error path e))
       (pbind (pmapM (b_lc_categories b) (\<lambda>c. nat_op (rt_getlocale rt c))) (\<lambda>prior.
        pseq (nat_op (rt_startup rt path args (sa_ignoreUnrecognized a, sa_convertStrings a, sa_interrupt a) tmp))
       (pseq (initializeResources rt run)
       (pseq (restore_locale rt (zip (b_lc_categories b) prior))
             (check_minimum rt b path (sa_minimum_version a)))))))"

definition startJVM ::
  "'n runtime \<Rightarrow> ('f \<Rightarrow> ('w, pyexn, unit) pyop) \<Rightarrow> boot \<Rightarrow> start_args \<Rightarrow> ('n, 'w, 'f, unit) lc_op" where
  "startJVM rt run b a =
     pbind (isJVMStarted rt) (\<lambda>running.
     if running then throw (Exn OSError ''JVM is already started'')
     else pbind (pget jvm_was_started) (\<lambda>was.
     if was then throw (Exn OSError ''JVM cannot be restarted'')
     else pbind (plift (prepare_start b a)) (\<lambda>p.
          pseq (start_native rt run b a p)
               (if b_lazy_imports b then pmod (\<lambda>w. w\<lparr>import_hook := True\<rparr>) else ret ()))))"

section \<open>Stopping and the other calls\<close>

record config =
  onexit :: bool
  destroy_jvm :: bool
  free_resources :: bool

definition shutdownJVM :: "'n runtime \<Rightarrow> config \<Rightarrow> bool \<Rightarrow> ('n, 'w, 'f, unit) lc_op" where
  "shutdownJVM rt cfg main_thread =
     (if \<not> main_thread then throw (Exn RuntimeError ''Shutdown must be called from main thread'')
      else pbind (isJVMStarted rt) (\<lambda>running.
           pseq (if running then nat_op (rt_freeResources rt (free_resources cfg)) else ret ())
                (nat_op (rt_shutdown rt (destroy_jvm cfg)))))"

definition JTerminate :: "'n runtime \<Rightarrow> config \<Rightarrow> ('n, 'w, 'f, unit) lc_op" where
  "JTerminate rt cfg =
     except_clause RuntimeError (\<lambda>_. ret ())
       (if onexit cfg then nat_op (rt_shutdown rt (destroy_jvm cfg)) else ret ())"

text \<open>\<open>int(s)\<close> of the digits and dots the version pattern takes, and the version tuple.\<close>

definition parse_int :: "string \<Rightarrow> pyexn + int" where
  "parse_int s = (if s \<noteq> [] \<and> list_all is_digit s then Inr (int (nat_of_digits s))
                  else Inl (Exn ValueError (''invalid literal for int() with base 10: '' @ s)))"

fun parse_ints :: "string list \<Rightarrow> pyexn + int list" where
  "parse_ints [] = Inr []"
| "parse_ints (s # ss) = (case parse_int s of Inl e \<Rightarrow> Inl e | Inr i \<Rightarrow> map_sum id (\<lambda>is. i # is) (parse_ints ss))"

definition version_tuple :: "string \<Rightarrow> pyexn + int list" where
  "version_tuple s =
     (let m = takeWhile (\<lambda>c. is_digit c \<or> c = CHR ''.'') s in
      if m = [] then Inl (Exn AttributeError ''group'') else parse_ints (py_split (CHR ''.'') m))"

text \<open>The package version (which may be missing) or else the runtime's own.\<close>

definition getJVMVersion :: "bool \<Rightarrow> string option \<Rightarrow> string \<Rightarrow> pyexn + int list" where
  "getJVMVersion started impl_version runtime_version =
     (if \<not> started then Inr [0, 0, 0]
      else version_tuple (case impl_version of None \<Rightarrow> runtime_version
                          | Some v \<Rightarrow> if v = [] then runtime_version else v))"

section \<open>The calls of a program\<close>

datatype 'f lc_call = LcStart boot start_args | LcShutdown config bool | LcTerminate config | LcRegister 'f

definition lc_run :: "'n runtime \<Rightarrow> ('f \<Rightarrow> ('w, pyexn, unit) pyop) \<Rightarrow> 'f lc_call \<Rightarrow> ('n, 'w, 'f, unit) lc_op" where
  "lc_run rt run c = (case c of
      LcStart b a \<Rightarrow> startJVM rt run b a
    | LcShutdown cfg main \<Rightarrow> shutdownJVM rt cfg main
    | LcTerminate cfg \<Rightarrow> JTerminate rt cfg
    | LcRegister f \<Rightarrow> registerJVMInitializer rt run f)"

fun lc_calls ::
  "'n runtime \<Rightarrow> ('f \<Rightarrow> ('w, pyexn, unit) pyop) \<Rightarrow> 'f lc_call list \<Rightarrow> ('n, 'w, 'f) lifecycle \<Rightarrow> ('n, 'w, 'f) lifecycle" where
  "lc_calls rt run [] w = w"
| "lc_calls rt run (c # cs) w = lc_calls rt run cs (snd (lc_run rt run c w))"

section \<open>What each step leaves alone\<close>

named_theorems lcinv \<open>lifecycle operations keep an invariant\<close>

lemma nat_op_keeps: "(\<And>w n. I w \<Longrightarrow> I (w\<lparr>native := n\<rparr>)) \<Longrightarrow> keeps I (nat_op m)"
  by (rule keepsI) (auto simp: pyrun split: prod.splits)

lemma world_op_keeps: "(\<And>w u. I w \<Longrightarrow> I (w\<lparr>world := u\<rparr>)) \<Longrightarrow> keeps I (world_op m)"
  by (rule keepsI) (auto simp: pyrun split: prod.splits)

text \<open>Once the flag is set no operation clears it.\<close>

lemma flag_nat [lcinv]: "keeps jvm_was_started (nat_op m)"
  by (rule nat_op_keeps) simp

lemma flag_world [lcinv]: "keeps jvm_was_started (world_op m)"
  by (rule world_op_keeps) simp

lemma flag_mod [lcinv]: "(\<And>w. jvm_was_started w \<Longrightarrow> jvm_was_started (f w)) \<Longrightarrow> keeps jvm_was_started (pmod f)"
  by (rule keepsI) (simp add: pyrun)

lemma startJVM_flag [lcinv]: "keeps jvm_was_started (startJVM rt run b a)"
  by (rule keepsI) (simp add: startJVM_def isJVMStarted_def pyrun)

lemma lc_run_flag: "keeps jvm_was_started (lc_run rt run c)"
  by (cases c)
     (auto simp: lc_run_def shutdownJVM_def JTerminate_def registerJVMInitializer_def isJVMStarted_def
       intro!: keeps_rules' triple_if lcinv)

lemma lc_calls_flag: "jvm_was_started w \<Longrightarrow> jvm_was_started (lc_calls rt run cs w)"
  by (induction cs arbitrary: w) (auto dest: keepsD [OF lc_run_flag])

lemma startJVM_refused:
  assumes "jvm_was_started w \<or> rt_isStarted rt (native w)"
  shows "\<exists>m. startJVM rt run b a w = (Inl (Exn OSError m), w)"
  using assms by (auto simp: startJVM_def isJVMStarted_def pyrun)

section \<open>The initializers run\<close>

lemma pfor_world:
  "pfor fs (\<lambda>f. world_op (run f)) w =
     (case pfor fs run (world w) of (r, u) \<Rightarrow> (r, w\<lparr>world := u\<rparr>))"
  by (induction fs arbitrary: w) (auto simp: pyrun split: prod.splits sum.splits)

lemma pfor_native:
  "pfor cs (\<lambda>c. nat_op (op c)) w =
     (case pfor cs op (native w) of (r, n) \<Rightarrow> (r, w\<lparr>native := n\<rparr>))"
  by (induction cs arbitrary: w) (auto simp: pyrun split: prod.splits sum.splits)

text \<open>What the resources step does to the parts of the state the module owns.\<close>

lemma initializeResources_run:
  assumes "initializeResources rt run w = (r, w')"
  shows "world w' \<in> {world w, snd (pfor (JInitializers w) run (world w))} \<and>
    (r = Inr () \<longrightarrow> JInitializers w' = [] \<and> jvm_was_started w' \<and>
        object_classes (tables w') = object_table \<and> type_classes (tables w') = type_table \<and>
        pfor (JInitializers w) run (world w) = (Inr (), world w')) \<and>
    ((\<exists>e u. pfor (JInitializers w) run (world w) = (Inl e, u)) \<longrightarrow>
        r \<noteq> Inr () \<and> JInitializers w' = JInitializers w \<and> jvm_was_started w' = jvm_was_started w)"
proof -
  obtain r1 n1 where n1: "pfor preloaded (rt_JClass rt) (native w) = (r1, n1)" by fastforce
  obtain r2 u where u: "pfor (JInitializers w) run (world w) = (r2, u)" by fastforce
  obtain r3 n3 where n3: "rt_setKeywords rt KEYWORDS n1 = (r3, n3)" by fastforce
  obtain r4 n4 where n4: "rt_context rt n3 = (r4, n4)" by fastforce
  have "(r, w') = (case r1 of Inl e \<Rightarrow> (Inl e, w\<lparr>native := n1\<rparr>) | Inr _ \<Rightarrow>
      (let w1 = w\<lparr>native := n1, tables := \<lparr>bindings = bound_types, class_hints = primitive_hints,
              object_classes = object_table, type_classes = type_table\<rparr>\<rparr> in
       case r2 of Inl e \<Rightarrow> (Inl e, w1\<lparr>world := u\<rparr>) | Inr _ \<Rightarrow>
       (case r3 of Inl e \<Rightarrow> (Inl e, w1\<lparr>world := u, JInitializers := [], native := n3\<rparr>) | Inr _ \<Rightarrow>
       (case r4 of Inl e \<Rightarrow> (Inl e, w1\<lparr>world := u, JInitializers := [], native := n4\<rparr>) | Inr _ \<Rightarrow>
        (Inr (), w1\<lparr>world := u, JInitializers := [], native := n4, jvm_was_started := True\<rparr>)))))"
    unfolding assms [symmetric] initializeResources_def runJVMInitializers_def
    by (cases r1; cases r2; cases r3; cases r4)
       (simp_all add: pseq_run pbind_run pget_run pmod_run pfor_world pfor_native nat_op_run n1 u n3 n4 Let_def)
  with u show ?thesis by (cases r1; cases r2; cases r3; cases r4) (simp_all add: Let_def)
qed

lemma restore_locale_keeps:
  assumes "\<And>w n. I w \<Longrightarrow> I (w\<lparr>native := n\<rparr>)"
  shows "keeps I (restore_locale rt saved)"
  using nat_op_keeps [of I, OF assms]
  by (auto simp: restore_locale_def intro!: triple_for keeps_rules' split: prod.split)

lemma check_minimum_keeps:
  assumes "\<And>w n. I w \<Longrightarrow> I (w\<lparr>native := n\<rparr>)"
  shows "keeps I (check_minimum rt b path mv)"
  using nat_op_keeps [of I, OF assms]
  by (auto simp: check_minimum_def intro!: keeps_rules' triple_if split: option.split)

definition before_init :: "'w \<Rightarrow> 'f list \<Rightarrow> bool \<Rightarrow> ('n, 'w, 'f) lifecycle \<Rightarrow> bool" where
  "before_init u fs flag w \<longleftrightarrow> world w = u \<and> JInitializers w = fs \<and> jvm_was_started w = flag"

definition after_init :: "('f \<Rightarrow> ('w, pyexn, unit) pyop) \<Rightarrow> 'w \<Rightarrow> 'f list \<Rightarrow> ('n, 'w, 'f) lifecycle \<Rightarrow> bool" where
  "after_init run u fs w \<longleftrightarrow> JInitializers w = [] \<and> jvm_was_started w \<and>
     object_classes (tables w) = object_table \<and> type_classes (tables w) = type_table \<and>
     pfor fs run u = (Inr (), world w)"

definition init_failed :: "('f \<Rightarrow> ('w, pyexn, unit) pyop) \<Rightarrow> 'w \<Rightarrow> 'f list \<Rightarrow> bool \<Rightarrow> ('n, 'w, 'f) lifecycle \<Rightarrow> bool" where
  "init_failed run u fs flag w \<longleftrightarrow>
     ((\<exists>e v. pfor fs run u = (Inl e, v)) \<longrightarrow> JInitializers w = fs \<and> jvm_was_started w = flag)"

lemma initializeResources_outcome:
  assumes pre: "before_init u fs flag w"
  shows "case initializeResources rt run w of
      (Inl e, s') \<Rightarrow> init_failed run u fs flag s' | (Inr x, s') \<Rightarrow> after_init run u fs s'"
proof -
  obtain r w' where run: "initializeResources rt run w = (r, w')" by fastforce
  from initializeResources_run [OF run] pre show ?thesis
    by (cases r) (auto simp: run before_init_def after_init_def init_failed_def)
qed

lemma initializeResources_triple:
  "triple (before_init u fs flag) (initializeResources rt run)
     (\<lambda>_. after_init run u fs) (\<lambda>_. init_failed run u fs flag)"
  unfolding triple_def by (intro allI impI initializeResources_outcome)

lemma before_native: "keeps (before_init u fs flag) (nat_op m)"
  by (rule nat_op_keeps) (simp add: before_init_def)

lemma after_native: "after_init run u fs w \<Longrightarrow> after_init run u fs (w\<lparr>native := n\<rparr>)"
  by (simp add: after_init_def)

lemma before_failed: "before_init u fs flag w \<Longrightarrow> init_failed run u fs flag w"
  by (simp add: before_init_def init_failed_def)

lemma after_failed: "after_init run u fs w \<Longrightarrow> init_failed run u fs flag w"
  by (auto simp: after_init_def init_failed_def)

lemma keeps_weaken: "keeps I m \<Longrightarrow> (\<And>s. I s \<Longrightarrow> E s) \<Longrightarrow> triple I m (\<lambda>_. I) (\<lambda>_. E)"
  by (erule triple_conseq) auto

lemma start_native_triple:
  "triple (before_init u fs flag) (start_native rt run b a p)
     (\<lambda>_. after_init run u fs) (\<lambda>_. init_failed run u fs flag)"
proof -
  obtain path args tmp where p: "p = (path, args, tmp)" by (cases p)
  have body: "triple (before_init u fs flag)
      (pbind (pmapM (b_lc_categories b) (\<lambda>c. nat_op (rt_getlocale rt c))) (\<lambda>prior.
        pseq (nat_op (rt_startup rt path args (sa_ignoreUnrecognized a, sa_convertStrings a, sa_interrupt a) tmp))
       (pseq (initializeResources rt run)
       (pseq (restore_locale rt (zip (b_lc_categories b) prior))
             (check_minimum rt b path (sa_minimum_version a))))))
      (\<lambda>_. after_init run u fs) (\<lambda>_. init_failed run u fs flag)"
    by (intro triple_bind [OF keeps_weaken [OF triple_mapM]] triple_seq [OF keeps_weaken [OF before_native]]
          triple_seq [OF initializeResources_triple]
          triple_seq [OF keeps_weaken [OF restore_locale_keeps]] keeps_weaken [OF check_minimum_keeps]
          before_native before_failed after_failed after_native)
  show ?thesis
    unfolding start_native_def p except_clause_def prod.case
    by (rule triple_catch [OF body]) (auto intro!: triple_if triple_throw)
qed

lemma startJVM_triple:
  "triple (before_init u fs flag) (startJVM rt run b a)
     (\<lambda>_. after_init run u fs) (\<lambda>_. init_failed run u fs flag)"
proof -
  have hook: "triple (after_init run u fs) (pmod (\<lambda>w. w\<lparr>import_hook := True\<rparr>)) (\<lambda>_. after_init run u fs) E"
    for E
    by (rule triple_pmod) (simp add: after_init_def)
  show ?thesis
    unfolding startJVM_def isJVMStarted_def
    by (auto intro!: triple_bind [OF keeps_weaken [OF triple_pget]] triple_if triple_throw
        triple_bind [OF keeps_weaken [OF triple_plift]] triple_seq [OF start_native_triple] hook triple_ret
        before_failed)
qed

section \<open>Properties of the life cycle\<close>

text \<open>C13: The JVM cannot be restarted. After a successful \<open>startJVM\<close>, whatever calls follow
  (shutdowns included), every later \<open>startJVM\<close> raises \<open>OSError\<close> and changes nothing.\<close>
theorem jvm_never_restarts:
  assumes "startJVM rt run b a w = (Inr (), w')"
  shows "\<exists>m. startJVM rt run b' a' (lc_calls rt run calls w') =
     (Inl (Exn OSError m), lc_calls rt run calls w')"
proof -
  have "after_init run (world w) (JInitializers w) w'"
    by (rule tripleD [OF startJVM_triple _ assms]) (simp add: before_init_def)
  then have "jvm_was_started (lc_calls rt run calls w')"
    by (simp add: after_init_def lc_calls_flag)
  then show ?thesis by (simp add: startJVM_refused)
qed

text \<open>C35: A successful \<open>startJVM\<close> has run every registered initializer once, in the order of
  registration, and emptied the list, with the conversion tables in place; a function
  registered while the JVM runs is run at once and never listed.\<close>
theorem startJVM_runs_initializers:
  assumes "startJVM rt run b a w = (Inr (), w')"
  shows "pfor (JInitializers w) run (world w) = (Inr (), world w') \<and> JInitializers w' = [] \<and>
     object_classes (tables w') = object_table \<and> type_classes (tables w') = type_table \<and>
     (rt_isStarted rt (native w') \<longrightarrow>
        registerJVMInitializer rt run f w' = (case run f (world w') of (r, u) \<Rightarrow> (r, w'\<lparr>world := u\<rparr>)))"
proof -
  have "after_init run (world w) (JInitializers w) w'"
    by (rule tripleD [OF startJVM_triple _ assms]) (simp add: before_init_def)
  then show ?thesis
    by (simp add: after_init_def registerJVMInitializer_def isJVMStarted_def pyrun)
qed

text \<open>If an initializer raises, \<open>startJVM\<close> raises, the list keeps all its functions,
  also those that have run, and the module still counts the JVM as not started.\<close>
theorem failing_initializer:
  assumes "pfor (JInitializers w) run (world w) = (Inl e, u)"
    and "startJVM rt run b a w = (r, w')"
  shows "(\<exists>e'. r = Inl e') \<and> JInitializers w' = JInitializers w \<and> jvm_was_started w' = jvm_was_started w"
proof -
  note T = startJVM_triple [of "world w" "JInitializers w" "jvm_was_started w" rt run b a]
  have pre: "before_init (world w) (JInitializers w) (jvm_was_started w) w" by (simp add: before_init_def)
  show ?thesis
  proof (cases r)
    case (Inl e')
    with tripleD_exn [OF T pre, of e' w'] assms show ?thesis by (auto simp: init_failed_def)
  next
    case (Inr x)
    with tripleD [OF T pre, of x w'] assms show ?thesis by (auto simp: after_init_def)
  qed
qed

text \<open>A small runtime for concrete runs: the native state is whether the JVM runs.\<close>

definition demo_rt :: "bool runtime" where
  "demo_rt = \<lparr>rt_isStarted = (\<lambda>n. n), rt_startup = (\<lambda>_ _ _ _. pmod (\<lambda>_. True)), rt_JClass = (\<lambda>_. ret ()),
     rt_setKeywords = (\<lambda>_. ret ()), rt_context = ret (), rt_javaVersion = ret ''17.0.1'',
     rt_freeResources = (\<lambda>_. ret ()), rt_shutdown = (\<lambda>_. pmod (\<lambda>_. False)),
     rt_getlocale = (\<lambda>_. ret ''C''), rt_setlocale = (\<lambda>_ _. ret ())\<rparr>"

definition demo_init :: "string \<Rightarrow> (string list, pyexn, unit) pyop" where
  "demo_init f = (if f = ''bad'' then throw (Exn ValueError f) else pmod (\<lambda>u. u @ [f]))"

definition demo_boot :: boot where
  "demo_boot = \<lparr>b_env = sample_env, b_jars = (\<lambda>_. []), b_glob = (\<lambda>_. []), b_sep = CHR '':'',
     b_envClassPath = None, b_user_paths = [Path ''/a'', Path ''/b/x*''], b_support_lib = ''/j.jar'',
     b_support_exists = True, b_quote = id,
     b_temp = \<lparr>te_getenv = (\<lambda>_. None), te_nt_dirs = None, te_pid = ''1'', te_touch = (\<lambda>_. True)\<rparr>,
     b_mkstemp = Inr, b_copyfile = (\<lambda>_ _. Inr ()), b_version_gt = (\<lambda>_ _. False),
     b_lc_categories = [''LC_TIME''], b_lazy_imports = False\<rparr>"

definition demo_args :: start_args where
  "demo_args = \<lparr>sa_jvmargs = [ArgStr ''/lib/jvm.so'', ArgStr ''-Xmx1g''], sa_jvmpath = ArgNone,
     sa_classpath = Some (CpOne ''/app.jar''), sa_ignoreUnrecognized = False, sa_convertStrings = False,
     sa_interrupt = True, sa_minimum_version = None\<rparr>"

definition demo_lc :: "string list \<Rightarrow> (bool, string list, string) lifecycle" where
  "demo_lc inits = \<lparr>native = False, world = [], jvm_was_started = False, JInitializers = inits,
     tables = \<lparr>bindings = [], class_hints = [], object_classes = [], type_classes = []\<rparr>, import_hook = False\<rparr>"

lemma demo_prepared:
  "prepare_start demo_boot demo_args =
     Inr (''/lib/jvm.so'', [ArgStr ''-Xmx1g'', ArgStr ''-Djava.class.path=/app.jar:/j.jar''], None)"
  by code_simp

lemma pfor_ret: "pfor xs (\<lambda>_. ret ()) s = (Inr (), s)"
  by (induction xs) (simp_all add: pyrun)

lemma nat_op_ret: "nat_op (ret x) = ret x"
  by (rule ext) (simp add: pyrun)

lemma demo_fields:
  "b_lc_categories demo_boot = [''LC_TIME'']" "b_lazy_imports demo_boot = False"
  "sa_minimum_version demo_args = None"
  by (simp_all add: demo_boot_def demo_args_def)

lemma demo_start:
  "\<exists>w'. startJVM demo_rt demo_init demo_boot demo_args (demo_lc [''a'', ''b'']) = (Inr (), w')"
  by (simp add: startJVM_def isJVMStarted_def demo_prepared demo_fields start_native_def except_clause_def
      initializeResources_def runJVMInitializers_def restore_locale_def check_minimum_def
      nat_op_ret pfor_ret demo_rt_def demo_lc_def demo_init_def pyrun)

lemma jvm_never_restarts_witness:
  "\<exists>w' m. startJVM demo_rt demo_init demo_boot demo_args (demo_lc [''a'', ''b'']) = (Inr (), w') \<and>
     fst (startJVM demo_rt demo_init demo_boot demo_args
       (lc_calls demo_rt demo_init [LcShutdown \<lparr>onexit = True, destroy_jvm = True, free_resources = True\<rparr> True] w'))
       = Inl (Exn OSError m)"
proof -
  obtain w' where run: "startJVM demo_rt demo_init demo_boot demo_args (demo_lc [''a'', ''b'']) = (Inr (), w')"
    using demo_start by blast
  from jvm_never_restarts [OF run, of demo_boot demo_args
      "[LcShutdown \<lparr>onexit = True, destroy_jvm = True, free_resources = True\<rparr> True]"] run
  show ?thesis by auto
qed

lemma startJVM_runs_initializers_witness:
  "\<exists>w'. startJVM demo_rt demo_init demo_boot demo_args (demo_lc [''a'', ''b'']) = (Inr (), w') \<and>
     world w' = [''a'', ''b'']"
proof -
  obtain w' where run: "startJVM demo_rt demo_init demo_boot demo_args (demo_lc [''a'', ''b'']) = (Inr (), w')"
    using demo_start by blast
  from startJVM_runs_initializers [OF run, of "''c''"] run show ?thesis
    by (simp add: demo_lc_def demo_init_def pyrun)
qed

lemma failing_initializer_witness:
  "JInitializers (snd (startJVM demo_rt demo_init demo_boot demo_args (demo_lc [''a'', ''bad'']))) = [''a'', ''bad'']"
proof -
  obtain r w' where run: "startJVM demo_rt demo_init demo_boot demo_args (demo_lc [''a'', ''bad'']) = (r, w')"
    by fastforce
  have "pfor (JInitializers (demo_lc [''a'', ''bad''])) demo_init (world (demo_lc [''a'', ''bad''])) =
      (Inl (Exn ValueError ''bad''), [''a''])"
    by (simp add: demo_lc_def demo_init_def pyrun)
  from failing_initializer [OF this run] run show ?thesis by (simp add: demo_lc_def)
qed

text \<open>Conflicting arguments are refused before the JVM is touched: a library path given
  both ways, or a class path given both as an option and as the keyword, raises
  \<open>TypeError\<close> (unless the JVM runs or ran, which is refused first) and leaves the whole
  state as it was; so does any other failure of the preparation.\<close>
theorem start_conflicts:
  assumes "\<not> rt_isStarted rt (native w)" and "\<not> jvm_was_started w"
  shows "(first_is_path (sa_jvmargs a) \<and> arg_true (sa_jvmpath a) \<longrightarrow>
            startJVM rt run b a w = (Inl (Exn TypeError ''jvmpath specified twice''), w)) \<and>
         (\<forall>p args path v rest. split_path_arg (sa_jvmargs a) (sa_jvmpath a) = Inr (p, args) \<and>
            resolve_path (b_env b) p = Inr path \<and>
            getOption ''-Djava.class.path'' False args = (Some v, rest) \<and> sa_classpath a \<noteq> None \<longrightarrow>
            startJVM rt run b a w = (Inl (Exn TypeError ''classpath specified twice''), w)) \<and>
         (\<forall>e. prepare_start b a = Inl e \<longrightarrow> startJVM rt run b a w = (Inl e, w))"
  using assms
  by (auto simp: startJVM_def isJVMStarted_def prepare_start_def split_path_arg_def choose_classpath_def pyrun)

lemma start_conflicts_witness:
  "startJVM demo_rt demo_init demo_boot (demo_args\<lparr>sa_jvmpath := ArgPath ''/x''\<rparr>) (demo_lc []) =
     (Inl (Exn TypeError ''jvmpath specified twice''), demo_lc [])"
  using start_conflicts [of demo_rt "demo_lc []" "demo_args\<lparr>sa_jvmpath := ArgPath ''/x''\<rparr>" demo_init demo_boot]
  by (simp add: demo_rt_def demo_lc_def demo_args_def first_is_path_def startswith_def)

lemma join_endswith: "endswith (py_join c (xs @ [l])) l"
proof (induction xs)
  case Nil
  show ?case by (simp add: endswith_def)
next
  case (Cons x xs)
  then obtain q where "py_join c (xs @ [l]) = q @ l" by (auto simp: endswith_iff)
  then show ?case by (auto simp: py_join_Cons endswith_iff)
qed

lemma java_class_path_support:
  assumes "java_class_path b cp = Inr s" and "b_support_lib b \<noteq> []"
  shows "endswith s (b_support_lib b)"
  using assms join_endswith by (auto simp: java_class_path_def map_sum_def split: sum.splits)

text \<open>The arguments the JVM is started with are the program's own, without the first
  old style class path option, followed by exactly one class path option as the last
  argument, and that class path ends with the support library; this is so whenever the
  class path is ASCII, and then no temporary copy is made.\<close>
theorem start_arguments:
  assumes "prepare_start b a = Inr (path, args, tmp)"
    and "split_path_arg (sa_jvmargs a) (sa_jvmpath a) = Inr (p, given)"
    and "choose_classpath b given (sa_classpath a) = Inr (cp, rest)"
    and "java_class_path b cp = Inr classpath" and "str_isascii classpath" and "b_support_lib b \<noteq> []"
  shows "args = rest @ [ArgStr (''-Djava.class.path='' @ classpath)] \<and> tmp = None \<and>
    endswith classpath (b_support_lib b) \<and>
    rest = snd (getOption ''-Djava.class.path'' False given)"
proof -
  have "rest = snd (getOption ''-Djava.class.path'' False given)"
    using assms(3) by (auto simp: choose_classpath_def split: prod.splits option.splits if_splits)
  moreover have "extra_args b f classpath = Inr ([ArgStr (''-Djava.class.path='' @ classpath)], None)" for f
    using assms(5) by (simp add: extra_args_def)
  then have "args = rest @ [ArgStr (''-Djava.class.path='' @ classpath)] \<and> tmp = None"
    using assms(1) by (auto simp: prepare_start_def assms(2-4) split: sum.splits if_splits)
  ultimately show ?thesis using java_class_path_support [OF assms(4,6)] by blast
qed

lemma start_arguments_witness:
  "endswith ''/app.jar:/j.jar'' (b_support_lib demo_boot)"
proof -
  have s: "split_path_arg (sa_jvmargs demo_args) (sa_jvmpath demo_args) = Inr (ArgStr ''/lib/jvm.so'', [ArgStr ''-Xmx1g''])"
    by code_simp
  have c: "choose_classpath demo_boot [ArgStr ''-Xmx1g''] (sa_classpath demo_args) = Inr (CpOne ''/app.jar'', [ArgStr ''-Xmx1g''])"
    by code_simp
  have l: "java_class_path demo_boot (CpOne ''/app.jar'') = Inr ''/app.jar:/j.jar''" by code_simp
  have a: "str_isascii ''/app.jar:/j.jar''" by code_simp
  have n: "b_support_lib demo_boot \<noteq> []" by (simp add: demo_boot_def)
  from start_arguments [OF demo_prepared s c l a n] show ?thesis by blast
qed

text \<open>With no class path given, the default class path is handed over as one element. If
  its text ends in a star (the last entry is a pattern such as \<open>lib/x*\<close>) and no file
  matches the whole joined text, every entry is lost: the JVM gets the support library only.\<close>
theorem default_classpath_star:
  assumes "getOption ''-Djava.class.path'' False args = (None, rest)"
    and "dcp = getClassPath (b_jars b) (b_sep b) (b_envClassPath b) (b_user_paths b) True"
    and "endswith dcp ''*''" and "b_glob b (dcp @ ''.jar'') = []" and "b_support_lib b \<noteq> []"
  shows "choose_classpath b args None = Inr (CpOne dcp, rest) \<and>
         java_class_path b (CpOne dcp) = Inr (b_support_lib b)"
  using assms by (simp add: choose_classpath_def java_class_path_def expandClassPath_def)

lemma default_classpath_star_witness:
  "java_class_path demo_boot (CpOne ''/a:/b/x*'') = Inr ''/j.jar''"
proof -
  have "getClassPath (b_jars demo_boot) (b_sep demo_boot) (b_envClassPath demo_boot) (b_user_paths demo_boot) True = ''/a:/b/x*''"
    "endswith ''/a:/b/x*'' ''*''" "getOption ''-Djava.class.path'' False [] = (None, [])"
    "b_support_lib demo_boot = ''/j.jar''"
    by code_simp+
  with default_classpath_star [of "[]" "[]" "''/a:/b/x*''" demo_boot] show ?thesis
    by (simp add: demo_boot_def)
qed

lemma first_writable_Inl:
  "(\<exists>e. first_writable te ds = Inl e) = (\<forall>d\<in>set ds. \<not> te_touch te (d @ ''/'' @ te_pid te))"
  by (induction ds) auto

lemma first_writable_Inr:
  "first_writable te ds = Inr d \<Longrightarrow>
      \<exists>us vs. ds = us @ d # vs \<and> te_touch te (d @ ''/'' @ te_pid te) \<and>
         (\<forall>u\<in>set us. \<not> te_touch te (u @ ''/'' @ te_pid te))"
proof (induction ds)
  case Nil
  then show ?case by simp
next
  case (Cons c ds)
  show ?case
  proof (cases "te_touch te (c @ ''/'' @ te_pid te)")
    case True
    with Cons.prems have "c # ds = [] @ d # ds \<and> te_touch te (d @ ''/'' @ te_pid te)" by simp
    then show ?thesis by (metis empty_iff list.set(1))
  next
    case False
    with Cons obtain us vs where "ds = us @ d # vs" "te_touch te (d @ ''/'' @ te_pid te)"
      "\<forall>u\<in>set us. \<not> te_touch te (u @ ''/'' @ te_pid te)" by auto
    with False show ?thesis by (intro exI [of _ "c # us"] exI [of _ vs]) auto
  qed
qed

lemmas first_writable_exact = first_writable_Inl first_writable_Inr

text \<open>The temporary directory chosen for a copy is the first candidate that can be
  written, and it is an ASCII path of the environment or of the system's list; there is no
  result exactly when no candidate can be written.\<close>
theorem findTemp_first:
  "(\<forall>d. findTemp te = Inr d \<longrightarrow>
      (\<exists>us vs. temp_candidates te = us @ d # vs \<and> te_touch te (d @ ''/'' @ te_pid te) \<and>
         (\<forall>u\<in>set us. \<not> te_touch te (u @ ''/'' @ te_pid te)))) \<and>
   ((\<exists>e. findTemp te = Inl e) = (\<forall>d\<in>set (temp_candidates te). \<not> te_touch te (d @ ''/'' @ te_pid te))) \<and>
   (\<forall>d\<in>set (temp_candidates te). str_isascii d)"
proof -
  note first_writable_exact [of te "temp_candidates te"]
  moreover have "\<forall>d\<in>set (temp_candidates te). str_isascii d"
  proof -
    have "str_isascii ''/tmp''" "str_isascii ''/var/tmp''" "str_isascii ''/usr/tmp''" by code_simp+
    then show ?thesis
      by (auto simp: temp_candidates_def split: option.splits if_splits)
  qed
  ultimately show ?thesis unfolding findTemp_def by blast
qed

lemma findTemp_first_witness:
  "\<exists>us vs. temp_candidates (b_temp demo_boot) = us @ ''/tmp'' # vs"
proof -
  have "findTemp (b_temp demo_boot) = Inr ''/tmp''" by code_simp
  with findTemp_first [of "b_temp demo_boot"] show ?thesis by blast
qed

section \<open>The version tuple\<close>

lemma digit_char:
  assumes "n < 10"
  shows "is_digit (char_of (48 + n :: nat))" and "digit_val (char_of (48 + n :: nat)) = n"
proof -
  have "of_char (char_of (48 + n) :: char) = (48 + n) mod (256 :: nat)" by simp
  with assms have "of_char (char_of (48 + n) :: char) = 48 + n" by simp
  with assms show "is_digit (char_of (48 + n :: nat))" and "digit_val (char_of (48 + n :: nat)) = n"
    by (simp_all add: is_digit_def digit_val_def)
qed

lemma nat_str_digits: "nat_str n \<noteq> [] \<and> list_all is_digit (nat_str n) \<and> nat_of_digits (nat_str n) = n"
proof (induction n rule: nat_str.induct)
  case (1 n)
  show ?case
  proof (cases "n < 10")
    case True
    then show ?thesis by (simp add: nat_str.simps [of n] digit_char nat_of_digits_def)
  next
    case False
    with 1 have IH: "list_all is_digit (nat_str (n div 10))" "nat_of_digits (nat_str (n div 10)) = n div 10"
      by auto
    have "n mod 10 < 10" by simp
    with False IH digit_char [of "n mod 10"] show ?thesis
      by (simp add: nat_str.simps [of n] nat_of_digits_def)
  qed
qed

lemma parse_nat_str: "parse_int (nat_str n) = Inr (int n)"
  using nat_str_digits [of n] by (simp add: parse_int_def)

lemma parse_nat_strs: "parse_ints (map nat_str ns) = Inr (map int ns)"
  by (induction ns) (simp_all add: parse_nat_str)

lemma dot_no_digit: "\<not> is_digit (CHR ''.'')"
  by (simp add: is_digit_def)

lemma join_set: "set (py_join c xs) \<subseteq> insert c (\<Union> (set ` set xs))"
proof (induction xs)
  case Nil
  show ?case by simp
next
  case (Cons x xs)
  then show ?case by (cases "xs = []") (auto simp: py_join_Cons)
qed

text \<open>A Java version text is read number by number: the numbers joined by dots, up to the
  first other character, come back as the tuple, as many as there are, which need not be
  three.\<close>
theorem version_roundtrip:
  assumes "ns \<noteq> []" and "rest = [] \<or> (\<not> is_digit (hd rest) \<and> hd rest \<noteq> CHR ''.'')"
  shows "getJVMVersion True (Some (py_join (CHR ''.'') (map nat_str ns) @ rest)) v = Inr (map int ns)"
proof -
  let ?s = "py_join (CHR ''.'') (map nat_str ns)"
  have digits: "\<forall>p\<in>set (map nat_str ns). p \<noteq> [] \<and> list_all is_digit p"
    using nat_str_digits by auto
  have "\<forall>c\<in>set ?s. is_digit c \<or> c = CHR ''.''"
    using join_set [of "CHR ''.''" "map nat_str ns"] digits by (fastforce simp: list_all_iff)
  then have take: "takeWhile (\<lambda>c. is_digit c \<or> c = CHR ''.'') (?s @ rest) = ?s"
    using assms(2) by (cases rest) (simp_all add: takeWhile_append)
  have split: "py_split (CHR ''.'') ?s = map nat_str ns"
    using assms(1) digits dot_no_digit by (intro py_split_join) (auto simp: list_all_iff)
  obtain n ms where ns: "ns = n # ms" using assms(1) by (cases ns) auto
  have ne: "?s \<noteq> []"
    using nat_str_digits [of n] by (cases ms) (simp_all add: ns py_join_Cons)
  with take split show ?thesis
    by (simp add: getJVMVersion_def version_tuple_def parse_nat_strs)
qed

lemma version_roundtrip_witness:
  "getJVMVersion True (Some (py_join (CHR ''.'') (map nat_str [17]) @ ''-ea'')) [] = Inr [17]"
  by (subst version_roundtrip) (simp_all add: is_digit_def)

end
