(* ===== verification/LifecycleMachine.thy ===== *)
theory LifecycleMachine
  imports Lifecycle
begin

text \<open>
  The life cycle of the JVM as a state machine of four phases: an abstract step relation,
  the simulation of every call of \<open>Lifecycle\<close> by it, and the invariant of the states a
  program can reach; and a start that takes its path from the finder. What the simulation relies on in the extension module is the locale
  \<open>native_jvm\<close>: only a start that succeeds begins the JVM and only a shutdown that succeeds
  ends it.
\<close>

section \<open>Phases\<close>










section \<open>The extension module\<close>




section \<open>The states of a program\<close>








section \<open>Starting with the finder\<close>



end
