(* ===== verification/Customizers.thy ===== *)
theory Customizers
  imports PyExceptions Keywords
begin

text \<open>
  Class customization: \<open>_jcustomizer.py\<close> (hints, prototypes, sticky overrides, the
  chained \<open>__jclass_init__\<close> hooks), the class construction callbacks and \<open>JClass\<close> of
  \<open>_jclass.py\<close>, and the accessor pairs of \<open>beans.py\<close>. A class is a node of a heap with
  its dictionary, its hook, its direct subclasses and its method resolution order. The
  dictionary entry \<open>__jclass_init__\<close> is the field \<open>c_init\<close>; the closures that the module
  builds for it are the values of \<open>hook\<close>, and the user's own hooks are functions on the
  heap given as the argument \<open>user\<close>.
\<close>

section \<open>Members and prototypes\<close>

datatype kind = KJMethod | KJField | KCallable | KString | KProperty | KStaticMethod | KClassMethod | KOther

record override =
  ov_sticky :: bool
  ov_rename :: "string option"

record member =
  m_kind :: kind
  m_name :: string
  m_id :: nat
  m_override :: "override option"
  m_accessor :: bool
  m_mutator :: bool

type_synonym members = "(string, member) dict"

text \<open>A prototype: its dictionary in order, with its own hook set apart.\<close>

record proto =
  pr_members :: members
  pr_init :: "string option"

text \<open>\<open>JOverride\<close>: bare it marks with an empty dictionary, else with its keywords.\<close>

definition JOverride :: "override option \<Rightarrow> member \<Rightarrow> member" where
  "JOverride kwargs m =
     m\<lparr>m_override := Some (case kwargs of None \<Rightarrow> \<lparr>ov_sticky = False, ov_rename = None\<rparr> | Some k \<Rightarrow> k)\<rparr>"

fun copied :: "member \<Rightarrow> bool" where
  "copied m = (m_kind m \<in> {KJMethod, KCallable, KString, KProperty, KStaticMethod, KClassMethod})"

definition java_member :: "member \<Rightarrow> bool" where
  "java_member m = (m_kind m \<in> {KJMethod, KJField})"

section \<open>Applying a prototype\<close>

text \<open>
  One entry of the prototype. The members are those of the class, which the setter
  changes, so a later entry sees what an earlier one set.
\<close>

definition apply_entry :: "string \<times> member \<Rightarrow> members \<times> member list \<Rightarrow> members \<times> member list" where
  "apply_entry = (\<lambda>(p, v) (mem, sticky).
     if \<not> copied v then (mem, sticky)
     else (case m_override v of
         None \<Rightarrow> (dict_set p v mem, sticky)
       | Some ov \<Rightarrow>
           if ov_sticky ov then (mem, sticky @ [v])
           else
             (let rename = (case ov_rename ov of None \<Rightarrow> CHR ''_'' # p | Some r \<Rightarrow> r);
                  mem' = (case dict_get mem p of
                      Some orig \<Rightarrow> if java_member orig then dict_set rename orig mem else mem
                    | None \<Rightarrow> mem)
              in (dict_set p v mem', sticky))))"

definition applyCustomizerImpl ::
  "members \<times> member list \<times> string list \<Rightarrow> proto \<Rightarrow> members \<times> member list \<times> string list" where
  "applyCustomizerImpl = (\<lambda>(mem, sticky, inits) proto.
     case fold apply_entry (pr_members proto) (mem, sticky) of (mem', sticky') \<Rightarrow>
       (mem', sticky', inits @ (case pr_init proto of None \<Rightarrow> [] | Some h \<Rightarrow> [h])))"

section \<open>Sticky overrides\<close>

definition apply_sticky1 :: "member \<Rightarrow> members \<Rightarrow> members" where
  "apply_sticky1 m mem =
     (let mem' = (case m_override m of
          Some ov \<Rightarrow> (case ov_rename ov of
              Some r \<Rightarrow> if r = [] then mem
                 else (case dict_get mem (m_name m) of
                     Some orig \<Rightarrow> if m_kind orig = KJMethod then dict_set r orig mem else mem
                   | None \<Rightarrow> mem)
            | None \<Rightarrow> mem)
        | None \<Rightarrow> mem)
      in dict_set (m_name m) m mem')"

definition applyStickyMethods :: "member list \<Rightarrow> members \<Rightarrow> members" where
  "applyStickyMethods sticky mem = fold apply_sticky1 sticky mem"

section \<open>Hooks and classes\<close>

datatype hook = Chain "hook option" "string list" "member list"

record jclass =
  c_name :: string
  c_dict :: members
  c_init :: "hook option"
  c_subs :: "nat list"
  c_mro :: "nat list"

type_synonym heap = "nat \<Rightarrow> jclass"

type_synonym user_hooks = "string \<Rightarrow> nat \<Rightarrow> (heap, pyexn, unit) pyop"

definition customize_dict :: "nat \<Rightarrow> (members \<Rightarrow> members) \<Rightarrow> (heap, pyexn, unit) pyop" where
  "customize_dict c f = pmod (\<lambda>h. h(c := (h c)\<lparr>c_dict := f (c_dict (h c))\<rparr>))"

text \<open>Running a hook: the earlier hook, then the collected ones, then the sticky methods.\<close>

primrec run_hook :: "user_hooks \<Rightarrow> hook \<Rightarrow> nat \<Rightarrow> (heap, pyexn, unit) pyop" where
  "run_hook user (Chain prev inits sticky) c =
     pseq (case map_option (run_hook user) prev of None \<Rightarrow> ret () | Some f \<Rightarrow> f c)
     (pseq (pfor inits (\<lambda>u. user u c))
       (if sticky \<noteq> [] then customize_dict c (applyStickyMethods sticky) else ret ()))"

text \<open>A worklist: each class reached from \<open>cls\<close> by subclassing once. \<open>None\<close>: out of fuel.\<close>

fun apply_order :: "nat \<Rightarrow> (nat \<Rightarrow> nat list) \<Rightarrow> nat list \<Rightarrow> nat set \<Rightarrow> nat list option" where
  "apply_order fuel subs [] applied = Some []"
| "apply_order 0 subs (c # todo) applied = None"
| "apply_order (Suc fuel) subs (c # todo) applied =
     (if c \<in> applied then apply_order fuel subs todo applied
      else map_option (\<lambda>cs. c # cs) (apply_order fuel subs (todo @ subs c) (insert c applied)))"

definition applyAll :: "nat \<Rightarrow> user_hooks \<Rightarrow> nat \<Rightarrow> string \<Rightarrow> (heap, pyexn, bool) pyop" where
  "applyAll fuel user cls method =
     pbind (pget (\<lambda>h. apply_order fuel (\<lambda>c. c_subs (h c)) [cls] {})) (\<lambda>order. case order of
         None \<Rightarrow> ret False
       | Some cs \<Rightarrow> pseq (pfor cs (user method)) (ret True))"

definition applyCustomizerPost :: "nat \<Rightarrow> user_hooks \<Rightarrow> nat \<Rightarrow> proto \<Rightarrow> (heap, pyexn, bool) pyop" where
  "applyCustomizerPost fuel user cls proto =
     pbind (pget (\<lambda>h. applyCustomizerImpl (c_dict (h cls), [], []) proto)) (\<lambda>(mem, sticky, inits).
     pseq (customize_dict cls (\<lambda>_. mem))
     (pseq (if sticky \<noteq> [] \<or> inits \<noteq> []
            then pmod (\<lambda>h. h(cls := (h cls)\<lparr>c_init := Some (Chain (c_init (h cls)) inits sticky)\<rparr>))
            else ret ())
       (case pr_init proto of None \<Rightarrow> ret True | Some m \<Rightarrow> applyAll fuel user cls m)))"

section \<open>Hints\<close>

record conversion =
  cv_type :: string
  cv_func :: string
  cv_exact :: bool

record hints =
  h_bases :: "string list"
  h_impls :: "proto list"
  h_instantiated :: bool
  h_excludes :: "string list"
  h_types :: "conversion list"
  h_attributes :: "(string \<times> string) list"

definition JClassHints_init :: hints where
  "JClassHints_init = \<lparr>h_bases = [], h_impls = [], h_instantiated = False, h_excludes = [], h_types = [], h_attributes = []\<rparr>"

record cz_state =
  cz_hints :: "(string, hints) dict"
  cz_heap :: heap

definition getClassHints :: "string \<Rightarrow> (cz_state, pyexn, hints) pyop" where
  "getClassHints name =
     pbind (pget (\<lambda>s. dict_get (cz_hints s) name)) (\<lambda>h. case h of
         Some hs \<Rightarrow> ret hs
       | None \<Rightarrow> pseq (pmod (\<lambda>s. s\<lparr>cz_hints := dict_set name JClassHints_init (cz_hints s)\<rparr>)) (ret JClassHints_init))"

definition upd_hints :: "string \<Rightarrow> (hints \<Rightarrow> hints) \<Rightarrow> (cz_state, pyexn, unit) pyop" where
  "upd_hints name f = pmod (\<lambda>s. case dict_get (cz_hints s) name of
      None \<Rightarrow> s | Some h \<Rightarrow> s\<lparr>cz_hints := dict_set name (f h) (cz_hints s)\<rparr>)"

definition heap_op :: "(heap, pyexn, 'a) pyop \<Rightarrow> (cz_state, pyexn, 'a) pyop" where
  "heap_op m = (\<lambda>s. case m (cz_heap s) of (r, h) \<Rightarrow> (r, s\<lparr>cz_heap := h\<rparr>))"

definition registerClassBase :: "string \<Rightarrow> string \<Rightarrow> (cz_state, pyexn, unit) pyop" where
  "registerClassBase name base =
     pseq (upd_hints name (\<lambda>h. h\<lparr>h_bases := h_bases h @ [base]\<rparr>))
     (pbind (getClassHints name) (\<lambda>h.
        if h_instantiated h then throw (Exn TypeError ''Base classes must be added before class is created'')
        else ret ()))"

text \<open>\<open>lookup\<close> is \<open>_jpype.JClass\<close>, the class of a name.\<close>

definition registerClassImplementation ::
  "nat \<Rightarrow> user_hooks \<Rightarrow> (string \<Rightarrow> nat) \<Rightarrow> string \<Rightarrow> proto \<Rightarrow> (cz_state, pyexn, bool) pyop" where
  "registerClassImplementation fuel user lookup name proto =
     pseq (upd_hints name (\<lambda>h. h\<lparr>h_impls := h_impls h @ [proto]\<rparr>))
     (pbind (getClassHints name) (\<lambda>h.
        if h_instantiated h then heap_op (applyCustomizerPost fuel user (lookup name) proto) else ret True))"

text \<open>\<open>JImplementationFor\<close>: a prototype with a base flag, or a class registered as base.\<close>

datatype implementation = AsBase string | AsProto proto

definition JImplementationFor ::
  "nat \<Rightarrow> user_hooks \<Rightarrow> (string \<Rightarrow> nat) \<Rightarrow> string option \<Rightarrow> implementation \<Rightarrow> (cz_state, pyexn, bool) pyop" where
  "JImplementationFor fuel user lookup clsname impl = (case clsname of
      None \<Rightarrow> throw (Exn TypeError ''ImplementationFor requires a java classname string'')
    | Some name \<Rightarrow> pseq (getClassHints name)
        (case impl of
           AsBase b \<Rightarrow> pseq (registerClassBase name b) (ret True)
         | AsProto p \<Rightarrow> registerClassImplementation fuel user lookup name p))"

definition JConversion ::
  "string \<Rightarrow> string option \<Rightarrow> string option \<Rightarrow> string option \<Rightarrow> string option \<Rightarrow> string \<Rightarrow> (cz_state, pyexn, unit) pyop" where
  "JConversion name exact instanceof attribute excludes func =
     pseq (getClassHints name)
     (upd_hints name (\<lambda>h.
        let h1 = (case excludes of None \<Rightarrow> h | Some e \<Rightarrow> h\<lparr>h_excludes := h_excludes h @ [e]\<rparr>);
            h2 = (case exact of None \<Rightarrow> h1 | Some t \<Rightarrow> h1\<lparr>h_types := h_types h1 @ [\<lparr>cv_type = t, cv_func = func, cv_exact = True\<rparr>]\<rparr>);
            h3 = (case instanceof of None \<Rightarrow> h2 | Some t \<Rightarrow> h2\<lparr>h_types := h_types h2 @ [\<lparr>cv_type = t, cv_func = func, cv_exact = False\<rparr>]\<rparr>)
        in (case attribute of None \<Rightarrow> h3 | Some a \<Rightarrow> h3\<lparr>h_attributes := h_attributes h3 @ [(a, func)]\<rparr>)))"

section \<open>Creating a class\<close>

text \<open>What the class factory passes on: the bases, the members, the hook to install.\<close>

definition module_of :: "string \<Rightarrow> string option" where
  "module_of name = (case py_rpartition name (CHR ''.'') of
      (m, s, _) \<Rightarrow> if s = [] then None else Some m)"

record class_parts =
  cp_bases :: "string list"
  cp_members :: members
  cp_module :: "string option"
  cp_init :: "hook option"

definition applyCustomizers :: "hints \<Rightarrow> string \<Rightarrow> string list \<Rightarrow> members \<Rightarrow> class_parts" where
  "applyCustomizers hints name bases mem =
     (case fold (\<lambda>p acc. applyCustomizerImpl acc p) (h_impls hints) (mem, [], []) of
        (mem', sticky, inits) \<Rightarrow>
          \<lparr>cp_bases = rev (h_bases hints) @ bases, cp_members = mem', cp_module = module_of name,
           cp_init = (if sticky \<noteq> [] \<or> inits \<noteq> [] then Some (Chain None inits sticky) else None)\<rparr>)"

definition applyInitializer :: "user_hooks \<Rightarrow> string \<Rightarrow> nat \<Rightarrow> (cz_state, pyexn, unit) pyop" where
  "applyInitializer user name cls =
     pseq (upd_hints name (\<lambda>h. h\<lparr>h_instantiated := True\<rparr>))
       (heap_op (pbind (pget (\<lambda>h. rev (List.map_filter (\<lambda>b. c_init (h b)) (c_mro (h cls))))) (\<lambda>hooks.
          pfor hooks (\<lambda>k. run_hook user k cls))))"

text \<open>The renaming of members whose names Python cannot use.\<close>

definition rename_member :: "string \<times> member \<Rightarrow> members \<Rightarrow> members" where
  "rename_member = (\<lambda>(k, v) mem.
     (case pysafe k of
        None \<Rightarrow> dict_del k mem
      | Some k2 \<Rightarrow> if k2 = k then mem
                  else (if k2 = [] then dict_del k mem else dict_set k2 v (dict_del k mem))))"

definition jclassPre :: "string \<Rightarrow> string list \<Rightarrow> members \<Rightarrow> (cz_state, pyexn, class_parts) pyop" where
  "jclassPre name bases mem =
     pbind (getClassHints name) (\<lambda>h. ret (applyCustomizers h name bases (fold rename_member mem mem)))"

text \<open>
  After the class exists: its hooks, and a member for each public inner class.
  \<open>inner\<close> are the declared classes with their simple names, modifiers and wrappers,
  once \<open>java.lang.Class\<close> is defined.
\<close>

definition add_inner :: "(string \<times> int \<times> member) list \<Rightarrow> members \<Rightarrow> members" where
  "add_inner inner mem = fold (\<lambda>(n, mods, w) m. if mods mod 2 = 0 then m else dict_set n w m) inner mem"

definition jclassPost ::
  "user_hooks \<Rightarrow> bool \<Rightarrow> (string \<times> int \<times> member) list \<Rightarrow> nat \<Rightarrow> (cz_state, pyexn, unit) pyop" where
  "jclassPost user have_class inner cls =
     pbind (pget (\<lambda>s. c_name (cz_heap s cls))) (\<lambda>name.
     pbind (getClassHints name) (\<lambda>_.
     pseq (applyInitializer user name cls)
       (if have_class then heap_op (customize_dict cls (add_inner inner)) else ret ())))"

section \<open>Class lookup\<close>

text \<open>
  \<open>JClass(name)\<close>: a generic form is checked against the number of type parameters.
  \<open>get_class\<close> is the class factory, which gives a wrapper and that number. Without an
  opening bracket \<open>find\<close> answers -1, and the slices leave out the last character only.
\<close>

definition JClass_new :: "(string \<Rightarrow> pyexn + 'c \<times> nat) \<Rightarrow> string \<Rightarrow> pyexn + 'c" where
  "JClass_new get_class jc =
     (if endswith jc ''>''
      then (let i = str_find ''<'' jc;
                params = (case i of None \<Rightarrow> butlast jc | Some i \<Rightarrow> butlast (drop (Suc i) jc));
                name = (case i of None \<Rightarrow> butlast jc | Some i \<Rightarrow> take i jc)
            in case get_class name of
                 Inl e \<Rightarrow> Inl e
               | Inr (ret_class, n) \<Rightarrow>
                   (if n = 0 then Inl (Exn TypeError ''Java class does not take parameters'')
                    else if params \<noteq> [] \<and> length (py_split (CHR '','') params) \<noteq> n
                    then Inl (Exn TypeError ''Java generic class length mismatch'')
                    else Inr ret_class))
      else map_sum id fst (get_class jc))"

text \<open>A class loader first loads the class of a name; the class object then goes to the factory as
  it is. \<open>JClass[n]\<close> is the type of arrays of classes.\<close>

datatype 'k class_arg = ClassName string | ClassObject 'k

definition JClass_load ::
  "(string \<Rightarrow> bool \<Rightarrow> 'l \<Rightarrow> pyexn + 'k) \<Rightarrow> (string \<Rightarrow> pyexn + 'c \<times> nat) \<Rightarrow> ('k \<Rightarrow> pyexn + 'c) \<Rightarrow>
     'k class_arg \<Rightarrow> 'l option \<Rightarrow> bool \<Rightarrow> pyexn + 'c" where
  "JClass_load forName get_class get_object jc loader initialize =
     (case (case (loader, jc) of (Some l, ClassName s) \<Rightarrow> map_sum id ClassObject (forName s initialize l) | _ \<Rightarrow> Inr jc) of
        Inl e \<Rightarrow> Inl e
      | Inr (ClassName s) \<Rightarrow> JClass_new get_class s
      | Inr (ClassObject k) \<Rightarrow> get_object k)"

definition JClass_class_getitem :: "(string \<Rightarrow> pyexn + 'c) \<Rightarrow> ('c \<Rightarrow> 'i \<Rightarrow> pyexn + 'a) \<Rightarrow> 'i \<Rightarrow> pyexn + 'a" where
  "JClass_class_getitem JClass getitem index =
     (case JClass ''java.lang.Class'' of Inl e \<Rightarrow> Inl e | Inr c \<Rightarrow> getitem c index)"

section \<open>Bean accessors\<close>

definition property_name :: "string \<Rightarrow> string" where
  "property_name name = char_lower (name ! 3) # drop 4 name"

type_synonym accessor_pairs = "(string, member option \<times> member option) dict"

definition extract_entry :: "string \<times> member \<Rightarrow> accessor_pairs \<Rightarrow> accessor_pairs" where
  "extract_entry = (\<lambda>(name, m) pairs.
     if m_kind m \<noteq> KJMethod \<or> length name \<le> 3 \<or> name = ''getClass'' then pairs
     else if m_accessor m
     then (case dict_get pairs (property_name name) of
             Some (_, s) \<Rightarrow> dict_set (property_name name) (Some m, s) pairs
           | None \<Rightarrow> dict_set (property_name name) (Some m, None) pairs)
     else if m_mutator m
     then (case dict_get pairs (property_name name) of
             Some (g, _) \<Rightarrow> dict_set (property_name name) (g, Some m) pairs
           | None \<Rightarrow> dict_set (property_name name) (None, Some m) pairs)
     else pairs)"

definition extract_accessor_pairs :: "members \<Rightarrow> accessor_pairs" where
  "extract_accessor_pairs mem = fold extract_entry mem []"

text \<open>The bean hook of \<open>java.lang.Object\<close>: \<open>mk\<close> makes the property object.\<close>

definition add_bean :: "(member option \<Rightarrow> member option \<Rightarrow> member) \<Rightarrow> string \<times> member option \<times> member option \<Rightarrow> members \<Rightarrow> members" where
  "add_bean mk = (\<lambda>(n, g, s) mem.
     (case pysafe n of
        None \<Rightarrow> mem
      | Some n2 \<Rightarrow> if dict_get mem n2 \<noteq> None then mem else dict_set n2 (mk g s) mem))"

definition beans_init :: "(member option \<Rightarrow> member option \<Rightarrow> member) \<Rightarrow> members \<Rightarrow> members" where
  "beans_init mk mem = fold (add_bean mk) (extract_accessor_pairs mem) mem"

section \<open>Member names\<close>

definition safe_name :: "string \<Rightarrow> bool" where
  "safe_name n = (pysafe n = Some n)"

lemma safe_name_iff: "safe_name n \<longleftrightarrow> \<not> is_dunder n \<and> n \<notin> set KEYWORDS"
  by (simp add: safe_name_def pysafe_def)

lemma pysafe_result_safe: "pysafe s = Some n \<Longrightarrow> safe_name n"
  using keyword_no_suffix [of s] keyword_not_dunder [of s]
  by (auto simp: pysafe_def safe_name_iff split: if_splits)

lemma rename_member_get:
  "dict_get (rename_member (k, v) mem) n =
     (if \<not> safe_name n then (if n = k then None else dict_get mem n)
      else if wrapped_form n \<and> butlast n = k then Some v else dict_get mem n)"
proof (cases "safe_name k")
  case True
  then have "k \<notin> set KEYWORDS" by (simp add: safe_name_iff)
  with True show ?thesis by (auto simp: rename_member_def safe_name_def wrapped_form_def)
next
  case False
  show ?thesis
  proof (cases "is_dunder k")
    case True
    then have "k \<notin> set KEYWORDS" using keyword_not_dunder by blast
    with True False show ?thesis
      by (auto simp: rename_member_def pysafe_def dict_simps wrapped_form_def)
  next
    case nd: False
    with False have kw: "k \<in> set KEYWORDS" by (simp add: safe_name_iff)
    then have p: "pysafe k = Some (k @ ''_'')" using nd by (simp add: pysafe_def)
    then have safe: "safe_name (k @ ''_'')" by (rule pysafe_result_safe)
    have w: "(wrapped_form n \<and> butlast n = k) = (n = k @ ''_'')"
      using kw by (auto simp: wrapped_form_def endswith_char) (metis append_butlast_last_id)
    show ?thesis
      using p safe False by (auto simp: rename_member_def dict_simps w)
  qed
qed

lemma rename_fold_get:
  "dict_get (fold rename_member xs mem) n =
     (if \<not> safe_name n then (if n \<in> fst ` set xs then None else dict_get mem n)
      else (case (if wrapped_form n then map_of (rev xs) (butlast n) else None) of
              Some v \<Rightarrow> Some v | None \<Rightarrow> dict_get mem n))"
proof (induction xs arbitrary: mem)
  case Nil
  show ?case by simp
next
  case (Cons x xs)
  obtain k v where x: "x = (k, v)" by (cases x)
  show ?case
    using Cons.IH [of "rename_member x mem"]
    by (auto simp: x rename_member_get map_add_def split: option.splits)
qed

lemma map_of_rev: "dict_ok d \<Longrightarrow> map_of (rev d) = dict_get d"
proof -
  assume "dict_ok d"
  then have "map_of (rev d) = map_of d"
    by (subst map_of_inject_set) (simp_all add: dict_ok_def rev_map [symmetric])
  then show ?thesis by (simp add: dict_get_def fun_eq_iff)
qed

lemma dict_get_absent: "n \<notin> fst ` set d \<Longrightarrow> dict_get d n = None"
  by (simp add: dict_get_def map_of_eq_None_iff)

text \<open>The members of a class wrapper, exactly: a name Python cannot use is gone, the member
  of a Java keyword name \<open>k\<close> is found under \<open>k_\<close> (and hides a Java member of that very
  name), and every other member is where it was.\<close>
theorem renamed_members_exact:
  assumes "dict_ok mem"
  shows "dict_get (fold rename_member mem mem) n =
     (if is_dunder n \<or> n \<in> set KEYWORDS then None
      else if wrapped_form n \<and> dict_get mem (butlast n) \<noteq> None then dict_get mem (butlast n)
      else dict_get mem n)"
  using dict_get_absent [of n mem]
  by (auto simp: rename_fold_get safe_name_iff map_of_rev [OF assms] split: option.split)

definition sample_member :: "kind \<Rightarrow> string \<Rightarrow> nat \<Rightarrow> override option \<Rightarrow> member" where
  "sample_member k n i ov = \<lparr>m_kind = k, m_name = n, m_id = i, m_override = ov, m_accessor = False, m_mutator = False\<rparr>"

lemma renamed_members_exact_witness:
  "let m = sample_member KJMethod ''print'' 0 None; d = [(''print'', m), (''size'', m)] in
   dict_get (fold rename_member d d) ''print_'' = Some m"
proof -
  let ?m = "sample_member KJMethod ''print'' 0 None"
  have "dict_ok [(''print'', ?m), (''size'', ?m)]" by (simp add: dict_ok_def)
  moreover have "\<not> is_dunder ''print_''" "''print_'' \<notin> set KEYWORDS" "wrapped_form ''print_''" by code_simp+
  ultimately show ?thesis
    using renamed_members_exact [of "[(''print'', ?m), (''size'', ?m)]" "''print_''"]
    by (simp add: dict_get_def Let_def)
qed

section \<open>Overrides\<close>

lemma apply_sticky1_other:
  "n \<noteq> m_name m \<Longrightarrow> (\<forall>ov r. m_override m = Some ov \<and> ov_rename ov = Some r \<longrightarrow> n \<noteq> r) \<Longrightarrow>
   dict_get (apply_sticky1 m mem) n = dict_get mem n"
  by (auto simp: apply_sticky1_def Let_def dict_simps split: option.splits)

lemma apply_sticky1_slot: "dict_get (apply_sticky1 m mem) (m_name m) = Some m"
  by (simp add: apply_sticky1_def Let_def dict_simps)

definition renames_to :: "string \<Rightarrow> string \<Rightarrow> member \<Rightarrow> bool" where
  "renames_to n r m \<longleftrightarrow> m_name m = n \<and> m_kind m \<noteq> KJMethod \<and>
     (\<exists>ov. m_override m = Some ov \<and> ov_rename ov = Some r)"

lemma apply_sticky1_again:
  assumes "renames_to n r m" and "r \<noteq> n" and "dict_get mem n = Some prev" and "m_kind prev \<noteq> KJMethod"
  shows "dict_get (apply_sticky1 m mem) r = dict_get mem r"
  using assms by (auto simp: renames_to_def apply_sticky1_def Let_def dict_simps split: option.splits)

lemma sticky_fold_keeps:
  assumes "r \<noteq> n" and "\<forall>m\<in>set ms. renames_to n r m"
    and "dict_get mem n = Some prev" and "m_kind prev \<noteq> KJMethod"
  shows "dict_get (applyStickyMethods ms mem) r = dict_get mem r \<and>
         dict_get (applyStickyMethods ms mem) n = Some (last (prev # ms))"
  using assms
proof (induction ms arbitrary: mem prev)
  case Nil
  then show ?case by (simp add: applyStickyMethods_def)
next
  case (Cons m ms)
  have m: "renames_to n r m" "m_name m = n" "m_kind m \<noteq> KJMethod"
    using Cons.prems(2) by (auto simp: renames_to_def)
  have "dict_get (apply_sticky1 m mem) n = Some m" using apply_sticky1_slot [of m mem] m by simp
  with Cons.IH [of "apply_sticky1 m mem" m] Cons.prems m apply_sticky1_again [OF m(1) Cons.prems(1,3,4)]
  show ?case by (simp add: applyStickyMethods_def)
qed

text \<open>C39: Sticky overrides do not lose the Java method. However many sticky overrides of one
  method with the same rename target are applied to a class, in whatever order and how
  often, the rename target is the original Java method, never one of the overrides (so an
  override that calls it does not call itself), and the last override is in its place.\<close>
theorem sticky_keeps_original:
  assumes "dict_get mem n = Some orig" and "m_kind orig = KJMethod" and "r \<noteq> n" and "r \<noteq> []"
    and "ms \<noteq> []" and "\<forall>m\<in>set ms. renames_to n r m"
  shows "dict_get (applyStickyMethods ms mem) r = Some orig \<and>
         dict_get (applyStickyMethods ms mem) n = Some (last ms)"
proof -
  obtain m ms' where ms: "ms = m # ms'" using assms(5) by (cases ms) auto
  then have m: "renames_to n r m" "m_name m = n" "m_kind m \<noteq> KJMethod"
    using assms(6) by (auto simp: renames_to_def)
  have "dict_get (apply_sticky1 m mem) r = Some orig"
    using assms m by (auto simp: renames_to_def apply_sticky1_def Let_def dict_simps)
  moreover have "dict_get (apply_sticky1 m mem) n = Some m" using apply_sticky1_slot [of m mem] m by simp
  moreover have "applyStickyMethods ms mem = applyStickyMethods ms' (apply_sticky1 m mem)"
    by (simp add: ms applyStickyMethods_def)
  ultimately show ?thesis
    using sticky_fold_keeps [of r n ms' "apply_sticky1 m mem" m] assms(3,6) m by (simp add: ms)
qed

definition sample_sticky :: "nat \<Rightarrow> member" where
  "sample_sticky i = sample_member KCallable ''close'' i (Some \<lparr>ov_sticky = True, ov_rename = Some ''_close''\<rparr>)"

lemma sticky_keeps_original_witness:
  "dict_get (applyStickyMethods [sample_sticky 1, sample_sticky 2]
     [(''close'', sample_member KJMethod ''close'' 0 None)]) ''_close'' = Some (sample_member KJMethod ''close'' 0 None)"
proof -
  have "\<forall>m\<in>set [sample_sticky 1, sample_sticky 2]. renames_to ''close'' ''_close'' m"
    by (simp add: sample_sticky_def sample_member_def renames_to_def)
  then show ?thesis
    using sticky_keeps_original [of "[(''close'', sample_member KJMethod ''close'' 0 None)]" "''close''"
        "sample_member KJMethod ''close'' 0 None" "''_close''" "[sample_sticky 1, sample_sticky 2]"]
    by (simp add: dict_get_def sample_member_def)
qed

section \<open>The hooks of a class\<close>

primrec hook_users :: "hook \<Rightarrow> string list" where
  "hook_users (Chain prev inits sticky) =
     (case map_option hook_users prev of None \<Rightarrow> [] | Some us \<Rightarrow> us) @ inits"

primrec hook_sticky :: "hook \<Rightarrow> member list" where
  "hook_sticky (Chain prev inits sticky) =
     (case map_option hook_sticky prev of None \<Rightarrow> [] | Some ms \<Rightarrow> ms) @ sticky"

definition users_of :: "hook option \<Rightarrow> string list" where
  "users_of h = (case h of None \<Rightarrow> [] | Some k \<Rightarrow> hook_users k)"

definition stickies_of :: "hook option \<Rightarrow> member list" where
  "stickies_of h = (case h of None \<Rightarrow> [] | Some k \<Rightarrow> hook_sticky k)"

definition proto_users :: "proto \<Rightarrow> string list" where
  "proto_users p = (case pr_init p of None \<Rightarrow> [] | Some h \<Rightarrow> [h])"

definition is_sticky :: "member \<Rightarrow> bool" where
  "is_sticky v = (copied v \<and> (case m_override v of None \<Rightarrow> False | Some ov \<Rightarrow> ov_sticky ov))"

definition proto_stickies :: "proto \<Rightarrow> member list" where
  "proto_stickies p = [v. (k, v) \<leftarrow> pr_members p, is_sticky v]"

lemma apply_entry_sticky:
  "snd (apply_entry (p, v) (mem, st)) = st @ (if is_sticky v then [v] else [])"
  by (auto simp: apply_entry_def is_sticky_def Let_def split: option.split)

lemma apply_entries_sticky:
  "snd (fold apply_entry es (mem, st)) = st @ [v. (k, v) \<leftarrow> es, is_sticky v]"
proof (induction es arbitrary: mem st)
  case Nil
  show ?case by simp
next
  case (Cons e es)
  obtain k v where e: "e = (k, v)" by (cases e)
  obtain mem' st' where a: "apply_entry e (mem, st) = (mem', st')" by (cases "apply_entry e (mem, st)")
  with Cons.IH [of mem' st'] apply_entry_sticky [of k v mem st] show ?case by (simp add: e)
qed

lemma applyCustomizerImpl_collects:
  "applyCustomizerImpl (mem, st, inits) p = (mem', st', inits') \<Longrightarrow>
     st' = st @ proto_stickies p \<and> inits' = inits @ proto_users p"
  using apply_entries_sticky [of "pr_members p" mem st]
  by (auto simp: applyCustomizerImpl_def proto_stickies_def proto_users_def split: prod.splits)

lemma applyCustomizers_collects:
  "fold (\<lambda>p acc. applyCustomizerImpl acc p) ps (mem, st, inits) = (mem', st', inits') \<Longrightarrow>
     st' = st @ concat (map proto_stickies ps) \<and> inits' = inits @ concat (map proto_users ps)"
proof (induction ps arbitrary: mem st inits)
  case Nil
  then show ?case by simp
next
  case (Cons p ps)
  obtain a b c where a: "applyCustomizerImpl (mem, st, inits) p = (a, b, c)"
    by (cases "applyCustomizerImpl (mem, st, inits) p") auto
  from applyCustomizerImpl_collects [OF a] Cons.IH [of a b c] Cons.prems a show ?case by simp
qed

lemma up_front_hooks:
  "users_of (cp_init (applyCustomizers hs name bases mem)) = concat (map proto_users (h_impls hs)) \<and>
   stickies_of (cp_init (applyCustomizers hs name bases mem)) = concat (map proto_stickies (h_impls hs))"
proof -
  obtain a b c where f: "fold (\<lambda>p acc. applyCustomizerImpl acc p) (h_impls hs) (mem, [], []) = (a, b, c)"
    by (cases "fold (\<lambda>p acc. applyCustomizerImpl acc p) (h_impls hs) (mem, [], [])") auto
  from applyCustomizers_collects [OF f] f show ?thesis
    by (auto simp: applyCustomizers_def users_of_def stickies_of_def)
qed

text \<open>User hooks that do not replace the hook of a class.\<close>

definition keeps_inits :: "user_hooks \<Rightarrow> bool" where
  "keeps_inits user \<longleftrightarrow> (\<forall>u c h x. c_init (snd (user u c h) x) = c_init (h x))"

lemma user_keeps_init: "keeps_inits user \<Longrightarrow> keeps (\<lambda>h. c_init (h x) = i) (user u c)"
  by (rule keepsI) (simp add: keeps_inits_def)

lemma applyAll_keeps_init: "keeps_inits user \<Longrightarrow> keeps (\<lambda>h. c_init (h x) = i) (applyAll fuel user cls m)"
proof -
  assume "keeps_inits user"
  then have "keeps (\<lambda>h. c_init (h x) = i) (pfor cs (user m))" for cs
    by (intro triple_for user_keeps_init)
  then show ?thesis
    unfolding applyAll_def by (auto intro!: keeps_rules' split: option.split)
qed

lemma applyCustomizerPost_init:
  assumes "keeps_inits user" and "applyCustomizerPost fuel user cls p h = (r, h')"
  shows "users_of (c_init (h' cls)) = users_of (c_init (h cls)) @ proto_users p \<and>
         stickies_of (c_init (h' cls)) = stickies_of (c_init (h cls)) @ proto_stickies p"
proof -
  obtain mem sticky inits where impl: "applyCustomizerImpl (c_dict (h cls), [], []) p = (mem, sticky, inits)"
    by (cases "applyCustomizerImpl (c_dict (h cls), [], []) p") auto
  then have lists: "sticky = proto_stickies p" "inits = proto_users p"
    using applyCustomizerImpl_collects by fastforce+
  define h1 where "h1 = h(cls := (h cls)\<lparr>c_dict := mem\<rparr>)"
  define h2 where "h2 = (if sticky \<noteq> [] \<or> inits \<noteq> []
      then h1(cls := (h1 cls)\<lparr>c_init := Some (Chain (c_init (h1 cls)) inits sticky)\<rparr>) else h1)"
  have h2: "users_of (c_init (h2 cls)) = users_of (c_init (h cls)) @ proto_users p \<and>
      stickies_of (c_init (h2 cls)) = stickies_of (c_init (h cls)) @ proto_stickies p"
    using lists by (auto simp: h2_def h1_def users_of_def stickies_of_def split: option.split)
  have run: "(r, h') = (case pr_init p of None \<Rightarrow> (Inr True, h2) | Some m \<Rightarrow> applyAll fuel user cls m h2)"
    using assms(2) impl
    by (auto simp: applyCustomizerPost_def customize_dict_def h1_def h2_def pyrun split: option.split)
  have "c_init (h' cls) = c_init (h2 cls)"
  proof (cases "pr_init p")
    case None
    with run show ?thesis by simp
  next
    case (Some m)
    with run have "h' = snd (applyAll fuel user cls m h2)" by (metis option.simps(5) snd_conv)
    with keepsD [OF applyAll_keeps_init [OF assms(1), of cls "c_init (h2 cls)" fuel cls m], of h2] show ?thesis by simp
  qed
  with h2 show ?thesis by simp
qed

text \<open>No customizer's hook is lost. Whatever prototypes are registered for a class, some
  before it is created and some after, its \<open>__jclass_init__\<close> runs the user hooks of all of
  them in the order of registration, and so for their sticky overrides.\<close>
theorem hooks_compose:
  assumes "keeps_inits user"
    and "c_init (h cls) = cp_init (applyCustomizers hs name bases mem)"
    and "h' = fold (\<lambda>p h. snd (applyCustomizerPost fuel user cls p h)) later h"
  shows "users_of (c_init (h' cls)) = concat (map proto_users (h_impls hs @ later)) \<and>
         stickies_of (c_init (h' cls)) = concat (map proto_stickies (h_impls hs @ later))"
proof -
  have fold: "users_of (c_init (fold (\<lambda>p h. snd (applyCustomizerPost fuel user cls p h)) qs g cls)) =
        users_of (c_init (g cls)) @ concat (map proto_users qs) \<and>
      stickies_of (c_init (fold (\<lambda>p h. snd (applyCustomizerPost fuel user cls p h)) qs g cls)) =
        stickies_of (c_init (g cls)) @ concat (map proto_stickies qs)" for qs g
  proof (induction qs arbitrary: g)
    case Nil
    show ?case by simp
  next
    case (Cons q qs)
    obtain r g' where g: "applyCustomizerPost fuel user cls q g = (r, g')" by fastforce
    from applyCustomizerPost_init [OF assms(1) g] Cons.IH [of g'] g show ?case by simp
  qed
  show ?thesis
    using fold [of later h] up_front_hooks [of hs name bases mem] assms(2,3) by simp
qed

definition sample_proto :: "string option \<Rightarrow> proto" where
  "sample_proto i = \<lparr>pr_members = [(''close'', sample_sticky 1)], pr_init = i\<rparr>"

definition sample_class :: "hook option \<Rightarrow> jclass" where
  "sample_class i = \<lparr>c_name = ''x.A'', c_dict = [(''close'', sample_member KJMethod ''close'' 0 None)], c_init = i,
     c_subs = [], c_mro = [0]\<rparr>"

definition no_user :: user_hooks where
  "no_user u c = ret ()"

lemma no_user_keeps: "keeps_inits no_user"
  by (simp add: keeps_inits_def no_user_def ret_def)

lemma hooks_compose_witness:
  "users_of (c_init (fold (\<lambda>p h. snd (applyCustomizerPost 9 no_user 0 p h)) [sample_proto (Some ''b'')]
     (\<lambda>_. sample_class (cp_init (applyCustomizers (JClassHints_init\<lparr>h_impls := [sample_proto (Some ''a'')]\<rparr>) ''x.A'' [] []))) 0))
   = [''a'', ''b'']"
  using hooks_compose [OF no_user_keeps, where cls = 0 and hs = "JClassHints_init\<lparr>h_impls := [sample_proto (Some ''a'')]\<rparr>"
      and name = "''x.A''" and bases = "[]" and mem = "[]" and later = "[sample_proto (Some ''b'')]" and fuel = 9
      and h = "\<lambda>_. sample_class (cp_init (applyCustomizers (JClassHints_init\<lparr>h_impls := [sample_proto (Some ''a'')]\<rparr>) ''x.A'' [] []))"]
  by (simp add: sample_class_def proto_users_def sample_proto_def JClassHints_init_def)

text \<open>A sticky override registered after the class exists changes no existing class: it is
  put into the hook that later subclasses run, but neither the class itself nor any of its
  existing subclasses gets the method.\<close>
theorem retroactive_sticky_unapplied:
  assumes "pr_init p = None" and "\<forall>(k, v)\<in>set (pr_members p). is_sticky v"
    and "applyCustomizerPost fuel user cls p h = (r, h')"
  shows "c_dict (h' x) = c_dict (h x)"
proof -
  have "fst (fold apply_entry es (mem, st)) = mem" if "\<forall>(k, v)\<in>set es. is_sticky v" for es mem st
    using that
  proof (induction es arbitrary: st)
    case Nil
    show ?case by simp
  next
    case (Cons e es)
    obtain k v where e: "e = (k, v)" by (cases e)
    have "apply_entry e (mem, st) = (mem, st @ [v])"
      using Cons.prems by (auto simp: e apply_entry_def is_sticky_def split: option.splits)
    with Cons show ?case by simp
  qed
  moreover obtain a b where ab: "fold apply_entry (pr_members p) (c_dict (h cls), []) = (a, b)" by fastforce
  ultimately have "a = c_dict (h cls)" using assms(2) by (metis fst_conv)
  with ab have "applyCustomizerImpl (c_dict (h cls), [], []) p = (c_dict (h cls), b, [])"
    using assms(1) by (simp add: applyCustomizerImpl_def)
  then have "snd (applyCustomizerPost fuel user cls p h) x = (h x)\<lparr>c_init := c_init (h' x)\<rparr>"
    using assms(1,3) by (auto simp: applyCustomizerPost_def customize_dict_def pyrun split: if_splits)
  with assms(3) have "h' x = (h x)\<lparr>c_init := c_init (h' x)\<rparr>" by simp
  then have "c_dict (h' x) = c_dict ((h x)\<lparr>c_init := c_init (h' x)\<rparr>)" by (rule arg_cong)
  then show ?thesis by simp
qed

lemma retroactive_sticky_unapplied_witness:
  "c_dict (snd (applyCustomizerPost 9 no_user 0 (sample_proto None) (\<lambda>_. sample_class None)) 0) =
     [(''close'', sample_member KJMethod ''close'' 0 None)]"
proof -
  obtain r h' where run: "applyCustomizerPost 9 no_user 0 (sample_proto None) (\<lambda>_. sample_class None) = (r, h')"
    by fastforce
  have "\<forall>(k, v)\<in>set (pr_members (sample_proto None)). is_sticky v"
    by (simp add: sample_proto_def sample_sticky_def sample_member_def is_sticky_def)
  from retroactive_sticky_unapplied [OF _ this run, of 0] run show ?thesis
    by (simp add: sample_proto_def sample_class_def)
qed

section \<open>Visiting the derived classes\<close>

definition subclass_rel :: "(nat \<Rightarrow> nat list) \<Rightarrow> (nat \<times> nat) set" where
  "subclass_rel subs = {(c, d). d \<in> set (subs c)}"

lemma apply_order_result:
  "apply_order fuel subs todo applied = Some cs \<Longrightarrow>
     distinct cs \<and> set cs \<inter> applied = {} \<and> set todo \<subseteq> applied \<union> set cs \<and>
     set cs \<subseteq> (subclass_rel subs)\<^sup>* `` set todo \<and>
     (\<forall>c\<in>set cs. set (subs c) \<subseteq> applied \<union> set cs)"
proof (induction fuel subs todo applied arbitrary: cs rule: apply_order.induct)
  case (3 fuel subs c todo applied)
  show ?case
  proof (cases "c \<in> applied")
    case True
    with 3 show ?thesis by (auto simp: Image_Un)
  next
    case False
    with 3 obtain ds where ds: "apply_order fuel subs (todo @ subs c) (insert c applied) = Some ds"
      and cs: "cs = c # ds" by auto
    from 3(2) [OF False ds] have IH: "distinct ds" "set ds \<inter> insert c applied = {}"
      "set (todo @ subs c) \<subseteq> insert c applied \<union> set ds"
      "set ds \<subseteq> (subclass_rel subs)\<^sup>* `` set (todo @ subs c)"
      "\<forall>d\<in>set ds. set (subs d) \<subseteq> insert c applied \<union> set ds" by auto
    have "(subclass_rel subs)\<^sup>* `` set (subs c) \<subseteq> (subclass_rel subs)\<^sup>* `` {c}"
      by (auto simp: subclass_rel_def intro: converse_rtrancl_into_rtrancl)
    then have reach: "set ds \<subseteq> (subclass_rel subs)\<^sup>* `` set (c # todo)" using IH(4) by fastforce
    have self: "c \<in> (subclass_rel subs)\<^sup>* `` set (c # todo)" by auto
    show ?thesis
      unfolding cs
    proof (intro conjI)
      show "distinct (c # ds)" using IH(1,2) by auto
      show "set (c # ds) \<inter> applied = {}" using IH(2) False by auto
      show "set (c # todo) \<subseteq> applied \<union> set (c # ds)" using IH(3) by auto
      show "set (c # ds) \<subseteq> (subclass_rel subs)\<^sup>* `` set (c # todo)" using reach self by simp
      show "\<forall>x\<in>set (c # ds). set (subs x) \<subseteq> applied \<union> set (c # ds)" using IH(3,5) by auto
    qed
  qed
qed auto

lemma apply_order_step:
  "c \<notin> applied \<Longrightarrow> apply_order (Suc fuel) subs (c # todo) applied \<noteq> None \<longleftrightarrow>
     apply_order fuel subs (todo @ subs c) (insert c applied) \<noteq> None"
  by simp

lemma links_left:
  fixes subs :: "nat \<Rightarrow> nat list"
  assumes "finite R" and "c \<in> R" and "c \<notin> applied"
  shows "(\<Sum>x\<in>R - applied. length (subs x)) = length (subs c) + (\<Sum>x\<in>R - insert c applied. length (subs x))"
proof -
  have "R - applied - {c} = R - insert c applied" by auto
  moreover have "finite (R - applied)" "c \<in> R - applied" using assms by simp_all
  ultimately show ?thesis using sum.remove [of "R - applied" c "\<lambda>x. length (subs x)"] by simp
qed

lemma apply_order_fuel:
  assumes "finite R" and "\<And>c. c \<in> R \<Longrightarrow> set (subs c) \<subseteq> R"
    and "set todo \<subseteq> R" and "length todo + (\<Sum>c\<in>R - applied. length (subs c)) \<le> fuel"
  shows "apply_order fuel subs todo applied \<noteq> None"
  using assms(3,4)
proof (induction fuel arbitrary: todo applied)
  case 0
  then show ?case by simp
next
  case (Suc fuel)
  show ?case
  proof (cases todo)
    case Nil
    then show ?thesis by simp
  next
    case (Cons c rest)
    then have c: "c \<in> R" and rest: "set rest \<subseteq> R" using Suc.prems(1) by auto
    show ?thesis
    proof (cases "c \<in> applied")
      case True
      have "length rest + (\<Sum>c\<in>R - applied. length (subs c)) \<le> fuel" using Suc.prems(2) Cons by simp
      from Suc.IH [OF rest this] show ?thesis using Cons True by simp
    next
      case False
      have sub: "set (rest @ subs c) \<subseteq> R" using rest assms(2) [OF c] by simp
      have len: "length (rest @ subs c) + (\<Sum>x\<in>R - insert c applied. length (subs x)) \<le> fuel"
        using Suc.prems(2) Cons links_left [OF assms(1) c False, of subs] by simp
      show ?thesis unfolding Cons apply_order_step [OF False] by (rule Suc.IH [OF sub len])
    qed
  qed
qed

text \<open>C11: Applying a hook to all derived classes visits each of them exactly once and nothing
  else, and ends: the classes visited are those reached by subclassing, without
  repetition, however the subclass graph shares or loops, as soon as the fuel is more
  than the number of subclass links.\<close>
theorem apply_order_visits:
  assumes "finite R" and "cls \<in> R" and "\<forall>c\<in>R. set (subs c) \<subseteq> R"
    and "(\<Sum>c\<in>R. length (subs c)) < fuel"
  shows "\<exists>cs. apply_order fuel subs [cls] {} = Some cs \<and> distinct cs \<and>
    set cs = (subclass_rel subs)\<^sup>* `` {cls}"
proof -
  obtain cs where cs: "apply_order fuel subs [cls] {} = Some cs"
    using apply_order_fuel [of R subs "[cls]" "{}" fuel] assms by auto
  from apply_order_result [OF cs] have r: "distinct cs" "cls \<in> set cs"
    "set cs \<subseteq> (subclass_rel subs)\<^sup>* `` {cls}" "\<forall>c\<in>set cs. set (subs c) \<subseteq> set cs" by auto
  have "d \<in> set cs" if "(cls, d) \<in> (subclass_rel subs)\<^sup>*" for d
    using that r(2,4) by (induction rule: rtrancl_induct) (auto simp: subclass_rel_def)
  with cs r show ?thesis by auto
qed

lemma apply_order_visits_witness:
  "\<exists>cs. apply_order 6 ((\<lambda>_. [])(0 := [1, 2], 1 := [3], 2 := [3])) [0] {} = Some cs \<and> distinct cs"
proof -
  let ?subs = "(\<lambda>_. [])(0 := [1, 2], 1 := [3], 2 := [3]) :: nat \<Rightarrow> nat list"
  have "\<forall>c\<in>{0, 1, 2, 3}. set (?subs c) \<subseteq> {0, 1, 2, 3}" by simp
  moreover have "(\<Sum>c\<in>{0, 1, 2, 3}. length (?subs c)) < 6" by simp
  ultimately show ?thesis
    using apply_order_visits [of "{0, 1, 2, 3}" 0 ?subs 6] by auto
qed

section \<open>Registering base classes\<close>

text \<open>Registering a base class for a class that exists raises \<open>TypeError\<close>, and yet the base
  is in the list afterwards, so the hints claim a base the class does not have.\<close>
theorem late_base_recorded:
  assumes "dict_get (cz_hints s) name = Some h" and "h_instantiated h"
  shows "\<exists>s'. registerClassBase name base s =
      (Inl (Exn TypeError ''Base classes must be added before class is created''), s') \<and>
    (\<exists>h'. dict_get (cz_hints s') name = Some h' \<and> h_bases h' = h_bases h @ [base])"
  using assms by (simp add: registerClassBase_def upd_hints_def getClassHints_def dict_simps pyrun)

lemma late_base_recorded_witness:
  "\<exists>s' h'. registerClassBase ''x'' ''b'' \<lparr>cz_hints = [(''x'', JClassHints_init\<lparr>h_instantiated := True\<rparr>)],
       cz_heap = (\<lambda>_. sample_class None)\<rparr> =
     (Inl (Exn TypeError ''Base classes must be added before class is created''), s') \<and>
     dict_get (cz_hints s') ''x'' = Some h' \<and> h_bases h' = [''b'']"
  using late_base_recorded [of "\<lparr>cz_hints = [(''x'', JClassHints_init\<lparr>h_instantiated := True\<rparr>)],
       cz_heap = (\<lambda>_. sample_class None)\<rparr>" "''x''" "JClassHints_init\<lparr>h_instantiated := True\<rparr>" "''b''"]
  by (auto simp: dict_get_def JClassHints_init_def)

section \<open>Generic class names\<close>

lemma str_find_char: "c \<notin> set n \<Longrightarrow> str_find [c] (n @ c # s) = Some (length n)"
  by (induction n) auto

text \<open>\<open>JClass\<close> accepts a generic form exactly when the class has type parameters and as many
  as there are pieces between the commas; an empty list of parameters is accepted too.\<close>
theorem generic_form:
  assumes "CHR ''<'' \<notin> set name" and "get_class name = Inr (c, n)"
  shows "(JClass_new get_class (name @ ''<'' @ params @ ''>'') = Inr c) \<longleftrightarrow>
     0 < n \<and> (params = [] \<or> length (py_split (CHR '','') params) = n)"
proof -
  have "endswith (name @ ''<'' @ params @ ''>'') ''>''"
    using endswith_append [of "name @ ''<'' @ params" "''>''"] by simp
  then show ?thesis
    using assms by (simp add: JClass_new_def str_find_char Let_def)
qed

lemma generic_form_witness:
  "JClass_new (\<lambda>_. Inr (''Map'', 2)) ''Map<A,B>'' = Inr ''Map'' \<and>
   JClass_new (\<lambda>_. Inr (''Map'', 2)) ''Map<A,Map<A,B>>'' \<noteq> Inr ''Map''"
  using generic_form [of "''Map''" "\<lambda>_. Inr (''Map'', 2)" "''Map''" 2 "''A,B''"]
    generic_form [of "''Map''" "\<lambda>_. Inr (''Map'', 2)" "''Map''" 2 "''A,Map<A,B>''"] by simp

section \<open>Bean properties\<close>

lemma add_bean_old: "dict_get mem n = Some m \<Longrightarrow> dict_get (add_bean mk e mem) n = Some m"
  by (cases e) (auto simp: add_bean_def dict_simps split: option.split)

lemma add_bean_new:
  "dict_get (add_bean mk (k, g, s) mem) n = Some m \<Longrightarrow> dict_get mem n = None \<Longrightarrow>
     m = mk g s \<and> pysafe k = Some n"
  by (auto simp: add_bean_def dict_simps split: option.splits if_splits)

lemma add_beans_old: "dict_get mem n = Some m \<Longrightarrow> dict_get (fold (add_bean mk) es mem) n = Some m"
  by (induction es arbitrary: mem) (auto intro: add_bean_old)

lemma add_beans_new:
  "dict_get (fold (add_bean mk) es mem) n = Some m \<Longrightarrow> dict_get mem n = None \<Longrightarrow>
     \<exists>k g s. (k, g, s) \<in> set es \<and> m = mk g s \<and> pysafe k = Some n"
proof (induction es arbitrary: mem)
  case Nil
  then show ?case by simp
next
  case (Cons e es)
  obtain k g s where e: "e = (k, g, s)" by (cases e)
  show ?case
  proof (cases "dict_get (add_bean mk e mem) n")
    case None
    with Cons.IH [of "add_bean mk e mem"] Cons.prems show ?thesis by fastforce
  next
    case (Some m')
    with add_beans_old [of "add_bean mk e mem" n m' mk es] Cons.prems(1) have "m' = m" by simp
    with Some add_bean_new [of mk k g s mem n m] Cons.prems(2) show ?thesis by (auto simp: e)
  qed
qed

definition accessor_of :: "members \<Rightarrow> (member \<Rightarrow> bool) \<Rightarrow> string \<Rightarrow> member option \<Rightarrow> bool" where
  "accessor_of mem ok k x \<longleftrightarrow>
     (\<forall>m. x = Some m \<longrightarrow> (\<exists>n. (n, m) \<in> set mem \<and> ok m \<and> property_name n = k))"

definition pair_sound :: "members \<Rightarrow> accessor_pairs \<Rightarrow> bool" where
  "pair_sound mem pairs \<longleftrightarrow> (\<forall>k g s. dict_get pairs k = Some (g, s) \<longrightarrow>
     accessor_of mem m_accessor k g \<and> accessor_of mem m_mutator k s)"

lemma accessor_of_None [simp]: "accessor_of mem ok k None"
  by (simp add: accessor_of_def)

lemma accessor_of_entry: "(n, m) \<in> set mem \<Longrightarrow> ok m \<Longrightarrow> accessor_of mem ok (property_name n) (Some m)"
  by (auto simp: accessor_of_def)

lemma pair_sound_set:
  assumes "pair_sound mem pairs" and "accessor_of mem m_accessor k g" and "accessor_of mem m_mutator k s"
  shows "pair_sound mem (dict_set k (g, s) pairs)"
  using assms by (simp add: pair_sound_def dict_simps)

lemma extract_entry_sound:
  assumes "pair_sound mem pairs" and "e \<in> set mem"
  shows "pair_sound mem (extract_entry e pairs)"
proof -
  obtain n m where e: "e = (n, m)" by (cases e)
  have old: "accessor_of mem m_accessor k g \<and> accessor_of mem m_mutator k s"
    if "dict_get pairs k = Some (g, s)" for k g s
    using assms(1) that by (simp add: pair_sound_def)
  show ?thesis
    using assms accessor_of_entry [of n m mem m_accessor] accessor_of_entry [of n m mem m_mutator] old
    by (auto simp: e extract_entry_def intro!: pair_sound_set split: option.split)
qed

lemma extract_sound: "pair_sound mem (extract_accessor_pairs mem)"
proof -
  have "set es \<subseteq> set mem \<Longrightarrow> pair_sound mem pairs \<Longrightarrow> pair_sound mem (fold extract_entry es pairs)" for es pairs
    by (induction es arbitrary: pairs) (auto intro: extract_entry_sound)
  moreover have "pair_sound mem []" by (simp add: pair_sound_def)
  ultimately show ?thesis unfolding extract_accessor_pairs_def by blast
qed

lemma extract_entry_ok: "dict_ok pairs \<Longrightarrow> dict_ok (extract_entry e pairs)"
  by (cases e) (auto simp: extract_entry_def pd.ok_put split: option.split)

lemma extract_ok: "dict_ok (extract_accessor_pairs mem)"
proof -
  have "dict_ok pairs \<Longrightarrow> dict_ok (fold extract_entry es pairs)" for es pairs
    by (induction es arbitrary: pairs) (auto intro: extract_entry_ok)
  then show ?thesis by (simp add: extract_accessor_pairs_def)
qed

text \<open>The bean customizer never changes a member a class has, and every property it adds
  has a name Python can use and is made of accessor methods of the class that carry the
  property's name after their \<open>get\<close>, \<open>set\<close> prefix.\<close>
theorem beans_add_only:
  "(\<forall>m. dict_get mem n = Some m \<longrightarrow> dict_get (beans_init mk mem) n = Some m) \<and>
   (\<forall>m. dict_get mem n = None \<and> dict_get (beans_init mk mem) n = Some m \<longrightarrow>
      \<not> is_dunder n \<and> n \<notin> set KEYWORDS \<and>
      (\<exists>k g s. m = mk g s \<and> pysafe k = Some n \<and>
         (\<forall>x. g = Some x \<longrightarrow> (\<exists>a. (a, x) \<in> set mem \<and> m_accessor x \<and> property_name a = k)) \<and>
         (\<forall>x. s = Some x \<longrightarrow> (\<exists>a. (a, x) \<in> set mem \<and> m_mutator x \<and> property_name a = k))))"
proof (intro conjI allI impI)
  fix m
  assume "dict_get mem n = Some m"
  then show "dict_get (beans_init mk mem) n = Some m" by (simp add: beans_init_def add_beans_old)
next
  fix m
  assume a: "dict_get mem n = None \<and> dict_get (beans_init mk mem) n = Some m"
  then obtain k g s where k: "(k, g, s) \<in> set (extract_accessor_pairs mem)" "m = mk g s" "pysafe k = Some n"
    using add_beans_new [of mk "extract_accessor_pairs mem" mem n m] by (auto simp: beans_init_def)
  show "\<not> is_dunder n" and "n \<notin> set KEYWORDS"
    using pysafe_result_safe [OF k(3)] by (simp_all add: safe_name_iff)
  have "dict_get (extract_accessor_pairs mem) k = Some (g, s)"
    using k(1) extract_ok by (simp add: dict_in_get)
  with extract_sound [of mem] k(2,3)
  show "\<exists>k g s. m = mk g s \<and> pysafe k = Some n \<and>
         (\<forall>x. g = Some x \<longrightarrow> (\<exists>a. (a, x) \<in> set mem \<and> m_accessor x \<and> property_name a = k)) \<and>
         (\<forall>x. s = Some x \<longrightarrow> (\<exists>a. (a, x) \<in> set mem \<and> m_mutator x \<and> property_name a = k))"
    unfolding pair_sound_def accessor_of_def by blast
qed

lemma beans_add_only_witness:
  "dict_get (beans_init (\<lambda>g s. the g) [(''class_'', sample_member KJMethod ''class_'' 0 None)]) ''class_'' =
     Some (sample_member KJMethod ''class_'' 0 None)"
  using beans_add_only [of "[(''class_'', sample_member KJMethod ''class_'' 0 None)]" "''class_''" "\<lambda>g s. the g"]
  by (simp add: dict_get_def)

end
