(* ===== verification/JavaLists.thy ===== *)
theory JavaLists
  imports PyExceptions
begin

text \<open>
  The customizer of \<open>java.util.List\<close> (\<open>_jcollection.py\<close>). The Java lists themselves are not
  part of the program: they are a record of operations on handles over a world of their
  own, and the locale \<open>java_list\<close> states their documented behaviour as Hoare triples about
  the Python list a handle stands for. The customizer's methods are shown to refine the
  operations of Python's list, and the places where they do not are stated as such.
  A heap of array lists with sublist views is the concrete instance.
\<close>

section \<open>The operations of Java lists\<close>

text \<open>An element is \<open>None\<close> when it is Java's null.\<close>

datatype ('h, 'v) coll = JColl 'h | PySeq "'v option list" | NotColl

record ('w, 'h, 'v) java_lists =
  l_size :: "'h \<Rightarrow> ('w, pyexn, int) pyop"
  l_get :: "'h \<Rightarrow> int \<Rightarrow> ('w, pyexn, 'v option) pyop"
  l_set :: "'h \<Rightarrow> int \<Rightarrow> 'v option \<Rightarrow> ('w, pyexn, 'v option) pyop"
  l_subList :: "'h \<Rightarrow> int \<Rightarrow> int \<Rightarrow> ('w, pyexn, 'h) pyop"
  l_clear :: "'h \<Rightarrow> ('w, pyexn, unit) pyop"
  l_add :: "'h \<Rightarrow> 'v option \<Rightarrow> ('w, pyexn, bool) pyop"
  l_add_at :: "'h \<Rightarrow> int \<Rightarrow> 'v option \<Rightarrow> ('w, pyexn, unit) pyop"
  l_addAll :: "'h \<Rightarrow> ('h, 'v) coll \<Rightarrow> ('w, pyexn, bool) pyop"
  l_addAll_at :: "'h \<Rightarrow> int \<Rightarrow> ('h, 'v) coll \<Rightarrow> ('w, pyexn, bool) pyop"
  l_remove_at :: "'h \<Rightarrow> int \<Rightarrow> ('w, pyexn, 'v option) pyop"
  l_remove :: "'h \<Rightarrow> 'v option \<Rightarrow> ('w, pyexn, bool) pyop"
  l_indexOf :: "'h \<Rightarrow> 'v option \<Rightarrow> ('w, pyexn, int) pyop"
  l_contains :: "'h \<Rightarrow> 'v option \<Rightarrow> ('w, pyexn, bool) pyop"
  l_items :: "'h \<Rightarrow> ('w, pyexn, 'v option list) pyop"
  l_reverse :: "'h \<Rightarrow> ('w, pyexn, unit) pyop"
  l_new :: "('w, pyexn, 'h) pyop"
  l_copy :: "'h \<Rightarrow> ('w, pyexn, 'h) pyop"
  l_object :: "'v option \<Rightarrow> pyexn + 'v option"
  l_equals :: "'v \<Rightarrow> 'v option \<Rightarrow> bool"

section \<open>Slices\<close>

record slice =
  sl_start :: "int option"
  sl_stop :: "int option"
  sl_step :: "int option"

definition slice_of :: "int \<Rightarrow> int \<Rightarrow> slice" where
  "slice_of a b = \<lparr>sl_start = Some a, sl_stop = Some b, sl_step = None\<rparr>"

definition bad_stride :: "slice \<Rightarrow> bool" where
  "bad_stride slc = (case sl_step slc of None \<Rightarrow> False | Some s \<Rightarrow> s \<noteq> 0 \<and> (s > 1 \<or> s < 0))"

text \<open>The adjusted slice always has both ends; it is returned as the pair of them.\<close>

definition sliceAdjust :: "slice \<Rightarrow> int \<Rightarrow> pyexn + int \<times> int" where
  "sliceAdjust slc n =
     (let start = sl_start slc; stop = sl_stop slc
      in if bad_stride slc then Inl (Exn TypeError ''Stride not supported'')
         else let start = (case start of None \<Rightarrow> 0 | Some i \<Rightarrow> i);
                  stop = (case stop of None \<Rightarrow> n | Some i \<Rightarrow> i);
                  start = (if start < 0 then start + n else start);
                  stop = (if stop < 0 then stop + n else stop)
              in Inr (start, stop))"

section \<open>The customizer\<close>

datatype index = Ix int | Sl slice | NoIndex

datatype ('h, 'v) item = Elem "'v option" | Sub 'h

definition adjusted :: "('w, 'h, 'v) java_lists \<Rightarrow> 'h \<Rightarrow> int \<Rightarrow> ('w, pyexn, int) pyop" where
  "adjusted L self ndx =
     (if ndx < 0 then pbind (l_size L self) (\<lambda>n. ret (ndx + n)) else ret ndx)"

definition get_slice :: "('w, 'h, 'v) java_lists \<Rightarrow> 'h \<Rightarrow> slice \<Rightarrow> ('w, pyexn, 'h) pyop" where
  "get_slice L self slc =
     pbind (l_size L self) (\<lambda>n. pbind (plift (sliceAdjust slc n)) (\<lambda>(a, b). l_subList L self a b))"

definition JList_getitem :: "('w, 'h, 'v) java_lists \<Rightarrow> 'h \<Rightarrow> index \<Rightarrow> ('w, pyexn, ('h, 'v) item) pyop" where
  "JList_getitem L self ndx =
     (case ndx of
        Sl slc \<Rightarrow> pbind (get_slice L self slc) (\<lambda>h. ret (Sub h))
      | Ix i \<Rightarrow> pbind (adjusted L self i) (\<lambda>i. pbind (l_get L self i) (\<lambda>v. ret (Elem v)))
      | NoIndex \<Rightarrow> throw (Exn TypeError ''bad operand type''))"

text \<open>\<open>self[start:stop].clear()\<close>, by way of \<open>__getitem__\<close>.\<close>

definition clear_slice :: "('w, 'h, 'v) java_lists \<Rightarrow> 'h \<Rightarrow> int \<Rightarrow> int \<Rightarrow> ('w, pyexn, unit) pyop" where
  "clear_slice L self a b = pbind (get_slice L self (slice_of a b)) (l_clear L)"

definition set_slice :: "('w, 'h, 'v) java_lists \<Rightarrow> 'h \<Rightarrow> slice \<Rightarrow> ('h, 'v) coll \<Rightarrow> ('w, pyexn, unit) pyop" where
  "set_slice L self slc v =
     pbind (l_size L self) (\<lambda>n. pbind (plift (sliceAdjust slc n)) (\<lambda>(a, b).
       pseq (clear_slice L self a b) (pseq (l_addAll_at L self a v) (ret ()))))"

definition set_index :: "('w, 'h, 'v) java_lists \<Rightarrow> 'h \<Rightarrow> int \<Rightarrow> 'v option \<Rightarrow> ('w, pyexn, unit) pyop" where
  "set_index L self ndx v = pbind (adjusted L self ndx) (\<lambda>i. pseq (l_set L self i v) (ret ()))"

definition JList_delitem :: "('w, 'h, 'v) java_lists \<Rightarrow> 'h \<Rightarrow> index \<Rightarrow> ('w, pyexn, unit) pyop" where
  "JList_delitem L self ndx =
     (case ndx of
        Sl slc \<Rightarrow> pbind (l_size L self) (\<lambda>n. pbind (plift (sliceAdjust slc n)) (\<lambda>(a, b). clear_slice L self a b))
      | Ix i \<Rightarrow> pbind (adjusted L self i) (\<lambda>i. pseq (l_remove_at L self i) (ret ()))
      | NoIndex \<Rightarrow> throw (Exn TypeError ''Incorrect arguments to del''))"

definition JList_index :: "('w, 'h, 'v) java_lists \<Rightarrow> 'h \<Rightarrow> 'v option \<Rightarrow> ('w, pyexn, int) pyop" where
  "JList_index L self obj =
     except_clause TypeError (\<lambda>_. throw (Exn ValueError ''is not in list'')) (l_indexOf L self obj)"

text \<open>\<open>for i in self: if i.equals(jo): c += 1\<close>; a null element has no attributes.\<close>

fun count_loop :: "('v \<Rightarrow> 'v option \<Rightarrow> bool) \<Rightarrow> 'v option list \<Rightarrow> 'v option \<Rightarrow> int \<Rightarrow> pyexn + int" where
  "count_loop eq [] jo c = Inr c"
| "count_loop eq (None # vs) jo c = Inl (Exn AttributeError ''equals'')"
| "count_loop eq (Some v # vs) jo c = count_loop eq vs jo (if eq v jo then c + 1 else c)"

definition JList_count :: "('w, 'h, 'v) java_lists \<Rightarrow> 'h \<Rightarrow> 'v option \<Rightarrow> ('w, pyexn, int) pyop" where
  "JList_count L self obj =
     except_clause TypeError (\<lambda>_. ret 0)
       (pbind (plift (l_object L obj)) (\<lambda>jo. pbind (l_items L self) (\<lambda>vs. plift (count_loop (l_equals L) vs jo 0))))"

definition JList_insert :: "('w, 'h, 'v) java_lists \<Rightarrow> 'h \<Rightarrow> int \<Rightarrow> 'v option \<Rightarrow> ('w, pyexn, unit) pyop" where
  "JList_insert L self idx obj = pbind (adjusted L self idx) (\<lambda>i. l_add_at L self i obj)"

definition JList_append :: "('w, 'h, 'v) java_lists \<Rightarrow> 'h \<Rightarrow> 'v option \<Rightarrow> ('w, pyexn, bool) pyop" where
  "JList_append L self obj = l_add L self obj"

definition JList_reverse :: "('w, 'h, 'v) java_lists \<Rightarrow> 'h \<Rightarrow> ('w, pyexn, unit) pyop" where
  "JList_reverse L self = l_reverse L self"

definition JList_extend :: "('w, 'h, 'v) java_lists \<Rightarrow> 'h \<Rightarrow> ('h, 'v) coll \<Rightarrow> ('w, pyexn, unit) pyop" where
  "JList_extend L self lst = pseq (l_addAll L self lst) (ret ())"

definition JList_pop :: "('w, 'h, 'v) java_lists \<Rightarrow> 'h \<Rightarrow> int \<Rightarrow> ('w, pyexn, 'v option) pyop" where
  "JList_pop L self idx = pbind (adjusted L self idx) (\<lambda>i. l_remove_at L self i)"

definition JList_iadd :: "('w, 'h, 'v) java_lists \<Rightarrow> 'h \<Rightarrow> 'v option \<Rightarrow> ('w, pyexn, 'h) pyop" where
  "JList_iadd L self obj = pseq (l_add L self obj) (ret self)"

definition JList_add :: "('w, 'h, 'v) java_lists \<Rightarrow> 'h \<Rightarrow> ('h, 'v) coll \<Rightarrow> ('w, pyexn, 'h) pyop" where
  "JList_add L self obj = pbind (l_copy L self) (\<lambda>new. pseq (JList_extend L new obj) (ret new))"

definition JList_mul :: "('w, 'h, 'v) java_lists \<Rightarrow> 'h \<Rightarrow> int \<Rightarrow> ('w, pyexn, 'h) pyop" where
  "JList_mul L self obj =
     pbind (l_new L) (\<lambda>new. pseq (pfor [0..<nat obj] (\<lambda>_. JList_extend L new (JColl self))) (ret new))"

definition not_in_list :: pyexn where
  "not_in_list = Exn ValueError ''item not in list''"

definition JList_remove :: "('w, 'h, 'v) java_lists \<Rightarrow> 'h \<Rightarrow> 'v option \<Rightarrow> ('w, pyexn, unit) pyop" where
  "JList_remove L self obj =
     pbind (except_clause TypeError (\<lambda>_. ret False)
              (pbind (plift (l_object L obj)) (\<lambda>jo. l_remove L self jo)))
       (\<lambda>rc. if rc then ret () else throw not_in_list)"

text \<open>\<open>__reversed__\<close> first makes a list iterator at the end of the list.\<close>

definition JList_reversed :: "('w, 'h, 'v) java_lists \<Rightarrow> ('h \<Rightarrow> int \<Rightarrow> ('w, pyexn, 'it) pyop) \<Rightarrow> 'h \<Rightarrow> ('w, pyexn, 'it) pyop" where
  "JList_reversed L listIterator self = pbind (l_size L self) (\<lambda>n. listIterator self n)"

text \<open>A new list class is registered with Python's abstract classes; the registry is the list
  of registrations.\<close>

definition JList_jclass_init :: "'c \<Rightarrow> (string \<times> 'c) list \<Rightarrow> (string \<times> 'c) list" where
  "JList_jclass_init self reg = reg @ [(''Sequence'', self), (''MutableSequence'', self)]"

text \<open>The methods of \<open>_JIterable\<close> and \<open>_JCollection\<close>.\<close>

definition JIterable_iter :: "('h \<Rightarrow> ('w, pyexn, 'it) pyop) \<Rightarrow> 'h \<Rightarrow> ('w, pyexn, 'it) pyop" where
  "JIterable_iter iterator self = iterator self"

definition JCollection_len :: "('w, 'h, 'v) java_lists \<Rightarrow> 'h \<Rightarrow> ('w, pyexn, int) pyop" where
  "JCollection_len L self = l_size L self"

definition JCollection_contains :: "('w, 'h, 'v) java_lists \<Rightarrow> 'h \<Rightarrow> 'v option \<Rightarrow> ('w, pyexn, bool) pyop" where
  "JCollection_contains L self i = except_clause TypeError (\<lambda>_. ret False) (l_contains L self i)"

definition JCollection_delitem :: "string \<Rightarrow> 'i \<Rightarrow> ('w, pyexn, unit) pyop" where
  "JCollection_delitem tname i =
     throw (Exn TypeError (CHR 0x27 # tname @ CHR 0x27 # '' does not support item deletion, use remove() method''))"

section \<open>Operations with one outcome\<close>

text \<open>
  \<open>does A xs m r ys\<close>: on the list \<open>xs\<close> the operation returns \<open>r\<close> and leaves \<open>ys\<close>.
  \<open>fails A xs m k\<close>: it raises an exception of class \<open>k\<close> and the list is untouched.
\<close>

definition does ::
  "('v list \<Rightarrow> 'w \<Rightarrow> bool) \<Rightarrow> 'v list \<Rightarrow> ('w, pyexn, 'r) pyop \<Rightarrow> 'r \<Rightarrow> 'v list \<Rightarrow> bool" where
  "does A xs m r ys \<longleftrightarrow> (\<forall>w. A xs w \<longrightarrow> (\<exists>w'. m w = (Inr r, w') \<and> A ys w'))"

definition fails ::
  "('v list \<Rightarrow> 'w \<Rightarrow> bool) \<Rightarrow> 'v list \<Rightarrow> ('w, pyexn, 'r) pyop \<Rightarrow> exn_class \<Rightarrow> bool" where
  "fails A xs m k \<longleftrightarrow> (\<forall>w. A xs w \<longrightarrow> (\<exists>e w'. m w = (Inl e, w') \<and> exn_isa (exn_kind e) k \<and> A xs w'))"

text \<open>\<open>makes A xs m B\<close>: the operation returns a new handle related to the list by \<open>B\<close>.\<close>

definition makes ::
  "('v list \<Rightarrow> 'w \<Rightarrow> bool) \<Rightarrow> 'v list \<Rightarrow> ('w, pyexn, 'h) pyop \<Rightarrow> ('h \<Rightarrow> 'w \<Rightarrow> bool) \<Rightarrow> bool" where
  "makes A xs m B \<longleftrightarrow> (\<forall>w. A xs w \<longrightarrow> (\<exists>h w'. m w = (Inr h, w') \<and> B h w'))"

lemma doesD: "does A xs m r ys \<Longrightarrow> A xs w \<Longrightarrow> \<exists>w'. m w = (Inr r, w') \<and> A ys w'"
  by (simp add: does_def)

lemma failsD:
  "fails A xs m k \<Longrightarrow> A xs w \<Longrightarrow> \<exists>e w'. m w = (Inl e, w') \<and> exn_isa (exn_kind e) k \<and> A xs w'"
  by (simp add: fails_def)

lemma makesD: "makes A xs m B \<Longrightarrow> A xs w \<Longrightarrow> \<exists>h w'. m w = (Inr h, w') \<and> B h w'"
  by (simp add: makes_def)

lemma does_ret [intro]: "does A xs (ret r) r xs"
  by (simp add: does_def pyrun)

lemma does_plift: "does A xs (plift (Inr r)) r xs"
  by (simp add: does_def pyrun)

lemma fails_throw: "exn_isa (exn_kind e) k \<Longrightarrow> fails A xs (throw e) k"
  by (simp add: fails_def pyrun)

lemma fails_plift: "exn_isa (exn_kind e) k \<Longrightarrow> fails A xs (plift (Inl e)) k"
  by (simp add: fails_def pyrun)

lemma plift_Inr: "plift (Inr r) = ret r"
  by (rule ext) (simp add: pyrun)

lemma plift_Inl: "plift (Inl e) = throw e"
  by (rule ext) (simp add: pyrun)

lemma does_bind: "does A xs m r ys \<Longrightarrow> does A ys (f r) r' zs \<Longrightarrow> does A xs (pbind m f) r' zs"
  by (fastforce simp: does_def pyrun)

lemma does_seq: "does A xs m r ys \<Longrightarrow> does A ys n r' zs \<Longrightarrow> does A xs (pseq m n) r' zs"
  unfolding pseq_def by (rule does_bind)

lemma fails_bind: "fails A xs m k \<Longrightarrow> fails A xs (pbind m f) k"
  by (fastforce simp: fails_def pyrun)

lemma fails_seq: "fails A xs m k \<Longrightarrow> fails A xs (pseq m n) k"
  unfolding pseq_def by (rule fails_bind)

lemma does_fails_bind: "does A xs m r xs \<Longrightarrow> fails A xs (f r) k \<Longrightarrow> fails A xs (pbind m f) k"
  by (fastforce simp: fails_def does_def pyrun)

lemma makes_bind: "does A xs m r ys \<Longrightarrow> makes A ys (f r) B \<Longrightarrow> makes A xs (pbind m f) B"
  by (fastforce simp: makes_def does_def pyrun)

lemma fails_weaken: "fails A xs m k \<Longrightarrow> exn_isa k k' \<Longrightarrow> fails A xs m k'"
  unfolding fails_def by (metis exn_isa_trans)

lemma does_except: "does A xs m r ys \<Longrightarrow> does A xs (except_clause c h m) r ys"
  by (fastforce simp: does_def pyrun)

lemma fails_except_does:
  "fails A xs m c \<Longrightarrow> (\<And>e. does A xs (h e) r ys) \<Longrightarrow> does A xs (except_clause c h m) r ys"
  by (fastforce simp: fails_def does_def pyrun catches_def)

lemma fails_except_fails:
  "fails A xs m c \<Longrightarrow> (\<And>e. fails A xs (h e) k) \<Longrightarrow> fails A xs (except_clause c h m) k"
  by (fastforce simp: fails_def pyrun catches_def)

section \<open>The documented behaviour of Java lists\<close>

definition in_range :: "int \<Rightarrow> 'a list \<Rightarrow> bool" where
  "in_range i xs \<longleftrightarrow> 0 \<le> i \<and> i < int (length xs)"

definition sub_range :: "int \<Rightarrow> int \<Rightarrow> 'a list \<Rightarrow> bool" where
  "sub_range a b xs \<longleftrightarrow> 0 \<le> a \<and> a \<le> b \<and> b \<le> int (length xs)"

definition sub :: "int \<Rightarrow> int \<Rightarrow> 'a list \<Rightarrow> 'a list" where
  "sub a b xs = take (nat b - nat a) (drop (nat a) xs)"

definition cut :: "int \<Rightarrow> int \<Rightarrow> 'a list \<Rightarrow> 'a list" where
  "cut a b xs = take (nat a) xs @ drop (nat b) xs"

definition ins :: "int \<Rightarrow> 'a list \<Rightarrow> 'a list \<Rightarrow> 'a list" where
  "ins i vs xs = take (nat i) xs @ vs @ drop (nat i) xs"

fun index_of :: "'a \<Rightarrow> 'a list \<Rightarrow> int option" where
  "index_of v [] = None"
| "index_of v (x # xs) = (if x = v then Some 0 else map_option (\<lambda>i. i + 1) (index_of v xs))"

text \<open>What Python's slices with a unit step mean: both ends are clamped to the list.\<close>

definition start_of :: "slice \<Rightarrow> int" where
  "start_of slc = (case sl_start slc of None \<Rightarrow> 0 | Some i \<Rightarrow> i)"

definition stop_of :: "slice \<Rightarrow> nat \<Rightarrow> int" where
  "stop_of slc n = (case sl_stop slc of None \<Rightarrow> int n | Some i \<Rightarrow> i)"

definition clamp :: "int \<Rightarrow> nat \<Rightarrow> int" where
  "clamp i n = max 0 (min (int n) i)"

definition py_slice_ends :: "slice \<Rightarrow> nat \<Rightarrow> int \<times> int" where
  "py_slice_ends slc n =
     (let s = clamp (wrap_index (start_of slc) n) n;
          e = clamp (wrap_index (stop_of slc n) n) n
      in (s, max s e))"

lemma sliceAdjust_ends:
  "\<not> bad_stride slc \<Longrightarrow> sliceAdjust slc (int n) =
     Inr (wrap_index (start_of slc) n, wrap_index (stop_of slc n) n)"
  by (auto simp: sliceAdjust_def Let_def start_of_def stop_of_def wrap_index_def split: option.split)

lemma sliceAdjust_pair: "sliceAdjust (slice_of a b) (int n) = Inr (wrap_index a n, wrap_index b n)"
  by (simp add: sliceAdjust_def slice_of_def bad_stride_def wrap_index_def Let_def)

lemma sub_range_python:
  "sub_range (wrap_index (start_of slc) (length xs)) (wrap_index (stop_of slc (length xs)) (length xs)) xs \<Longrightarrow>
     py_slice_ends slc (length xs) =
       (wrap_index (start_of slc) (length xs), wrap_index (stop_of slc (length xs)) (length xs))"
  by (auto simp: sub_range_def py_slice_ends_def clamp_def Let_def)

lemma wrap_index_again: "0 \<le> i \<Longrightarrow> wrap_index i n = i"
  by (simp add: wrap_index_def)

text \<open>
  \<open>At h xs w\<close>: in the world \<open>w\<close> the handle \<open>h\<close> is a list with elements \<open>xs\<close>; \<open>conv v\<close>: the
  Python value converts to an element; \<open>indep k h w\<close>: the two lists share no storage.
\<close>

locale java_list =
  fixes L :: "('w, 'h, 'v) java_lists"
    and At :: "'h \<Rightarrow> 'v option list \<Rightarrow> 'w \<Rightarrow> bool"
    and conv :: "'v option \<Rightarrow> bool"
    and indep :: "'h \<Rightarrow> 'h \<Rightarrow> 'w \<Rightarrow> bool"
  assumes size: "does (At h) xs (l_size L h) (int (length xs)) xs"
    and items: "does (At h) xs (l_items L h) xs xs"
    and get: "in_range i xs \<Longrightarrow> does (At h) xs (l_get L h i) (xs ! nat i) xs"
    and get_out: "\<not> in_range i xs \<Longrightarrow> fails (At h) xs (l_get L h i) JIndexOutOfBoundsException"
    and set: "in_range i xs \<Longrightarrow> conv v \<Longrightarrow> does (At h) xs (l_set L h i v) (xs ! nat i) (xs[nat i := v])"
    and set_out: "\<not> in_range i xs \<Longrightarrow> conv v \<Longrightarrow> fails (At h) xs (l_set L h i v) JIndexOutOfBoundsException"
    and add: "conv v \<Longrightarrow> does (At h) xs (l_add L h v) True (xs @ [v])"
    and add_bad: "\<not> conv v \<Longrightarrow> fails (At h) xs (l_add L h v) TypeError"
    and add_at: "0 \<le> i \<Longrightarrow> i \<le> int (length xs) \<Longrightarrow> conv v \<Longrightarrow>
          does (At h) xs (l_add_at L h i v) () (ins i [v] xs)"
    and add_at_out: "\<not> (0 \<le> i \<and> i \<le> int (length xs)) \<Longrightarrow> conv v \<Longrightarrow>
          fails (At h) xs (l_add_at L h i v) JIndexOutOfBoundsException"
    and addAll: "list_all conv vs \<Longrightarrow> does (At h) xs (l_addAll L h (PySeq vs)) (vs \<noteq> []) (xs @ vs)"
    and addAll_at: "0 \<le> i \<Longrightarrow> i \<le> int (length xs) \<Longrightarrow> list_all conv vs \<Longrightarrow>
          does (At h) xs (l_addAll_at L h i (PySeq vs)) (vs \<noteq> []) (ins i vs xs)"
    and addAll_at_out: "\<not> (0 \<le> i \<and> i \<le> int (length xs)) \<Longrightarrow> list_all conv vs \<Longrightarrow>
          fails (At h) xs (l_addAll_at L h i (PySeq vs)) JIndexOutOfBoundsException"
    and addAll_other: "does (\<lambda>xs w. At h xs w \<and> At k ys w \<and> indep k h w) xs
          (l_addAll L h (JColl k)) (ys \<noteq> []) (xs @ ys)"
    and addAll_frame: "list_all conv vs \<Longrightarrow> does (\<lambda>xs w. At h xs w \<and> At k ys w \<and> indep k h w) xs
          (l_addAll L h (PySeq vs)) (vs \<noteq> []) (xs @ vs)"
    and remove_at: "in_range i xs \<Longrightarrow> does (At h) xs (l_remove_at L h i) (xs ! nat i) (cut i (i + 1) xs)"
    and remove_at_out: "\<not> in_range i xs \<Longrightarrow> fails (At h) xs (l_remove_at L h i) JIndexOutOfBoundsException"
    and remove: "conv v \<Longrightarrow> does (At h) xs (l_remove L h v) (v \<in> set xs) (remove1 v xs)"
    and indexOf: "conv v \<Longrightarrow> does (At h) xs (l_indexOf L h v)
          (case index_of v xs of None \<Rightarrow> - 1 | Some i \<Rightarrow> i) xs"
    and indexOf_bad: "\<not> conv v \<Longrightarrow> fails (At h) xs (l_indexOf L h v) TypeError"
    and contains: "conv v \<Longrightarrow> does (At h) xs (l_contains L h v) (v \<in> set xs) xs"
    and contains_bad: "\<not> conv v \<Longrightarrow> fails (At h) xs (l_contains L h v) TypeError"
    and reverse: "does (At h) xs (l_reverse L h) () (rev xs)"
    and subList: "sub_range a b xs \<Longrightarrow> makes (At h) xs (l_subList L h a b)
          (\<lambda>h' w. At h xs w \<and> At h' (sub a b xs) w)"
    and subList_clear: "sub_range a b xs \<Longrightarrow>
          does (At h) xs (pbind (l_subList L h a b) (l_clear L)) () (cut a b xs)"
    and subList_out: "\<not> sub_range a b xs \<Longrightarrow> fails (At h) xs (l_subList L h a b) JException"
    and new: "makes (At h) xs (l_new L) (\<lambda>n w. At n [] w \<and> At h xs w \<and> indep h n w)"
    and copy: "makes (At h) xs (l_copy L h) (\<lambda>n w. At n xs w \<and> At h xs w \<and> indep h n w)"
    and object: "conv v \<Longrightarrow> l_object L v = Inr v"
    and object_bad: "\<not> conv v \<Longrightarrow> \<exists>m. l_object L v = Inl (Exn TypeError m)"
    and equals: "l_equals L x jo \<longleftrightarrow> jo = Some x"

begin

lemma adjusted_does: "does (At h) xs (adjusted L h i) (wrap_index i (length xs)) xs"
  unfolding adjusted_def wrap_index_def
  by (cases "i < 0") (simp_all add: does_bind [OF size] does_ret)

lemma getitem_does:
  "in_range (wrap_index i (length xs)) xs \<Longrightarrow>
     does (At h) xs (JList_getitem L h (Ix i)) (Elem (xs ! nat (wrap_index i (length xs)))) xs"
  unfolding JList_getitem_def index.case
  by (rule does_bind [OF adjusted_does]) (rule does_bind [OF get], assumption, rule does_ret)

lemma getitem_fails:
  "\<not> in_range (wrap_index i (length xs)) xs \<Longrightarrow> fails (At h) xs (JList_getitem L h (Ix i)) JIndexOutOfBoundsException"
  unfolding JList_getitem_def index.case
  by (rule does_fails_bind [OF adjusted_does]) (rule fails_bind [OF get_out])

lemma setitem_does:
  "in_range (wrap_index i (length xs)) xs \<Longrightarrow> conv v \<Longrightarrow>
     does (At h) xs (set_index L h i v) () (xs[nat (wrap_index i (length xs)) := v])"
  unfolding set_index_def
  by (rule does_bind [OF adjusted_does]) (rule does_seq [OF set], assumption, assumption, rule does_ret)

lemma setitem_fails:
  "\<not> in_range (wrap_index i (length xs)) xs \<Longrightarrow> conv v \<Longrightarrow>
     fails (At h) xs (set_index L h i v) JIndexOutOfBoundsException"
  unfolding set_index_def
  by (rule does_fails_bind [OF adjusted_does]) (rule fails_seq [OF set_out])

lemma delitem_does:
  "in_range (wrap_index i (length xs)) xs \<Longrightarrow> does (At h) xs (JList_delitem L h (Ix i)) ()
     (cut (wrap_index i (length xs)) (wrap_index i (length xs) + 1) xs)"
  unfolding JList_delitem_def index.case
  by (rule does_bind [OF adjusted_does]) (rule does_seq [OF remove_at], assumption, rule does_ret)

lemma delitem_fails:
  "\<not> in_range (wrap_index i (length xs)) xs \<Longrightarrow> fails (At h) xs (JList_delitem L h (Ix i)) JIndexOutOfBoundsException"
  unfolding JList_delitem_def index.case
  by (rule does_fails_bind [OF adjusted_does]) (rule fails_seq [OF remove_at_out])

lemma pop_does:
  "in_range (wrap_index i (length xs)) xs \<Longrightarrow> does (At h) xs (JList_pop L h i)
     (xs ! nat (wrap_index i (length xs))) (cut (wrap_index i (length xs)) (wrap_index i (length xs) + 1) xs)"
  unfolding JList_pop_def by (rule does_bind [OF adjusted_does remove_at])

lemma pop_fails:
  "\<not> in_range (wrap_index i (length xs)) xs \<Longrightarrow> fails (At h) xs (JList_pop L h i) JIndexOutOfBoundsException"
  unfolding JList_pop_def by (rule does_fails_bind [OF adjusted_does remove_at_out])

lemma insert_does:
  "0 \<le> wrap_index i (length xs) \<Longrightarrow> wrap_index i (length xs) \<le> int (length xs) \<Longrightarrow> conv v \<Longrightarrow>
     does (At h) xs (JList_insert L h i v) () (ins (wrap_index i (length xs)) [v] xs)"
  unfolding JList_insert_def by (rule does_bind [OF adjusted_does add_at])

lemma insert_fails:
  "\<not> (0 \<le> wrap_index i (length xs) \<and> wrap_index i (length xs) \<le> int (length xs)) \<Longrightarrow> conv v \<Longrightarrow>
     fails (At h) xs (JList_insert L h i v) JIndexOutOfBoundsException"
  unfolding JList_insert_def by (rule does_fails_bind [OF adjusted_does add_at_out])

lemma extend_does: "list_all conv vs \<Longrightarrow> does (At h) xs (JList_extend L h (PySeq vs)) () (xs @ vs)"
  unfolding JList_extend_def by (rule does_seq [OF addAll does_ret])

lemma try_remove:
  "does (At h) xs (except_clause TypeError (\<lambda>_. ret False) (pbind (plift (l_object L v)) (l_remove L h)))
     (conv v \<and> v \<in> List.set xs) (if conv v then remove1 v xs else xs)"
proof (cases "conv v")
  case True
  then show ?thesis using remove [OF True, of h xs] by (simp add: object plift_Inr does_except)
next
  case False
  then obtain m where "l_object L v = Inl (Exn TypeError m)" using object_bad by blast
  then have "fails (At h) xs (pbind (plift (l_object L v)) (l_remove L h)) TypeError"
    by (simp add: plift_Inl fails_throw)
  then have "does (At h) xs (except_clause TypeError (\<lambda>_. ret False)
      (pbind (plift (l_object L v)) (l_remove L h))) False xs"
    by (rule fails_except_does) (rule does_ret)
  then show ?thesis using False by simp
qed

lemma remove_does: "conv v \<Longrightarrow> v \<in> List.set xs \<Longrightarrow> does (At h) xs (JList_remove L h v) () (remove1 v xs)"
  unfolding JList_remove_def by (rule does_bind [OF try_remove]) (simp add: does_ret)

lemma remove_fails:
  assumes "conv v \<longrightarrow> v \<notin> List.set xs"
  shows "fails (At h) xs (JList_remove L h v) ValueError"
proof -
  have "does (At h) xs (except_clause TypeError (\<lambda>_. ret False)
      (pbind (plift (l_object L v)) (l_remove L h))) False xs"
    using try_remove [of h xs v] assms by (auto simp: remove1_idem split: if_splits)
  then show ?thesis unfolding JList_remove_def
    by (rule does_fails_bind) (simp add: fails_throw not_in_list_def)
qed

lemma index_does:
  "conv v \<Longrightarrow> does (At h) xs (JList_index L h v) (case index_of v xs of None \<Rightarrow> - 1 | Some i \<Rightarrow> i) xs"
  unfolding JList_index_def by (rule does_except [OF indexOf])

lemma index_fails: "\<not> conv v \<Longrightarrow> fails (At h) xs (JList_index L h v) ValueError"
  unfolding JList_index_def by (rule fails_except_fails [OF indexOf_bad]) (simp_all add: fails_throw)

lemma contains_does: "does (At h) xs (JCollection_contains L h v) (conv v \<and> v \<in> List.set xs) xs"
  unfolding JCollection_contains_def
  by (cases "conv v") (auto intro: does_except contains fails_except_does [OF contains_bad] does_ret)

lemma count_loop_value:
  "None \<notin> List.set vs \<Longrightarrow> count_loop (l_equals L) vs jo c = Inr (c + int (length (filter (\<lambda>x. x = jo) vs)))"
proof (induction vs arbitrary: c)
  case (Cons x vs)
  then show ?case by (cases x) (auto simp: equals)
qed simp

lemma count_loop_null: "None \<in> List.set vs \<Longrightarrow> count_loop eq vs jo c = Inl (Exn AttributeError ''equals'')"
proof (induction vs arbitrary: c)
  case (Cons x vs)
  then show ?case by (cases x) auto
qed simp

lemma count_does:
  assumes "None \<notin> List.set xs"
  shows "does (At h) xs (JList_count L h v) (if conv v then int (length (filter (\<lambda>x. x = v) xs)) else 0) xs"
proof (cases "conv v")
  case True
  then show ?thesis unfolding JList_count_def using assms
    by (auto simp: object plift_Inr count_loop_value intro!: does_except does_bind [OF items] does_ret)
next
  case False
  then obtain m where "l_object L v = Inl (Exn TypeError m)" using object_bad by blast
  then show ?thesis unfolding JList_count_def using False
    by (auto simp: plift_Inl does_def pyrun)
qed

lemma count_fails:
  "conv v \<Longrightarrow> None \<in> List.set xs \<Longrightarrow> fails (At h) xs (JList_count L h v) AttributeError"
  unfolding JList_count_def
  by (simp add: object plift_Inr except_clause_def)
    (use items [of h xs] in \<open>auto simp: fails_def does_def pyrun count_loop_null exn_isa_eval\<close>)

lemma get_slice_makes:
  assumes "\<not> bad_stride slc"
    and "sub_range (wrap_index (start_of slc) (length xs)) (wrap_index (stop_of slc (length xs)) (length xs)) xs"
  shows "makes (At h) xs (get_slice L h slc)
     (\<lambda>h' w. At h xs w \<and>
        At h' (sub (wrap_index (start_of slc) (length xs)) (wrap_index (stop_of slc (length xs)) (length xs)) xs) w)"
  unfolding get_slice_def
  by (rule makes_bind [OF size]) (simp add: sliceAdjust_ends [OF assms(1)] plift_Inr subList [OF assms(2)])

lemma get_slice_fails:
  assumes "\<not> bad_stride slc"
    and "\<not> sub_range (wrap_index (start_of slc) (length xs)) (wrap_index (stop_of slc (length xs)) (length xs)) xs"
  shows "fails (At h) xs (get_slice L h slc) JException"
  unfolding get_slice_def
  by (rule does_fails_bind [OF size]) (simp add: sliceAdjust_ends [OF assms(1)] plift_Inr subList_out [OF assms(2)])

lemma get_slice_pair:
  "get_slice L h (slice_of a b) =
     pbind (l_size L h) (\<lambda>n. l_subList L h (if a < 0 then a + n else a) (if b < 0 then b + n else b))"
  unfolding get_slice_def by (simp add: sliceAdjust_def slice_of_def bad_stride_def plift_Inr)

lemma clear_slice_does:
  assumes "sub_range (wrap_index a (length xs)) (wrap_index b (length xs)) xs"
  shows "does (At h) xs (clear_slice L h a b) () (cut (wrap_index a (length xs)) (wrap_index b (length xs)) xs)"
  unfolding clear_slice_def get_slice_pair pbind_assoc
  by (rule does_bind [OF size]) (use subList_clear [OF assms] in \<open>simp add: wrap_index_def\<close>)

lemma clear_slice_fails:
  assumes "\<not> sub_range (wrap_index a (length xs)) (wrap_index b (length xs)) xs"
  shows "fails (At h) xs (clear_slice L h a b) JException"
  unfolding clear_slice_def get_slice_pair pbind_assoc
  by (rule does_fails_bind [OF size])
    (rule fails_bind, use subList_out [OF assms] in \<open>simp add: wrap_index_def\<close>)

lemma delslice_does:
  assumes "\<not> bad_stride slc" and "a = wrap_index (start_of slc) (length xs)"
    and "b = wrap_index (stop_of slc (length xs)) (length xs)"
    and "sub_range (wrap_index a (length xs)) (wrap_index b (length xs)) xs"
  shows "does (At h) xs (JList_delitem L h (Sl slc)) () (cut (wrap_index a (length xs)) (wrap_index b (length xs)) xs)"
  unfolding JList_delitem_def index.case
  by (rule does_bind [OF size])
    (simp add: sliceAdjust_ends [OF assms(1)] plift_Inr assms(2,3)[symmetric] clear_slice_does [OF assms(4)])

lemma delslice_fails:
  assumes "\<not> bad_stride slc" and "a = wrap_index (start_of slc) (length xs)"
    and "b = wrap_index (stop_of slc (length xs)) (length xs)"
    and "\<not> sub_range (wrap_index a (length xs)) (wrap_index b (length xs)) xs"
  shows "fails (At h) xs (JList_delitem L h (Sl slc)) JException"
  unfolding JList_delitem_def index.case
  by (rule does_fails_bind [OF size])
    (simp add: sliceAdjust_ends [OF assms(1)] plift_Inr assms(2,3)[symmetric] clear_slice_fails [OF assms(4)])

lemma setslice_does:
  assumes "\<not> bad_stride slc" and "a = wrap_index (start_of slc) (length xs)"
    and "b = wrap_index (stop_of slc (length xs)) (length xs)"
    and "sub_range a b xs" and "list_all conv vs"
  shows "does (At h) xs (set_slice L h slc (PySeq vs)) () (ins a vs (cut a b xs))"
proof -
  have r: "wrap_index a (length xs) = a" "wrap_index b (length xs) = b"
    using assms(4) by (auto simp: sub_range_def wrap_index_def)
  have len: "0 \<le> a" "a \<le> int (length (cut a b xs))"
    using assms(4) by (auto simp: sub_range_def cut_def)
  have "does (At h) xs (pseq (clear_slice L h a b) (pseq (l_addAll_at L h a (PySeq vs)) (ret ()))) ()
      (ins a vs (cut a b xs))"
    using clear_slice_does [of a xs b h] assms(4) unfolding r
    by (intro does_seq [OF _ does_seq [OF addAll_at [OF len assms(5)] does_ret]])
  then show ?thesis unfolding set_slice_def
    by (intro does_bind [OF size]) (simp add: sliceAdjust_ends [OF assms(1)] plift_Inr assms(2,3)[symmetric])
qed

text \<open>When the second adjustment makes a negative start valid, the elements are cleared and
  the insertion fails.\<close>

lemma setslice_loses:
  assumes "\<not> bad_stride slc" and "a = wrap_index (start_of slc) (length xs)"
    and "b = wrap_index (stop_of slc (length xs)) (length xs)"
    and "a < 0" and "sub_range (wrap_index a (length xs)) (wrap_index b (length xs)) xs" and "list_all conv vs"
    and "At h xs w"
  shows "\<exists>e w'. set_slice L h slc (PySeq vs) w = (Inl e, w') \<and> exn_isa (exn_kind e) JIndexOutOfBoundsException \<and>
     At h (cut (wrap_index a (length xs)) (wrap_index b (length xs)) xs) w'"
proof -
  let ?zs = "cut (wrap_index a (length xs)) (wrap_index b (length xs)) xs"
  obtain w1 where 1: "l_size L h w = (Inr (int (length xs)), w1)" "At h xs w1"
    using doesD [OF size assms(7)] by blast
  obtain w2 where 2: "clear_slice L h a b w1 = (Inr (), w2)" "At h ?zs w2"
    using doesD [OF clear_slice_does [OF assms(5)] 1(2)] by blast
  obtain e w3 where 3: "l_addAll_at L h a (PySeq vs) w2 = (Inl e, w3)"
    "exn_isa (exn_kind e) JIndexOutOfBoundsException" "At h ?zs w3"
    using failsD [OF addAll_at_out [OF _ assms(6)] 2(2), of a] assms(4) by auto
  have "set_slice L h slc (PySeq vs) w = (Inl e, w3)"
    by (simp add: set_slice_def pyrun 1(1) 2(1) 3(1) sliceAdjust_ends [OF assms(1)] assms(2,3)[symmetric])
  with 3 show ?thesis by blast
qed

lemma add_makes:
  assumes "list_all conv vs"
  shows "makes (At h) xs (JList_add L h (PySeq vs)) (\<lambda>n w. At n (xs @ vs) w \<and> At h xs w)"
  unfolding makes_def
proof (intro allI impI)
  fix w assume "At h xs w"
  then obtain n w1 where 1: "l_copy L h w = (Inr n, w1)" "At n xs w1 \<and> At h xs w1 \<and> indep h n w1"
    using makesD [OF copy] by blast
  obtain w2 where 2: "l_addAll L n (PySeq vs) w1 = (Inr (vs \<noteq> []), w2)"
    "At n (xs @ vs) w2 \<and> At h xs w2 \<and> indep h n w2"
    using doesD [OF addAll_frame [OF assms] 1(2)] by blast
  have "JList_add L h (PySeq vs) w = (Inr n, w2)"
    by (simp add: JList_add_def JList_extend_def pyrun 1(1) 2(1))
  then show "\<exists>n w'. JList_add L h (PySeq vs) w = (Inr n, w') \<and> At n (xs @ vs) w' \<and> At h xs w'"
    using 2(2) by blast
qed

lemma extend_loop:
  "does (\<lambda>zs w. At n zs w \<and> At h xs w \<and> indep h n w) zs
     (pfor is (\<lambda>_. JList_extend L n (JColl h))) () (zs @ concat (replicate (length is) xs))"
proof (induction "is" arbitrary: zs)
  case Nil
  then show ?case by (simp add: does_ret)
next
  case (Cons i "is")
  have "does (\<lambda>zs w. At n zs w \<and> At h xs w \<and> indep h n w) zs (JList_extend L n (JColl h)) () (zs @ xs)"
    unfolding JList_extend_def by (rule does_seq [OF addAll_other does_ret])
  from does_seq [OF this Cons.IH] show ?case by simp
qed

lemma mul_makes:
  "makes (At h) xs (JList_mul L h k) (\<lambda>n w. At n (concat (replicate (nat k) xs)) w \<and> At h xs w)"
  unfolding makes_def
proof (intro allI impI)
  fix w assume "At h xs w"
  then obtain n w1 where 1: "l_new L w = (Inr n, w1)" "At n [] w1 \<and> At h xs w1 \<and> indep h n w1"
    using makesD [OF new] by blast
  obtain w2 where 2: "pfor [0..<nat k] (\<lambda>_. JList_extend L n (JColl h)) w1 = (Inr (), w2)"
    "At n (concat (replicate (nat k) xs)) w2 \<and> At h xs w2"
    using doesD [OF extend_loop 1(2), of "[0..<nat k]"] by auto
  have "JList_mul L h k w = (Inr n, w2)"
    by (simp add: JList_mul_def pyrun 1(1) 2(1))
  then show "\<exists>n w'. JList_mul L h k w = (Inr n, w') \<and> At n (concat (replicate (nat k) xs)) w' \<and> At h xs w'"
    using 2(2) by blast
qed

end

section \<open>A heap of array lists\<close>

text \<open>
  The concrete instance: a world is a heap of cells, a handle an index into it. A cell is
  the storage of an array list or a view of a range of an older cell; writing through a
  view rewrites the range in its parent, and so on up to the storage. \<open>conv\<close> says which
  values convert to elements.
\<close>

datatype 'v cell = Arr "'v option list" | View nat nat nat

type_synonym 'v heap = "'v cell list"

function chain :: "'v heap \<Rightarrow> nat \<Rightarrow> nat list" where
  "chain w h = h # (case w ! h of Arr xs \<Rightarrow> [] | View q a n \<Rightarrow> if q < h then chain w q else [])"
  by pat_completeness auto
termination by (relation "measure snd") auto

function contents :: "'v heap \<Rightarrow> nat \<Rightarrow> 'v option list" where
  "contents w h = (case w ! h of Arr xs \<Rightarrow> xs
     | View q a n \<Rightarrow> if q < h then take n (drop a (contents w q)) else [])"
  by pat_completeness auto
termination by (relation "measure snd") auto

function store :: "'v heap \<Rightarrow> nat \<Rightarrow> 'v option list \<Rightarrow> 'v heap" where
  "store w h zs = (case w ! h of Arr xs \<Rightarrow> w[h := Arr zs]
     | View q a n \<Rightarrow>
         if q < h
         then store (w[h := View q a (length zs)]) q (take a (contents w q) @ zs @ drop (a + n) (contents w q))
         else w)"
  by pat_completeness auto
termination by (relation "measure (\<lambda>(w, h, zs). h)") auto

function live :: "'v heap \<Rightarrow> nat \<Rightarrow> bool" where
  "live w h \<longleftrightarrow> h < length w \<and> (case w ! h of Arr xs \<Rightarrow> True
     | View q a n \<Rightarrow> if q < h then live w q \<and> a + n \<le> length (contents w q) else False)"
  by pat_completeness auto
termination by (relation "measure snd") auto

declare chain.simps [simp del] contents.simps [simp del] store.simps [simp del] live.simps [simp del]

definition al_at :: "nat \<Rightarrow> 'v option list \<Rightarrow> 'v heap \<Rightarrow> bool" where
  "al_at h xs w \<longleftrightarrow> live w h \<and> contents w h = xs"

text \<open>Two lists are independent when no cell is on the way to the storage of both.\<close>

definition al_indep :: "nat \<Rightarrow> nat \<Rightarrow> 'v heap \<Rightarrow> bool" where
  "al_indep k h w \<longleftrightarrow> set (chain w k) \<inter> set (chain w h) = {}"

fun coll_elems :: "'v heap \<Rightarrow> (nat, 'v) coll \<Rightarrow> 'v option list" where
  "coll_elems w (JColl h) = contents w h"
| "coll_elems w (PySeq vs) = vs"
| "coll_elems w NotColl = []"

definition refuse :: "exn_class \<Rightarrow> 'v heap \<Rightarrow> (pyexn + 'r) \<times> 'v heap" where
  "refuse k w = (Inl (Exn k []), w)"

definition array_lists :: "('v option \<Rightarrow> bool) \<Rightarrow> ('v heap, nat, 'v) java_lists" where
  "array_lists conv = \<lparr>
     l_size = \<lambda>h w. (Inr (int (length (contents w h))), w),
     l_get = \<lambda>h i w. if in_range i (contents w h) then (Inr (contents w h ! nat i), w)
                     else refuse JIndexOutOfBoundsException w,
     l_set = \<lambda>h i v w. if \<not> conv v then refuse TypeError w
                     else if in_range i (contents w h)
                     then (Inr (contents w h ! nat i), store w h ((contents w h)[nat i := v]))
                     else refuse JIndexOutOfBoundsException w,
     l_subList = \<lambda>h a b w. if sub_range a b (contents w h)
                     then (Inr (length w), w @ [View h (nat a) (nat b - nat a)])
                     else refuse JIndexOutOfBoundsException w,
     l_clear = \<lambda>h w. (Inr (), store w h []),
     l_add = \<lambda>h v w. if conv v then (Inr True, store w h (contents w h @ [v])) else refuse TypeError w,
     l_add_at = \<lambda>h i v w. if \<not> conv v then refuse TypeError w
                     else if 0 \<le> i \<and> i \<le> int (length (contents w h))
                     then (Inr (), store w h (ins i [v] (contents w h)))
                     else refuse JIndexOutOfBoundsException w,
     l_addAll = \<lambda>h c w. if c \<noteq> NotColl \<and> list_all conv (case c of PySeq vs \<Rightarrow> vs | _ \<Rightarrow> [])
                     then (Inr (coll_elems w c \<noteq> []), store w h (contents w h @ coll_elems w c))
                     else refuse TypeError w,
     l_addAll_at = \<lambda>h i c w. if c = NotColl \<or> \<not> list_all conv (case c of PySeq vs \<Rightarrow> vs | _ \<Rightarrow> [])
                     then refuse TypeError w
                     else if 0 \<le> i \<and> i \<le> int (length (contents w h))
                     then (Inr (coll_elems w c \<noteq> []), store w h (ins i (coll_elems w c) (contents w h)))
                     else refuse JIndexOutOfBoundsException w,
     l_remove_at = \<lambda>h i w. if in_range i (contents w h)
                     then (Inr (contents w h ! nat i), store w h (cut i (i + 1) (contents w h)))
                     else refuse JIndexOutOfBoundsException w,
     l_remove = \<lambda>h v w. (Inr (v \<in> set (contents w h)), store w h (remove1 v (contents w h))),
     l_indexOf = \<lambda>h v w. if conv v
                     then (Inr (case index_of v (contents w h) of None \<Rightarrow> - 1 | Some i \<Rightarrow> i), w)
                     else refuse TypeError w,
     l_contains = \<lambda>h v w. if conv v then (Inr (v \<in> set (contents w h)), w) else refuse TypeError w,
     l_items = \<lambda>h w. (Inr (contents w h), w),
     l_reverse = \<lambda>h w. (Inr (), store w h (rev (contents w h))),
     l_new = \<lambda>w. (Inr (length w), w @ [Arr []]),
     l_copy = \<lambda>h w. (Inr (length w), w @ [Arr (contents w h)]),
     l_object = \<lambda>v. if conv v then Inr v else Inl (Exn TypeError []),
     l_equals = \<lambda>x jo. jo = Some x\<rparr>"

lemma chain_le: "i \<in> set (chain w h) \<Longrightarrow> i \<le> h"
proof (induction w h rule: chain.induct)
  case (1 w h)
  show ?case
  proof (cases "w ! h")
    case (Arr xs)
    with "1.prems" show ?thesis by (simp add: chain.simps [of w h])
  next
    case (View q a n)
    with "1.prems" have "i = h \<or> q < h \<and> i \<in> set (chain w q)"
      by (auto simp: chain.simps [of w h] split: if_splits)
    with "1.IH" [OF View] show ?thesis by auto
  qed
qed

lemma chain_self: "h \<in> set (chain w h)"
  by (subst chain.simps) simp

text \<open>What a handle denotes depends on the cells of its chain only.\<close>

lemma chain_local:
  assumes "\<And>i. i \<in> set (chain w h) \<Longrightarrow> w' ! i = w ! i" and "length w \<le> length w'"
  shows "chain w' h = chain w h \<and> contents w' h = contents w h \<and> (live w h \<longrightarrow> live w' h)"
  using assms
proof (induction w h rule: chain.induct)
  case (1 w h)
  have same: "w' ! h = w ! h" using "1.prems"(1) chain_self by blast
  show ?case
  proof (cases "w ! h")
    case (Arr xs)
    with same "1.prems"(2) show ?thesis
      by (simp add: chain.simps [of _ h] contents.simps [of _ h] live.simps [of _ h])
  next
    case (View q a n)
    show ?thesis
    proof (cases "q < h")
      case True
      have "\<And>i. i \<in> set (chain w q) \<Longrightarrow> w' ! i = w ! i"
        using "1.prems"(1) View True by (simp add: chain.simps [of w h])
      from "1.IH" [OF View True this "1.prems"(2)]
      show ?thesis using View True same "1.prems"(2)
        by (simp add: chain.simps [of _ h] contents.simps [of _ h] live.simps [of _ h])
    next
      case False
      with View same show ?thesis
        by (simp add: chain.simps [of _ h] contents.simps [of _ h] live.simps [of _ h])
    qed
  qed
qed

lemma update_above:
  "q < h \<Longrightarrow> chain (w[h := c]) q = chain w q \<and> contents (w[h := c]) q = contents w q \<and>
     (live w q \<longrightarrow> live (w[h := c]) q)"
proof (rule chain_local)
  fix i assume "q < h" "i \<in> set (chain w q)"
  then have "i \<noteq> h" using chain_le [of i w q] by auto
  then show "w[h := c] ! i = w ! i" by simp
qed simp

lemma store_length [simp]: "length (store w h zs) = length w"
  by (induction w h zs rule: store.induct) (subst store.simps, simp split: cell.split)

lemma store_elsewhere: "i \<notin> set (chain w h) \<Longrightarrow> store w h zs ! i = w ! i"
proof (induction w h zs rule: store.induct)
  case (1 w h zs)
  have ih: "i \<noteq> h" using "1.prems" chain_self by blast
  show ?case
  proof (cases "w ! h")
    case (Arr xs)
    with ih show ?thesis by (simp add: store.simps [of w h])
  next
    case (View q a n)
    show ?thesis
    proof (cases "q < h")
      case True
      let ?w = "w[h := View q a (length zs)]"
      have "i \<notin> set (chain ?w q)"
        using "1.prems" View True update_above [OF True, of w] by (simp add: chain.simps [of w h])
      from "1.IH" [OF View True this] show ?thesis using View True ih by (simp add: store.simps [of w h])
    next
      case False
      with View show ?thesis by (simp add: store.simps [of w h])
    qed
  qed
qed

lemma store_contents: "live w h \<Longrightarrow> live (store w h zs) h \<and> contents (store w h zs) h = zs"
proof (induction w h zs rule: store.induct)
  case (1 w h zs)
  show ?case
  proof (cases "w ! h")
    case (Arr xs)
    with "1.prems" show ?thesis
      by (simp add: store.simps [of w h] live.simps [of _ h] contents.simps [of _ h])
  next
    case (View q a n)
    then have q: "q < h" "live w q" "a + n \<le> length (contents w q)" "h < length w"
      using "1.prems" by (auto simp: live.simps [of w h] split: if_splits)
    let ?w = "w[h := View q a (length zs)]"
    let ?ys = "take a (contents w q) @ zs @ drop (a + n) (contents w q)"
    have "live ?w q" using update_above [OF q(1)] q(2) by blast
    from "1.IH" [OF View q(1) this]
    have c: "live (store ?w q ?ys) q" "contents (store ?w q ?ys) q = ?ys" by auto
    have "store ?w q ?ys ! h = View q a (length zs)"
      using store_elsewhere [of h ?w q ?ys] chain_le [of h ?w q] q(1,4) by force
    then show ?thesis using View q c
      by (simp add: store.simps [of w h] live.simps [of _ h] contents.simps [of _ h])
  qed
qed

lemma al_at_store: "al_at h xs w \<Longrightarrow> al_at h zs (store w h zs)"
  by (simp add: al_at_def store_contents)

lemma live_length: "live w h \<Longrightarrow> h < length w"
  by (simp add: live.simps [of w h])

lemma store_chain: "live w h \<Longrightarrow> chain (store w h zs) h = chain w h"
proof (induction w h zs rule: store.induct)
  case (1 w h zs)
  show ?case
  proof (cases "w ! h")
    case (Arr xs)
    with "1.prems" show ?thesis
      by (simp add: store.simps [of w h] live.simps [of w h] chain.simps [of _ h])
  next
    case (View q a n)
    then have q: "q < h" "live w q" "h < length w"
      using "1.prems" by (auto simp: live.simps [of w h] split: if_splits)
    let ?w = "w[h := View q a (length zs)]"
    let ?ys = "take a (contents w q) @ zs @ drop (a + n) (contents w q)"
    have u: "live ?w q" "chain ?w q = chain w q" using update_above [OF q(1)] q(2) by blast+
    have "store ?w q ?ys ! h = View q a (length zs)"
      using store_elsewhere [of h ?w q ?ys] chain_le [of h ?w q] q(1,3) by force
    then show ?thesis using View q(1) "1.IH" [OF View q(1) u(1)] u(2)
      by (simp add: store.simps [of w h] chain.simps [of _ h])
  qed
qed

lemma al_frame:
  assumes "al_at h xs w" and "al_at k ys w" and "al_indep k h w"
  shows "al_at k ys (store w h zs) \<and> al_indep k h (store w h zs)"
proof -
  have "\<And>i. i \<in> set (chain w k) \<Longrightarrow> store w h zs ! i = w ! i"
    using assms(3) store_elsewhere [of _ w h zs] by (auto simp: al_indep_def disjoint_iff)
  from chain_local [OF this] show ?thesis
    using assms store_chain [of w h zs] by (auto simp: al_at_def al_indep_def)
qed

lemma al_grow: "al_at h xs w \<Longrightarrow> al_at h xs (w @ [c]) \<and> chain (w @ [c]) h = chain w h"
proof -
  assume a: "al_at h xs w"
  then have "\<And>i. i \<in> set (chain w h) \<Longrightarrow> (w @ [c]) ! i = w ! i"
    using chain_le [of _ w h] live_length [of w h] by (fastforce simp: al_at_def nth_append)
  from chain_local [OF this] a show ?thesis by (simp add: al_at_def)
qed

lemma al_new: "al_at (length w) ys (w @ [Arr ys])"
  by (simp add: al_at_def live.simps [of _ "length w"] contents.simps [of _ "length w"])

lemma al_new_indep: "al_at h xs w \<Longrightarrow> al_indep h (length w) (w @ [Arr ys])"
proof -
  assume a: "al_at h xs w"
  have "set (chain w h) \<subseteq> {..h}" "h < length w"
    using a chain_le [of _ w h] live_length [of w h] by (auto simp: al_at_def)
  then show ?thesis using al_grow [OF a, of "Arr ys"]
    by (auto simp: al_indep_def chain.simps [of _ "length w"])
qed

lemma al_view:
  assumes "al_at h xs w" and "sub_range a b xs"
  shows "al_at (length w) (sub a b xs) (w @ [View h (nat a) (nat b - nat a)])"
proof -
  have "nat a \<le> nat b" "nat b \<le> length xs" using assms(2) by (auto simp: sub_range_def)
  then show ?thesis
    using al_grow [OF assms(1), of "View h (nat a) (nat b - nat a)"] live_length [of w h] assms(1)
    by (simp add: al_at_def live.simps [of _ "length w"] contents.simps [of _ "length w"] sub_def)
qed

lemma al_view_clear:
  assumes "al_at h xs w" and "sub_range a b xs"
  shows "al_at h (cut a b xs) (store (w @ [View h (nat a) (nat b - nat a)]) (length w) [])"
proof -
  have ab: "nat a \<le> nat b" using assms(2) by (auto simp: sub_range_def)
  have h: "h < length w" using assms(1) live_length by (auto simp: al_at_def)
  have x: "contents (w @ [View h (nat a) (nat b - nat a)]) h = xs"
    using al_grow [OF assms(1)] by (auto simp: al_at_def)
  have "store (w @ [View h (nat a) (nat b - nat a)]) (length w) [] =
      store (w @ [View h (nat a) 0]) h (cut a b xs)"
    using h ab x by (simp add: store.simps [of _ "length w"] cut_def)
  moreover have "al_at h xs (w @ [View h (nat a) 0])" using al_grow [OF assms(1)] by blast
  ultimately show ?thesis by (simp add: al_at_store)
qed

lemma al_live:
  assumes "live w h"
  shows "al_at h zs (store w h zs)" and "al_at h (contents w h) (w @ [c])"
    and "al_indep h (length w) (w @ [Arr ys])"
    and "sub_range a b (contents w h) \<Longrightarrow>
           al_at (length w) (sub a b (contents w h)) (w @ [View h (nat a) (nat b - nat a)])"
    and "sub_range a b (contents w h) \<Longrightarrow>
           al_at h (cut a b (contents w h)) (store (w @ [View h (nat a) (nat b - nat a)]) (length w) [])"
    and "live w k \<Longrightarrow> al_indep k h w \<Longrightarrow> al_at k (contents w k) (store w h zs) \<and> al_indep k h (store w h zs)"
proof -
  have at: "al_at h (contents w h) w" using assms by (simp add: al_at_def)
  show "al_at h zs (store w h zs)" by (rule al_at_store [OF at])
  show "al_at h (contents w h) (w @ [c])" using al_grow [OF at] by blast
  show "al_indep h (length w) (w @ [Arr ys])" by (rule al_new_indep [OF at])
  show "sub_range a b (contents w h) \<Longrightarrow>
      al_at (length w) (sub a b (contents w h)) (w @ [View h (nat a) (nat b - nat a)])" by (rule al_view [OF at])
  show "sub_range a b (contents w h) \<Longrightarrow>
      al_at h (cut a b (contents w h)) (store (w @ [View h (nat a) (nat b - nat a)]) (length w) [])"
    by (rule al_view_clear [OF at])
  show "live w k \<Longrightarrow> al_indep k h w \<Longrightarrow> al_at k (contents w k) (store w h zs) \<and> al_indep k h (store w h zs)"
    by (rule al_frame [OF at]) (simp_all add: al_at_def)
qed

lemma al_at_live: "al_at h xs w \<Longrightarrow> live w h \<and> xs = contents w h"
  by (simp add: al_at_def)

interpretation al: java_list "array_lists conv" al_at conv al_indep for conv
  by unfold_locales
    (auto simp: array_lists_def does_def fails_def makes_def refuse_def pyrun al_live al_new exn_isa_eval
      dest!: al_at_live intro: al_live)

end
