(* ===== verification/JavaListSpec.thy ===== *)
theory JavaListSpec
  imports JavaLists
begin

text \<open>
  The contract of the list customizer: Python's list operations as a reference machine,
  the refinement of whole sequences of calls, the slice operations against Python's
  clamped slices, and the operations that do not do what Python's do. Each property is
  about any Java list with the documented behaviour (\<open>java_list\<close>); the witnesses run it on
  the heap of array lists.
\<close>

section \<open>Python's list as a reference machine\<close>

datatype 'v list_call =
    Append "'v option" | Extend "'v option list" | Insert int "'v option" | Pop int
  | Remove "'v option" | SetItem int "'v option" | DelItem int | GetItem int | Reverse

definition py_pick :: "int \<Rightarrow> 'a list \<Rightarrow> (int \<Rightarrow> 'r) \<Rightarrow> exn_class + 'r" where
  "py_pick i xs f =
     (let j = wrap_index i (length xs) in if in_range j xs then Inr (f j) else Inl IndexError)"

fun py_list_step :: "'v list_call \<Rightarrow> 'v option list \<Rightarrow> exn_class + 'v option option \<times> 'v option list" where
  "py_list_step (Append v) xs = Inr (None, xs @ [v])"
| "py_list_step (Extend vs) xs = Inr (None, xs @ vs)"
| "py_list_step (Insert i v) xs = Inr (None, ins (clamp (wrap_index i (length xs)) (length xs)) [v] xs)"
| "py_list_step (Pop i) xs = py_pick i xs (\<lambda>j. (Some (xs ! nat j), cut j (j + 1) xs))"
| "py_list_step (Remove v) xs = (if v \<in> set xs then Inr (None, remove1 v xs) else Inl ValueError)"
| "py_list_step (SetItem i v) xs = py_pick i xs (\<lambda>j. (None, xs[nat j := v]))"
| "py_list_step (DelItem i) xs = py_pick i xs (\<lambda>j. (None, cut j (j + 1) xs))"
| "py_list_step (GetItem i) xs = py_pick i xs (\<lambda>j. (Some (xs ! nat j), xs))"
| "py_list_step Reverse xs = Inr (None, rev xs)"

fun py_list_run :: "'v list_call list \<Rightarrow> 'v option list \<Rightarrow> (exn_class + 'v option option) list \<times> 'v option list" where
  "py_list_run [] xs = ([], xs)"
| "py_list_run (c # cs) xs =
     (case py_list_step c xs of
        Inl k \<Rightarrow> (let (rs, zs) = py_list_run cs xs in (Inl k # rs, zs))
      | Inr (r, ys) \<Rightarrow> (let (rs, zs) = py_list_run cs ys in (Inr r # rs, zs)))"

text \<open>
  The calls the refinement is about: values that convert, and no insertion at a position
  that Python would clamp.
\<close>

fun call_ok :: "('v option \<Rightarrow> bool) \<Rightarrow> 'v list_call \<Rightarrow> 'v option list \<Rightarrow> bool" where
  "call_ok conv (Append v) xs = conv v"
| "call_ok conv (Extend vs) xs = list_all conv vs"
| "call_ok conv (Insert i v) xs =
     (conv v \<and> 0 \<le> wrap_index i (length xs) \<and> wrap_index i (length xs) \<le> int (length xs))"
| "call_ok conv (SetItem i v) xs = conv v"
| "call_ok conv (Remove v) xs = conv v"
| "call_ok conv _ xs = True"

definition after :: "exn_class + 'v option option \<times> 'v option list \<Rightarrow> 'v option list \<Rightarrow> 'v option list" where
  "after r xs = (case r of Inl k \<Rightarrow> xs | Inr (_, ys) \<Rightarrow> ys)"

fun calls_ok :: "('v option \<Rightarrow> bool) \<Rightarrow> 'v list_call list \<Rightarrow> 'v option list \<Rightarrow> bool" where
  "calls_ok conv [] xs = True"
| "calls_ok conv (c # cs) xs = (call_ok conv c xs \<and> calls_ok conv cs (after (py_list_step c xs) xs))"

text \<open>The same calls on the customized Java list; each returns or raises, and the next one follows.\<close>

fun jl_step :: "('w, 'h, 'v) java_lists \<Rightarrow> 'h \<Rightarrow> 'v list_call \<Rightarrow> ('w, pyexn, 'v option option) pyop" where
  "jl_step L h (Append v) = pseq (JList_append L h v) (ret None)"
| "jl_step L h (Extend vs) = pseq (JList_extend L h (PySeq vs)) (ret None)"
| "jl_step L h (Insert i v) = pseq (JList_insert L h i v) (ret None)"
| "jl_step L h (Pop i) = pbind (JList_pop L h i) (\<lambda>v. ret (Some v))"
| "jl_step L h (Remove v) = pseq (JList_remove L h v) (ret None)"
| "jl_step L h (SetItem i v) = pseq (set_index L h i v) (ret None)"
| "jl_step L h (DelItem i) = pseq (JList_delitem L h (Ix i)) (ret None)"
| "jl_step L h (GetItem i) =
     pbind (JList_getitem L h (Ix i)) (\<lambda>r. case r of Elem v \<Rightarrow> ret (Some v) | Sub _ \<Rightarrow> ret None)"
| "jl_step L h Reverse = pseq (JList_reverse L h) (ret None)"

fun jl_run :: "('w, 'h, 'v) java_lists \<Rightarrow> 'h \<Rightarrow> 'v list_call list \<Rightarrow> 'w \<Rightarrow> (pyexn + 'v option option) list \<times> 'w" where
  "jl_run L h [] w = ([], w)"
| "jl_run L h (c # cs) w =
     (let (r, w1) = jl_step L h c w; (rs, w2) = jl_run L h cs w1 in (r # rs, w2))"

fun agrees :: "pyexn + 'r \<Rightarrow> exn_class + 'r \<Rightarrow> bool" where
  "agrees (Inr r) (Inr r') = (r = r')"
| "agrees (Inl e) (Inl k) = exn_isa (exn_kind e) k"
| "agrees _ _ = False"

lemma index_exn [simp]: "exn_isa JIndexOutOfBoundsException IndexError" "exn_isa JIndexOutOfBoundsException JException"
  by (simp_all add: exn_isa_eval)

context java_list begin

lemmas list_does = add extend_does insert_does pop_does remove_does setitem_does delitem_does getitem_does reverse

lemma step_does:
  "call_ok conv c xs \<Longrightarrow> py_list_step c xs = Inr (r, ys) \<Longrightarrow> does (At h) xs (jl_step L h c) r ys"
proof (cases c)
  case (Insert i v)
  assume "call_ok conv c xs" "py_list_step c xs = Inr (r, ys)"
  with Insert show ?thesis
    by (auto simp: clamp_def intro!: does_seq [OF insert_does] does_ret)
next
  case (GetItem i)
  assume "call_ok conv c xs" "py_list_step c xs = Inr (r, ys)"
  with GetItem show ?thesis
    by (auto simp: py_pick_def Let_def intro!: does_bind [OF getitem_does] does_ret split: if_splits)
qed (auto simp: py_pick_def Let_def JList_append_def JList_reverse_def split: if_splits
      intro!: does_seq [OF add] does_seq [OF extend_does] does_seq [OF remove_does] does_seq [OF setitem_does]
        does_seq [OF delitem_does] does_bind [OF pop_does] does_seq [OF reverse] does_ret)

lemma step_fails:
  "call_ok conv c xs \<Longrightarrow> py_list_step c xs = Inl k \<Longrightarrow> fails (At h) xs (jl_step L h c) k"
  by (cases c)
    (auto simp: py_pick_def Let_def split: if_splits
      intro!: fails_seq fails_bind remove_fails
        fails_weaken [OF pop_fails] fails_weaken [OF setitem_fails] fails_weaken [OF delitem_fails]
        fails_weaken [OF getitem_fails])

lemma run_refines:
  assumes "calls_ok conv cs xs" and "At h xs w"
  shows "\<exists>rs w'. jl_run L h cs w = (rs, w') \<and> list_all2 agrees rs (fst (py_list_run cs xs)) \<and>
     At h (snd (py_list_run cs xs)) w'"
  using assms
proof (induction cs arbitrary: xs w)
  case Nil
  then show ?case by simp
next
  case (Cons c cs)
  show ?case
  proof (cases "py_list_step c xs")
    case (Inl k)
    obtain e w1 where 1: "jl_step L h c w = (Inl e, w1)" "exn_isa (exn_kind e) k" "At h xs w1"
      using failsD [OF step_fails [OF _ Inl] Cons.prems(2)] Cons.prems(1) by (meson calls_ok.simps(2))
    with Cons.IH [OF _ 1(3)] Cons.prems Inl show ?thesis
      by (fastforce simp: after_def split: prod.splits)
  next
    case (Inr p)
    obtain r ys where p: "p = (r, ys)" by (cases p)
    obtain w1 where 1: "jl_step L h c w = (Inr r, w1)" "At h ys w1"
      using doesD [OF step_does] Cons.prems Inr p by (metis calls_ok.simps(2))
    with Cons.IH [OF _ 1(2)] Cons.prems Inr p show ?thesis
      by (fastforce simp: after_def split: prod.splits)
  qed
qed

end


lemma heap_run:
  fixes conv :: "nat option \<Rightarrow> bool"
  shows "java_list (array_lists conv) al_at conv al_indep"
  by (rule al.java_list_axioms)


section \<open>Slices\<close>

definition slice_in_range :: "slice \<Rightarrow> 'a list \<Rightarrow> bool" where
  "slice_in_range slc xs \<longleftrightarrow> \<not> bad_stride slc \<and>
     sub_range (wrap_index (start_of slc) (length xs)) (wrap_index (stop_of slc (length xs)) (length xs)) xs"

lemma slice_in_range_ends:
  assumes "slice_in_range slc xs" and "py_slice_ends slc (length xs) = (a, b)"
  shows "\<not> bad_stride slc" "a = wrap_index (start_of slc) (length xs)"
    "b = wrap_index (stop_of slc (length xs)) (length xs)" "sub_range a b xs"
    "wrap_index a (length xs) = a" "wrap_index b (length xs) = b"
  using assms sub_range_python [of slc xs]
  by (auto simp: slice_in_range_def sub_range_def wrap_index_def)

lemma ins_cut:
  assumes "sub_range a b xs"
  shows "ins a vs (cut a b xs) = take (nat a) xs @ vs @ drop (nat b) xs"
proof -
  have "length (take (nat a) xs) = nat a" using assms by (auto simp: sub_range_def min_def)
  then have "take (nat a) (cut a b xs) = take (nat a) xs" "drop (nat a) (cut a b xs) = drop (nat b) xs"
    unfolding cut_def by (metis append_eq_conv_conj)+
  then show ?thesis by (simp add: ins_def)
qed

text \<open>C19: For a slice whose ends, counted from the end when negative, lie in order inside the
  list, the customizer is Python: reading gives a list of exactly Python's slice, deleting
  removes it, and assigning replaces it by the new elements, the rest of the list staying
  in place.\<close>
theorem slices_as_python:
  assumes "java_list L At conv indep" and "slice_in_range slc xs"
    and "py_slice_ends slc (length xs) = (a, b)" and "At h xs w" and "list_all conv vs"
  shows "(\<exists>h' w'. JList_getitem L h (Sl slc) w = (Inr (Sub h'), w') \<and> At h' (sub a b xs) w' \<and> At h xs w') \<and>
    (\<exists>w'. JList_delitem L h (Sl slc) w = (Inr (), w') \<and> At h (cut a b xs) w') \<and>
    (\<exists>w'. set_slice L h slc (PySeq vs) w = (Inr (), w') \<and> At h (take (nat a) xs @ vs @ drop (nat b) xs) w')"

proof -
  note jl = assms(1)
  note e = slice_in_range_ends [OF assms(2,3)]
  have r: "sub_range (wrap_index a (length xs)) (wrap_index b (length xs)) xs" using e(4-6) by simp
  obtain h' w1 where "get_slice L h slc w = (Inr h', w1)" "At h xs w1 \<and> At h' (sub a b xs) w1"
    using makesD [OF java_list.get_slice_makes [OF jl e(1)] assms(4)] e(2,3,4) by blast
  then have get: "\<exists>h' w'. JList_getitem L h (Sl slc) w = (Inr (Sub h'), w') \<and> At h' (sub a b xs) w' \<and> At h xs w'"
    by (auto simp: JList_getitem_def pyrun)
  have del: "\<exists>w'. JList_delitem L h (Sl slc) w = (Inr (), w') \<and> At h (cut a b xs) w'"
    using doesD [OF java_list.delslice_does [OF jl e(1,2,3) r] assms(4)] e(5,6) by simp
  have "ins a vs (cut a b xs) = take (nat a) xs @ vs @ drop (nat b) xs"
    by (rule ins_cut [OF e(4)])
  then have set: "\<exists>w'. set_slice L h slc (PySeq vs) w = (Inr (), w') \<and> At h (take (nat a) xs @ vs @ drop (nat b) xs) w'"
    using doesD [OF java_list.setslice_does [OF jl e(1,2,3,4) assms(5)] assms(4)] by simp
  show ?thesis using get del set by blast
qed

definition heap5 :: "nat heap" where
  "heap5 = [Arr [Some 1, Some 2, Some 3, Some 4, Some 5]]"

lemma heap5_at: "al_at 0 [Some 1, Some 2, Some 3, Some 4, Some 5] heap5"
  by (simp add: heap5_def al_at_def live.simps contents.simps)

theorem slices_as_python_witness:
  "\<exists>w'. set_slice (array_lists (\<lambda>_. True)) 0 (slice_of 1 (- 2)) (PySeq [None]) heap5 = (Inr (), w') \<and>
     al_at 0 [Some 1, None, Some 4, Some 5] w'"
  using slices_as_python [OF heap_run [of "\<lambda>_. True"] _ _ heap5_at, of "slice_of 1 (- 2)" 1 3 "[None]"]
  by (simp add: slice_in_range_def slice_of_def bad_stride_def sub_range_def wrap_index_def start_of_def
      stop_of_def py_slice_ends_def clamp_def Let_def)

text \<open>The slice is adjusted a second time when it is cleared. A start between two and one
  lengths before the end of the list is moved forward twice: deleting from there to the
  end keeps the elements before the twice adjusted start, where Python deletes the whole
  list; assigning there clears the same elements and then raises an index error, so the
  cleared elements are lost and the new ones are not stored.\<close>
theorem slice_adjusted_twice:
  assumes "java_list L At conv indep" and "At h xs w" and "list_all conv vs"
    and "- 2 * int (length xs) \<le> i" and "i < - int (length xs)"
    and "slc = \<lparr>sl_start = Some i, sl_stop = None, sl_step = None\<rparr>"
  shows "(\<exists>w'. JList_delitem L h (Sl slc) w = (Inr (), w') \<and> At h (take (nat (i + 2 * int (length xs))) xs) w') \<and>
    (\<exists>e w'. set_slice L h slc (PySeq vs) w = (Inl e, w') \<and> exn_isa (exn_kind e) IndexError \<and>
       At h (take (nat (i + 2 * int (length xs))) xs) w') \<and>
    py_slice_ends slc (length xs) = (0, int (length xs))"
proof -
  note jl = assms(1)
  let ?a = "wrap_index (start_of slc) (length xs)" and ?b = "wrap_index (stop_of slc (length xs)) (length xs)"
  have s: "\<not> bad_stride slc" "?a = i + int (length xs)" "?b = int (length xs)"
    using assms(4-6) by (simp_all add: bad_stride_def start_of_def stop_of_def wrap_index_def)
  have r: "sub_range (wrap_index ?a (length xs)) (wrap_index ?b (length xs)) xs"
    using assms(4,5) unfolding s(2,3) by (auto simp: sub_range_def wrap_index_def)
  have c: "cut (wrap_index ?a (length xs)) (wrap_index ?b (length xs)) xs = take (nat (i + 2 * int (length xs))) xs"
    using assms(4,5) unfolding s(2,3) by (simp add: cut_def wrap_index_def algebra_simps)
  have del: "\<exists>w'. JList_delitem L h (Sl slc) w = (Inr (), w') \<and> At h (take (nat (i + 2 * int (length xs))) xs) w'"
    using doesD [OF java_list.delslice_does [OF jl s(1) refl refl r] assms(2)] c by simp
  have neg: "?a < 0" using s(2) assms(5) by simp
  have set: "\<exists>e w'. set_slice L h slc (PySeq vs) w = (Inl e, w') \<and> exn_isa (exn_kind e) IndexError \<and>
      At h (take (nat (i + 2 * int (length xs))) xs) w'"
    using java_list.setslice_loses [OF jl s(1) refl refl neg r assms(3,2)] index_exn(1) exn_isa_trans
    unfolding c by meson
  have "py_slice_ends slc (length xs) = (0, int (length xs))"
    unfolding py_slice_ends_def s(2,3) using assms(5) by (simp add: clamp_def Let_def)
  with del set show ?thesis by blast
qed

theorem slice_adjusted_twice_witness:
  "\<exists>w'. JList_delitem (array_lists (\<lambda>_. True)) 0 (Sl \<lparr>sl_start = Some (- 7), sl_stop = None, sl_step = None\<rparr>) heap5
     = (Inr (), w') \<and> al_at 0 [Some 1, Some 2, Some 3] w'"
  using slice_adjusted_twice [OF heap_run [of "\<lambda>_. True"] heap5_at, of "[]" "- 7"
      "\<lparr>sl_start = Some (- 7), sl_stop = None, sl_step = None\<rparr>"]
  by simp

text \<open>A slice Python would clamp is refused: when its ends leave the list or are out of
  order, reading it raises a Java exception and leaves the list alone; a step other than 1,
  0 or none is refused with TypeError, and a step of 0 is taken for 1.\<close>
theorem slices_not_clamped:
  assumes "java_list L At conv indep" and "At h xs w"
  shows "(if bad_stride slc then \<exists>m w'. JList_getitem L h (Sl slc) w = (Inl (Exn TypeError m), w') \<and> At h xs w'
     else if slice_in_range slc xs then \<exists>h' w'. JList_getitem L h (Sl slc) w = (Inr (Sub h'), w')
     else \<exists>e w'. JList_getitem L h (Sl slc) w = (Inl e, w') \<and> exn_isa (exn_kind e) JException \<and> At h xs w') \<and>
    (sl_step slc = Some k \<longrightarrow> bad_stride slc = (k \<noteq> 0 \<and> k \<noteq> 1))"
proof -
  note jl = assms(1)
  have stride: "sl_step slc = Some k \<longrightarrow> bad_stride slc = (k \<noteq> 0 \<and> k \<noteq> 1)"
    by (auto simp: bad_stride_def)
  have bad: "\<exists>m w'. JList_getitem L h (Sl slc) w = (Inl (Exn TypeError m), w') \<and> At h xs w'" if b: "bad_stride slc"
    using doesD [OF java_list.size [OF jl] assms(2)] b
    by (auto simp: JList_getitem_def get_slice_def sliceAdjust_def pyrun)
  have ok: "\<exists>h' w'. JList_getitem L h (Sl slc) w = (Inr (Sub h'), w')" if o: "\<not> bad_stride slc" "slice_in_range slc xs"
    using makesD [OF java_list.get_slice_makes [OF jl o(1)] assms(2)] o(2)
    by (auto simp: JList_getitem_def pyrun slice_in_range_def)
  have out: "\<exists>e w'. JList_getitem L h (Sl slc) w = (Inl e, w') \<and> exn_isa (exn_kind e) JException \<and> At h xs w'"
    if o: "\<not> bad_stride slc" "\<not> slice_in_range slc xs"
    using failsD [OF java_list.get_slice_fails [OF jl o(1)] assms(2)] o
    by (auto simp: JList_getitem_def pyrun slice_in_range_def)
  show ?thesis using stride bad ok out by simp
qed

theorem slices_not_clamped_witness:
  "\<exists>e w'. JList_getitem (array_lists (\<lambda>_. True)) 0 (Sl (slice_of 0 9)) heap5 = (Inl e, w') \<and>
     exn_isa (exn_kind e) JException \<and> al_at 0 [Some 1, Some 2, Some 3, Some 4, Some 5] w'"
  using slices_not_clamped [OF heap_run [of "\<lambda>_. True"] heap5_at, of "slice_of 0 9"]
  by (simp add: slice_in_range_def slice_of_def bad_stride_def sub_range_def wrap_index_def start_of_def stop_of_def)

section \<open>Searching and building\<close>

text \<open>index answers the first position of a value, and -1 when the value is not in the
  list, where Python raises ValueError; it raises ValueError only for a value that does not
  convert. Membership is that of Python, and the number of occurrences too as long as the
  list holds no null: with a null element count raises AttributeError.\<close>
theorem searching:
  assumes "java_list L At conv indep" and "At h xs w" and "conv v"
  shows "(\<exists>w'. JList_index L h v w = (Inr (case index_of v xs of None \<Rightarrow> - 1 | Some i \<Rightarrow> i), w') \<and> At h xs w') \<and>
    (\<exists>w'. JCollection_contains L h v w = (Inr (v \<in> set xs), w') \<and> At h xs w') \<and>
    (if None \<in> set xs
     then \<exists>e w'. JList_count L h v w = (Inl e, w') \<and> exn_isa (exn_kind e) AttributeError \<and> At h xs w'
     else \<exists>w'. JList_count L h v w = (Inr (int (length (filter (\<lambda>x. x = v) xs))), w') \<and> At h xs w')"
  using doesD [OF java_list.index_does [OF assms(1,3)] assms(2)]
    doesD [OF java_list.contains_does [OF assms(1)] assms(2), of v]
    doesD [OF java_list.count_does [OF assms(1)] assms(2), of v]
    failsD [OF java_list.count_fails [OF assms(1,3)] assms(2)] assms(3)
  by simp

theorem searching_witness:
  "\<exists>w'. JList_index (array_lists (\<lambda>_. True)) 0 (Some 9) heap5 = (Inr (- 1), w') \<and>
     al_at 0 [Some 1, Some 2, Some 3, Some 4, Some 5] w'"
  using searching [OF heap_run [of "\<lambda>_. True"] heap5_at, of "Some 9"] by simp

text \<open>Adding a sequence to a list and multiplying a list build a new list with Python's
  contents and leave the operands alone, and augmented assignment adds its right side as
  one single element, where Python's list is extended by its elements.\<close>
theorem list_arithmetic:
  assumes "java_list L At conv indep" and "At h xs w" and "list_all conv vs" and "conv v"
  shows "(\<exists>n w'. JList_add L h (PySeq vs) w = (Inr n, w') \<and> At n (xs @ vs) w' \<and> At h xs w') \<and>
    (\<exists>n w'. JList_mul L h k w = (Inr n, w') \<and> At n (concat (replicate (nat k) xs)) w' \<and> At h xs w') \<and>
    (\<exists>w'. JList_iadd L h v w = (Inr h, w') \<and> At h (xs @ [v]) w')"
  using makesD [OF java_list.add_makes [OF assms(1,3)] assms(2)]
    makesD [OF java_list.mul_makes [OF assms(1)] assms(2), of k]
    doesD [OF java_list.add [OF assms(1,4)] assms(2)]
  by (auto simp: JList_iadd_def pyrun)

theorem list_arithmetic_witness:
  "\<exists>n w'. JList_mul (array_lists (\<lambda>_. True)) 0 2 [Arr [Some (1::nat), None]] = (Inr n, w') \<and>
     al_at n [Some 1, None, Some 1, None] w' \<and> al_at 0 [Some 1, None] w'"
proof -
  have at: "al_at 0 [Some 1, None] [Arr [Some (1::nat), None]]"
    by (simp add: al_at_def live.simps contents.simps)
  have "concat (replicate (nat 2) [Some 1, None]) = [Some 1, None, Some (1::nat), None]"
    by (simp add: numeral_2_eq_2)
  with list_arithmetic [OF heap_run [of "\<lambda>_. True"] at, where vs = "[]" and v = None and k = 2] show ?thesis by simp
qed

end
