(* ===== verification/Containers.thy ===== *)
theory Containers
  imports JavaLists "HOL-Library.Word"
begin

text \<open>
  The customizers of maps, map entries, iterators and enumerations (\<open>_jcollection.py\<close>),
  strings (\<open>_jstring.py\<close>), arrays (\<open>_jarray.py\<close>), closeables (\<open>_jio.py\<close>) and direct buffers
  (\<open>nio.py\<close>). The Java side
  is again a record of operations with a documented contract; the iteration protocol is
  one locale, interpreted on every iterator the customizers define.
\<close>

section \<open>Maps\<close>

text \<open>A value is \<open>None\<close> when it is Java's null.\<close>

record ('m, 'k, 'v) java_maps =
  m_size :: "('m, pyexn, int) pyop"
  m_get :: "'k \<Rightarrow> ('m, pyexn, 'v option) pyop"
  m_containsKey :: "'k \<Rightarrow> ('m, pyexn, bool) pyop"
  m_put :: "'k \<Rightarrow> 'v option \<Rightarrow> ('m, pyexn, 'v option) pyop"
  m_remove :: "'k \<Rightarrow> ('m, pyexn, 'v option) pyop"
  m_keySet :: "('m, pyexn, 'k list) pyop"
  m_entrySet :: "('m, pyexn, ('k \<times> 'v option) list) pyop"

definition JMap_len :: "('m, 'k, 'v) java_maps \<Rightarrow> ('m, pyexn, int) pyop" where
  "JMap_len M = m_size M"

definition JMap_iter :: "('m, 'k, 'v) java_maps \<Rightarrow> ('m, pyexn, 'k list) pyop" where
  "JMap_iter M = m_keySet M"

definition JMap_delitem :: "('m, 'k, 'v) java_maps \<Rightarrow> 'k \<Rightarrow> ('m, pyexn, 'v option) pyop" where
  "JMap_delitem M i = m_remove M i"

definition absent_key :: pyexn where
  "absent_key = Exn KeyError []"

text \<open>The \<open>try\<close> block of \<open>__getitem__\<close>: \<open>Some item\<close> when it returns.\<close>

definition map_lookup :: "('m, 'k, 'v) java_maps \<Rightarrow> 'k \<Rightarrow> ('m, pyexn, 'v option option) pyop" where
  "map_lookup M ndx =
     except_clause TypeError (\<lambda>_. ret None)
       (pbind (m_get M ndx) (\<lambda>item.
          if item \<noteq> None then ret (Some item)
          else pbind (m_containsKey M ndx) (\<lambda>b. ret (if b then Some item else None))))"

definition JMap_getitem :: "('m, 'k, 'v) java_maps \<Rightarrow> 'k \<Rightarrow> ('m, pyexn, 'v option) pyop" where
  "JMap_getitem M ndx =
     pbind (map_lookup M ndx) (\<lambda>r. case r of Some item \<Rightarrow> ret item | None \<Rightarrow> throw absent_key)"

definition JMap_setitem :: "('m, 'k, 'v) java_maps \<Rightarrow> 'k \<Rightarrow> 'v option \<Rightarrow> ('m, pyexn, unit) pyop" where
  "JMap_setitem M ndx v = pseq (m_put M ndx v) (ret ())"

definition JMap_items :: "('m, 'k, 'v) java_maps \<Rightarrow> ('m, pyexn, ('k \<times> 'v option) list) pyop" where
  "JMap_items M = m_entrySet M"

definition JMap_keys :: "('m, 'k, 'v) java_maps \<Rightarrow> ('m, pyexn, 'k list) pyop" where
  "JMap_keys M = m_keySet M"

definition JMap_contains :: "('m, 'k, 'v) java_maps \<Rightarrow> 'k \<Rightarrow> ('m, pyexn, bool) pyop" where
  "JMap_contains M item = except_clause TypeError (\<lambda>_. ret False) (m_containsKey M item)"

definition JMap_jclass_init :: "'c \<Rightarrow> (string \<times> 'c) list \<Rightarrow> (string \<times> 'c) list" where
  "JMap_jclass_init self reg = reg @ [(''Mapping'', self)]"

text \<open>\<open>_JSet\<close> deletes by \<open>remove\<close>, and \<open>remove\<close> answers whether the element was there.\<close>

definition JSet_delitem :: "('e \<Rightarrow> ('w, pyexn, bool) pyop) \<Rightarrow> 'e \<Rightarrow> ('w, pyexn, bool) pyop" where
  "JSet_delitem rem i = rem i"

text \<open>\<open>_JMapEntry\<close>: a pair.\<close>

definition JMapEntry_getitem :: "'k \<Rightarrow> 'v \<Rightarrow> int \<Rightarrow> pyexn + ('k + 'v)" where
  "JMapEntry_getitem key val x =
     (if x = 0 then Inr (Inl key)
      else if x = 1 then Inr (Inr val)
      else Inl (Exn IndexError ''Pairs are always length 2''))"

definition JMapEntry_len :: int where
  "JMapEntry_len = 2"

text \<open>
  \<open>Rep d w\<close>: in the world \<open>w\<close> the map has the entries of the dictionary \<open>d\<close>; the order of
  the keys is the map's own. \<open>conv k\<close>: the Python key converts.
\<close>

locale java_map =
  fixes M :: "('m, 'k, 'v) java_maps"
    and Rep :: "('k, 'v option) dict \<Rightarrow> 'm \<Rightarrow> bool"
    and conv :: "'k \<Rightarrow> bool"
  assumes dict: "Rep d w \<Longrightarrow> dict_ok d"
    and size: "does Rep d (m_size M) (int (length d)) d"
    and get: "conv k \<Longrightarrow> does Rep d (m_get M k) (case dict_get d k of None \<Rightarrow> None | Some v \<Rightarrow> v) d"
    and get_bad: "\<not> conv k \<Longrightarrow> fails Rep d (m_get M k) TypeError"
    and containsKey: "conv k \<Longrightarrow> does Rep d (m_containsKey M k) (dict_get d k \<noteq> None) d"
    and containsKey_bad: "\<not> conv k \<Longrightarrow> fails Rep d (m_containsKey M k) TypeError"
    and put: "conv k \<Longrightarrow> does Rep d (m_put M k v)
          (case dict_get d k of None \<Rightarrow> None | Some v \<Rightarrow> v) (dict_set k v d)"
    and remove: "conv k \<Longrightarrow> does Rep d (m_remove M k)
          (case dict_get d k of None \<Rightarrow> None | Some v \<Rightarrow> v) (dict_del k d)"
    and keySet: "Rep d w \<Longrightarrow> \<exists>ks w'. m_keySet M w = (Inr ks, w') \<and> set ks = set (dict_keys d) \<and>
          distinct ks \<and> Rep d w'"
begin

lemma map_lookup_does: "does Rep d (map_lookup M k) (if conv k then dict_get d k else None) d"
proof (cases "conv k")
  case True
  note g = get [OF True, of d] and c = containsKey [OF True, of d]
  show ?thesis
  proof (cases "\<exists>x. dict_get d k = Some (Some x)")
    case some: True
    then show ?thesis unfolding map_lookup_def using True
      by (auto intro!: does_except does_bind [OF g] does_ret)
  next
    case False
    then have "(case dict_get d k of None \<Rightarrow> None | Some v \<Rightarrow> v) = None" by (auto split: option.split)
    with False show ?thesis unfolding map_lookup_def using True
      by (cases "dict_get d k") (auto intro!: does_except does_bind [OF g] does_bind [OF c] does_ret)
  qed
next
  case False
  show ?thesis unfolding map_lookup_def using False
    by (auto intro!: fails_except_does [OF fails_bind [OF get_bad]] does_ret)
qed

lemma getitem_present:
  "conv k \<Longrightarrow> dict_get d k = Some v \<Longrightarrow> does Rep d (JMap_getitem M k) v d"
  unfolding JMap_getitem_def by (rule does_bind [OF map_lookup_does]) (simp add: does_ret)

lemma getitem_absent:
  "conv k \<longrightarrow> dict_get d k = None \<Longrightarrow> fails Rep d (JMap_getitem M k) KeyError"
  unfolding JMap_getitem_def
  by (rule does_fails_bind [OF map_lookup_does]) (auto simp: fails_throw absent_key_def)

lemma contains_does: "does Rep d (JMap_contains M k) (conv k \<and> dict_get d k \<noteq> None) d"
  unfolding JMap_contains_def
proof (cases "conv k")
  case True
  then show "does Rep d (except_clause TypeError (\<lambda>_. ret False) (m_containsKey M k)) (conv k \<and> dict_get d k \<noteq> None) d"
    using containsKey [OF True, of d] by (auto intro!: does_except)
next
  case False
  then show "does Rep d (except_clause TypeError (\<lambda>_. ret False) (m_containsKey M k)) (conv k \<and> dict_get d k \<noteq> None) d"
    by (auto intro!: fails_except_does [OF containsKey_bad [OF False]] does_ret)
qed

lemma setitem_does: "conv k \<Longrightarrow> does Rep d (JMap_setitem M k v) () (dict_set k v d)"
  unfolding JMap_setitem_def by (rule does_seq [OF put does_ret])

end

text \<open>The concrete instance: an insertion-ordered map is its dictionary.\<close>

definition dict_maps :: "('k \<Rightarrow> bool) \<Rightarrow> (('k, 'v option) dict, 'k, 'v) java_maps" where
  "dict_maps conv = \<lparr>
     m_size = \<lambda>d. (Inr (int (length d)), d),
     m_get = \<lambda>k d. if conv k then (Inr (case dict_get d k of None \<Rightarrow> None | Some v \<Rightarrow> v), d)
                   else (Inl (Exn TypeError []), d),
     m_containsKey = \<lambda>k d. if conv k then (Inr (dict_get d k \<noteq> None), d) else (Inl (Exn TypeError []), d),
     m_put = \<lambda>k v d. (Inr (case dict_get d k of None \<Rightarrow> None | Some v \<Rightarrow> v), dict_set k v d),
     m_remove = \<lambda>k d. (Inr (case dict_get d k of None \<Rightarrow> None | Some v \<Rightarrow> v), dict_del k d),
     m_keySet = \<lambda>d. (Inr (dict_keys d), d),
     m_entrySet = \<lambda>d. (Inr d, d)\<rparr>"

definition same_dict :: "('k, 'v) dict \<Rightarrow> ('k, 'v) dict \<Rightarrow> bool" where
  "same_dict d w \<longleftrightarrow> dict_ok d \<and> w = d"

interpretation dm: java_map "dict_maps conv" same_dict conv for conv
  by unfold_locales
    (auto simp: dict_maps_def same_dict_def does_def fails_def pd.ok_put pd.ok_del,
     auto simp: dict_ok_def dict_keys_def)

text \<open>A customized Java map reads and writes like a Python dictionary: a present key gives
  its value, null included, an absent or unconvertible key raises KeyError and changes
  nothing; an assigned key is then found with the new value; membership is presence. But
  deleting an absent key is no error, where Python raises KeyError.\<close>
theorem map_as_dict:
  assumes "java_map M Rep conv" and "Rep d w" and "conv k"
  shows "(case dict_get d k of
        Some v \<Rightarrow> \<exists>w'. JMap_getitem M k w = (Inr v, w') \<and> Rep d w'
      | None \<Rightarrow> \<exists>e w'. JMap_getitem M k w = (Inl e, w') \<and> exn_isa (exn_kind e) KeyError \<and> Rep d w') \<and>
    (\<exists>w1 w2. JMap_setitem M k v w = (Inr (), w1) \<and> JMap_getitem M k w1 = (Inr v, w2)) \<and>
    (\<exists>w'. JMap_contains M k w = (Inr (dict_get d k \<noteq> None), w') \<and> Rep d w') \<and>
    (\<exists>old w'. JMap_delitem M k w = (Inr old, w') \<and> Rep (dict_del k d) w')"
proof -
  note jm = assms(1)
  have 1: "case dict_get d k of
        Some v \<Rightarrow> \<exists>w'. JMap_getitem M k w = (Inr v, w') \<and> Rep d w'
      | None \<Rightarrow> \<exists>e w'. JMap_getitem M k w = (Inl e, w') \<and> exn_isa (exn_kind e) KeyError \<and> Rep d w'"
    using doesD [OF java_map.getitem_present [OF jm assms(3)] assms(2)]
      failsD [OF java_map.getitem_absent [OF jm] assms(2)] by (simp split: option.split)
  obtain w1 where w1: "JMap_setitem M k v w = (Inr (), w1)" "Rep (dict_set k v d) w1"
    using doesD [OF java_map.setitem_does [OF jm assms(3)] assms(2)] by blast
  have "dict_get (dict_set k v d) k = Some v" by (rule pd.put_same)
  from doesD [OF java_map.getitem_present [OF jm assms(3) this] w1(2)]
  have 2: "\<exists>w1 w2. JMap_setitem M k v w = (Inr (), w1) \<and> JMap_getitem M k w1 = (Inr v, w2)"
    using w1(1) by blast
  have 3: "\<exists>w'. JMap_contains M k w = (Inr (dict_get d k \<noteq> None), w') \<and> Rep d w'"
    using doesD [OF java_map.contains_does [OF jm] assms(2), of k] assms(3) by simp
  have 4: "\<exists>old w'. JMap_delitem M k w = (Inr old, w') \<and> Rep (dict_del k d) w'"
    using doesD [OF java_map.remove [OF jm assms(3)] assms(2)] by (auto simp: JMap_delitem_def)
  show ?thesis using 1 2 3 4 by blast
qed

theorem map_as_dict_witness:
  "\<exists>w'. JMap_getitem (dict_maps (\<lambda>_. True)) ''k'' [(''a'', Some (1::nat)), (''k'', None)] = (Inr None, w') \<and>
     same_dict [(''a'', Some 1), (''k'', None)] w'"
  using map_as_dict [OF dm.java_map_axioms [of "\<lambda>_. True"],
      of "[(''a'', Some 1), (''k'', None)]" "[(''a'', Some (1::nat)), (''k'', None)]" "''k''"]
  by (simp add: same_dict_def dict_ok_def dict_get_def)

section \<open>Iterators\<close>

record ('w, 'v) java_iter =
  it_hasNext :: "('w, pyexn, bool) pyop"
  it_next :: "('w, pyexn, 'v) pyop"

record ('w, 'v) java_enum =
  en_hasMoreElements :: "('w, pyexn, bool) pyop"
  en_nextElement :: "('w, pyexn, 'v) pyop"

record ('w, 'v) java_list_iter =
  li_hasPrevious :: "('w, pyexn, bool) pyop"
  li_previous :: "('w, pyexn, 'v) pyop"

definition stop_iteration :: pyexn where
  "stop_iteration = Exn StopIteration []"

definition JIterator_next :: "('w, 'v) java_iter \<Rightarrow> ('w, pyexn, 'v) pyop" where
  "JIterator_next I = pbind (it_hasNext I) (\<lambda>b. if b then it_next I else throw stop_iteration)"

definition JEnumeration_next :: "('w, 'v) java_enum \<Rightarrow> ('w, pyexn, 'v) pyop" where
  "JEnumeration_next I = pbind (en_hasMoreElements I) (\<lambda>b. if b then en_nextElement I else throw stop_iteration)"

text \<open>Resuming the generator of \<open>_JList.__reversed__\<close>, after its iterator has been made at
  the end of the list.\<close>

definition JList_reversed_next :: "('w, 'v) java_list_iter \<Rightarrow> ('w, pyexn, 'v) pyop" where
  "JList_reversed_next I = pbind (li_hasPrevious I) (\<lambda>b. if b then li_previous I else throw stop_iteration)"

text \<open>\<open>_JavaArrayIter\<close>: its state is the array's world and the index; \<open>alen\<close> and \<open>aitem\<close>
  are the array's length and item access.\<close>

definition JavaArrayIter_init :: "'w \<Rightarrow> 'w \<times> int" where
  "JavaArrayIter_init w = (w, - 1)"

definition JavaArrayIter_next ::
  "('w, pyexn, int) pyop \<Rightarrow> (int \<Rightarrow> ('w, pyexn, 'v) pyop) \<Rightarrow> ('w \<times> int, pyexn, 'v) pyop" where
  "JavaArrayIter_next alen aitem = (\<lambda>(w, ndx).
     let ndx = ndx + 1
     in case alen w of
          (Inl e, w1) \<Rightarrow> (Inl e, w1, ndx)
        | (Inr n, w1) \<Rightarrow>
            if ndx \<ge> n then (Inl stop_iteration, w1, ndx)
            else (case aitem ndx w1 of (r, w2) \<Rightarrow> (r, w2, ndx)))"

text \<open>A Python \<open>for\<close> loop collecting the items, with fuel; \<open>None\<close> is an unfinished loop.\<close>

fun py_for :: "nat \<Rightarrow> ('s, pyexn, 'v) pyop \<Rightarrow> 's \<Rightarrow> ((pyexn + 'v list) \<times> 's) option" where
  "py_for 0 nxt s = None"
| "py_for (Suc n) nxt s =
     (case nxt s of
        (Inr x, s') \<Rightarrow> map_option (\<lambda>(r, s''). (map_sum id (\<lambda>xs. x # xs) r, s'')) (py_for n nxt s')
      | (Inl e, s') \<Rightarrow> Some (if catches StopIteration e then Inr [] else Inl e, s'))"

locale py_iterator =
  fixes nxt :: "('s, pyexn, 'v) pyop"
    and Ahead :: "'v list \<Rightarrow> 's \<Rightarrow> bool"
  assumes step: "does Ahead (x # xs) nxt x xs"
    and stop: "fails Ahead [] nxt StopIteration"
begin

lemma for_collects:
  "Ahead xs s \<Longrightarrow> length xs < n \<Longrightarrow>
     \<exists>s'. py_for n nxt s = Some (Inr xs, s') \<and> Ahead [] s'"
proof (induction xs arbitrary: s n)
  case Nil
  then obtain m where n: "n = Suc m" by (cases n) auto
  from failsD [OF stop Nil.prems(1)] show ?case using n by (auto simp: catches_def)
next
  case (Cons x xs)
  then obtain m where n: "n = Suc m" "length xs < m" by (cases n) auto
  obtain s1 where s1: "nxt s = (Inr x, s1)" "Ahead xs s1" using doesD [OF step Cons.prems(1)] by blast
  from Cons.IH [OF s1(2) n(2)] obtain s' where "py_for m nxt s1 = Some (Inr xs, s')" "Ahead [] s'" by blast
  with n s1 show ?case by auto
qed

lemma stays_stopped: "Ahead [] s \<Longrightarrow> \<exists>e s'. nxt s = (Inl e, s') \<and> exn_isa (exn_kind e) StopIteration \<and> Ahead [] s'"
  by (rule failsD [OF stop])

end

text \<open>The documented contract of the three kinds of Java iterators: \<open>Ahead xs w\<close> says that
  \<open>xs\<close> are the elements still to come.\<close>

locale java_iterator =
  fixes more :: "('w, pyexn, bool) pyop"
    and elem :: "('w, pyexn, 'v) pyop"
    and Ahead :: "'v list \<Rightarrow> 'w \<Rightarrow> bool"
  assumes more: "does Ahead xs more (xs \<noteq> []) xs"
    and elem: "does Ahead (x # xs) elem x xs"
begin

lemma next_step: "does Ahead (x # xs) (pbind more (\<lambda>b. if b then elem else throw stop_iteration)) x xs"
  by (rule does_bind [OF more]) (simp add: elem)

lemma next_stop: "fails Ahead [] (pbind more (\<lambda>b. if b then elem else throw stop_iteration)) StopIteration"
  by (rule does_fails_bind [OF more]) (simp add: fails_throw stop_iteration_def)

sublocale py: py_iterator "pbind more (\<lambda>b. if b then elem else throw stop_iteration)" Ahead
  by unfold_locales (rule next_step, rule next_stop)

end

text \<open>An iterator over a list is the list of what is left; a list iterator moving backwards
  is a list and a cursor.\<close>

definition left_of :: "'v list \<Rightarrow> 'v list \<Rightarrow> bool" where
  "left_of xs w \<longleftrightarrow> w = xs"

definition before_cursor :: "'v list \<Rightarrow> 'v list \<times> nat \<Rightarrow> bool" where
  "before_cursor xs w \<longleftrightarrow> snd w \<le> length (fst w) \<and> xs = rev (take (snd w) (fst w))"

definition has_more :: "('v list, pyexn, bool) pyop" where
  "has_more w = (Inr (w \<noteq> []), w)"

definition take_next :: "('v list, pyexn, 'v) pyop" where
  "take_next w = (case w of [] \<Rightarrow> (Inl (Exn JException []), w) | x # xs \<Rightarrow> (Inr x, xs))"

definition has_previous :: "('v list \<times> nat, pyexn, bool) pyop" where
  "has_previous w = (Inr (snd w > 0), w)"

definition take_previous :: "('v list \<times> nat, pyexn, 'v) pyop" where
  "take_previous w = (if snd w = 0 then (Inl (Exn JException []), w)
     else (Inr (fst w ! (snd w - 1)), (fst w, snd w - 1)))"

interpretation lit: java_iterator has_more take_next left_of
  by unfold_locales (auto simp: does_def left_of_def has_more_def take_next_def)

lemma before_cursor_Cons:
  assumes "before_cursor (x # xs) (ys, c)"
  shows "c > 0" and "ys ! (c - 1) = x" and "before_cursor xs (ys, c - 1)"
proof -
  obtain k where c: "c = Suc k" using assms by (cases c) (auto simp: before_cursor_def)
  then have k: "k < length ys" using assms by (simp add: before_cursor_def)
  then have t: "take (Suc k) ys = take k ys @ [ys ! k]" by (rule take_Suc_conv_app_nth)
  have "x # xs = ys ! k # rev (take k ys)" using assms by (simp add: before_cursor_def c t)
  then have "x = ys ! k" "xs = rev (take k ys)" by simp_all
  with c k show "c > 0" "ys ! (c - 1) = x" "before_cursor xs (ys, c - 1)"
    by (simp_all add: before_cursor_def)
qed

interpretation rit: java_iterator has_previous take_previous before_cursor
proof unfold_locales
  fix xs :: "'a list"
  show "does before_cursor xs has_previous (xs \<noteq> []) xs"
    by (auto simp: does_def before_cursor_def has_previous_def)
next
  fix x :: 'a and xs
  show "does before_cursor (x # xs) take_previous x xs"
    using before_cursor_Cons by (fastforce simp: does_def take_previous_def)
qed

text \<open>An array is a list with a fixed length.\<close>

definition arr_len :: "('v list, pyexn, int) pyop" where
  "arr_len a = (Inr (int (length a)), a)"

definition arr_item :: "int \<Rightarrow> ('v list, pyexn, 'v) pyop" where
  "arr_item i a = (if in_range i a then (Inr (a ! nat i), a) else (Inl (Exn IndexError []), a))"

definition array_left :: "'v list \<Rightarrow> 'v list \<times> int \<Rightarrow> bool" where
  "array_left xs s \<longleftrightarrow> - 1 \<le> snd s \<and> xs = drop (nat (snd s + 1)) (fst s)"

interpretation ai: py_iterator "JavaArrayIter_next arr_len arr_item" array_left
proof unfold_locales
  fix x :: 'a and xs
  show "does array_left (x # xs) (JavaArrayIter_next arr_len arr_item) x xs"
    unfolding does_def
  proof (intro allI impI)
    fix s assume s: "array_left (x # xs) s"
    obtain a i where [simp]: "s = (a, i)" by (cases s)
    have i: "- 1 \<le> i" and d: "x # xs = drop (nat (i + 1)) a" using s by (simp_all add: array_left_def)
    then have l: "nat (i + 1) < length a" by (metis drop_eq_Nil linorder_not_le list.distinct(1))
    have "x # xs = a ! nat (i + 1) # drop (Suc (nat (i + 1))) a"
      by (simp only: d Cons_nth_drop_Suc [OF l])
    then have x: "a ! nat (i + 1) = x" "xs = drop (Suc (nat (i + 1))) a" by simp_all
    show "\<exists>w'. JavaArrayIter_next arr_len arr_item s = (Inr x, w') \<and> array_left xs w'"
      using i l x by (simp add: JavaArrayIter_next_def arr_len_def arr_item_def in_range_def array_left_def
          Let_def Suc_nat_eq_nat_zadd1 nat_less_iff add.commute)
  qed
next
  show "fails array_left [] (JavaArrayIter_next arr_len arr_item) StopIteration"
    by (auto simp: fails_def JavaArrayIter_next_def arr_len_def array_left_def stop_iteration_def Let_def)
qed

text \<open>C33: A for loop over a customized Java iterator or enumeration, or over the reversed
  generator of a list, ends and yields exactly the elements still to come, in order; the
  exhausted iterator keeps raising StopIteration. One more round of fuel than elements is
  enough.\<close>
theorem iterators_drain:
  assumes "java_iterator (it_hasNext I) (it_next I) Ahead" and "Ahead xs w" and "length xs < n"
    and "java_iterator (en_hasMoreElements E) (en_nextElement E) Ahead'" and "Ahead' ys w'" and "length ys < n"
    and "java_iterator (li_hasPrevious R) (li_previous R) Ahead''" and "Ahead'' zs w''" and "length zs < n"
  shows "(\<exists>v. py_for n (JIterator_next I) w = Some (Inr xs, v) \<and> Ahead [] v \<and>
       (\<exists>e v'. JIterator_next I v = (Inl e, v') \<and> exn_isa (exn_kind e) StopIteration \<and> Ahead [] v')) \<and>
    (\<exists>v. py_for n (JEnumeration_next E) w' = Some (Inr ys, v) \<and> Ahead' [] v) \<and>
    (\<exists>v. py_for n (JList_reversed_next R) w'' = Some (Inr zs, v) \<and> Ahead'' [] v)"
proof -
  have it: "py_iterator (JIterator_next I) Ahead"
    unfolding JIterator_next_def by unfold_locales (rule java_iterator.next_step [OF assms(1)], rule java_iterator.next_stop [OF assms(1)])
  have en: "py_iterator (JEnumeration_next E) Ahead'"
    unfolding JEnumeration_next_def by unfold_locales (rule java_iterator.next_step [OF assms(4)], rule java_iterator.next_stop [OF assms(4)])
  have re: "py_iterator (JList_reversed_next R) Ahead''"
    unfolding JList_reversed_next_def by unfold_locales (rule java_iterator.next_step [OF assms(7)], rule java_iterator.next_stop [OF assms(7)])
  show ?thesis
    using py_iterator.for_collects [OF it assms(2,3)] py_iterator.stays_stopped [OF it]
      py_iterator.for_collects [OF en assms(5,6)] py_iterator.for_collects [OF re assms(8,9)]
    by blast
qed

theorem iterators_drain_witness:
  "\<exists>v. py_for 3 (JList_reversed_next \<lparr>li_hasPrevious = has_previous, li_previous = take_previous\<rparr>) ([1::nat, 2], 2)
     = Some (Inr [2, 1], v)"
proof -
  let ?I = "\<lparr>it_hasNext = has_more, it_next = take_next\<rparr> :: (nat list, nat) java_iter"
  let ?E = "\<lparr>en_hasMoreElements = has_more, en_nextElement = take_next\<rparr> :: (nat list, nat) java_enum"
  let ?R = "\<lparr>li_hasPrevious = has_previous, li_previous = take_previous\<rparr> :: (nat list \<times> nat, nat) java_list_iter"
  have i: "java_iterator (it_hasNext ?I) (it_next ?I) left_of"
    and e: "java_iterator (en_hasMoreElements ?E) (en_nextElement ?E) left_of"
    and r: "java_iterator (li_hasPrevious ?R) (li_previous ?R) before_cursor"
    by (simp_all add: lit.java_iterator_axioms rit.java_iterator_axioms)
  have l: "left_of [] ([]::nat list)" and b: "before_cursor [2, 1] ([1::nat, 2], 2)"
    by (simp_all add: before_cursor_def left_of_def)
  from iterators_drain [OF i l _ e l _ r b, of 3] show ?thesis by auto
qed

text \<open>Iterating over a Java array yields its elements in order and ends.\<close>
theorem array_iter_drains:
  "\<exists>s. py_for (Suc (length a)) (JavaArrayIter_next arr_len arr_item) (JavaArrayIter_init a) = Some (Inr a, s)"
  using ai.for_collects [of a "(a, - 1)" "Suc (length a)"]
  by (auto simp: array_left_def JavaArrayIter_init_def)

section \<open>Strings\<close>

text \<open>
  A Java string is its UTF-16 code units; \<open>str(self)\<close>, a list of code points, is made by the
  extension module and is an argument. Python's slices of a string, with steps:
\<close>

type_synonym jstring = "16 word list"

definition py_range :: "int \<Rightarrow> int \<Rightarrow> int \<Rightarrow> int list" where
  "py_range a b k =
     (let n = if k > 0 then (if a < b then (b - a - 1) div k + 1 else 0)
              else (if b < a then (a - b - 1) div (- k) + 1 else 0)
      in map (\<lambda>j. a + int j * k) [0..<nat n])"

definition slice_bound :: "int option \<Rightarrow> int \<Rightarrow> int \<Rightarrow> int \<Rightarrow> nat \<Rightarrow> int" where
  "slice_bound x d lo hi n = (case x of None \<Rightarrow> d | Some i \<Rightarrow> max lo (min hi (wrap_index i n)))"

definition py_str_slice :: "slice \<Rightarrow> 'a list \<Rightarrow> pyexn + 'a list" where
  "py_str_slice slc s =
     (let n = length s; k = (case sl_step slc of None \<Rightarrow> 1 | Some k \<Rightarrow> k)
      in if k = 0 then Inl (Exn ValueError ''slice step cannot be zero'')
         else if k > 0
         then Inr (map (\<lambda>i. s ! nat i)
                (py_range (slice_bound (sl_start slc) 0 0 (int n) n) (slice_bound (sl_stop slc) (int n) 0 (int n) n) k))
         else Inr (map (\<lambda>i. s ! nat i)
                (py_range (slice_bound (sl_start slc) (int n - 1) (- 1) (int n - 1) n)
                   (slice_bound (sl_stop slc) (- 1) (- 1) (int n - 1) n) k)))"

definition JString_new :: "bool \<Rightarrow> ('a \<Rightarrow> pyexn + 's) \<Rightarrow> 'a \<Rightarrow> pyexn + 's" where
  "JString_new is_JString construct args =
     (if \<not> is_JString then Inl (Exn TypeError ''JString factory cannot be used as base class'')
      else construct args)"

definition JString_len :: "jstring \<Rightarrow> int" where
  "JString_len s = int (length s)"

definition JString_add :: "jstring \<Rightarrow> jstring \<Rightarrow> jstring" where
  "JString_add s other = s @ other"

definition JString_contains :: "jstring \<Rightarrow> jstring \<Rightarrow> bool" where
  "JString_contains s other = sublist other s"

text \<open>A slice gives a Python string, an index a Java character.\<close>

datatype str_item = StrSlice "nat list" | CharAt "16 word"

definition JString_getitem :: "(jstring \<Rightarrow> nat list) \<Rightarrow> jstring \<Rightarrow> index \<Rightarrow> pyexn + str_item" where
  "JString_getitem to_str s i =
     (case i of
        Sl slc \<Rightarrow> (case py_str_slice slc (to_str s) of Inl e \<Rightarrow> Inl e | Inr r \<Rightarrow> Inr (StrSlice r))
      | NoIndex \<Rightarrow> Inl (Exn TypeError ''bad operand type'')
      | Ix i \<Rightarrow>
          let n = JString_len s; j = (if i < 0 then i + n else i)
          in if i < 0 \<and> j < 0 then Inl (Exn IndexError ''Array index is negative'')
             else if j \<ge> n then Inl (Exn IndexError ''Array index exceeds length'')
             else Inr (CharAt (s ! nat j)))"

definition JString_hash :: "(jstring \<Rightarrow> nat list) \<Rightarrow> (nat list option \<Rightarrow> int) \<Rightarrow> jstring option \<Rightarrow> int" where
  "JString_hash to_str hsh self = (case self of None \<Rightarrow> hsh None | Some s \<Rightarrow> hsh (Some (to_str s)))"

definition JString_repr :: "(jstring \<Rightarrow> nat list) \<Rightarrow> jstring \<Rightarrow> nat list" where
  "JString_repr to_str s = 39 # to_str s @ [39]"

lemma py_range_one: "a < b \<Longrightarrow> py_range a b 1 = map (\<lambda>j. a + int j) [0..<nat (b - a)]"
  by (simp add: py_range_def)

lemma py_range_single: "py_range a (a + 1) 1 = [a]"
  by (simp add: py_range_def)

text \<open>On a string without surrogate pairs, whose Python text has one code point per unit,
  an index is accepted exactly in Python's range, from minus the length to the length, and
  refused with IndexError outside it; the unit found is the code point at that place and the
  one-character slice there. A supplementary character breaks this: it counts two, its index
  gives half of it, and the slice at the same place gives the whole character.\<close>
theorem string_index:
  assumes "to_str s = map unat s"
  shows "(if - int (length s) \<le> i \<and> i < int (length s)
      then \<exists>c. JString_getitem to_str s (Ix i) = Inr (CharAt c) \<and> unat c = to_str s ! nat (wrap_index i (length s)) \<and>
        (i \<ge> 0 \<longrightarrow> JString_getitem to_str s (Sl (slice_of i (i + 1))) = Inr (StrSlice [unat c]))
      else \<exists>m. JString_getitem to_str s (Ix i) = Inl (Exn IndexError m)) \<and>
    (to_str' [hi, lo] = [cp] \<longrightarrow>
       JString_len [hi, lo] = 2 \<and> length (to_str' [hi, lo]) = 1 \<and>
       JString_getitem to_str' [hi, lo] (Ix 0) = Inr (CharAt hi) \<and>
       JString_getitem to_str' [hi, lo] (Sl (slice_of 0 1)) = Inr (StrSlice [cp]))"
proof -
  have in_range: "\<exists>c. JString_getitem to_str s (Ix i) = Inr (CharAt c) \<and> unat c = to_str s ! nat (wrap_index i (length s)) \<and>
        (i \<ge> 0 \<longrightarrow> JString_getitem to_str s (Sl (slice_of i (i + 1))) = Inr (StrSlice [unat c]))"
    if i: "- int (length s) \<le> i" "i < int (length s)"
  proof (intro exI conjI impI)
    let ?c = "s ! nat (wrap_index i (length s))"
    have w: "nat (wrap_index i (length s)) < length s" using i by (auto simp: wrap_index_def)
    show "JString_getitem to_str s (Ix i) = Inr (CharAt ?c)"
      using i by (simp add: JString_getitem_def JString_len_def Let_def wrap_index_def)
    show c: "unat ?c = to_str s ! nat (wrap_index i (length s))"
      using w by (simp add: assms)
    assume "i \<ge> 0"
    then have "slice_bound (Some i) 0 0 (int (length s)) (length s) = i"
      "slice_bound (Some (i + 1)) (int (length s)) 0 (int (length s)) (length s) = i + 1"
      using i by (simp_all add: slice_bound_def wrap_index_def)
    then show "JString_getitem to_str s (Sl (slice_of i (i + 1))) = Inr (StrSlice [unat ?c])"
      using c \<open>i \<ge> 0\<close> i
      by (simp add: JString_getitem_def py_str_slice_def slice_of_def Let_def assms py_range_single wrap_index_def)
  qed
  have out: "\<exists>m. JString_getitem to_str s (Ix i) = Inl (Exn IndexError m)"
    if "\<not> (- int (length s) \<le> i \<and> i < int (length s))"
    using that by (auto simp: JString_getitem_def JString_len_def Let_def)
  have pair: "JString_len [hi, lo] = 2 \<and> length (to_str' [hi, lo]) = 1 \<and>
       JString_getitem to_str' [hi, lo] (Ix 0) = Inr (CharAt hi) \<and>
       JString_getitem to_str' [hi, lo] (Sl (slice_of 0 1)) = Inr (StrSlice [cp])"
    if "to_str' [hi, lo] = [cp]"
    using that by (simp add: JString_len_def JString_getitem_def py_str_slice_def slice_of_def slice_bound_def
        wrap_index_def py_range_def Let_def)
  show ?thesis using in_range out pair by auto
qed

theorem string_index_witness:
  "JString_getitem (map unat) [104, 105] (Ix (- 1)) = Inr (CharAt 105) \<and>
   JString_getitem (\<lambda>s. if s = [0xD83D, 0xDE00] then [0x1F600] else map unat s) [0xD83D, 0xDE00] (Sl (slice_of 0 1))
     = Inr (StrSlice [0x1F600])"
  using string_index [where to_str = "map unat" and s = "[104, 105]" and i = "- 1" and hi = "0xD83D" and lo = "0xDE00"
      and to_str' = "\<lambda>s. if s = [0xD83D, 0xDE00] then [0x1F600] else map unat s" and cp = "0x1F600"]
  by (simp add: JString_getitem_def JString_len_def Let_def)

section \<open>Arrays\<close>

text \<open>
  The argument of \<open>JArray\<close>: a class name, a class wrapper, or another object, which may be a
  key of the table of type classes and may have a \<open>class_\<close> attribute and a \<open>__name__\<close>.
\<close>

datatype ('c, 't) array_tp = TpName string | TpClass 'c | TpOther 't

record ('c, 't) array_env =
  ar_forName :: "string \<Rightarrow> pyexn + 'c"
  ar_type_classes :: "'t \<Rightarrow> 'c option"
  ar_class_attr :: "'t \<Rightarrow> 'c option"
  ar_name_attr :: "'t \<Rightarrow> string option"
  ar_newArrayType :: "'c \<Rightarrow> int \<Rightarrow> pyexn + 'c"

definition toJavaClass :: "('c, 't) array_env \<Rightarrow> ('c, 't) array_tp \<Rightarrow> pyexn + 'c" where
  "toJavaClass E tp =
     (case tp of
        TpName s \<Rightarrow> ar_forName E s
      | TpClass c \<Rightarrow> Inr c
      | TpOther t \<Rightarrow>
          (case ar_type_classes E t of
             Some c \<Rightarrow> Inr c
           | None \<Rightarrow>
               (case ar_class_attr E t of
                  Some c \<Rightarrow> Inr c
                | None \<Rightarrow>
                    (case ar_name_attr E t of
                       Some n \<Rightarrow> Inl (Exn TypeError (''Unable to find class for '' @ CHR 0x27 # n @ [CHR 0x27]))
                     | None \<Rightarrow> Inl (Exn AttributeError ''__name__'')))))"

definition JArray_new :: "('c, 't) array_env \<Rightarrow> bool \<Rightarrow> ('c, 't) array_tp \<Rightarrow> int \<Rightarrow> pyexn + 'c" where
  "JArray_new E is_JArray tp dims =
     (if \<not> is_JArray then Inl (Exn TypeError ''Arrays factory can't be used as type'')
      else case toJavaClass E tp of Inl e \<Rightarrow> Inl e | Inr jc \<Rightarrow> ar_newArrayType E jc dims)"

text \<open>The key of \<open>JArray[key]\<close>: the type \<open>JClass\<close> itself, a \<open>java.lang.Class\<close> object, a class
  wrapper, or something else. \<open>array_of\<close> is the type of the empty array of a class.\<close>

datatype 'c array_key = KeyJClass | KeyClassObject 'c | KeyWrapper 'c | KeyOther

definition JArray_class_getitem :: "'c \<Rightarrow> ('c \<Rightarrow> 'c) \<Rightarrow> 'c array_key \<Rightarrow> pyexn + 'c" where
  "JArray_class_getitem java_lang_Class array_of key =
     (let key = (if key = KeyJClass then KeyWrapper java_lang_Class else key);
          key = (case key of KeyClassObject c \<Rightarrow> KeyWrapper c | _ \<Rightarrow> key)
      in case key of
           KeyWrapper c \<Rightarrow> Inr (array_of c)
         | _ \<Rightarrow> Inl (Exn TypeError ''is not a Java class''))"

text \<open>\<open>__reversed__\<close> walks over \<open>self[::-1]\<close>, and \<open>clone\<close> copies the whole length.\<close>

definition JArray_reversed :: "'v list \<Rightarrow> pyexn + 'v list" where
  "JArray_reversed a = py_str_slice \<lparr>sl_start = None, sl_stop = None, sl_step = Some (- 1)\<rparr> a"

definition JArray_clone :: "('v list \<Rightarrow> int \<Rightarrow> 'v list) \<Rightarrow> 'v list \<Rightarrow> 'v list" where
  "JArray_clone copyOf self = copyOf self (int (length self))"

text \<open>
  \<open>_JCharArray.__eq__\<close>: against a Python string by text, against anything else by the Java
  method \<open>equals\<close> after converting it to an array of the same class, which gives the same
  Java array for an array of that class and a new one for a sequence. The arguments are
  the text of an array, \<open>equals\<close>, and the conversion.
\<close>

definition JCharArray_eq ::
  "('a \<Rightarrow> nat list) \<Rightarrow> ('a \<Rightarrow> 'a \<Rightarrow> bool) \<Rightarrow> ('o \<Rightarrow> pyexn + 'a) \<Rightarrow> 'a \<Rightarrow> nat list + 'o \<Rightarrow> pyexn + bool" where
  "JCharArray_eq str_of jequals conv self other =
     (case other of
        Inl s \<Rightarrow> Inr (str_of self = s)
      | Inr obj \<Rightarrow>
          (case conv obj of
             Inr a \<Rightarrow> Inr (jequals self a)
           | Inl e \<Rightarrow> if catches TypeError e then Inr False else Inl e))"

section \<open>Closeables\<close>

text \<open>\<open>__exit__\<close>; \<open>handling\<close> says whether an exception is being handled when it is called. It
  returns None, so an exception of the body is not suppressed by it.\<close>

definition JCloseable_exit :: "('w, pyexn, unit) pyop \<Rightarrow> bool \<Rightarrow> ('w, pyexn, unit) pyop" where
  "JCloseable_exit close handling =
     except_clause JException (\<lambda>jex. if handling then ret () else throw jex) close"

text \<open>A \<open>with\<close> statement: the body's exception, if any, is being handled while \<open>__exit__\<close> runs,
  as is one of an enclosing handler.\<close>

definition with_closeable ::
  "('w, pyexn, unit) pyop \<Rightarrow> bool \<Rightarrow> ('w, pyexn, 'a) pyop \<Rightarrow> ('w, pyexn, 'a) pyop" where
  "with_closeable close outer body = (\<lambda>w.
     case body w of
       (Inr x, w1) \<Rightarrow> pseq (JCloseable_exit close outer) (ret x) w1
     | (Inl e, w1) \<Rightarrow> pseq (JCloseable_exit close True) (throw e) w1)"

text \<open>Walking over a Java array in reverse visits all its elements from the last to the
  first.\<close>
theorem array_reversed: "JArray_reversed a = Inr (rev a)"
proof -
  have "map ((!) a \<circ> nat) (py_range (int (length a) - 1) (- 1) (- 1)) = rev a"
  proof (rule nth_equalityI)
    show "length (map ((!) a \<circ> nat) (py_range (int (length a) - 1) (- 1) (- 1))) = length (rev a)"
      by (simp add: py_range_def)
  next
    fix i assume "i < length (map ((!) a \<circ> nat) (py_range (int (length a) - 1) (- 1) (- 1)))"
    then have i: "i < length a" by (simp add: py_range_def split: if_splits)
    then have "nat (int (length a) - 1 - int i) = length a - Suc i" "a \<noteq> []" by auto
    with i show "map ((!) a \<circ> nat) (py_range (int (length a) - 1) (- 1) (- 1)) ! i = rev a ! i"
      by (simp add: py_range_def rev_nth)
  qed
  then show ?thesis by (simp add: JArray_reversed_def py_str_slice_def slice_bound_def Let_def comp_def)
qed

text \<open>The argument of an array type is resolved in a fixed order: a name by the class
  loader, a class as it is, then the table of type classes, then its own \<open>class_\<close>, and
  otherwise TypeError, or AttributeError for an object without a name. The factory hands
  exactly the resolved class and the dimensions on, and refuses to be subclassed.\<close>
theorem array_type_resolution:
  "JArray_new E is_factory tp dims =
     (if \<not> is_factory then Inl (Exn TypeError ''Arrays factory can't be used as type'')
      else case tp of
        TpName s \<Rightarrow> (case ar_forName E s of Inl e \<Rightarrow> Inl e | Inr c \<Rightarrow> ar_newArrayType E c dims)
      | TpClass c \<Rightarrow> ar_newArrayType E c dims
      | TpOther t \<Rightarrow>
          (case (if ar_type_classes E t \<noteq> None then ar_type_classes E t else ar_class_attr E t) of
             Some c \<Rightarrow> ar_newArrayType E c dims
           | None \<Rightarrow> if ar_name_attr E t = None then Inl (Exn AttributeError ''__name__'')
               else Inl (Exn TypeError (''Unable to find class for '' @ CHR 0x27 # the (ar_name_attr E t) @ [CHR 0x27]))))"
  by (auto simp: JArray_new_def toJavaClass_def split: array_tp.splits option.splits)

text \<open>Equality of character arrays is by text against a string and by identity against
  everything else: the array equals itself, and no array, list or tuple of the same
  characters, each of which converts to another Java array; a value that cannot be converted
  is different, but an error of the conversion other than TypeError escapes from the
  comparison.\<close>
theorem char_array_equality:
  assumes "\<And>a b. jequals a b = (a = b)"
  shows "JCharArray_eq str_of jequals conv self (Inl s) = Inr (s = str_of self) \<and>
    (conv obj = Inr self \<longrightarrow> JCharArray_eq str_of jequals conv self (Inr obj) = Inr True) \<and>
    (\<forall>a. conv obj = Inr a \<and> a \<noteq> self \<longrightarrow> JCharArray_eq str_of jequals conv self (Inr obj) = Inr False) \<and>
    (\<forall>e. conv obj = Inl e \<longrightarrow> JCharArray_eq str_of jequals conv self (Inr obj) =
       (if exn_isa (exn_kind e) TypeError then Inr False else Inl e))"
  using assms by (auto simp: JCharArray_eq_def catches_def)

theorem char_array_equality_witness:
  "JCharArray_eq (\<lambda>a. [97, 98]) (\<lambda>a b. a = b) (\<lambda>k. if k < (0::int) then Inl (Exn ValueError []) else Inr (1::nat)) 0 (Inr (- 3))
     = Inl (Exn ValueError [])"
  using char_array_equality [where jequals = "\<lambda>a b. a = (b::nat)" and str_of = "\<lambda>a. [97, 98]" and self = 0
      and conv = "\<lambda>k. if k < (0::int) then Inl (Exn ValueError []) else Inr 1" and obj = "- 3"]
  by (simp add: exn_isa_eval)

text \<open>A with statement on a Java closeable closes it exactly once, after the body, whether
  the body returns or raises. An exception of the body is what the statement raises, over
  any Java exception of the close; when the body returns and no handler is active the
  exception of the close is raised, but inside an enclosing handler a Java exception of the
  close is lost and the statement ends normally.\<close>
theorem with_closes_once:
  assumes "close = (\<lambda>(w, n::nat). (r, (w, n + 1)))"
    and "body = (\<lambda>(w, n). (b, (w', n)))"
  shows "with_closeable close outer body (w, n) =
    ((case b of
        Inl e \<Rightarrow> (case r of Inl c \<Rightarrow> if catches JException c then Inl e else Inl c | Inr _ \<Rightarrow> Inl e)
      | Inr x \<Rightarrow> (case r of Inl c \<Rightarrow> if catches JException c \<and> outer then Inr x else Inl c | Inr _ \<Rightarrow> Inr x)),
     (w', n + 1))"
  using assms
  by (cases b; cases r) (simp_all add: with_closeable_def JCloseable_exit_def pyrun)

theorem with_closes_once_witness:
  "with_closeable (\<lambda>(w::nat, n::nat). (Inl (Exn JSQLException []), (w, n + 1))) True (\<lambda>(w, n). (Inr ''ok'', (5, n))) (4, 0)
     = (Inr ''ok'', (5, 1))"
  using with_closes_once [where r = "Inl (Exn JSQLException [])" and b = "Inr ''ok''" and w' = 5 and outer = True
      and w = 4 and n = 0, OF refl refl]
  by (simp add: exn_isa_eval)

section \<open>Text and buffers of arrays\<close>

text \<open>\<open>JArray.of\<close> hands the buffer on; \<open>str\<close> of an array is Python's text of the list of its
  elements, and that of a character or byte array the text of the Java string made of it.\<close>

definition JArray_of :: "('b \<Rightarrow> 't option \<Rightarrow> pyexn + 'a) \<Rightarrow> 'b \<Rightarrow> 't option \<Rightarrow> pyexn + 'a" where
  "JArray_of arrayFromBuffer array dtype = arrayFromBuffer array dtype"

fun items_text :: "('v \<Rightarrow> string) \<Rightarrow> 'v list \<Rightarrow> string" where
  "items_text repr [] = []"
| "items_text repr [x] = repr x"
| "items_text repr (x # y # xs) = repr x @ '', '' @ items_text repr (y # xs)"

definition JArray_str :: "nat \<Rightarrow> ('v \<Rightarrow> string) \<Rightarrow> 'v list \<Rightarrow> (pyexn + string) option" where
  "JArray_str n repr self =
     map_option (\<lambda>(r, s). map_sum id (\<lambda>xs. ''['' @ items_text repr xs @ '']'') r)
       (py_for n (JavaArrayIter_next arr_len arr_item) (JavaArrayIter_init self))"

definition JCharArray_str :: "('a \<Rightarrow> pyexn + 'j) \<Rightarrow> ('j \<Rightarrow> string) \<Rightarrow> 'a \<Rightarrow> pyexn + string" where
  "JCharArray_str JString text_of self = map_sum id text_of (JString self)"

text \<open>An object given to \<open>convertToDirectBuffer\<close> has a buffer, which may be read-only, or none,
  as Python strings have none.\<close>

datatype 'v buffer_object = HasBuffer 'v bool | NoBuffer string

definition memory_view :: "'v buffer_object \<Rightarrow> pyexn + 'v \<times> bool" where
  "memory_view obj =
     (case obj of
        HasBuffer v ro \<Rightarrow> Inr (v, ro)
      | NoBuffer tn \<Rightarrow> Inl (Exn TypeError (''memoryview: a bytes-like object is required, not '' @ CHR 0x27 # tn @ [CHR 0x27])))"

definition convertToDirectBuffer :: "('v \<Rightarrow> bool \<Rightarrow> pyexn + 'b) \<Rightarrow> 'v buffer_object \<Rightarrow> pyexn + 'b" where
  "convertToDirectBuffer convert obj = (case memory_view obj of Inl e \<Rightarrow> Inl e | Inr (v, ro) \<Rightarrow> convert v ro)"

text \<open>The text of an array lists all its elements in order and is always produced.\<close>
theorem array_text: "JArray_str (Suc (length a)) repr a = Some (Inr (''['' @ items_text repr a @ '']''))"
proof -
  obtain s where "py_for (Suc (length a)) (JavaArrayIter_next arr_len arr_item) (JavaArrayIter_init a) = Some (Inr a, s)"
    using ai.for_collects [of a "(a, - 1)" "Suc (length a)"] by (auto simp: array_left_def JavaArrayIter_init_def)
  then show ?thesis by (simp only: JArray_str_def) simp
qed

end
