(* ===== verification/Imports.thy ===== *)
theory Imports
  imports Keywords PyExceptions
begin

text \<open>
  The import hook (\<open>imports.py\<close>): registered domains, the search for a module spec, the
  making of the module and the translation of Java errors into ImportError. The JVM's
  packages and class loader, \<open>sys.modules\<close> and attribute lookup are arguments.
\<close>

section \<open>Domains and customizers\<close>

type_synonym domains = "(string, string) dict"

text \<open>\<open>registerDomain(mod, alias)\<close>; an empty alias counts as none.\<close>

definition registerDomain :: "string \<Rightarrow> string option \<Rightarrow> domains \<Rightarrow> domains" where
  "registerDomain md al d =
     (let al = (case al of None \<Rightarrow> md | Some a \<Rightarrow> if a = [] then md else a) in dict_set md al d)"

definition default_domains :: domains where
  "default_domains =
     fold (\<lambda>m. registerDomain m None) [''com'', ''gov'', ''java'', ''org'', ''mil'', ''edu'', ''net''] []"

datatype 'x spec = JSpec (spec_name: string) (spec_jname: "string option") | OtherSpec 'x

record 'x customizer =
  canCustomize :: "string \<Rightarrow> pyexn + bool"
  getSpec :: "string \<Rightarrow> pyexn + 'x"

text \<open>The defaults of \<open>JImportCustomizer\<close>.\<close>

definition JImportCustomizer :: "'x customizer" where
  "JImportCustomizer =
     \<lparr>canCustomize = (\<lambda>_. Inr False), getSpec = (\<lambda>_. Inl (Exn NotImplementedError []))\<rparr>"

definition registerImportCustomizer :: "'x customizer \<Rightarrow> 'x customizer list \<Rightarrow> 'x customizer list" where
  "registerImportCustomizer c cs = cs @ [c]"

section \<open>Finding a spec\<close>

datatype 'm module = JavaPackage 'm | JavaClass 'm | PyModule 'm

record 'm import_env =
  im_started :: bool
  im_isPackage :: "string \<Rightarrow> bool"
  im_modules :: "string \<Rightarrow> 'm module option"
  im_hasattr :: "'m \<Rightarrow> string \<Rightarrow> pyexn + bool"
  im_forName :: "string \<Rightarrow> pyexn + int"

fun first_customizer :: "string \<Rightarrow> 'x customizer list \<Rightarrow> pyexn + 'x option" where
  "first_customizer name [] = Inr None"
| "first_customizer name (c # cs) =
     (case canCustomize c name of
        Inl e \<Rightarrow> Inl e
      | Inr True \<Rightarrow> map_sum id Some (getSpec c name)
      | Inr False \<Rightarrow> first_customizer name cs)"

definition failed_import :: "string \<Rightarrow> pyexn" where
  "failed_import name = Exn ImportError (''Failed to import '' @ CHR 0x27 # name @ [CHR 0x27])"

text \<open>
  The diagnosis of a name that is not in its package: the \<open>try\<close> block always raises, and
  \<open>except Exception\<close> takes its own ImportErrors with the others.
\<close>

definition diagnose :: "'m import_env \<Rightarrow> string \<Rightarrow> pyexn" where
  "diagnose E name =
     (let ex = (case im_forName E name of
                  Inl e \<Rightarrow> e
                | Inr modifiers \<Rightarrow>
                    if modifiers mod 2 = 0 then Exn ImportError (''Class `'' @ name @ ''` is not public'')
                    else Exn ImportError (''Class `'' @ name @ ''` was found but was not expected''))
      in if catches Exception ex then failed_import name else ex)"

definition find_below :: "'m import_env \<Rightarrow> 'x customizer list \<Rightarrow> string \<Rightarrow> 'm \<Rightarrow> string \<Rightarrow> pyexn + 'x spec option" where
  "find_below E cs name base leaf =
     (let name = unwrap name
      in case first_customizer name cs of
           Inl e \<Rightarrow> Inl e
         | Inr (Some x) \<Rightarrow> Inr (Some (OtherSpec x))
         | Inr None \<Rightarrow>
             (case im_hasattr E base leaf of
                Inl e \<Rightarrow> Inl e
              | Inr True \<Rightarrow> Inr (Some (JSpec name None))
              | Inr False \<Rightarrow> Inl (diagnose E name)))"

definition find_spec :: "'m import_env \<Rightarrow> domains \<Rightarrow> 'x customizer list \<Rightarrow> string \<Rightarrow> pyexn + 'x spec option" where
  "find_spec E doms cs name =
     (if \<not> im_started E
      then let base = fst (py_partition name ''.'')
           in if dict_get doms base = None then Inr None
              else Inl (Exn ImportError (''Attempt to create Java package '' @ CHR 0x27 # name @ CHR 0x27 # '' without jvm''))
      else case dict_get doms name of
        Some jname \<Rightarrow>
          if \<not> im_isPackage E jname
          then Inl (Exn ImportError (''Java package '' @ CHR 0x27 # jname @ CHR 0x27 # '' not found, requested by alias '' @ CHR 0x27 # name @ [CHR 0x27]))
          else Inr (Some (JSpec name (Some jname)))
      | None \<Rightarrow>
          (let parts = py_rpartition name (CHR ''.'');
               head = fst parts; sep = fst (snd parts); leaf = snd (snd parts)
           in if sep = [] \<and> im_isPackage E leaf then Inr (Some (JSpec name (Some name)))
              else if sep = [] \<and> \<not> im_isPackage E head then Inr None
              else case im_modules E head of
                     Some (JavaPackage base) \<Rightarrow> find_below E cs name base leaf
                   | _ \<Rightarrow> Inr None))"

section \<open>Making the module\<close>

text \<open>\<open>spec.parent\<close> of a spec that is not a Python package.\<close>

definition spec_parent :: "string \<Rightarrow> string" where
  "spec_parent name = fst (py_rpartition name (CHR ''.''))"

text \<open>\<open>package\<close> makes a Java package, \<open>getattr\<close> reads an attribute of a module and
  \<open>set_handler\<close> stores the exception handler on the result.\<close>

definition create_module ::
  "'m import_env \<Rightarrow> (string \<Rightarrow> pyexn + 'm) \<Rightarrow> ('m module \<Rightarrow> string \<Rightarrow> pyexn + 'm) \<Rightarrow> ('m \<Rightarrow> pyexn + 'm) \<Rightarrow>
     string \<Rightarrow> string option \<Rightarrow> pyexn + 'm" where
  "create_module E package gattr set_handler name jname =
     (let rc = (if spec_parent name = []
                then (case jname of None \<Rightarrow> Inl (Exn AttributeError ''_jname'') | Some j \<Rightarrow> package j)
                else (case im_modules E (spec_parent name) of
                        None \<Rightarrow> Inl (Exn KeyError (spec_parent name))
                      | Some m \<Rightarrow> gattr m (snd (snd (py_rpartition name (CHR ''.''))))))
      in case rc of Inl e \<Rightarrow> Inl e | Inr m \<Rightarrow> set_handler m)"

section \<open>Errors of Java classes\<close>

text \<open>\<open>_JExceptionHandler\<close>; a Java error is its class name, its message and its text.\<close>

record java_error =
  je_name :: string
  je_message :: "string option"
  je_str :: string

definition import_error :: "string \<Rightarrow> string \<Rightarrow> pyexn" where
  "import_error javaname why = Exn ImportError (''Unable to import '' @ CHR 0x27 # javaname @ CHR 0x27 # why)"

definition JExceptionHandler :: "string \<Rightarrow> string \<Rightarrow> java_error \<Rightarrow> pyexn" where
  "JExceptionHandler pkg name ex =
     (let javaname = pkg @ ''.'' @ name; exname = je_name ex
      in if exname = ''java.lang.ExceptionInInitializerError''
         then import_error javaname '' due to initializer error''
         else if exname = ''java.lang.UnsupportedClassVersionError''
         then import_error javaname '' due to incorrect Java version''
         else if exname = ''java.lang.NoClassDefFoundError''
         then if startswith (case je_message ex of None \<Rightarrow> ''None'' | Some m \<Rightarrow> m) ''Could not initialize class''
              then import_error javaname '' due to an earlier initializer error''
              else let missing = map (\<lambda>c. if c = CHR ''/'' then CHR ''.'' else c) (je_str ex)
                   in import_error javaname ('' due to missing dependency '' @ CHR 0x27 # missing @ [CHR 0x27])
         else import_error javaname [])"

lemma failed_import_kind [simp]: "exn_kind (failed_import n) = ImportError"
  by (simp add: failed_import_def)

lemma diagnose_same: "diagnose E name = failed_import name"
  by (simp add: diagnose_def catches_def Let_def)

lemma first_customizer_quiet:
  "\<forall>c\<in>set cs. canCustomize c name = Inr False \<Longrightarrow> first_customizer name cs = Inr None"
  by (induction cs) auto

lemma first_customizer_kind:
  assumes "\<forall>c\<in>set cs. \<forall>n. canCustomize c n = Inr False \<or> (canCustomize c n = Inr True \<and> (\<exists>x. getSpec c n = Inr x))"
  shows "\<exists>r. first_customizer name cs = Inr r"
  using assms
proof (induction cs)
  case (Cons c cs)
  then have "canCustomize c name = Inr False \<or> (canCustomize c name = Inr True \<and> (\<exists>x. getSpec c name = Inr x))"
    by (meson list.set_intros(1))
  moreover obtain r where "first_customizer name cs = Inr r" using Cons by auto
  ultimately show ?case by (elim disjE conjE exE) simp_all
qed simp

text \<open>C8: As long as the customizers and the attribute lookup do not raise, the import hook
  raises nothing but ImportError: before the JVM is started exactly for the names below a
  registered domain, and afterwards for an alias of a missing package or for a name missing
  from its Java package.\<close>
theorem find_spec_raises:
  assumes "\<forall>c\<in>set cs. \<forall>n. canCustomize c n = Inr False \<or> (canCustomize c n = Inr True \<and> (\<exists>x. getSpec c n = Inr x))"
    and "\<forall>m a. \<exists>b. im_hasattr E m a = Inr b"
  shows "(find_spec E doms cs name = Inl e \<longrightarrow> exn_kind e = ImportError) \<and>
    (\<not> im_started E \<longrightarrow>
       ((\<exists>e. find_spec E doms cs name = Inl e) = (dict_get doms (fst (py_partition name ''.'')) \<noteq> None)) \<and>
       (dict_get doms (fst (py_partition name ''.'')) = None \<longrightarrow> find_spec E doms cs name = Inr None))"
proof (intro conjI impI)
  assume r: "find_spec E doms cs name = Inl e"
  have below: "exn_kind e = ImportError" if b: "find_below E cs n base leaf = Inl e" for n base leaf
  proof -
    obtain r where "first_customizer (unwrap n) cs = Inr r" using first_customizer_kind [OF assms(1)] by blast
    moreover obtain b where "im_hasattr E base leaf = Inr b" using assms(2) by blast
    ultimately show ?thesis using b
      by (cases r; cases b) (auto simp: find_below_def Let_def diagnose_same)
  qed
  show "exn_kind e = ImportError" using r below
    by (auto simp: find_spec_def Let_def split: if_splits option.splits module.splits)
qed (auto simp: find_spec_def Let_def)

definition stopped_env :: "nat import_env" where
  "stopped_env = \<lparr>im_started = False, im_isPackage = \<lambda>_. False, im_modules = \<lambda>_. None,
      im_hasattr = \<lambda>_ _. Inr False, im_forName = \<lambda>_. Inr 1\<rparr>"

theorem find_spec_raises_witness:
  "find_spec stopped_env default_domains [] ''numpy'' = (Inr None :: pyexn + nat spec option)"
proof -
  have h: "\<forall>m a. \<exists>b. im_hasattr stopped_env m a = Inr b"
    by (intro allI exI [of _ False]) (simp add: stopped_env_def)
  have d: "dict_get default_domains (fst (py_partition ''numpy'' ''.'')) = None" "\<not> im_started stopped_env"
    by (simp_all add: default_domains_def registerDomain_def dict_get_def dict_set_def py_partition_def stopped_env_def)
  from find_spec_raises [OF _ h, of "[]" default_domains "''numpy''"] d show ?thesis by auto
qed

text \<open>The hook leaves other imports alone: once the JVM runs, a name that is no alias, whose
  last component is no top-level Java package and whose parent module is not a Java package
  gives no spec, and no customizer is asked.\<close>
theorem find_spec_leaves_python:
  assumes "im_started E" and "dict_get doms name = None"
    and "py_rpartition name (CHR ''.'') = (head, sep, leaf)"
    and "sep = [] \<longrightarrow> \<not> im_isPackage E leaf"
    and "\<forall>m. im_modules E head \<noteq> Some (JavaPackage m)"
  shows "find_spec E doms cs name = Inr None"
  using assms by (auto simp: find_spec_def Let_def split: option.split module.split)

theorem find_spec_leaves_python_witness:
  "find_spec (stopped_env\<lparr>im_started := True, im_modules := \<lambda>_. Some (PyModule 0)\<rparr>) default_domains
     [\<lparr>canCustomize = \<lambda>_. Inl (Exn RuntimeError []), getSpec = \<lambda>_. Inr (0::nat)\<rparr>] ''os.path'' = Inr None"
proof -
  have p: "py_rpartition ''os.path'' (CHR ''.'') = (''os'', ''.'', ''path'')"
    using rpartition_append [of "CHR ''.''" "''path''" "''os''"] by simp
  show ?thesis
    by (rule find_spec_leaves_python [OF _ _ p])
      (simp_all add: stopped_env_def default_domains_def registerDomain_def dict_get_def dict_set_def)
qed

text \<open>A name missing from its Java package always fails with the same ImportError: the
  diagnosis that distinguishes a class that is not public from one that does not exist is
  taken by the clause that follows it, whatever the class loader answers or raises.\<close>
theorem missing_class_diagnosis_lost:
  assumes "im_started E" and "dict_get doms (head @ CHR ''.'' # leaf) = None" and "CHR ''.'' \<notin> set leaf"
    and "im_modules E head = Some (JavaPackage base)" and "im_hasattr E base leaf = Inr False"
    and "\<forall>c\<in>set cs. canCustomize c (unwrap (head @ CHR ''.'' # leaf)) = Inr False"
  shows "find_spec E doms cs (head @ CHR ''.'' # leaf) = Inl (failed_import (unwrap (head @ CHR ''.'' # leaf)))"
  using assms first_customizer_quiet [OF assms(6)]
  by (simp add: find_spec_def find_below_def Let_def diagnose_same)

theorem missing_class_diagnosis_lost_witness:
  "find_spec (stopped_env\<lparr>im_started := True, im_modules := \<lambda>_. Some (JavaPackage 0), im_forName := \<lambda>_. Inr 2\<rparr>)
     default_domains ([] :: nat customizer list) (''java.lang'' @ CHR ''.'' # ''Hidden'') =
   Inl (Exn ImportError (''Failed to import '' @ CHR 0x27 # ''java.lang.Hidden'' @ [CHR 0x27]))"
  using missing_class_diagnosis_lost [where head = "''java.lang''" and leaf = "''Hidden''" and base = 0
      and cs = "[] :: nat customizer list" and doms = default_domains
      and E = "stopped_env\<lparr>im_started := True, im_modules := \<lambda>_. Some (JavaPackage 0), im_forName := \<lambda>_. Inr 2\<rparr>"]
  by (simp add: stopped_env_def default_domains_def registerDomain_def dict_get_def dict_set_def failed_import_def
      unwrap_def)

text \<open>Importing a registered alias of an existing Java package makes that package, with the
  exception handler installed, when the alias is a single name. For a dotted alias the module
  is read as an attribute of the parent module instead, and the aliased package plays no
  part.\<close>
theorem alias_import:
  assumes "im_started E" and "jname \<noteq> []" and "im_isPackage E jname"
    and "create = create_module E package gattr set_handler md"
  shows "find_spec E (registerDomain md (Some jname) doms) cs md = Inr (Some (JSpec md (Some jname))) \<and>
    (spec_parent md = [] \<longrightarrow>
       create (Some jname) = (case package jname of Inl e \<Rightarrow> Inl e | Inr m \<Rightarrow> set_handler m)) \<and>
    (spec_parent md \<noteq> [] \<longrightarrow> create (Some jname) = create (Some other))"
  using assms by (simp add: find_spec_def registerDomain_def create_module_def dict_simps Let_def)

theorem alias_import_witness:
  "find_spec (stopped_env\<lparr>im_started := True, im_isPackage := \<lambda>p. p = ''org.w3c''\<rparr>)
     (registerDomain ''w3'' (Some ''org.w3c'') default_domains) ([] :: nat customizer list) ''w3'' =
   Inr (Some (JSpec ''w3'' (Some ''org.w3c'')))"
  using alias_import [where E = "stopped_env\<lparr>im_started := True, im_isPackage := \<lambda>p. p = ''org.w3c''\<rparr>"
      and jname = "''org.w3c''" and md = "''w3''" and doms = default_domains and cs = "[] :: nat customizer list"
      and package = "\<lambda>_. Inr 0" and gattr = "\<lambda>_ _. Inr 0" and set_handler = Inr, OF _ _ _ refl]
  by (simp add: stopped_env_def)

text \<open>The handler of Java errors raises ImportError for every error, naming the class it was
  asked for; a class whose initializer failed before is told apart from a missing
  dependency by the text of the message, and the slashes of a missing dependency are
  printed as dots.\<close>
theorem handler_import_error:
  "exn_kind (JExceptionHandler pkg name ex) = ImportError \<and>
   prefix (''Unable to import '' @ CHR 0x27 # pkg @ ''.'' @ name @ [CHR 0x27]) (exn_msg (JExceptionHandler pkg name ex)) \<and>
   (je_name ex = ''java.lang.NoClassDefFoundError'' \<longrightarrow>
      exn_msg (JExceptionHandler pkg name ex) = ''Unable to import '' @ CHR 0x27 # (pkg @ ''.'' @ name) @ CHR 0x27 #
        (if \<exists>m. je_message ex = Some m \<and> prefix ''Could not initialize class'' m
         then '' due to an earlier initializer error''
         else '' due to missing dependency '' @ CHR 0x27 #
           map (\<lambda>c. if c = CHR ''/'' then CHR ''.'' else c) (je_str ex) @ [CHR 0x27]))"
  by (auto simp: JExceptionHandler_def import_error_def Let_def startswith_iff split: option.split)

end
