(* ===== verification/Proxies.thy ===== *)
theory Proxies
  imports PyExceptions
begin

text \<open>
  Python classes that implement Java interfaces (\<open>_jproxy.py\<close>), the choice of a Java class
  for a Python value (\<open>_jobject.py\<close>) and the pickling of Java objects (\<open>pickle.py\<close>). Java
  classes, their methods and the serializer are arguments.
\<close>

section \<open>Interfaces\<close>

datatype 'c pitem = PClass 'c | PStr string | PIter "'c pitem list" | POther nat

text \<open>\<open>px_hashable\<close> says which other objects can be put in a set.\<close>

record 'c proxy_env =
  px_lookup :: "string \<Rightarrow> pyexn + 'c"
  px_isInterface :: "'c \<Rightarrow> bool"
  px_methods :: "'c \<Rightarrow> (int \<times> string) list"
  px_hashable :: "'c pitem \<Rightarrow> bool"

definition flatten_items :: "'c pitem list \<Rightarrow> 'c pitem list" where
  "flatten_items intf = concat (map (\<lambda>item. case item of PIter xs \<Rightarrow> xs | _ \<Rightarrow> [item]) intf)"

text \<open>A set is the list of its members in the order they were added.\<close>

fun add_items :: "'c proxy_env \<Rightarrow> 'c pitem list \<Rightarrow> 'c pitem list \<Rightarrow> pyexn + 'c pitem list" where
  "add_items E [] acc = Inr acc"
| "add_items E (item # items) acc =
     (case item of
        PStr s \<Rightarrow> (case px_lookup E s of Inl e \<Rightarrow> Inl e | Inr c \<Rightarrow> add_items E items (List.insert (PClass c) acc))
      | _ \<Rightarrow> if px_hashable E item then add_items E items (List.insert item acc)
             else Inl (Exn TypeError ''unhashable type''))"

definition not_interface :: pyexn where
  "not_interface = Exn TypeError ''is not a Java interface''"

fun check_interfaces :: "'c proxy_env \<Rightarrow> 'c pitem list \<Rightarrow> pyexn + 'c list" where
  "check_interfaces E [] = Inr []"
| "check_interfaces E (item # items) =
     (case item of
        PClass c \<Rightarrow> if px_isInterface E c then map_sum id (\<lambda>cs. c # cs) (check_interfaces E items) else Inl not_interface
      | _ \<Rightarrow> Inl not_interface)"

definition convertInterfaces :: "'c proxy_env \<Rightarrow> 'c pitem list \<Rightarrow> pyexn + 'c list" where
  "convertInterfaces E intf =
     (case add_items E (flatten_items intf) [] of
        Inl e \<Rightarrow> Inl e
      | Inr actual \<Rightarrow>
          if actual = [] then Inl (Exn TypeError ''At least one Java interface must be specified'')
          else check_interfaces E actual)"

section \<open>Overrides\<close>

text \<open>A class dictionary: each member with its \<open>__joverride__\<close> attribute, if it has one.\<close>

type_synonym 'a proxy_members = "(string \<times> 'a option) list"

definition classOverrides :: "'a proxy_members \<Rightarrow> (string, 'a) dict" where
  "classOverrides ms = fold (\<lambda>(k, v) d. case v of None \<Rightarrow> d | Some a \<Rightarrow> dict_set k a d) ms []"

definition is_abstract :: "int \<Rightarrow> bool" where
  "is_abstract modifiers = (modifiers div 1024 mod 2 = 1)"

definition missing_method :: "string \<Rightarrow> pyexn" where
  "missing_method n = Exn NotImplementedError n"

fun check_methods :: "(string, 'a) dict \<Rightarrow> (int \<times> string) list \<Rightarrow> pyexn + unit" where
  "check_methods overrides [] = Inr ()"
| "check_methods overrides ((modifiers, n) # ms) =
     (if \<not> is_abstract modifiers then check_methods overrides ms
      else if dict_get overrides n = None then Inl (missing_method n)
      else check_methods overrides ms)"

fun checkInterfaceOverrides :: "'c proxy_env \<Rightarrow> 'c list \<Rightarrow> (string, 'a) dict \<Rightarrow> pyexn + unit" where
  "checkInterfaceOverrides E [] overrides = Inr ()"
| "checkInterfaceOverrides E (c # cs) overrides =
     (case check_methods overrides (px_methods E c) of
        Inl e \<Rightarrow> Inl e
      | Inr _ \<Rightarrow> checkInterfaceOverrides E cs overrides)"

definition prepareInterfaces :: "'c proxy_env \<Rightarrow> 'a proxy_members \<Rightarrow> 'c pitem list \<Rightarrow> pyexn + 'c list" where
  "prepareInterfaces E ms intf =
     (case convertInterfaces E intf of
        Inl e \<Rightarrow> Inl e
      | Inr actual \<Rightarrow>
          (case checkInterfaceOverrides E actual (classOverrides ms) of Inl e \<Rightarrow> Inl e | Inr _ \<Rightarrow> Inr actual))"

section \<open>Proxy classes\<close>

text \<open>
  The decorated argument: not a class, or a class with its members. The state keeps the
  \<open>__jpype_interfaces__\<close> attribute of each class and the calls of \<open>__init__\<close>; classes are
  numbers and \<open>mro\<close> lists a class and its bases in lookup order.
\<close>

record 'c proxy_state =
  px_interfaces :: "nat \<Rightarrow> 'c list option"
  px_inits :: "nat list"

record 'c proxy =
  py_class :: nat
  py_interfaces :: "'c list"

definition only_types :: pyexn where
  "only_types = Exn TypeError ''JImplements only applies to types''"

fun find_attr :: "(nat \<Rightarrow> 'c list option) \<Rightarrow> nat list \<Rightarrow> 'c list option" where
  "find_attr attr [] = None"
| "find_attr attr (c # cs) = (case attr c of None \<Rightarrow> find_attr attr cs | Some v \<Rightarrow> Some v)"

text \<open>\<open>_createJProxyDeferred\<close> checks only that it decorates a class; its \<open>__new__\<close>: \<close>

definition createJProxyDeferred :: "'a proxy_members option \<Rightarrow> pyexn + 'a proxy_members" where
  "createJProxyDeferred cls = (case cls of None \<Rightarrow> Inl only_types | Some ms \<Rightarrow> Inr ms)"

definition deferred_new ::
  "'c proxy_env \<Rightarrow> 'a proxy_members \<Rightarrow> 'c pitem list \<Rightarrow> (nat \<Rightarrow> nat list) \<Rightarrow> nat \<Rightarrow> ('c proxy_state, pyexn, 'c proxy) pyop" where
  "deferred_new E ms intf mro tp =
     pbind (pget (\<lambda>s. find_attr (px_interfaces s) (mro tp))) (\<lambda>found.
       case found of
         Some actual \<Rightarrow> ret \<lparr>py_class = tp, py_interfaces = actual\<rparr>
       | None \<Rightarrow>
           pbind (plift (prepareInterfaces E ms intf)) (\<lambda>actual.
             pseq (pmod (\<lambda>s. s\<lparr>px_interfaces := (px_interfaces s)(tp := Some actual)\<rparr>))
               (ret \<lparr>py_class = tp, py_interfaces = actual\<rparr>)))"

text \<open>\<open>_createJProxy\<close> prepares at declaration; its \<open>__new__\<close> calls \<open>__init__\<close> itself.\<close>

definition createJProxy :: "'c proxy_env \<Rightarrow> 'a proxy_members option \<Rightarrow> 'c pitem list \<Rightarrow> pyexn + 'c list" where
  "createJProxy E cls intf =
     (case cls of None \<Rightarrow> Inl only_types | Some ms \<Rightarrow> prepareInterfaces E ms intf)"

text \<open>The decorator \<open>JImplements(*interfaces, deferred)\<close> applied to a class: what it fixes at
  once, the interfaces in the immediate form.\<close>

definition JImplements ::
  "'c proxy_env \<Rightarrow> 'c pitem list \<Rightarrow> bool \<Rightarrow> 'a proxy_members option \<Rightarrow> pyexn + 'c list option" where
  "JImplements E intf deferred cls =
     (if deferred then map_sum id (\<lambda>_. None) (createJProxyDeferred cls)
      else map_sum id Some (createJProxy E cls intf))"

definition run_init :: "nat \<Rightarrow> ('c proxy_state, pyexn, unit) pyop" where
  "run_init tp = pmod (\<lambda>s. s\<lparr>px_inits := px_inits s @ [tp]\<rparr>)"

definition immediate_new :: "'c list \<Rightarrow> nat \<Rightarrow> ('c proxy_state, pyexn, 'c proxy) pyop" where
  "immediate_new actual tp = pseq (run_init tp) (ret \<lparr>py_class = tp, py_interfaces = actual\<rparr>)"

text \<open>Calling a class: Python calls \<open>__new__\<close>, then \<open>__init__\<close> on an instance of the class.\<close>

definition call_class :: "nat \<Rightarrow> ('c proxy_state, pyexn, 'c proxy) pyop \<Rightarrow> ('c proxy_state, pyexn, 'c proxy) pyop" where
  "call_class tp new =
     pbind new (\<lambda>self. pseq (if py_class self = tp then run_init tp else ret ()) (ret self))"

section \<open>The older proxy\<close>

datatype ('c, 'd, 'o) jproxy =
    DictProxy "'o option" "(string, 'd) dict" "'c list" bool
  | InstProxy 'o "'c list" bool

definition JProxy_new ::
  "'c proxy_env \<Rightarrow> 'c pitem \<Rightarrow> (string, 'd) dict option \<Rightarrow> 'o option \<Rightarrow> bool \<Rightarrow> pyexn + ('c, 'd, 'o) jproxy" where
  "JProxy_new E intf d inst convert =
     (case convertInterfaces E [intf] of
        Inl e \<Rightarrow> Inl e
      | Inr actual \<Rightarrow>
          (case d of
             Some d \<Rightarrow> Inr (DictProxy inst d actual convert)
           | None \<Rightarrow>
               (case inst of
                  Some i \<Rightarrow> Inr (InstProxy i actual convert)
                | None \<Rightarrow> Inl (Exn TypeError ''a dict or inst must be specified''))))"

text \<open>\<open>JProxy.unwrap\<close>; \<open>javainst\<close> reads the wrapped instance of a proxy.\<close>

definition JProxy_unwrap :: "('o \<Rightarrow> bool) \<Rightarrow> ('o \<Rightarrow> 'o) \<Rightarrow> 'o \<Rightarrow> 'o" where
  "JProxy_unwrap is_proxy javainst obj = (if \<not> is_proxy obj then obj else javainst obj)"

definition JFromDict_getattribute :: "(string, 'd) dict \<Rightarrow> string \<Rightarrow> pyexn + 'd" where
  "JFromDict_getattribute d n =
     (case dict_get d n of Some v \<Rightarrow> Inr v | None \<Rightarrow> Inl (Exn AttributeError ''attribute not found''))"

section \<open>Lemmas\<close>

lemma insert_set: "set (List.insert x xs) = insert x (set xs)"
  by simp



lemma check_interfaces_kind: "check_interfaces E items = Inl e \<Longrightarrow> e = not_interface"
proof (induction items)
  case (Cons i items)
  then show ?case
    by (cases i; cases "check_interfaces E items") (auto split: if_splits)
qed simp








section \<open>Properties\<close>



definition demo_env :: "nat proxy_env" where
  "demo_env = \<lparr>px_lookup = \<lambda>s. if s = ''I'' then Inr 7 else Inl (Exn TypeError s), px_isInterface = \<lambda>c. c = 7,
     px_methods = \<lambda>c. [(1025, ''run''), (1, ''toString'')], px_hashable = \<lambda>_. True\<rparr>"

lemma demo_interfaces: "prepareInterfaces demo_env [(''run'', Some True)] [PStr ''I''] = Inr [7]"
  by (simp add: prepareInterfaces_def convertInterfaces_def flatten_items_def demo_env_def classOverrides_def
      is_abstract_def dict_set_def dict_get_def)


lemma find_attr_own: "mro = tp # bases \<Longrightarrow> attr tp = Some v \<Longrightarrow> find_attr attr mro = Some v"
  by simp

text \<open>C20: A deferred proxy class is validated at most once: the first instance validates and
  remembers the interfaces, a failure leaves nothing behind and is repeated by the next
  attempt, and after a success no instance of the class looks anything up again, whatever
  has changed; the outcome is that of the immediate form on the same classes.\<close>
theorem deferred_validates_once:
  assumes "mro tp = tp # bases" and "find_attr (px_interfaces s) (mro tp) = None"
  shows "(case prepareInterfaces E ms intf of
      Inl e \<Rightarrow> deferred_new E ms intf mro tp s = (Inl e, s)
    | Inr actual \<Rightarrow> (\<exists>s1. deferred_new E ms intf mro tp s = (Inr \<lparr>py_class = tp, py_interfaces = actual\<rparr>, s1) \<and>
        deferred_new E' ms' intf' mro tp s1 = (Inr \<lparr>py_class = tp, py_interfaces = actual\<rparr>, s1))) \<and>
    JImplements E intf False (Some ms) = map_sum id Some (prepareInterfaces E ms intf) \<and>
    JImplements E intf True (Some ms) = Inr None"
  using assms
  by (auto simp: deferred_new_def JImplements_def createJProxy_def createJProxyDeferred_def pyrun split: sum.split)

theorem deferred_validates_once_witness:
  "\<exists>s1. deferred_new demo_env [(''run'', Some True)] [PStr ''I''] (\<lambda>tp. [tp]) 3
     \<lparr>px_interfaces = \<lambda>_. None, px_inits = []\<rparr> = (Inr \<lparr>py_class = 3, py_interfaces = [7]\<rparr>, s1)"
proof -
  show ?thesis
    using deferred_validates_once [where mro = "\<lambda>tp. [tp]" and tp = 3 and bases = "[]" and E = demo_env
        and s = "\<lparr>px_interfaces = \<lambda>_. None, px_inits = []\<rparr>" and ms = "[(''run'', Some True)]" and intf = "[PStr ''I'']"]
    unfolding demo_interfaces sum.case by (metis find_attr.simps proxy_state.select_convs(1) option.simps(4))
qed

text \<open>Making an instance of an immediate proxy class runs its initializer twice, once from
  the class's \<open>__new__\<close> and once from Python; an instance of a deferred class runs it once.\<close>
theorem immediate_init_twice:
  "call_class tp (immediate_new actual tp) s =
     (Inr \<lparr>py_class = tp, py_interfaces = actual\<rparr>, s\<lparr>px_inits := px_inits s @ [tp, tp]\<rparr>) \<and>
   (\<forall>p s1. deferred_new E ms intf mro tp s = (Inr p, s1) \<longrightarrow>
      (\<exists>s2. call_class tp (deferred_new E ms intf mro tp) s = (Inr p, s2) \<and> px_inits s2 = px_inits s @ [tp]))"
proof (intro conjI allI impI)
  show "call_class tp (immediate_new actual tp) s =
     (Inr \<lparr>py_class = tp, py_interfaces = actual\<rparr>, s\<lparr>px_inits := px_inits s @ [tp, tp]\<rparr>)"
    by (simp add: call_class_def immediate_new_def run_init_def pyrun)
next
  fix p s1 assume d: "deferred_new E ms intf mro tp s = (Inr p, s1)"
  then have "py_class p = tp" "px_inits s1 = px_inits s"
    by (auto simp: deferred_new_def pyrun split: option.splits sum.splits)
  with d show "\<exists>s2. call_class tp (deferred_new E ms intf mro tp) s = (Inr p, s2) \<and> px_inits s2 = px_inits s @ [tp]"
    by (simp add: call_class_def run_init_def pyrun)
qed

theorem immediate_init_twice_witness:
  "snd (call_class 3 (immediate_new [7::nat] 3) \<lparr>px_interfaces = \<lambda>_. None, px_inits = []\<rparr>) =
     \<lparr>px_interfaces = \<lambda>_. None, px_inits = [3, 3]\<rparr>"
  using immediate_init_twice [of 3 "[7::nat]" "\<lparr>px_interfaces = \<lambda>_. None, px_inits = []\<rparr>", THEN conjunct1]
  by simp

end
