(* ===== verification/Conversions.thy ===== *)
theory Conversions
  imports Containers
begin

text \<open>
  From Python values to Java objects and back: the class chosen for a value
  (\<open>_jobject.py\<close>), dates and times (\<open>protocol.py\<close>, the factories and converters of
  \<open>dbapi2.py\<close>), and pickling (\<open>pickle.py\<close>). Java classes, the Java date types and the
  serializer are arguments.
\<close>

section \<open>The Java class of a value\<close>

text \<open>
  Types are Python types, class wrappers among them. \<open>ob_is_class\<close> and \<open>ob_is_JClass\<close> are the
  instance tests for \<open>_jpype._JClass\<close> and \<open>_jpype.JClass\<close>.
\<close>

record ('o, 't) object_env =
  ob_type :: "'o \<Rightarrow> 't"
  ob_table :: "'t \<Rightarrow> 't option"
  ob_is_class :: "'t \<Rightarrow> bool"
  ob_is_JClass :: "'t \<Rightarrow> bool"
  ob_javaclass :: "'o \<Rightarrow> 't option"
  ob_lookup :: "string \<Rightarrow> pyexn + 't"
  ob_cast :: "'t \<Rightarrow> 'o \<Rightarrow> pyexn + 'o"
  ob_new :: "pyexn + 'o"

definition no_default_type :: pyexn where
  "no_default_type = Exn TypeError ''Unable to determine the default type''"

definition getDefaultJavaObject :: "('o, 't) object_env \<Rightarrow> 'o \<Rightarrow> pyexn + 't" where
  "getDefaultJavaObject E obj =
     (let tp = ob_type E obj
      in case ob_table E tp of
           Some c \<Rightarrow> Inr c
         | None \<Rightarrow>
             if ob_is_class E tp then Inr tp
             else (case ob_javaclass E obj of Some c \<Rightarrow> Inr c | None \<Rightarrow> Inl no_default_type))"

datatype 't type_arg = NoType | TypeName string | TypeOf 't

text \<open>The result, and whether the deprecation warning was issued.\<close>

definition JObjectFactory :: "('o, 't) object_env \<Rightarrow> 'o \<Rightarrow> 't type_arg \<Rightarrow> (pyexn + 'o) \<times> bool" where
  "JObjectFactory E v tp =
     (case (case tp of
              NoType \<Rightarrow> getDefaultJavaObject E v
            | TypeName s \<Rightarrow> ob_lookup E s
            | TypeOf t \<Rightarrow> Inr t) of
        Inl e \<Rightarrow> (Inl e, False)
      | Inr tp \<Rightarrow>
          let warned = (ob_table E tp \<noteq> None \<and> \<not> ob_is_JClass E tp);
              tp = (case ob_table E tp of Some c \<Rightarrow> c | None \<Rightarrow> tp)
          in if ob_is_class E tp then (ob_cast E tp v, warned)
             else (Inl (Exn TypeError ''Invalid type conversion requested''), warned))"

text \<open>\<open>JObject(*args)\<close>: without arguments a plain object.\<close>

definition JObject_new :: "('o, 't) object_env \<Rightarrow> ('o \<times> 't type_arg) option \<Rightarrow> (pyexn + 'o) \<times> bool" where
  "JObject_new E args = (case args of None \<Rightarrow> (ob_new E, False) | Some (v, tp) \<Rightarrow> JObjectFactory E v tp)"

text \<open>JObject(v) casts v to the entry of its type in the table of object classes, else to its
  own type when that is a Java class, else to the Java class it is a proxy for, and raises
  TypeError when there is none of these; no warning is issued. This rests on the table
  mapping to Java classes that are not keys of it.\<close>
theorem default_object_class:
  assumes "\<And>t c. ob_table E t = Some c \<Longrightarrow> ob_table E c = None \<and> ob_is_class E c"
    and "\<And>c. ob_javaclass E v = Some c \<Longrightarrow> ob_table E c = None \<and> ob_is_class E c"
  shows "JObject_new E (Some (v, NoType)) =
    (if ob_table E (ob_type E v) \<noteq> None then (ob_cast E (the (ob_table E (ob_type E v))) v, False)
     else if ob_is_class E (ob_type E v) then (ob_cast E (ob_type E v) v, False)
     else if ob_javaclass E v \<noteq> None then (ob_cast E (the (ob_javaclass E v)) v, False)
     else (Inl no_default_type, False))"
proof (cases "ob_table E (ob_type E v)")
  case (Some c)
  with assms(1) [OF Some] show ?thesis
    by (simp add: JObject_new_def JObjectFactory_def getDefaultJavaObject_def Let_def)
next
  case None
  show ?thesis
  proof (cases "ob_javaclass E v")
    case no: None
    with None show ?thesis by (simp add: JObject_new_def JObjectFactory_def getDefaultJavaObject_def Let_def)
  next
    case (Some c)
    with None assms(2) [OF Some] show ?thesis
      by (simp add: JObject_new_def JObjectFactory_def getDefaultJavaObject_def Let_def)
  qed
qed

text \<open>Types as numbers: 0 is int, 1 is java.lang.Long, 2 a type without a Java class.\<close>

definition demo_objects :: "(nat, nat) object_env" where
  "demo_objects = \<lparr>ob_type = \<lambda>v. v mod 10, ob_table = \<lambda>t. if t = 0 then Some 1 else None, ob_is_class = \<lambda>t. t = 1,
     ob_is_JClass = \<lambda>t. t = 1, ob_javaclass = \<lambda>_. None, ob_lookup = \<lambda>s. Inl (Exn TypeError s),
     ob_cast = \<lambda>t v. Inr (10 * t + v), ob_new = Inr 3\<rparr>"

theorem default_object_class_witness:
  "JObject_new demo_objects (Some (30, NoType)) = (Inr 40, False) \<and>
   JObject_new demo_objects (Some (32, NoType)) = (Inl no_default_type, False)"
proof -
  have h: "ob_table demo_objects c = None \<and> ob_is_class demo_objects c" if "ob_table demo_objects t = Some c" for t c
    using that by (simp add: demo_objects_def split: if_splits)
  have j: "ob_table demo_objects c = None \<and> ob_is_class demo_objects c" if "ob_javaclass demo_objects v = Some c" for v c
    using that by (simp add: demo_objects_def)
  show ?thesis
    using default_object_class [of demo_objects 30, OF h j] default_object_class [of demo_objects 32, OF h j]
    by (simp add: demo_objects_def)
qed

section \<open>Dictionaries\<close>





section \<open>Dates and times\<close>

record pydate = d_year :: int  d_month :: int  d_day :: int
record pytime = t_hour :: int  t_minute :: int  t_second :: int  t_micro :: int
record pydatetime = pydate +
  dt_hour :: int  dt_minute :: int  dt_second :: int  dt_micro :: int

text \<open>The deprecated constructors and getters of \<open>java.sql\<close>: years count from 1900, months
  from 0.\<close>

record ('d, 't, 'ts) sql_types =
  sql_Date :: "int \<Rightarrow> int \<Rightarrow> int \<Rightarrow> 'd"
  date_fields :: "'d \<Rightarrow> int \<times> int \<times> int"
  sql_Time :: "int \<Rightarrow> int \<Rightarrow> int \<Rightarrow> 't"
  time_fields :: "'t \<Rightarrow> int \<times> int \<times> int"
  sql_Timestamp :: "int \<Rightarrow> int \<Rightarrow> int \<Rightarrow> int \<Rightarrow> int \<Rightarrow> int \<Rightarrow> int \<Rightarrow> 'ts"
  stamp_fields :: "'ts \<Rightarrow> int \<times> int \<times> int \<times> int \<times> int \<times> int \<times> int"




definition JSQLDate_py :: "('d, 't, 'ts) sql_types \<Rightarrow> 'd \<Rightarrow> pydate" where
  "JSQLDate_py S d = (let (y, m, a) = date_fields S d in \<lparr>d_year = y + 1900, d_month = m + 1, d_day = a\<rparr>)"

definition JSQLTime_py :: "('d, 't, 'ts) sql_types \<Rightarrow> 't \<Rightarrow> pytime" where
  "JSQLTime_py S t = (let (h, m, s) = time_fields S t in \<lparr>t_hour = h, t_minute = m, t_second = s, t_micro = 0\<rparr>)"

definition JDate_py :: "('d, 't, 'ts) sql_types \<Rightarrow> 'ts \<Rightarrow> pydatetime" where
  "JDate_py S ts = (let (y, m, a, h, mi, s, n) = stamp_fields S ts
     in \<lparr>d_year = y + 1900, d_month = m + 1, d_day = a, dt_hour = h, dt_minute = mi, dt_second = s, dt_micro = n div 1000\<rparr>)"

text \<open>The factories of \<open>dbapi2\<close>; \<open>localtime\<close> gives the nine fields of the local time.\<close>

definition Date :: "('d, 't, 'ts) sql_types \<Rightarrow> int \<Rightarrow> int \<Rightarrow> int \<Rightarrow> 'd" where
  "Date S year month day = sql_Date S (year - 1900) (month - 1) day"

definition Time :: "('d, 't, 'ts) sql_types \<Rightarrow> int \<Rightarrow> int \<Rightarrow> int \<Rightarrow> 't" where
  "Time S hour minute second = sql_Time S hour minute second"

definition Timestamp ::
  "('d, 't, 'ts) sql_types \<Rightarrow> int \<Rightarrow> int \<Rightarrow> int \<Rightarrow> int \<Rightarrow> int \<Rightarrow> int \<Rightarrow> int \<Rightarrow> 'ts" where
  "Timestamp S year month day hour minute second nano =
     sql_Timestamp S (year - 1900) (month - 1) day hour minute second nano"

definition DateFromTicks :: "('d, 't, 'ts) sql_types \<Rightarrow> ('n \<Rightarrow> int list) \<Rightarrow> 'n \<Rightarrow> 'd" where
  "DateFromTicks S localtime ticks = (let f = take 3 (localtime ticks) in Date S (f ! 0) (f ! 1) (f ! 2))"

definition TimeFromTicks :: "('d, 't, 'ts) sql_types \<Rightarrow> ('n \<Rightarrow> int list) \<Rightarrow> 'n \<Rightarrow> 't" where
  "TimeFromTicks S localtime ticks = (let f = take 3 (drop 3 (localtime ticks)) in Time S (f ! 0) (f ! 1) (f ! 2))"

definition TimestampFromTicks :: "('d, 't, 'ts) sql_types \<Rightarrow> ('n \<Rightarrow> int list) \<Rightarrow> 'n \<Rightarrow> 'ts" where
  "TimestampFromTicks S localtime ticks =
     (let f = take 6 (localtime ticks) in Timestamp S (f ! 0) (f ! 1) (f ! 2) (f ! 3) (f ! 4) (f ! 5) 0)"

text \<open>The values with an offset; a timezone is its offset in seconds.\<close>

record offset_time = ot_hour :: int  ot_minute :: int  ot_second :: int  ot_nano :: int  ot_offset :: int
record offset_datetime = offset_time + od_year :: int  od_month :: int  od_day :: int

definition offsetTimeToPy :: "offset_time \<Rightarrow> pytime \<times> int" where
  "offsetTimeToPy v =
     (\<lparr>t_hour = ot_hour v, t_minute = ot_minute v, t_second = ot_second v, t_micro = ot_nano v div 1000\<rparr>, ot_offset v)"

definition offsetDateTimeToPy :: "offset_datetime \<Rightarrow> pydatetime \<times> int" where
  "offsetDateTimeToPy v =
     (\<lparr>d_year = od_year v, d_month = od_month v, d_day = od_day v, dt_hour = ot_hour v, dt_minute = ot_minute v,
        dt_second = ot_second v, dt_micro = ot_nano v div 1000\<rparr>, ot_offset v)"

text \<open>A Java type that keeps the fields it is made from, where the local time exists.\<close>

locale sql_fields =
  fixes S :: "('d, 't, 'ts) sql_types"
    and exists_date :: "int \<Rightarrow> int \<Rightarrow> int \<Rightarrow> bool"
    and exists_stamp :: "int \<Rightarrow> int \<Rightarrow> int \<Rightarrow> int \<Rightarrow> int \<Rightarrow> int \<Rightarrow> bool"
  assumes date: "exists_date y m d \<Longrightarrow> date_fields S (sql_Date S y m d) = (y, m, d)"
    and time: "0 \<le> h \<Longrightarrow> h < 24 \<Longrightarrow> 0 \<le> mi \<Longrightarrow> mi < 60 \<Longrightarrow> 0 \<le> s \<Longrightarrow> s < 60 \<Longrightarrow>
          time_fields S (sql_Time S h mi s) = (h, mi, s)"
    and stamp: "exists_stamp y m d h mi s \<Longrightarrow> 0 \<le> n \<Longrightarrow> n < 10 ^ 9 \<Longrightarrow>
          stamp_fields S (sql_Timestamp S y m d h mi s n) = (y, m, d, h, mi, s, n)"
begin

lemma date_back: "exists_date (y - 1900) (m - 1) d \<Longrightarrow> JSQLDate_py S (Date S y m d) = \<lparr>d_year = y, d_month = m, d_day = d\<rparr>"
  by (simp add: JSQLDate_py_def Date_def date)

lemma time_back:
  "0 \<le> h \<Longrightarrow> h < 24 \<Longrightarrow> 0 \<le> mi \<Longrightarrow> mi < 60 \<Longrightarrow> 0 \<le> s \<Longrightarrow> s < 60 \<Longrightarrow>
     JSQLTime_py S (Time S h mi s) = \<lparr>t_hour = h, t_minute = mi, t_second = s, t_micro = 0\<rparr>"
  by (simp add: JSQLTime_py_def Time_def time)

lemma stamp_back:
  "exists_stamp (y - 1900) (m - 1) d h mi s \<Longrightarrow> 0 \<le> n \<Longrightarrow> n < 10 ^ 9 \<Longrightarrow>
     JDate_py S (Timestamp S y m d h mi s n) =
       \<lparr>d_year = y, d_month = m, d_day = d, dt_hour = h, dt_minute = mi, dt_second = s, dt_micro = n div 1000\<rparr>"
  by (simp add: JDate_py_def Timestamp_def stamp)

end

text \<open>The concrete instance keeps the fields as tuples.\<close>

definition tuple_types :: "(int \<times> int \<times> int, int \<times> int \<times> int, int \<times> int \<times> int \<times> int \<times> int \<times> int \<times> int) sql_types" where
  "tuple_types = \<lparr>sql_Date = \<lambda>y m d. (y, m, d), date_fields = id, sql_Time = \<lambda>h m s. (h, m, s), time_fields = id,
     sql_Timestamp = \<lambda>y m d h mi s n. (y, m, d, h, mi, s, n), stamp_fields = id\<rparr>"

interpretation tup: sql_fields tuple_types "\<lambda>_ _ _. True" "\<lambda>_ _ _ _ _ _. True"
  by unfold_locales (simp_all add: tuple_types_def)



text \<open>The factories that take ticks make the local date, time of day and timestamp of that
  moment, to the second.\<close>
theorem ticks_local_time:
  assumes "sql_fields S exists_date exists_stamp" and "localtime k = [y, m, d, h, mi, s] @ rest"
    and "exists_date (y - 1900) (m - 1) d" and "exists_stamp (y - 1900) (m - 1) d h mi s"
    and "0 \<le> h" "h < 24" "0 \<le> mi" "mi < 60" "0 \<le> s" "s < 60"
  shows "JSQLDate_py S (DateFromTicks S localtime k) = \<lparr>d_year = y, d_month = m, d_day = d\<rparr> \<and>
    JSQLTime_py S (TimeFromTicks S localtime k) = \<lparr>t_hour = h, t_minute = mi, t_second = s, t_micro = 0\<rparr> \<and>
    JDate_py S (TimestampFromTicks S localtime k) =
      \<lparr>d_year = y, d_month = m, d_day = d, dt_hour = h, dt_minute = mi, dt_second = s, dt_micro = 0\<rparr>"
  using sql_fields.date_back [OF assms(1,3)] sql_fields.time_back [OF assms(1,5-10)]
    sql_fields.stamp_back [OF assms(1,4), of 0] assms(2)
  by (simp add: DateFromTicks_def TimeFromTicks_def TimestampFromTicks_def Let_def)

theorem ticks_local_time_witness:
  "JSQLDate_py tuple_types (DateFromTicks tuple_types (\<lambda>k. [1970, 1, 1 + k, 0, 0, 0, 3, 1, 0]) 1) =
     \<lparr>d_year = 1970, d_month = 1, d_day = 2\<rparr>"
  using ticks_local_time [OF tup.sql_fields_axioms, of "\<lambda>k. [1970, 1, 1 + k, 0, 0, 0, 3, 1, 0]" 1 1970 1 2 0 0 0 "[3, 1, 0]"]
  by simp

text \<open>The microseconds read from a nanosecond field are in Python's range and less than one
  microsecond below the exact value.\<close>
theorem nano_truncation:
  assumes "0 \<le> ot_nano v" and "ot_nano v < 10 ^ 9"
  shows "0 \<le> t_micro (fst (offsetTimeToPy v)) \<and> t_micro (fst (offsetTimeToPy v)) < 10 ^ 6 \<and>
    ot_nano v - t_micro (fst (offsetTimeToPy v)) * 1000 \<in> {0..<1000}"
  using assms by (auto simp: offsetTimeToPy_def)

theorem nano_truncation_witness:
  "t_micro (fst (offsetTimeToPy \<lparr>ot_hour = 1, ot_minute = 2, ot_second = 3, ot_nano = 999999999, ot_offset = 0\<rparr>)) < 10 ^ 6"
  using nano_truncation [of "\<lparr>ot_hour = 1, ot_minute = 2, ot_second = 3, ot_nano = 999999999, ot_offset = 0\<rparr>"] by simp

section \<open>Pickling\<close>

text \<open>
  The dispatch of the pickler: a Java class or object type goes to \<open>reduce\<close>, anything else to
  Python's table. What is written for a Java object is the global of the stub class and the
  packed bytes; \<open>pack\<close> and \<open>unpack\<close> are the Java serializer.
\<close>

datatype ('r, 't) reducer = JavaReduce | PyReduce 'r

definition dispatch_get :: "('t \<Rightarrow> bool) \<Rightarrow> ('t \<Rightarrow> 'r option) \<Rightarrow> 't \<Rightarrow> ('r, 't) reducer option" where
  "dispatch_get is_java table cls = (if \<not> is_java cls then map_option PyReduce (table cls) else Some JavaReduce)"

definition dispatch_getitem :: "('t \<Rightarrow> bool) \<Rightarrow> ('t \<Rightarrow> 'r option) \<Rightarrow> 't \<Rightarrow> pyexn + ('r, 't) reducer" where
  "dispatch_getitem is_java table cls =
     (if \<not> is_java cls
      then (case table cls of None \<Rightarrow> Inl (Exn KeyError []) | Some r \<Rightarrow> Inr (PyReduce r))
      else Inr JavaReduce)"

record 'b java_pickle =
  pk_module :: string
  pk_class :: string
  pk_args :: "'b list"

definition reduce :: "('o \<Rightarrow> pyexn + 'b) \<Rightarrow> 'o \<Rightarrow> pyexn + 'b java_pickle" where
  "reduce pack obj =
     map_sum id (\<lambda>byte. \<lparr>pk_module = ''jpype.pickle'', pk_class = ''JUnserializer'', pk_args = [byte]\<rparr>) (pack obj)"

text \<open>A class found while unpickling: the real unserializer, the stub, or another class.\<close>

datatype 'x found = Decoder | Stub | OtherClass 'x

definition JUnpickler_find_class :: "(string \<Rightarrow> string \<Rightarrow> pyexn + 'x found) \<Rightarrow> string \<Rightarrow> string \<Rightarrow> pyexn + 'x found" where
  "JUnpickler_find_class default_find md cls =
     (if cls = ''JUnserializer'' then Inr Decoder else default_find md cls)"

definition JUnserializer_call :: "pyexn + 'o" where
  "JUnserializer_call = Inl (Exn UnpicklingError ''Unpickling Java requires JUnpickler'')"

definition decoder_call :: "('b \<Rightarrow> pyexn + 'o) \<Rightarrow> 'b list \<Rightarrow> pyexn + 'o" where
  "decoder_call unpack args = (case args of [] \<Rightarrow> Inl (Exn IndexError []) | b # _ \<Rightarrow> unpack b)"

text \<open>Loading what \<open>reduce\<close> wrote: the class is found by name and its instance called.\<close>

definition load_java ::
  "(string \<Rightarrow> string \<Rightarrow> pyexn + 'x found) \<Rightarrow> ('b \<Rightarrow> pyexn + 'o) \<Rightarrow> ('x \<Rightarrow> 'b list \<Rightarrow> pyexn + 'o) \<Rightarrow>
     'b java_pickle \<Rightarrow> pyexn + 'o" where
  "load_java finder unpack call p =
     (case finder (pk_module p) (pk_class p) of
        Inl e \<Rightarrow> Inl e
      | Inr Decoder \<Rightarrow> decoder_call unpack (pk_args p)
      | Inr Stub \<Rightarrow> JUnserializer_call
      | Inr (OtherClass x) \<Rightarrow> call x (pk_args p))"

text \<open>A Java object that the serializer packs and unpacks comes back from JUnpickler, and
  Python's own unpickler, which finds the stub, raises UnpicklingError instead; the pickler
  takes the Java route for exactly the Java types. The name alone selects the decoder: a
  class of that name in any other module is never found.\<close>
theorem pickle_roundtrip:
  assumes "pack obj = Inr b" and "unpack b = Inr obj"
    and "default_find ''jpype.pickle'' ''JUnserializer'' = Inr Stub"
  shows "(\<exists>p. reduce pack obj = Inr p \<and>
      load_java (JUnpickler_find_class default_find) unpack call p = Inr obj \<and>
      load_java default_find unpack call p = Inl (Exn UnpicklingError ''Unpickling Java requires JUnpickler'')) \<and>
    (dispatch_getitem is_java table cls = Inr JavaReduce) = is_java cls \<and>
    (dispatch_get is_java table cls = Some JavaReduce) = is_java cls \<and>
    JUnpickler_find_class default_find md ''JUnserializer'' = Inr Decoder"
  using assms
  by (auto simp: reduce_def load_java_def JUnpickler_find_class_def JUnserializer_call_def decoder_call_def
      dispatch_getitem_def dispatch_get_def split: option.splits)

theorem pickle_roundtrip_witness:
  "JUnpickler_find_class (\<lambda>m c. Inr Stub) ''mine'' ''JUnserializer'' = (Inr Decoder :: pyexn + nat found) \<and>
   (\<exists>p. reduce (\<lambda>n::nat. Inr (Suc n)) 5 = Inr p \<and>
      load_java (JUnpickler_find_class (\<lambda>m c. Inr (Stub :: nat found))) (\<lambda>b. Inr (b - 1)) (\<lambda>_ _. Inr 0) p = Inr 5)"
  using pickle_roundtrip [where pack = "\<lambda>n::nat. Inr (Suc n)" and obj = 5 and b = 6 and unpack = "\<lambda>b. Inr (b - 1)"
      and default_find = "\<lambda>m c. Inr (Stub :: nat found)" and call = "\<lambda>_ _. Inr 0" and md = "''mine''"
      and is_java = "\<lambda>n::nat. n = 0" and table = "\<lambda>n. Some n" and cls = 1]
  by auto

section \<open>Binary values\<close>

text \<open>\<open>Binary\<close> of \<open>dbapi2\<close> makes a byte array of the data.\<close>

definition Binary :: "('t \<Rightarrow> pyexn + 'c) \<Rightarrow> 't \<Rightarrow> ('c \<Rightarrow> 'b \<Rightarrow> pyexn + 'a) \<Rightarrow> 'b \<Rightarrow> pyexn + 'a" where
  "Binary JArray JByte construct data = (case JArray JByte of Inl e \<Rightarrow> Inl e | Inr c \<Rightarrow> construct c data)"

end
