(* ===== verification/Instants.thy ===== *)
theory Instants
  imports Conversions "HOL-Library.Log_Nat" Complex_Main
begin

text \<open>
  The conversion of a Python datetime to a Java Instant (\<open>_JInstantConversion\<close> of
  \<open>protocol.py\<close>), which goes through a float number of seconds. Floats are the rationals
  they stand for: \<open>to_double\<close> rounds to 53 significant bits, ties to even, and is what each
  operation on floats applies to its exact result. The numbers here are far from the
  underflow and overflow of the format.
\<close>

section \<open>Rounding\<close>

definition round_half_even :: "rat \<Rightarrow> int" where
  "round_half_even x =
     (let f = \<lfloor>x\<rfloor>; d = x - of_int f
      in if d < 1 / 2 then f else if d > 1 / 2 then f + 1 else if even f then f else f + 1)"

text \<open>The exponent: \<open>2 powi e \<le> \<bar>x\<bar> < 2 powi (e + 1)\<close> for a number that is not zero.\<close>

definition binexp :: "rat \<Rightarrow> int" where
  "binexp x =
     (let (a, b) = quotient_of \<bar>x\<bar>; e = bitlen a - bitlen b
      in if 2 powi e \<le> \<bar>x\<bar> then e else e - 1)"

definition to_double :: "rat \<Rightarrow> rat" where
  "to_double x =
     (if x = 0 then 0
      else let u = 2 powi (binexp x - 52) in of_int (round_half_even (x / u)) * u)"

text \<open>\<open>int\<close> of a float.\<close>

definition float_to_int :: "rat \<Rightarrow> int" where
  "float_to_int x = (if x < 0 then \<lceil>x\<rceil> else \<lfloor>x\<rfloor>)"

lemma round_half_even_near: "\<bar>of_int (round_half_even x) - x\<bar> \<le> 1 / 2"
proof -
  have "of_int \<lfloor>x\<rfloor> \<le> x" "x < of_int \<lfloor>x\<rfloor> + 1" by linarith+
  then show ?thesis by (auto simp: round_half_even_def Let_def abs_le_iff)
qed

lemma round_half_even_int [simp]: "round_half_even (of_int n) = n"
  by (simp add: round_half_even_def)

lemma float_to_int_near: "\<bar>of_int (float_to_int x) - x\<bar> < 1"
  unfolding float_to_int_def by (cases "x < 0") (auto simp: abs_less_iff; linarith)+

lemma bitlen_range:
  assumes "0 < a"
  shows "2 powi (bitlen a - 1) \<le> (of_int a :: rat)" and "(of_int a :: rat) < 2 powi bitlen a"
proof -
  have p: "0 < bitlen a" using bitlen_bounds [OF assms] assms by (cases "0 < bitlen a") simp_all
  have b: "2 ^ nat (bitlen a - 1) \<le> a" "a < 2 ^ nat (bitlen a)" using bitlen_bounds [OF assms] by simp_all
  have "2 powi (bitlen a - 1) = (of_int (2 ^ nat (bitlen a - 1)) :: rat)"
    using p by (simp add: power_int_def)
  then show "2 powi (bitlen a - 1) \<le> (of_int a :: rat)" using b(1) by (metis of_int_le_iff)
  have "2 powi bitlen a = (of_int (2 ^ nat (bitlen a)) :: rat)" using p by (simp add: power_int_def)
  then show "(of_int a :: rat) < 2 powi bitlen a" using b(2) by (metis of_int_less_iff)
qed

lemma binexp_range:
  assumes "x \<noteq> 0"
  shows "2 powi binexp x \<le> \<bar>x\<bar>" and "\<bar>x\<bar> < 2 powi (binexp x + 1)"
proof -
  obtain a b where q: "quotient_of \<bar>x\<bar> = (a, b)" by fastforce
  have b: "0 < b" using quotient_of_denom_pos [OF q] .
  have x: "\<bar>x\<bar> = of_int a / of_int b" using quotient_of_div [OF q] .
  have "0 < (of_int a / of_int b :: rat)" using assms x by (metis zero_less_abs_iff)
  then have a: "0 < a" using b by (simp add: zero_less_divide_iff)
  let ?e = "bitlen a - bitlen b"
  have up: "\<bar>x\<bar> < 2 powi (?e + 1)"
  proof -
    have "of_int a < 2 powi (?e + 1) * (2 powi (bitlen b - 1) :: rat)"
      using bitlen_range(2) [OF a] by (simp flip: power_int_add)
    also have "\<dots> \<le> 2 powi (?e + 1) * of_int b"
      using bitlen_range(1) [OF b] by (intro mult_left_mono) simp_all
    finally show ?thesis using b by (simp add: x pos_divide_less_eq)
  qed
  have low: "2 powi (?e - 1) \<le> \<bar>x\<bar>"
  proof -
    have "2 powi (?e - 1) * of_int b \<le> 2 powi (?e - 1) * (2 powi bitlen b :: rat)"
      using bitlen_range(2) [OF b] by (intro mult_left_mono) simp_all
    also have "\<dots> = 2 powi (bitlen a - 1)" by (simp flip: power_int_add)
    also have "\<dots> \<le> of_int a" by (rule bitlen_range(1) [OF a])
    finally show ?thesis using b by (simp add: x pos_le_divide_eq)
  qed
  show "2 powi binexp x \<le> \<bar>x\<bar>" "\<bar>x\<bar> < 2 powi (binexp x + 1)"
    using up low by (auto simp: binexp_def q Let_def)
qed

lemma powi_less_iff: "2 powi a < (2 powi b :: rat) \<longleftrightarrow> a < b"
  by (metis power_int_strict_increasing power_int_increasing not_le one_less_numeral_iff semiring_norm(76) order.strict_implies_order)

lemma binexp_unique:
  assumes "2 powi e \<le> \<bar>x\<bar>" and "\<bar>x\<bar> < 2 powi (e + 1)"
  shows "binexp x = e"
proof -
  have "x \<noteq> 0" using assms(1) zero_less_power_int [of "2::rat" e] by linarith
  from binexp_range [OF this] assms have "2 powi e < (2 powi (binexp x + 1) :: rat)" "2 powi binexp x < (2 powi (e + 1) :: rat)"
    by linarith+
  then show ?thesis by (simp add: powi_less_iff)
qed

lemma binexp_bound: "x \<noteq> 0 \<Longrightarrow> \<bar>x\<bar> < 2 powi k \<Longrightarrow> binexp x < k"
  using binexp_range(1) [of x] powi_less_iff [of "binexp x" k] by linarith

text \<open>The error is at most half a unit of the last place.\<close>

lemma to_double_near:
  assumes "\<bar>x\<bar> < 2 powi k"
  shows "\<bar>to_double x - x\<bar> \<le> 2 powi (k - 54)"
proof (cases "x = 0")
  case False
  let ?u = "2 powi (binexp x - 52) :: rat"
  have u: "0 < ?u" by simp
  let ?r = "of_int (round_half_even (x / ?u)) :: rat"
  have x: "x = x / ?u * ?u" using u by simp
  have "to_double x - x = (?r - x / ?u) * ?u"
    using False x by (simp add: to_double_def Let_def left_diff_distrib)
  then have "\<bar>to_double x - x\<bar> = \<bar>?r - x / ?u\<bar> * ?u" using u by (simp only: abs_mult abs_of_pos)
  also have "\<dots> \<le> 1 / 2 * ?u"
    using round_half_even_near [of "x / ?u"] u by (intro mult_right_mono) simp_all
  also have "\<dots> = 2 powi (binexp x - 53)"
    using power_int_add [of "2::rat" "binexp x - 53" 1] by simp
  also have "\<dots> \<le> 2 powi (k - 54)"
    using binexp_bound [OF False assms] by (intro power_int_increasing) simp_all
  finally show ?thesis .
qed (simp add: to_double_def)

text \<open>A number with at most 53 significant bits is a float.\<close>

lemma to_double_exact:
  assumes "2 powi e \<le> \<bar>x\<bar>" and "\<bar>x\<bar> < 2 powi (e + 1)" and "x = of_int n * 2 powi (e - 52)"
  shows "to_double x = x"
proof -
  have "x \<noteq> 0" using assms(1) zero_less_power_int [of "2::rat" e] by linarith
  then show ?thesis
    using binexp_unique [OF assms(1,2)] assms(3) by (simp add: to_double_def Let_def)
qed

lemma to_double_int:
  assumes "\<bar>n\<bar> < 2 ^ 53"
  shows "to_double (of_int n) = of_int n"
proof (cases "n = 0")
  case False
  let ?e = "binexp (of_int n)"
  have r: "2 powi ?e \<le> \<bar>of_int n :: rat\<bar>" "\<bar>of_int n :: rat\<bar> < 2 powi (?e + 1)"
    using binexp_range [of "of_int n"] False by simp_all
  have "\<bar>of_int n :: rat\<bar> < of_int (2 ^ 53)" using assms by (simp flip: of_int_abs)
  then have "?e < 53" using False by (intro binexp_bound) (simp_all add: power_int_def)
  then have p: "(2::rat) powi (?e - 52) * 2 ^ nat (52 - ?e) = 1"
    by (simp add: power_int_def flip: power_inverse) (simp add: nat_diff_distrib' power_mult_distrib [symmetric])
  have "(of_int n :: rat) = of_int (n * 2 ^ nat (52 - ?e)) * 2 powi (?e - 52)"
    using p by (simp add: mult.assoc mult.commute [of _ "2 powi _"])
  from to_double_exact [OF r this] show ?thesis .
qed (simp add: to_double_def)

section \<open>The seconds of a datetime\<close>

definition is_leap :: "int \<Rightarrow> bool" where
  "is_leap y = (y mod 4 = 0 \<and> (y mod 100 \<noteq> 0 \<or> y mod 400 = 0))"

definition month_days :: "int list" where
  "month_days = [0, 31, 59, 90, 120, 151, 181, 212, 243, 273, 304, 334]"

definition toordinal :: "pydate \<Rightarrow> int" where
  "toordinal d =
     (let y = d_year d - 1
      in y * 365 + y div 4 - y div 100 + y div 400 +
         month_days ! nat (d_month d - 1) + (if d_month d > 2 \<and> is_leap (d_year d) then 1 else 0) + d_day d)"

text \<open>The microseconds since the first of January 1970, ordinal 719163, of a datetime taken as
  UTC; \<open>timestamp\<close> divides them by a million as floats do.\<close>

definition epoch_micros :: "pydatetime \<Rightarrow> int" where
  "epoch_micros x =
     (((toordinal \<lparr>d_year = d_year x, d_month = d_month x, d_day = d_day x\<rparr> - 719163) * 24 + dt_hour x) * 3600
        + dt_minute x * 60 + dt_second x) * 10 ^ 6 + dt_micro x"

definition timestamp :: "pydatetime \<Rightarrow> rat" where
  "timestamp x = to_double (of_int (epoch_micros x) / 10 ^ 6)"

definition instant_parts :: "pydatetime \<Rightarrow> int \<times> int" where
  "instant_parts obj =
     (let utc = timestamp obj;
          sec = float_to_int utc;
          nsec = float_to_int (to_double (to_double (utc - to_double (of_int sec)) * 10 ^ 9))
      in (sec, nsec))"

definition JInstantConversion :: "(int \<Rightarrow> int \<Rightarrow> 'i) \<Rightarrow> pydatetime \<Rightarrow> 'i" where
  "JInstantConversion ofEpochSecond obj = (let (sec, nsec) = instant_parts obj in ofEpochSecond sec nsec)"

lemma float_to_int_bound:
  assumes "\<bar>x\<bar> < of_int m" shows "\<bar>float_to_int x\<bar> < m"
  using assms unfolding float_to_int_def by (cases "x < 0") (auto simp: abs_less_iff floor_less_iff less_ceiling_iff; linarith)+

lemma abs_add_bound: "\<bar>a - b\<bar> \<le> p \<Longrightarrow> \<bar>b - c\<bar> \<le> q \<Longrightarrow> \<bar>a - c\<bar> \<le> p + (q :: rat)"
  by linarith

text \<open>The nanoseconds of the instant, \<open>sec\<close> and \<open>nsec\<close> together, against those of the
  datetime. The first rounding has the error of the whole number of seconds.\<close>

lemma instant_parts_near:
  assumes "\<bar>epoch_micros x\<bar> < 2 ^ k * 10 ^ 6" and "k < 53"
  shows "\<bar>of_int (fst (instant_parts x) * 10 ^ 9 + snd (instant_parts x)) - of_int (epoch_micros x * 1000)\<bar>
    \<le> (2 + 10 ^ 9 * 2 powi (int k - 54) :: rat)"
proof -
  let ?u = "of_int (epoch_micros x) / 10 ^ 6 :: rat"
  let ?U = "timestamp x"
  let ?S = "float_to_int ?U"
  let ?d = "?U - of_int ?S"
  let ?F = "to_double ?d"
  let ?G = "to_double (?F * 10 ^ 9)"
  let ?N = "float_to_int ?G"
  have u: "\<bar>?u\<bar> < 2 powi int k"
  proof -
    have "\<bar>of_int (epoch_micros x) :: rat\<bar> < of_int (2 ^ k * 10 ^ 6)" using assms(1) by (simp flip: of_int_abs del: of_int_mult)
    then show ?thesis by (simp add: power_int_def abs_divide divide_less_eq)
  qed
  have U: "\<bar>?U - ?u\<bar> \<le> 2 powi (int k - 54)" unfolding timestamp_def by (rule to_double_near [OF u])
  have small: "2 powi (int k - 54) \<le> (1/2 :: rat)"
    using power_int_increasing [of "int k - 54" "-1" "2::rat"] assms(2) by (simp add: power_int_def)
  have k: "2 powi int k \<le> (2 ^ 52 :: rat)"
    using power_increasing [of k 52 "2::rat"] assms(2) by (simp add: power_int_def)
  have "\<bar>?U\<bar> < of_int (2 ^ 53)" using U u small k by simp
  then have S: "to_double (of_int ?S) = of_int ?S" by (intro to_double_int float_to_int_bound)
  have d1: "\<bar>?d\<bar> < 1" using float_to_int_near [of ?U] by linarith
  then have d: "\<bar>?d\<bar> < 2 powi 0" by simp
  have F: "\<bar>?F - ?d\<bar> \<le> 2 powi (-54)" using to_double_near [OF d] by simp
  have F': "\<bar>?F * 10 ^ 9\<bar> < 2 powi 31"
  proof -
    have "2 powi (-54) \<le> (1::rat)" by (simp add: power_int_def power_le_one)
    then have "\<bar>?F\<bar> \<le> 2" using F d1 by linarith
    then show ?thesis by (simp add: abs_mult power_int_def)
  qed
  have G: "\<bar>?G - ?F * 10 ^ 9\<bar> \<le> 2 powi (-23)" using to_double_near [OF F'] by simp
  have N: "\<bar>of_int ?N - ?G\<bar> < 1" by (rule float_to_int_near)
  have parts: "instant_parts x = (?S, ?N)" by (simp add: instant_parts_def Let_def S)
  have "of_int (?S * 10 ^ 9 + ?N) - of_int (epoch_micros x * 1000) =
      (of_int ?N - ?G) + (?G - ?F * 10 ^ 9) + (?F - ?d) * 10 ^ 9 + (?U - ?u) * 10 ^ 9"
    by (simp add: field_simps)
  then have "\<bar>of_int (?S * 10 ^ 9 + ?N) - of_int (epoch_micros x * 1000) :: rat\<bar>
      \<le> \<bar>of_int ?N - ?G\<bar> + \<bar>?G - ?F * 10 ^ 9\<bar> + \<bar>?F - ?d\<bar> * 10 ^ 9 + \<bar>?U - ?u\<bar> * 10 ^ 9"
    by (simp add: abs_if)
  also have "\<dots> \<le> 1 + 2 powi (-23) + 2 powi (-54) * 10 ^ 9 + 2 powi (int k - 54) * 10 ^ 9"
    using N G F U by (intro add_mono mult_right_mono) simp_all
  also have "\<dots> \<le> 2 + 10 ^ 9 * 2 powi (int k - 54)"
    by (simp add: power_int_def power_divide)
  finally show ?thesis by (simp add: parts)
qed

lemma int_le_of_rat: "(of_int a :: rat) \<le> r \<Longrightarrow> r < of_int (b + 1) \<Longrightarrow> a \<le> b"
  by (metis le_less_trans of_int_less_iff zle_add1_eq_le)

text \<open>C25: The Instant made from a datetime is within 121 nanoseconds of it for the years around
  the epoch whose seconds fit in 31 bits, and within 16 microseconds for every datetime that
  Python can hold, whose seconds fit in 38 bits.\<close>
theorem instant_error:
  assumes "\<bar>epoch_micros x\<bar> < 2 ^ 38 * 10 ^ 6"
  shows "\<exists>sec nsec. JInstantConversion ofEpochSecond x = ofEpochSecond sec nsec \<and>
    \<bar>sec * 10 ^ 9 + nsec - epoch_micros x * 1000\<bar> \<le> 16000 \<and>
    (\<bar>epoch_micros x\<bar> < 2 ^ 31 * 10 ^ 6 \<longrightarrow> \<bar>sec * 10 ^ 9 + nsec - epoch_micros x * 1000\<bar> \<le> 121)"
proof -
  obtain sec nsec where p: "instant_parts x = (sec, nsec)" by fastforce
  let ?e = "\<bar>sec * 10 ^ 9 + nsec - epoch_micros x * 1000\<bar>"
  have r: "\<bar>(of_int (sec * 10 ^ 9 + nsec) :: rat) - of_int (epoch_micros x * 1000)\<bar> = of_int ?e"
    by (simp only: of_int_diff [symmetric] of_int_abs [symmetric])
  have wide: "?e \<le> 16000"
    using instant_parts_near [of x 38] assms p r
    by (intro int_le_of_rat [of _ "2 + 10 ^ 9 * 2 powi (int 38 - 54)"]) (simp_all add: power_int_def power_divide)
  have narrow: "?e \<le> 121" if "\<bar>epoch_micros x\<bar> < 2 ^ 31 * 10 ^ 6"
    using instant_parts_near [of x 31] that p r
    by (intro int_le_of_rat [of _ "2 + 10 ^ 9 * 2 powi (int 31 - 54)"]) (simp_all add: power_int_def power_divide)
  show ?thesis
    using wide narrow p by (intro exI [of _ sec] exI [of _ nsec]) (simp add: JInstantConversion_def)
qed

text \<open>A datetime of one microsecond past the second.\<close>

definition one_microsecond :: pydatetime where
  "one_microsecond = \<lparr>d_year = 2020, d_month = 1, d_day = 1, dt_hour = 0, dt_minute = 0, dt_second = 0, dt_micro = 1\<rparr>"

lemma one_microsecond_micros: "epoch_micros one_microsecond = 1577836800000001"
  by (simp add: one_microsecond_def epoch_micros_def toordinal_def month_days_def Let_def)

theorem instant_error_witness:
  "\<exists>sec nsec. JInstantConversion Pair one_microsecond = (sec, nsec) \<and> \<bar>sec * 10 ^ 9 + nsec - 1577836800000001000\<bar> \<le> 121"
  using instant_error [of one_microsecond Pair] by (auto simp: one_microsecond_micros)

lemma round_half_even_eq:
  assumes "\<bar>y - of_int n\<bar> < 1 / 2"
  shows "round_half_even y = n"
proof -
  have "\<bar>of_int (round_half_even y) - (of_int n :: rat)\<bar> < 1"
    using round_half_even_near [of y] assms by linarith
  then have "\<bar>of_int (round_half_even y - n) :: rat\<bar> < of_int 1" by simp
  then show ?thesis by (simp flip: of_int_abs)
qed

lemma to_double_eq:
  assumes "2 powi e \<le> \<bar>x\<bar>" and "\<bar>x\<bar> < 2 powi (e + 1)" and "\<bar>x / 2 powi (e - 52) - of_int n\<bar> < 1 / 2"
  shows "to_double x = of_int n * 2 powi (e - 52)"
proof -
  have "x \<noteq> 0" using assms(1) zero_less_power_int [of "2::rat" e] by linarith
  then show ?thesis
    using binexp_unique [OF assms(1,2)] round_half_even_eq [OF assms(3)] by (simp add: to_double_def Let_def)
qed

text \<open>Microseconds are lost on the way: the datetime one microsecond past the start of 2020
  becomes the Instant with 953 nanoseconds, which is zero microseconds.\<close>
theorem instant_loses_microsecond:
  "JInstantConversion Pair one_microsecond = (1577836800, 953)"
proof -
  have t: "timestamp one_microsecond = 1577836800 + 1 / 2 ^ 20"
    using to_double_eq [of 30 "of_int 1577836800000001 / 10 ^ 6" "1577836800 * 2 ^ 22 + 4"]
    by (simp add: timestamp_def one_microsecond_micros power_int_def power_divide)
  have s: "float_to_int (1577836800 + 1 / 2 ^ 20) = 1577836800"
    unfolding float_to_int_def by (simp add: floor_eq_iff)
  have i: "to_double (of_int 1577836800) = 1577836800" using to_double_int [of 1577836800] by simp
  have e: "1577836800 + 1 / 2 ^ 20 - 1577836800 = (1 / 2 ^ 20 :: rat)" by simp
  have d: "to_double (1 / 2 ^ 20) = 1 / 2 ^ 20"
    by (rule to_double_exact [of "-20" _ "2 ^ 52"]) (simp_all add: power_int_def power_divide)
  have g: "to_double (1 / 2 ^ 20 * 10 ^ 9) = 1 / 2 ^ 20 * 10 ^ 9"
    by (rule to_double_exact [of 9 _ "1953125 * 2 ^ 32"]) (simp_all add: power_int_def power_divide)
  have n: "float_to_int (1 / 2 ^ 20 * 10 ^ 9) = 953"
    unfolding float_to_int_def by (simp add: floor_eq_iff)
  have "instant_parts one_microsecond = (1577836800, 953)"
    unfolding instant_parts_def Let_def t s i e d g n ..
  then show ?thesis by (simp add: JInstantConversion_def)
qed

end
