(* ===== verification/UserConversions.thy ===== *)
theory UserConversions
  imports Conversions Customizers
begin

text \<open>
  Conversions registered in Python: \<open>JConversion\<close> of \<open>_jcustomizer.py\<close> as it fills the list of a
  class in the extension module (\<open>JPClassHints\<close>), the choice of a conversion for an object, and
  the conversions of \<open>protocol.py\<close>. Python types and attributes are given by their names;
  \<open>py_checks\<close> holds the interpreter's tests of an object.
\<close>

section \<open>Qualities of a match\<close>

datatype quality = QNone | QExplicit | QImplicit | QDerived | QExact

primrec quality_rank :: "quality \<Rightarrow> nat" where
  "quality_rank QNone = 0"
| "quality_rank QExplicit = 1"
| "quality_rank QImplicit = 2"
| "quality_rank QDerived = 3"
| "quality_rank QExact = 4"

lemma quality_rank_inj: "quality_rank p = quality_rank q \<Longrightarrow> p = q"
  by (cases p; cases q) simp_all

instantiation quality :: linorder
begin

definition less_eq_quality :: "quality \<Rightarrow> quality \<Rightarrow> bool" where
  "p \<le> q = (quality_rank p \<le> quality_rank q)"

definition less_quality :: "quality \<Rightarrow> quality \<Rightarrow> bool" where
  "p < q = (quality_rank p < quality_rank q)"

instance
  by standard (auto simp: less_eq_quality_def less_quality_def quality_rank_inj)

end

section \<open>The conversions of a class\<close>

datatype user_conv = NoneConv string | AttrConv string string | TypeConv string string bool

record 'o py_checks =
  ck_type :: "'o \<Rightarrow> string \<Rightarrow> bool"
  ck_instance :: "'o \<Rightarrow> string \<Rightarrow> bool"
  ck_attr :: "'o \<Rightarrow> string \<Rightarrow> bool"

text \<open>What a conversion answers, and what it leaves in the match.\<close>

record conv_match =
  cm_type :: quality
  cm_conv :: "user_conv option"

definition no_match :: conv_match where
  "no_match = \<lparr>cm_type = QNone, cm_conv = None\<rparr>"

definition conv_matches :: "'o py_checks \<Rightarrow> 'o \<Rightarrow> user_conv \<Rightarrow> conv_match \<Rightarrow> quality \<times> conv_match" where
  "conv_matches C obj cv m =
     (case cv of
        NoneConv t \<Rightarrow> if \<not> ck_instance C obj t then (QNone, m) else (QImplicit, \<lparr>cm_type = QNone, cm_conv = Some cv\<rparr>)
      | AttrConv a f \<Rightarrow> if \<not> ck_attr C obj a then (QNone, m) else (QImplicit, \<lparr>cm_type = QImplicit, cm_conv = Some cv\<rparr>)
      | TypeConv t f exact \<Rightarrow>
          if exact \<and> ck_type C obj t \<or> ck_instance C obj t
          then (QImplicit, \<lparr>cm_type = QImplicit, cm_conv = Some cv\<rparr>) else (QNone, m))"

fun conv_loop :: "'o py_checks \<Rightarrow> 'o \<Rightarrow> user_conv list \<Rightarrow> user_conv option \<Rightarrow> conv_match \<Rightarrow> quality \<times> conv_match" where
  "conv_loop C obj [] best m =
     (if best = None then (QNone, \<lparr>cm_type = QNone, cm_conv = None\<rparr>)
      else (QExplicit, \<lparr>cm_type = QExplicit, cm_conv = best\<rparr>))"
| "conv_loop C obj (cv # cvs) best m =
     (let (q, m) = conv_matches C obj cv m
      in if q > QExplicit then (cm_type m, m)
         else conv_loop C obj cvs (if q \<noteq> QNone then Some cv else best) m)"

definition getConversion :: "'o py_checks \<Rightarrow> user_conv list \<Rightarrow> 'o \<Rightarrow> quality \<times> conv_match" where
  "getConversion C convs obj = conv_loop C obj convs None no_match"

text \<open>Registration: exclusions go to the front, the others to the back.\<close>

definition excludeConversion :: "string \<Rightarrow> user_conv list \<Rightarrow> user_conv list" where
  "excludeConversion t convs = NoneConv t # convs"

definition addTypeConversion :: "string \<Rightarrow> string \<Rightarrow> bool \<Rightarrow> user_conv list \<Rightarrow> user_conv list" where
  "addTypeConversion t f exact convs = convs @ [TypeConv t f exact]"

definition addAttributeConversion :: "string \<Rightarrow> string \<Rightarrow> user_conv list \<Rightarrow> user_conv list" where
  "addAttributeConversion a f convs = convs @ [AttrConv a f]"

record conv_args =
  jc_class :: string
  jc_exact :: "string option"
  jc_instanceof :: "string option"
  jc_attribute :: "string option"
  jc_excludes :: "string option"
  jc_func :: string

text \<open>What \<open>JConversion\<close> and its decorator do to the list of the class.\<close>

definition add_conversion :: "conv_args \<Rightarrow> user_conv list \<Rightarrow> user_conv list" where
  "add_conversion a convs =
     (let c0 = (case jc_excludes a of None \<Rightarrow> convs | Some t \<Rightarrow> excludeConversion t convs);
          c1 = (case jc_exact a of None \<Rightarrow> c0 | Some t \<Rightarrow> addTypeConversion t (jc_func a) True c0);
          c2 = (case jc_instanceof a of None \<Rightarrow> c1 | Some t \<Rightarrow> addTypeConversion t (jc_func a) False c1)
      in case jc_attribute a of None \<Rightarrow> c2 | Some t \<Rightarrow> addAttributeConversion t (jc_func a) c2)"

definition class_conversions :: "conv_args list \<Rightarrow> string \<Rightarrow> user_conv list" where
  "class_conversions args c = fold add_conversion (filter (\<lambda>a. jc_class a = c) args) []"

text \<open>The function that converts an object, if any does.\<close>

primrec conv_func :: "user_conv \<Rightarrow> string option" where
  "conv_func (NoneConv t) = None"
| "conv_func (AttrConv a f) = Some f"
| "conv_func (TypeConv t f exact) = Some f"

definition chosen :: "'o py_checks \<Rightarrow> user_conv list \<Rightarrow> 'o \<Rightarrow> string option" where
  "chosen C convs obj =
     (case getConversion C convs obj of (q, m) \<Rightarrow>
        if q = QNone then None else (case cm_conv m of None \<Rightarrow> None | Some cv \<Rightarrow> conv_func cv))"

text \<open>Making the Java value: the function must give a Java value or a proxy.\<close>

datatype ('j, 'p) conv_result = JavaValue 'j | ProxyValue 'p | OtherValue

definition python_convert :: "(pyexn + ('j, 'p) conv_result) \<Rightarrow> ('p \<Rightarrow> 'j) \<Rightarrow> pyexn + 'j" where
  "python_convert r getProxy =
     (case r of
        Inl e \<Rightarrow> Inl e
      | Inr (JavaValue j) \<Rightarrow> Inr j
      | Inr (ProxyValue p) \<Rightarrow> Inr (getProxy p)
      | Inr OtherValue \<Rightarrow> Inl (Exn TypeError ''Bad type conversion''))"

section \<open>The conversions of protocol.py\<close>

definition path_args :: conv_args where
  "path_args = \<lparr>jc_class = ''java.nio.file.Path'', jc_exact = None, jc_instanceof = Some ''SupportsPath'',
     jc_attribute = None, jc_excludes = None, jc_func = ''_JPathConvert''\<rparr>"

definition file_args :: conv_args where
  "file_args = \<lparr>jc_class = ''java.io.File'', jc_exact = None, jc_instanceof = Some ''SupportsPath'',
     jc_attribute = None, jc_excludes = None, jc_func = ''_JFileConvert''\<rparr>"

definition sequence_args :: "string \<Rightarrow> conv_args" where
  "sequence_args c = \<lparr>jc_class = c, jc_exact = None, jc_instanceof = Some ''Sequence'',
     jc_attribute = None, jc_excludes = Some ''str'', jc_func = ''_JSequenceConvert''\<rparr>"

definition set_args :: "string \<Rightarrow> conv_args" where
  "set_args c = \<lparr>jc_class = c, jc_exact = None, jc_instanceof = Some ''Set'',
     jc_attribute = None, jc_excludes = None, jc_func = ''_JSetConvert''\<rparr>"

definition map_args :: conv_args where
  "map_args = \<lparr>jc_class = ''java.util.Map'', jc_exact = None, jc_instanceof = Some ''Mapping'',
     jc_attribute = None, jc_excludes = None, jc_func = ''_JMapConvert''\<rparr>"

definition instant_args :: conv_args where
  "instant_args = \<lparr>jc_class = ''java.time.Instant'', jc_exact = Some ''datetime.datetime'', jc_instanceof = None,
     jc_attribute = None, jc_excludes = None, jc_func = ''_JInstantConversion''\<rparr>"

definition sql_args :: "string \<Rightarrow> string \<Rightarrow> string \<Rightarrow> conv_args" where
  "sql_args c t f = \<lparr>jc_class = c, jc_exact = None, jc_instanceof = Some t,
     jc_attribute = None, jc_excludes = None, jc_func = f\<rparr>"

text \<open>In the order of the module; of two decorators the upper one registers its exclusion first
  and the lower one its type first, which are for different classes.\<close>

definition protocol_args :: "conv_args list" where
  "protocol_args =
     [path_args, file_args, sequence_args ''java.lang.Iterable'', sequence_args ''java.util.Collection'',
      set_args ''java.lang.Iterable'', set_args ''java.util.Collection'', map_args, instant_args,
      sql_args ''java.sql.Time'' ''datetime.time'' ''_toTime'', sql_args ''java.sql.Date'' ''datetime.date'' ''_toDate'',
      sql_args ''java.sql.Timestamp'' ''datetime.datetime'' ''_toTimestamp'',
      sql_args ''java.math.BigDecimal'' ''decimal.Decimal'' ''_toBigDecimal'']"

definition JPathConvert :: "(string \<Rightarrow> pyexn + 'j) \<Rightarrow> ('o \<Rightarrow> pyexn + string) \<Rightarrow> 'o \<Rightarrow> pyexn + 'j" where
  "JPathConvert paths_get fspath obj = (case fspath obj of Inl e \<Rightarrow> Inl e | Inr s \<Rightarrow> paths_get s)"

definition JFileConvert :: "(string \<Rightarrow> pyexn + 'j) \<Rightarrow> ('o \<Rightarrow> pyexn + string) \<Rightarrow> 'o \<Rightarrow> pyexn + 'j" where
  "JFileConvert new_file fspath obj = (case fspath obj of Inl e \<Rightarrow> Inl e | Inr s \<Rightarrow> new_file s)"

definition JSequenceConvert :: "('v list \<Rightarrow> ('w, pyexn, 'h) pyop) \<Rightarrow> 'v list \<Rightarrow> ('w, pyexn, 'h) pyop" where
  "JSequenceConvert asList obj = asList obj"

text \<open>A set is a list of its members in the order of its iteration.\<close>

definition JSetConvert :: "('v list \<Rightarrow> ('w, pyexn, 'h) pyop) \<Rightarrow> ('s \<Rightarrow> 'v list) \<Rightarrow> 's \<Rightarrow> ('w, pyexn, 'h) pyop" where
  "JSetConvert asList members obj = asList (members obj)"

text \<open>Decimals go both ways as text.\<close>

definition toBigDecimal :: "(string \<Rightarrow> pyexn + 'j) \<Rightarrow> ('d \<Rightarrow> string) \<Rightarrow> 'd \<Rightarrow> pyexn + 'j" where
  "toBigDecimal new_decimal str x = new_decimal (str x)"

definition JBigDecimal_py :: "(string \<Rightarrow> pyexn + 'd) \<Rightarrow> ('j \<Rightarrow> string) \<Rightarrow> 'j \<Rightarrow> pyexn + 'd" where
  "JBigDecimal_py Decimal str self = Decimal (str self)"

section \<open>Which conversion is chosen\<close>

definition applies :: "'o py_checks \<Rightarrow> 'o \<Rightarrow> user_conv \<Rightarrow> bool" where
  "applies C obj cv =
     (case cv of
        NoneConv t \<Rightarrow> ck_instance C obj t
      | AttrConv a f \<Rightarrow> ck_attr C obj a
      | TypeConv t f exact \<Rightarrow> exact \<and> ck_type C obj t \<or> ck_instance C obj t)"

text \<open>What one registration adds, its exclusion apart.\<close>

definition conv_items :: "conv_args \<Rightarrow> user_conv list" where
  "conv_items a =
     (case jc_exact a of None \<Rightarrow> [] | Some t \<Rightarrow> [TypeConv t (jc_func a) True]) @
     (case jc_instanceof a of None \<Rightarrow> [] | Some t \<Rightarrow> [TypeConv t (jc_func a) False]) @
     (case jc_attribute a of None \<Rightarrow> [] | Some t \<Rightarrow> [AttrConv t (jc_func a)])"

definition excluded :: "'o py_checks \<Rightarrow> 'o \<Rightarrow> conv_args \<Rightarrow> bool" where
  "excluded C obj a = (case jc_excludes a of None \<Rightarrow> False | Some t \<Rightarrow> ck_instance C obj t)"

lemma add_conversion_eq:
  "add_conversion a convs =
     (case jc_excludes a of None \<Rightarrow> [] | Some t \<Rightarrow> [NoneConv t]) @ convs @ conv_items a"
  by (simp add: add_conversion_def conv_items_def Let_def excludeConversion_def addTypeConversion_def
      addAttributeConversion_def split: option.split)

lemma fold_add_conversion:
  "fold add_conversion args convs =
     map NoneConv (rev (List.map_filter jc_excludes args)) @ convs @ concat (map conv_items args)"
  by (induction args arbitrary: convs) (simp_all add: add_conversion_eq map_filter_simps split: option.split)

lemma loop_exclusions:
  "conv_loop C obj (map NoneConv ts @ cvs) None m =
     (if list_ex (ck_instance C obj) ts
      then (QNone, \<lparr>cm_type = QNone, cm_conv = map_option NoneConv (find (ck_instance C obj) ts)\<rparr>)
      else conv_loop C obj cvs None m)"
  by (induction ts) (simp_all add: conv_matches_def less_quality_def)

lemma loop_items:
  "list_all (\<lambda>cv. conv_func cv \<noteq> None) cvs \<Longrightarrow>
     conv_loop C obj cvs None m =
       (case find (applies C obj) cvs of
          None \<Rightarrow> (QNone, \<lparr>cm_type = QNone, cm_conv = None\<rparr>)
        | Some cv \<Rightarrow> (QImplicit, \<lparr>cm_type = QImplicit, cm_conv = Some cv\<rparr>))"
proof (induction cvs)
  case (Cons cv cvs)
  then show ?case by (cases cv) (auto simp: conv_matches_def applies_def less_quality_def)
qed simp

lemma items_convert: "list_all (\<lambda>cv. conv_func cv \<noteq> None) (concat (map conv_items args))"
  by (induction args) (auto simp: conv_items_def list_all_iff split: option.splits)

lemma excludes_list_ex: "list_ex (ck_instance C obj) (List.map_filter jc_excludes args) = list_ex (excluded C obj) args"
  by (induction args) (auto simp: excluded_def map_filter_simps split: option.split)

lemma chosen_fold:
  "chosen C (fold add_conversion args []) obj =
     (if list_ex (excluded C obj) args then None
      else case find (applies C obj) (concat (map conv_items args)) of None \<Rightarrow> None | Some cv \<Rightarrow> conv_func cv)"
  using loop_items [OF items_convert, of C obj args no_match] loop_exclusions [of C obj _ "concat (map conv_items args)" no_match]
  by (simp add: chosen_def getConversion_def fold_add_conversion excludes_list_ex split: option.split)

text \<open>C15: Whatever the order of the registrations for a class, an object of an excluded type is
  converted by none of them; any other object is converted by the first one in their order
  whose type or attribute it has.\<close>
theorem conversion_selection:
  "chosen C (class_conversions args c) obj =
     (let own = filter (\<lambda>a. jc_class a = c) args
      in if list_ex (excluded C obj) own then None
         else case find (applies C obj) (concat (map conv_items own)) of None \<Rightarrow> None | Some cv \<Rightarrow> conv_func cv)"
  by (simp only: class_conversions_def chosen_fold Let_def)

lemma protocol_tables:
  "filter (\<lambda>a. jc_class a = ''java.util.Collection'') protocol_args =
     [sequence_args ''java.util.Collection'', set_args ''java.util.Collection'']"
  "filter (\<lambda>a. jc_class a = ''java.util.Map'') protocol_args = [map_args]"
  "filter (\<lambda>a. jc_class a = ''java.time.Instant'') protocol_args = [instant_args]"
  by (simp_all add: protocol_args_def path_args_def file_args_def sequence_args_def set_args_def map_args_def
      instant_args_def sql_args_def)

text \<open>For the tables of \<open>protocol.py\<close>: a collection is made of a sequence that is no string,
  else of a set, and of nothing else, dictionaries included; a map of a mapping; and an
  Instant of any datetime. The conversion to an Instant is registered for the exact type, but
  an object of a subclass is taken too.\<close>
theorem protocol_selection:
  "chosen C (class_conversions protocol_args ''java.util.Collection'') obj =
     (if ck_instance C obj ''str'' then None
      else if ck_instance C obj ''Sequence'' then Some ''_JSequenceConvert''
      else if ck_instance C obj ''Set'' then Some ''_JSetConvert'' else None) \<and>
   chosen C (class_conversions protocol_args ''java.util.Map'') obj =
     (if ck_instance C obj ''Mapping'' then Some ''_JMapConvert'' else None) \<and>
   (ck_instance C obj ''datetime.datetime'' \<longrightarrow>
      chosen C (class_conversions protocol_args ''java.time.Instant'') obj = Some ''_JInstantConversion'')"
  unfolding class_conversions_def protocol_tables chosen_fold
  by (simp add: sequence_args_def set_args_def map_args_def instant_args_def conv_items_def applies_def excluded_def)

text \<open>Objects as numbers: 0 a datetime, 1 an object of a subclass of it.\<close>

definition demo_checks :: "nat py_checks" where
  "demo_checks = \<lparr>ck_type = \<lambda>v t. v = 0 \<and> t = ''datetime.datetime'',
     ck_instance = \<lambda>v t. t = ''datetime.datetime'', ck_attr = \<lambda>_ _. False\<rparr>"

theorem protocol_selection_witness:
  "\<not> ck_type demo_checks 1 ''datetime.datetime'' \<and>
   chosen demo_checks (class_conversions protocol_args ''java.time.Instant'') 1 = Some ''_JInstantConversion''"
  using protocol_selection [of demo_checks 1] by (simp add: demo_checks_def)

section \<open>Registration in Python\<close>



section \<open>Sequences and sets as Java lists\<close>

text \<open>
  \<open>Arrays.asList\<close> makes a list of fixed size, which reads like any other list: the reading laws
  of \<open>java_list\<close> are a contract of their own, and a growing list keeps it.
\<close>

locale java_read =
  fixes L :: "('w, 'h, 'v) java_lists"
    and At :: "'h \<Rightarrow> 'v option list \<Rightarrow> 'w \<Rightarrow> bool"
  assumes read_size: "does (At h) xs (l_size L h) (int (length xs)) xs"
    and read_items: "does (At h) xs (l_items L h) xs xs"
    and read_get: "in_range i xs \<Longrightarrow> does (At h) xs (l_get L h i) (xs ! nat i) xs"
begin

lemma read_len: "does (At h) xs (JCollection_len L h) (int (length xs)) xs"
  unfolding JCollection_len_def by (rule read_size)

lemma read_item:
  "in_range (wrap_index i (length xs)) xs \<Longrightarrow>
     does (At h) xs (JList_getitem L h (Ix i)) (Elem (xs ! nat (wrap_index i (length xs)))) xs"
  unfolding JList_getitem_def index.case adjusted_def wrap_index_def
  by (cases "i < 0") (auto simp: pbind_assoc intro!: does_bind [OF read_size] does_bind [OF read_get] does_ret)

end

sublocale java_list \<subseteq> reading: java_read L At
  by unfold_locales (rule size items get, assumption?)+

locale fixed_lists = java_read L At
  for L :: "('w, 'h, 'v) java_lists" and At :: "'h \<Rightarrow> 'v option list \<Rightarrow> 'w \<Rightarrow> bool" +
  fixes asList :: "'v option list \<Rightarrow> ('w, pyexn, 'h) pyop"
    and conv :: "'v option \<Rightarrow> bool"
  assumes as_list: "list_all conv xs \<Longrightarrow> \<exists>h w'. asList xs w = (Inr h, w') \<and> At h xs w'"
    and as_list_bad: "\<not> list_all conv xs \<Longrightarrow> \<exists>e. asList xs w = (Inl e, w) \<and> exn_isa (exn_kind e) TypeError"
begin

lemma converted_reads:
  assumes "list_all conv xs"
  shows "\<exists>h w1. asList xs w = (Inr h, w1) \<and>
    (\<exists>w2. JCollection_len L h w1 = (Inr (int (length xs)), w2)) \<and>
    (\<exists>w2. l_items L h w1 = (Inr xs, w2)) \<and>
    (\<forall>i. in_range (wrap_index i (length xs)) xs \<longrightarrow>
       (\<exists>w2. JList_getitem L h (Ix i) w1 = (Inr (Elem (xs ! nat (wrap_index i (length xs)))), w2)))"
proof -
  obtain h w1 where h: "asList xs w = (Inr h, w1)" "At h xs w1" using as_list [OF assms] by blast
  show ?thesis
    using h(1) doesD [OF read_len h(2)] doesD [OF read_items h(2)] doesD [OF read_item h(2)] by blast
qed

end

definition fixed_copy :: "('v option \<Rightarrow> bool) \<Rightarrow> 'v option list \<Rightarrow> ('v cell list, pyexn, nat) pyop" where
  "fixed_copy conv xs = (\<lambda>w. if list_all conv xs then (Inr (length w), w @ [Arr xs]) else refuse TypeError w)"

interpretation fixed: fixed_lists "array_lists conv" al_at "fixed_copy conv" conv for conv
  by unfold_locales
    (auto simp: fixed_copy_def al_new refuse_def exn_isa_eval)

text \<open>A Python sequence whose members convert becomes a Java list that reads as the sequence:
  the same length, the same members in order, the same item at every index that Python
  accepts, negative ones too. A member that does not convert gives TypeError. A set becomes
  the list of its members, each once.\<close>
theorem sequence_conversion:
  assumes "fixed_lists L At asList conv"
  shows "(list_all conv xs \<longrightarrow> (\<exists>h w1. JSequenceConvert asList xs w = (Inr h, w1) \<and>
      (\<exists>w2. JCollection_len L h w1 = (Inr (int (length xs)), w2)) \<and>
      (\<forall>i. in_range (wrap_index i (length xs)) xs \<longrightarrow>
         (\<exists>w2. JList_getitem L h (Ix i) w1 = (Inr (Elem (xs ! nat (wrap_index i (length xs)))), w2))))) \<and>
    (\<not> list_all conv xs \<longrightarrow> (\<exists>e. JSequenceConvert asList xs w = (Inl e, w) \<and> exn_isa (exn_kind e) TypeError)) \<and>
    (distinct (members S) \<and> list_all conv (members S) \<longrightarrow>
      (\<exists>h w1 ys w2. JSetConvert asList members S w = (Inr h, w1) \<and> l_items L h w1 = (Inr ys, w2) \<and>
         set ys = set (members S) \<and> length ys = card (set (members S))))"
proof (intro conjI impI)
  assume "list_all conv xs"
  from fixed_lists.converted_reads [OF assms this, of w]
  show "\<exists>h w1. JSequenceConvert asList xs w = (Inr h, w1) \<and>
      (\<exists>w2. JCollection_len L h w1 = (Inr (int (length xs)), w2)) \<and>
      (\<forall>i. in_range (wrap_index i (length xs)) xs \<longrightarrow>
         (\<exists>w2. JList_getitem L h (Ix i) w1 = (Inr (Elem (xs ! nat (wrap_index i (length xs)))), w2)))"
    unfolding JSequenceConvert_def by blast
next
  assume "\<not> list_all conv xs"
  then show "\<exists>e. JSequenceConvert asList xs w = (Inl e, w) \<and> exn_isa (exn_kind e) TypeError"
    unfolding JSequenceConvert_def by (rule fixed_lists.as_list_bad [OF assms])
next
  assume s: "distinct (members S) \<and> list_all conv (members S)"
  then have c: "length (members S) = card (set (members S))" by (simp add: distinct_card)
  from s have "list_all conv (members S)" ..
  from fixed_lists.converted_reads [OF assms this, of w] c
  show "\<exists>h w1 ys w2. JSetConvert asList members S w = (Inr h, w1) \<and> l_items L h w1 = (Inr ys, w2) \<and>
         set ys = set (members S) \<and> length ys = card (set (members S))"
    unfolding JSetConvert_def by blast
qed

theorem sequence_conversion_witness:
  "\<exists>h w1 w2. JSequenceConvert (fixed_copy (\<lambda>v. v \<noteq> Some 9)) [Some (1::nat), None, Some 3] [] = (Inr h, w1) \<and>
     JList_getitem (array_lists (\<lambda>v. v \<noteq> Some 9)) h (Ix (- 1)) w1 = (Inr (Elem (Some 3)), w2)"
proof -
  have r: "in_range (wrap_index (- 1) (length [Some (1::nat), None, Some 3])) [Some (1::nat), None, Some 3]"
    by (simp add: wrap_index_def in_range_def)
  have n: "[Some (1::nat), None, Some 3] ! nat (wrap_index (- 1) (length [Some (1::nat), None, Some 3])) = Some 3"
    by (simp add: wrap_index_def)
  have c: "list_all (\<lambda>v. v \<noteq> Some 9) [Some (1::nat), None, Some 3]" by simp
  from conjunct1 [OF sequence_conversion [OF fixed.fixed_lists_axioms [of "\<lambda>v. v \<noteq> Some (9::nat)"]],
      rule_format, OF c, of "[]"] r n
  show ?thesis by metis
qed

end
