(* ===== verification/Threads.thy ===== *)
theory Threads
  imports Lifecycle
begin

text \<open>
  Threads and monitors: the customizer of \<open>java.lang.Thread\<close> (\<open>_jthread.py\<close>), the deprecated
  thread functions and \<open>synchronized\<close> of \<open>_core.py\<close>, with the functions of the extension
  module they call (\<open>pyjp_module.cpp\<close>, \<open>jp_context.cpp\<close>, \<open>pyjp_monitor.cpp\<close>); and the methods of
  the exception customizer (\<open>_jexception.py\<close>). JNI's attach functions and Java monitors behave
  as documented: attaching an attached thread changes nothing, and a monitor counts the
  entries of the thread that owns it.
\<close>

section \<open>Attached threads\<close>

datatype attachment = DaemonThread | UserThread

record vm_threads =
  vt_running :: bool
  vt_attached :: "nat \<Rightarrow> attachment option"

definition jvm_not_running :: pyexn where
  "jvm_not_running = Exn JVMNotRunning ''Java Virtual Machine is not running''"

text \<open>The JNI calls: \<open>GetEnv\<close> of the calling thread, attaching and detaching it.\<close>

definition jni_attach :: "nat \<Rightarrow> attachment \<Rightarrow> vm_threads \<Rightarrow> vm_threads" where
  "jni_attach t how s =
     (if vt_attached s t = None then s\<lparr>vt_attached := (vt_attached s)(t \<mapsto> how)\<rparr> else s)"

definition jni_detach :: "nat \<Rightarrow> vm_threads \<Rightarrow> vm_threads" where
  "jni_detach t s = s\<lparr>vt_attached := (vt_attached s)(t := None)\<rparr>"

definition getContext :: "(vm_threads, pyexn, unit) pyop" where
  "getContext = pbind (pget vt_running) (\<lambda>r. if r then ret () else throw jvm_not_running)"

definition PyJPModule_isThreadAttached :: "nat \<Rightarrow> (vm_threads, pyexn, bool) pyop" where
  "PyJPModule_isThreadAttached t = pget (\<lambda>s. if \<not> vt_running s then False else vt_attached s t \<noteq> None)"

definition PyJPModule_attachThread :: "nat \<Rightarrow> (vm_threads, pyexn, unit) pyop" where
  "PyJPModule_attachThread t = pseq getContext (pmod (jni_attach t UserThread))"

definition PyJPModule_attachThreadAsDaemon :: "nat \<Rightarrow> (vm_threads, pyexn, unit) pyop" where
  "PyJPModule_attachThreadAsDaemon t = pseq getContext (pmod (jni_attach t DaemonThread))"

definition PyJPModule_detachThread :: "nat \<Rightarrow> (vm_threads, pyexn, unit) pyop" where
  "PyJPModule_detachThread t = pmod (\<lambda>s. if vt_running s then jni_detach t s else s)"


text \<open>The customizer of \<open>java.lang.Thread\<close>.\<close>

definition JThread_isAttached :: "nat \<Rightarrow> (vm_threads, pyexn, bool) pyop" where
  "JThread_isAttached t = PyJPModule_isThreadAttached t"

definition JThread_attach :: "nat \<Rightarrow> (vm_threads, pyexn, unit) pyop" where
  "JThread_attach t = PyJPModule_attachThread t"

definition JThread_attachAsDaemon :: "nat \<Rightarrow> (vm_threads, pyexn, unit) pyop" where
  "JThread_attachAsDaemon t = PyJPModule_attachThreadAsDaemon t"

definition JThread_detach :: "nat \<Rightarrow> (vm_threads, pyexn, unit) pyop" where
  "JThread_detach t = PyJPModule_detachThread t"

text \<open>The functions of \<open>_core.py\<close> warn once, each with its own wrapper, and forward.\<close>

definition on_left :: "('a, 'e, 'r) pyop \<Rightarrow> ('a \<times> 'b, 'e, 'r) pyop" where
  "on_left m = (\<lambda>(a, b). case m a of (r, a) \<Rightarrow> (r, (a, b)))"

definition on_right :: "('b, 'e, 'r) pyop \<Rightarrow> ('a \<times> 'b, 'e, 'r) pyop" where
  "on_right m = (\<lambda>(a, b). case m b of (r, b) \<Rightarrow> (r, (a, b)))"

definition isThreadAttachedToJVM :: "nat \<Rightarrow> (wrapper \<times> vm_threads, pyexn, bool) pyop" where
  "isThreadAttachedToJVM t = pseq (on_left deprecated_call) (on_right (PyJPModule_isThreadAttached t))"

definition attachThreadToJVM :: "nat \<Rightarrow> (wrapper \<times> vm_threads, pyexn, unit) pyop" where
  "attachThreadToJVM t = pseq (on_left deprecated_call) (on_right (PyJPModule_attachThread t))"

definition detachThreadFromJVM :: "nat \<Rightarrow> (wrapper \<times> vm_threads, pyexn, unit) pyop" where
  "detachThreadFromJVM t = pseq (on_left deprecated_call) (on_right (PyJPModule_detachThread t))"









lemma isAttached_run: "JThread_isAttached t s = (Inr (vt_running s \<and> vt_attached s t \<noteq> None), s)"
  by (simp add: JThread_isAttached_def PyJPModule_isThreadAttached_def pyrun)



lemma detach_run:
  "JThread_detach t s = (Inr (), if vt_running s then jni_detach t s else s)"
  by (simp add: JThread_detach_def PyJPModule_detachThread_def pyrun)

lemma attach_run:
  "JThread_attach t s = (if vt_running s then (Inr (), jni_attach t UserThread s) else (Inl jvm_not_running, s))"
  "JThread_attachAsDaemon t s = (if vt_running s then (Inr (), jni_attach t DaemonThread s) else (Inl jvm_not_running, s))"
  by (simp_all add: JThread_attach_def JThread_attachAsDaemon_def PyJPModule_attachThread_def
      PyJPModule_attachThreadAsDaemon_def getContext_def pyrun)

lemma deprecated_run:
  "deprecated_call w = (Inr (), w\<lparr>w_log := if w_warned w then w_log w else w_log w @ [w_warning w], w_warned := True\<rparr>)"
  by (simp add: deprecated_call_def pyrun)

lemma attachThreadToJVM_run:
  "attachThreadToJVM t (w, s) = (case JThread_attach t s of (r, s') \<Rightarrow> (r, (snd (deprecated_call w), s')))"
  by (simp add: attachThreadToJVM_def on_left_def on_right_def pyrun deprecated_run JThread_attach_def)

lemma detachThreadFromJVM_run:
  "detachThreadFromJVM t (w, s) = (case JThread_detach t s of (r, s') \<Rightarrow> (r, (snd (deprecated_call w), s')))"
  by (simp add: detachThreadFromJVM_def on_left_def on_right_def pyrun deprecated_run JThread_detach_def)

lemma jvm_not_running_isa: "exn_isa (exn_kind jvm_not_running) RuntimeError"
  by (simp add: jvm_not_running_def exn_isa_eval)

text \<open>Detaching never fails, with or without a JVM, and when a JVM is running the thread is
  detached after it; attaching without a JVM raises an exception that is a RuntimeError and
  attaches nothing; the test never fails and is false without a JVM. The deprecated functions
  do the same and log one warning, at the first call.\<close>
theorem attach_errors:
  "(\<exists>s'. JThread_detach t s = (Inr (), s') \<and> JThread_isAttached t s' = (Inr False, s')) \<and>
   (vt_running s \<or>
     (\<exists>e. JThread_attach t s = (Inl e, s) \<and> JThread_attachAsDaemon t s = (Inl e, s) \<and> exn_isa (exn_kind e) RuntimeError \<and>
       JThread_isAttached t s = (Inr False, s))) \<and>
   fst (attachThreadToJVM t (w, s)) = fst (JThread_attach t s) \<and>
   snd (snd (attachThreadToJVM t (w, s))) = snd (JThread_attach t s) \<and>
   w_log (fst (snd (detachThreadFromJVM t (snd (detachThreadFromJVM t (w, s)))))) =
     (if w_warned w then w_log w else w_log w @ [w_warning w])"
proof -
  have "\<exists>s'. JThread_detach t s = (Inr (), s') \<and> JThread_isAttached t s' = (Inr False, s')"
    by (simp add: detach_run isAttached_run jni_detach_def)
  moreover have "vt_running s \<or>
     (\<exists>e. JThread_attach t s = (Inl e, s) \<and> JThread_attachAsDaemon t s = (Inl e, s) \<and> exn_isa (exn_kind e) RuntimeError \<and>
       JThread_isAttached t s = (Inr False, s))"
    using jvm_not_running_isa by (cases "vt_running s") (simp_all add: attach_run isAttached_run)
  moreover have "fst (attachThreadToJVM t (w, s)) = fst (JThread_attach t s)"
      "snd (snd (attachThreadToJVM t (w, s))) = snd (JThread_attach t s)"
    by (simp_all add: attachThreadToJVM_run split: prod.split)
  moreover have "w_log (fst (snd (detachThreadFromJVM t (snd (detachThreadFromJVM t (w, s)))))) =
     (if w_warned w then w_log w else w_log w @ [w_warning w])"
    by (simp add: detachThreadFromJVM_run detach_run deprecated_run)
  ultimately show ?thesis by blast
qed

section \<open>Monitors\<close>

text \<open>\<open>synchronized\<close> makes a monitor of a value, which must be a Java object that is not null, no
  string and no primitive.\<close>

datatype 'x sync_value = NotJava | JavaString | JavaPrimitive | JavaNull | JavaObj 'x

definition synchronized :: "bool \<Rightarrow> 'x sync_value \<Rightarrow> pyexn + 'x" where
  "synchronized running v =
     (if \<not> running then Inl jvm_not_running
      else case v of
        NotJava \<Rightarrow> Inl (Exn TypeError ''Java object is required.'')
      | JavaString \<Rightarrow> Inl (Exn TypeError ''Java strings cannot be used to synchronize.'')
      | JavaPrimitive \<Rightarrow> Inl (Exn TypeError ''Java primitives cannot be used to synchronize.'')
      | JavaNull \<Rightarrow> Inl (Exn TypeError ''Java null cannot be used to synchronize.'')
      | JavaObj x \<Rightarrow> Inr x)"

text \<open>A Java monitor: its owner and the number of entries. Entering waits while another thread
  owns it (\<open>None\<close>); leaving without owning it is an error (\<open>None\<close>).\<close>

type_synonym 'x monitors = "'x \<Rightarrow> (nat \<times> nat) option"

definition monitor_enter :: "nat \<Rightarrow> 'x \<Rightarrow> 'x monitors \<Rightarrow> 'x monitors option" where
  "monitor_enter t x ms =
     (case ms x of None \<Rightarrow> Some (ms(x \<mapsto> (t, 1)))
      | Some (u, n) \<Rightarrow> if u = t then Some (ms(x \<mapsto> (t, n + 1))) else None)"

definition monitor_exit :: "nat \<Rightarrow> 'x \<Rightarrow> 'x monitors \<Rightarrow> 'x monitors option" where
  "monitor_exit t x ms =
     (case ms x of None \<Rightarrow> None
      | Some (u, n) \<Rightarrow> if u = t then Some (if n = 1 then ms(x := None) else ms(x \<mapsto> (t, n - 1))) else None)"

text \<open>
  Programs of Python threads: \<open>With x p\<close> is \<open>with synchronized(x): p\<close>, \<open>RaiseExc\<close> an exception
  that no handler takes. A thread is a stack of what it has to do; \<open>Leave x\<close> is the pending
  \<open>__exit__\<close>, which runs when an exception passes too.
\<close>

datatype 'x prog = Work | RaiseExc | Then "'x prog" "'x prog" | With 'x "'x prog"

datatype 'x todo = Run "'x prog" | Leave 'x | Raising

type_synonym 'x sync_state = "'x monitors \<times> (nat \<Rightarrow> 'x todo list)"

inductive sync_step :: "'x sync_state \<Rightarrow> 'x sync_state \<Rightarrow> bool" where
  work: "ts t = Run Work # k \<Longrightarrow> sync_step (ms, ts) (ms, ts(t := k))"
| seq: "ts t = Run (Then p q) # k \<Longrightarrow> sync_step (ms, ts) (ms, ts(t := Run p # Run q # k))"
| raise: "ts t = Run RaiseExc # k \<Longrightarrow> sync_step (ms, ts) (ms, ts(t := Raising # k))"
| enter: "ts t = Run (With x p) # k \<Longrightarrow> monitor_enter t x ms = Some ms' \<Longrightarrow>
    sync_step (ms, ts) (ms', ts(t := Run p # Leave x # k))"
| leave: "ts t = Leave x # k \<Longrightarrow> monitor_exit t x ms = Some ms' \<Longrightarrow> sync_step (ms, ts) (ms', ts(t := k))"
| unwind: "ts t = Raising # Run p # k \<Longrightarrow> sync_step (ms, ts) (ms, ts(t := Raising # k))"
| unwind_leave: "ts t = Raising # Leave x # k \<Longrightarrow> monitor_exit t x ms = Some ms' \<Longrightarrow>
    sync_step (ms, ts) (ms', ts(t := Raising # k))"
| died: "ts t = [Raising] \<Longrightarrow> sync_step (ms, ts) (ms, ts(t := []))"


inductive_cases sync_stepE: "sync_step (ms, ts) s'"

text \<open>The entries of a monitor that a stack has pending, and the invariant.\<close>

definition pending :: "'x \<Rightarrow> 'x todo list \<Rightarrow> nat" where
  "pending x k = length (filter (\<lambda>i. i = Leave x) k)"


lemma pending_simps [simp]:
  "pending x [] = 0" "pending x (Leave y # k) = (if x = y then 1 else 0) + pending x k"
  "pending x (Run p # k) = pending x k" "pending x (Raising # k) = pending x k"
  by (auto simp: pending_def)






















section \<open>Exceptions\<close>

text \<open>The customizer of \<open>java.lang.Throwable\<close>. A null message prints as Python prints None. The
  writers are records of operations on a world of Java objects.\<close>

definition JException_message :: "(pyexn + string option) \<Rightarrow> pyexn + string" where
  "JException_message getMessage =
     (case getMessage of Inl e \<Rightarrow> Inl e | Inr m \<Rightarrow> Inr (case m of None \<Rightarrow> ''None'' | Some s \<Rightarrow> s))"

record ('w, 'h) writers =
  wr_string_writer :: "('w, pyexn, 'h) pyop"
  wr_print_writer :: "'h \<Rightarrow> ('w, pyexn, 'h) pyop"
  wr_print_stack :: "'h \<Rightarrow> ('w, pyexn, unit) pyop"
  wr_flush :: "'h \<Rightarrow> ('w, pyexn, unit) pyop"
  wr_to_string :: "'h \<Rightarrow> ('w, pyexn, string) pyop"
  wr_close :: "'h \<Rightarrow> ('w, pyexn, unit) pyop"

definition JException_stacktrace :: "('w, 'h) writers \<Rightarrow> ('w, pyexn, string) pyop" where
  "JException_stacktrace W =
     pbind (wr_string_writer W) (\<lambda>sw.
     pbind (wr_print_writer W sw) (\<lambda>pw.
     pseq (wr_print_stack W pw)
     (pseq (wr_flush W pw)
     (pbind (wr_to_string W sw) (\<lambda>r.
     pseq (wr_close W sw) (ret r))))))"

definition JException_args :: "'a \<Rightarrow> 'a" where
  "JException_args args = args"

text \<open>
  The documented behaviour of the writers: \<open>sees sw s\<close> says that the string writer holds \<open>s\<close>, and
  \<open>feeds pw sw s p\<close> that besides the print writer keeps \<open>p\<close> back; how much it keeps back when it
  is printed to is its own affair.
\<close>

locale stack_writers =
  fixes W :: "('w, 'h) writers"
    and sees :: "'h \<Rightarrow> string \<Rightarrow> 'w \<Rightarrow> bool"
    and feeds :: "'h \<Rightarrow> 'h \<Rightarrow> string \<Rightarrow> string \<Rightarrow> 'w \<Rightarrow> bool"
    and trace :: string
  assumes new_writer: "\<exists>sw w'. wr_string_writer W w = (Inr sw, w') \<and> sees sw [] w'"
    and new_printer: "sees sw s w \<Longrightarrow> \<exists>pw w'. wr_print_writer W sw w = (Inr pw, w') \<and> feeds pw sw s [] w'"
    and print_stack: "feeds pw sw s p w \<Longrightarrow>
      \<exists>s' p' w'. wr_print_stack W pw w = (Inr (), w') \<and> feeds pw sw s' p' w' \<and> s' @ p' = s @ p @ trace"
    and flush: "feeds pw sw s p w \<Longrightarrow> \<exists>w'. wr_flush W pw w = (Inr (), w') \<and> sees sw (s @ p) w'"
    and to_string: "sees sw s w \<Longrightarrow> wr_to_string W sw w = (Inr s, w)"
    and close: "sees sw s w \<Longrightarrow> \<exists>w'. wr_close W sw w = (Inr (), w')"
begin

lemma stacktrace_text: "\<exists>w'. JException_stacktrace W w = (Inr trace, w')"
proof -
  obtain sw w1 where 1: "wr_string_writer W w = (Inr sw, w1)" "sees sw [] w1" using new_writer by blast
  obtain pw w2 where 2: "wr_print_writer W sw w1 = (Inr pw, w2)" "feeds pw sw [] [] w2"
    using new_printer [OF 1(2)] by blast
  obtain s p w3 where 3: "wr_print_stack W pw w2 = (Inr (), w3)" "feeds pw sw s p w3" "s @ p = trace"
    using print_stack [OF 2(2)] by auto
  obtain w4 where 4: "wr_flush W pw w3 = (Inr (), w4)" "sees sw trace w4" using flush [OF 3(2)] 3(3) by auto
  obtain w5 where "wr_close W sw w4 = (Inr (), w5)" using close [OF 4(2)] by blast
  then show ?thesis using 1 2 3 4 to_string [OF 4(2)] by (simp add: JException_stacktrace_def pyrun)
qed

end

text \<open>Writers that keep everything back until they are flushed.\<close>

type_synonym writer_world = "string list \<times> (nat \<times> string) list"

definition lazy_writers :: "string \<Rightarrow> (writer_world, nat) writers" where
  "lazy_writers trace = \<lparr>
     wr_string_writer = \<lambda>(ss, ps). (Inr (length ss), (ss @ [[]], ps)),
     wr_print_writer = \<lambda>sw (ss, ps). (Inr (length ps), (ss, ps @ [(sw, [])])),
     wr_print_stack = \<lambda>pw (ss, ps). (Inr (), (ss, ps[pw := (fst (ps ! pw), snd (ps ! pw) @ trace)])),
     wr_flush = \<lambda>pw (ss, ps). (Inr (), (ss[fst (ps ! pw) := ss ! fst (ps ! pw) @ snd (ps ! pw)], ps[pw := (fst (ps ! pw), [])])),
     wr_to_string = \<lambda>sw (ss, ps). (Inr (ss ! sw), (ss, ps)),
     wr_close = \<lambda>sw w. (Inr (), w)\<rparr>"

definition lazy_sees :: "nat \<Rightarrow> string \<Rightarrow> writer_world \<Rightarrow> bool" where
  "lazy_sees sw s w = (sw < length (fst w) \<and> fst w ! sw = s)"

definition lazy_feeds :: "nat \<Rightarrow> nat \<Rightarrow> string \<Rightarrow> string \<Rightarrow> writer_world \<Rightarrow> bool" where
  "lazy_feeds pw sw s p w = (lazy_sees sw s w \<and> pw < length (snd w) \<and> snd w ! pw = (sw, p))"

interpretation lazy: stack_writers "lazy_writers trace" lazy_sees lazy_feeds trace for trace
  by unfold_locales
    (auto simp: lazy_writers_def lazy_sees_def lazy_feeds_def nth_append)

text \<open>The stack trace of a Java exception is the whole text that Java prints for it, however
  much of it the print writer keeps back; the message is Java's, but a missing message is the
  text None.\<close>
theorem stacktrace_complete:
  assumes "stack_writers W sees feeds trace"
  shows "(\<exists>w'. JException_stacktrace W w = (Inr trace, w')) \<and>
    JException_message (Inr m) = Inr (case m of None \<Rightarrow> ''None'' | Some s \<Rightarrow> s)"
  using stack_writers.stacktrace_text [OF assms] by (simp add: JException_message_def)

theorem stacktrace_complete_witness:
  "\<exists>w'. JException_stacktrace (lazy_writers ''at A.main'') ([''other''], []) = (Inr ''at A.main'', w')"
  using stacktrace_complete [OF lazy.stack_writers_axioms [of "''at A.main''"]] by blast

end
