(* ===== verification/TextWrap.thy ===== *)
theory TextWrap
  imports JPrelude
begin

text \<open>
  Python's \<open>textwrap.TextWrapper\<close> as the documentation generators use it: the text is cut into
  words and runs of whitespace, and whole chunks are put on a line while they fit; a chunk
  longer than a line is broken. The words are Java names, so the model has no hyphens (where
  the library would also break) and no tabs (which it expands first).
\<close>

section \<open>Chunks and lines\<close>

definition is_ws :: "char \<Rightarrow> bool" where
  "is_ws c = (c \<in> {CHR '' '', CHR 0x09, CHR 0x0A, CHR 0x0B, CHR 0x0C, CHR 0x0D})"

text \<open>A chunk that \<open>strip\<close> leaves empty.\<close>

definition blank :: "string \<Rightarrow> bool" where
  "blank s = list_all is_ws s"

definition munge :: "string \<Rightarrow> string" where
  "munge s = map (\<lambda>c. if is_ws c then CHR '' '' else c) s"

function split_chunks :: "string \<Rightarrow> string list" where
  "split_chunks [] = []"
| "split_chunks (c # s) =
     (c # takeWhile (\<lambda>x. is_ws x = is_ws c) s) # split_chunks (dropWhile (\<lambda>x. is_ws x = is_ws c) s)"
  by pat_completeness auto

termination split_chunks
  by (relation "measure length") (auto simp: length_dropWhile_le less_Suc_eq_le)

text \<open>The chunks that fit on the line, and the rest; \<open>n\<close> is the length so far.\<close>

fun fill_line :: "nat \<Rightarrow> nat \<Rightarrow> string list \<Rightarrow> string list \<times> string list" where
  "fill_line w n [] = ([], [])"
| "fill_line w n (c # cs) =
     (if n + length c \<le> w then (let (t, r) = fill_line w (n + length c) cs in (c # t, r)) else ([], c # cs))"

definition total_length :: "string list \<Rightarrow> nat" where
  "total_length cs = sum_list (map length cs)"

text \<open>The next chunk fits on no line: the line takes as much of it as there is room for.\<close>

definition break_long :: "nat \<Rightarrow> string list \<Rightarrow> string list \<Rightarrow> string list \<times> string list" where
  "break_long w cur rest =
     (case rest of
        [] \<Rightarrow> (cur, [])
      | c # cs \<Rightarrow>
          if length c > w
          then let room = (if w < 1 then 1 else w - total_length cur)
               in (cur @ [take room c], drop room c # cs)
          else (cur, rest))"

definition drop_blank :: "string list \<Rightarrow> string list" where
  "drop_blank cur = (if cur \<noteq> [] \<and> blank (last cur) then butlast cur else cur)"

text \<open>One turn of the outer loop: the chunks of the line and the chunks left.\<close>

definition wrap_line :: "nat \<Rightarrow> bool \<Rightarrow> string list \<Rightarrow> string list \<times> string list" where
  "wrap_line w started chunks =
     (let chunks = (if started \<and> blank (hd chunks) then tl chunks else chunks);
          (cur, rest) = fill_line w 0 chunks;
          (cur, rest) = break_long w cur rest
      in (drop_blank cur, rest))"

lemma fill_parts: "fill_line w n cs = (t, r) \<Longrightarrow> cs = t @ r \<and> total_length t \<le> w - n"
proof (induction cs arbitrary: n t r)
  case (Cons c cs)
  then show ?case by (fastforce simp: total_length_def split: if_splits prod.splits)
qed (simp add: total_length_def)

lemma fill_nonempty: "fill_line w 0 (c # cs) = (t, r) \<Longrightarrow> length c \<le> w \<Longrightarrow> t \<noteq> []"
  by (auto split: prod.splits)

lemma fill_stuck: "fill_line w n cs = (t, c # r) \<Longrightarrow> \<not> n + total_length t + length c \<le> w"
proof (induction cs arbitrary: n t)
  case (Cons d cs)
  then show ?case by (fastforce simp: total_length_def add.assoc split: if_splits prod.splits)
qed simp

lemma total_length_simps [simp]:
  "total_length [] = 0" "total_length (c # cs) = length c + total_length cs"
  "total_length (cs @ ds) = total_length cs + total_length ds"
  by (simp_all add: total_length_def)

text \<open>The rest of a turn is shorter: a chunk was used up, or a long one lost characters.\<close>

definition wrap_measure :: "string list \<Rightarrow> nat" where
  "wrap_measure cs = total_length cs + length cs"

lemma wrap_line_measure:
  assumes "chunks \<noteq> []"
  shows "wrap_measure (snd (wrap_line w started chunks)) < wrap_measure chunks"
proof -
  define cs where "cs = (if started \<and> blank (hd chunks) then tl chunks else chunks)"
  obtain t r where f: "fill_line w 0 cs = (t, r)" by fastforce
  have p: "cs = t @ r" "total_length t \<le> w" using fill_parts [OF f] by simp_all
  have le: "wrap_measure cs \<le> wrap_measure chunks"
    using assms by (cases chunks) (auto simp: cs_def wrap_measure_def)
  have w: "wrap_line w started chunks = (drop_blank (fst (break_long w t r)), snd (break_long w t r))"
    by (simp add: wrap_line_def cs_def [symmetric] f split: prod.splits)
  show ?thesis
  proof (cases r)
    case Nil
    then have "wrap_measure (snd (wrap_line w started chunks)) = 0"
      by (simp add: w break_long_def wrap_measure_def)
    with assms show ?thesis by (cases chunks) (simp_all add: wrap_measure_def)
  next
    case (Cons c r')
    show ?thesis
    proof (cases "length c > w")
      case long: True
      show ?thesis
      proof (cases t)
        case Nil
        with long le p(1) Cons show ?thesis by (auto simp: w break_long_def wrap_measure_def)
      next
        case (Cons d t')
        with long le p(1) \<open>r = c # r'\<close> show ?thesis by (simp add: w break_long_def wrap_measure_def Let_def)
      qed
    next
      case short: False
      have "t \<noteq> []" using fill_stuck [of w 0 cs "[]" c r'] f Cons short by auto
      with short le p(1) Cons show ?thesis by (cases t) (simp_all add: w break_long_def wrap_measure_def)
    qed
  qed
qed

text \<open>\<open>_wrap_chunks\<close>; \<open>started\<close> says that a line was made already.\<close>

function wrap_chunks :: "nat \<Rightarrow> string \<Rightarrow> string \<Rightarrow> bool \<Rightarrow> string list \<Rightarrow> string list" where
  "wrap_chunks width ini sub started chunks =
     (if chunks = [] then []
      else let indent = (if started then sub else ini);
               (cur, rest) = wrap_line (width - length indent) started chunks
           in if cur = [] then wrap_chunks width ini sub started rest
              else (indent @ concat cur) # wrap_chunks width ini sub True rest)"
  by pat_completeness auto

termination wrap_chunks
proof (relation "measure (\<lambda>(_, _, _, _, cs). wrap_measure cs)", goal_cases)
  case (2 width ini sub started chunks indent x cur rest)
  then show ?case
    using wrap_line_measure [of chunks "width - length (if started then sub else ini)" started]
    by (auto dest: sym)
next
  case (3 width ini sub started chunks indent x cur rest)
  then show ?case
    using wrap_line_measure [of chunks "width - length (if started then sub else ini)" started]
    by (auto dest: sym)
qed simp

declare wrap_chunks.simps [simp del]

definition text_wrap :: "nat \<Rightarrow> string \<Rightarrow> string \<Rightarrow> string \<Rightarrow> string list" where
  "text_wrap width ini sub s = wrap_chunks width ini sub False (split_chunks (munge s))"

section \<open>What wrapping keeps\<close>

text \<open>No line is longer than the width, when the indents leave room for at least a character.\<close>

lemma drop_blank_length: "total_length (drop_blank cur) \<le> total_length cur"
proof (cases "cur = []")
  case False
  then obtain xs x where "cur = xs @ [x]" by (cases cur rule: rev_cases) auto
  then show ?thesis by (simp add: drop_blank_def)
qed (simp add: drop_blank_def)

lemma wrap_line_fits:
  assumes "1 \<le> w"
  shows "total_length (fst (wrap_line w started chunks)) \<le> w"
proof -
  define cs where "cs = (if started \<and> blank (hd chunks) then tl chunks else chunks)"
  obtain t r where f: "fill_line w 0 cs = (t, r)" by fastforce
  have t: "total_length t \<le> w" using fill_parts [OF f] by simp
  have "total_length (fst (break_long w t r)) \<le> w"
    using assms t by (cases r) (auto simp: break_long_def Let_def)
  then show ?thesis
    using drop_blank_length [of "fst (break_long w t r)"]
    by (cases "break_long w t r") (simp add: wrap_line_def cs_def [symmetric] f)
qed

lemma length_concat_total: "length (concat cs) = total_length cs"
  by (induction cs) simp_all

text \<open>Every line is an indent with the chunks of one turn.\<close>

lemma wrap_chunks_lines:
  "l \<in> set (wrap_chunks width ini sub started chunks) \<Longrightarrow>
     \<exists>st ch ind. ind = (if st then sub else ini) \<and> l = ind @ concat (fst (wrap_line (width - length ind) st ch))"
proof (induction width ini sub started chunks rule: wrap_chunks.induct)
  case (1 width ini sub started chunks)
  let ?ind = "if started then sub else ini"
  have ne: "chunks \<noteq> []" using 1(3) by (auto simp: wrap_chunks.simps)
  obtain cur rest where w: "wrap_line (width - length ?ind) started chunks = (cur, rest)" by fastforce
  have "l = ?ind @ concat cur \<or> l \<in> set (wrap_chunks width ini sub (cur \<noteq> [] \<or> started) rest)"
    using 1(3) ne w by (subst (asm) wrap_chunks.simps) (simp add: Let_def split: if_splits)
  then show ?case
  proof
    assume "l = ?ind @ concat cur"
    then show ?case using w by (intro exI [of _ started] exI [of _ chunks] exI [of _ ?ind]) simp
  next
    assume "l \<in> set (wrap_chunks width ini sub (cur \<noteq> [] \<or> started) rest)"
    then show ?case
      using 1(1) [OF ne refl w [symmetric] refl] 1(2) [OF ne refl w [symmetric] refl] by (cases "cur = []") auto
  qed
qed

lemma wrap_chunks_fit:
  assumes "length ini < width" and "length sub < width"
    and "l \<in> set (wrap_chunks width ini sub started chunks)"
  shows "length l \<le> width"
proof -
  obtain st ch ind where l: "ind = (if st then sub else ini)"
      "l = ind @ concat (fst (wrap_line (width - length ind) st ch))"
    using wrap_chunks_lines [OF assms(3)] by blast
  have room: "1 \<le> width - length ind" using assms(1,2) l(1) by (cases st) simp_all
  show ?thesis
    using wrap_line_fits [OF room, of st ch] room by (simp add: l(2) length_concat_total)
qed

text \<open>No character of a word is lost: \<open>ink\<close> is what is left of a text without whitespace.\<close>

definition ink :: "string \<Rightarrow> string" where
  "ink s = filter (\<lambda>c. \<not> is_ws c) s"

lemma ink_append [simp]: "ink (s @ t) = ink s @ ink t"
  by (simp add: ink_def)

lemma ink_Nil [simp]: "ink [] = []"
  by (simp add: ink_def)

lemma ink_blank: "blank s \<Longrightarrow> ink s = []"
  by (simp add: ink_def blank_def list_all_iff)

lemma ink_munge: "ink (munge s) = ink s"
  by (induction s) (auto simp: ink_def munge_def is_ws_def)

lemma concat_chunks: "concat (split_chunks s) = s"
  by (induction s rule: split_chunks.induct) simp_all

lemma ink_drop_blank: "ink (concat (drop_blank cur)) = ink (concat cur)"
proof (cases "cur = []")
  case False
  then obtain xs x where "cur = xs @ [x]" by (cases cur rule: rev_cases) auto
  then show ?thesis by (simp add: drop_blank_def ink_blank)
qed (simp add: drop_blank_def)

lemma wrap_line_ink:
  assumes "chunks \<noteq> []" and "wrap_line w started chunks = (cur, rest)"
  shows "ink (concat cur) @ ink (concat rest) = ink (concat chunks)"
proof -
  define cs where "cs = (if started \<and> blank (hd chunks) then tl chunks else chunks)"
  obtain t r where f: "fill_line w 0 cs = (t, r)" by fastforce
  have c: "ink (concat cs) = ink (concat chunks)"
    using assms(1) by (cases chunks) (auto simp: cs_def ink_blank)
  have b: "concat (fst (break_long w t r)) @ concat (snd (break_long w t r)) = concat t @ concat r"
    by (cases r) (simp_all add: break_long_def Let_def)
  have "cur = drop_blank (fst (break_long w t r))" "rest = snd (break_long w t r)"
    using assms(2) by (simp_all add: wrap_line_def cs_def [symmetric] f split: prod.splits)
  then show ?thesis
    using arg_cong [OF b, of ink] c fill_parts [OF f] by (simp add: ink_drop_blank)
qed

lemma wrap_chunks_ink:
  assumes "blank ini" and "blank sub"
  shows "ink (concat (wrap_chunks width ini sub started chunks)) = ink (concat chunks)"
  using assms
proof (induction width ini sub started chunks rule: wrap_chunks.induct)
  case (1 width ini sub started chunks)
  show ?case
  proof (cases "chunks = []")
    case False
    let ?ind = "if started then sub else ini"
    obtain cur rest where w: "wrap_line (width - length ?ind) started chunks = (cur, rest)" by fastforce
    have i: "ink ?ind = []" using 1(3,4) by (simp add: ink_blank)
    show ?thesis
      using 1(1) [OF False refl w [symmetric] refl _ 1(3,4)] 1(2) [OF False refl w [symmetric] refl _ 1(3,4)] w i
        wrap_line_ink [OF False w]
      by (subst wrap_chunks.simps) (cases "cur = []"; simp add: False Let_def)
  qed (simp add: wrap_chunks.simps)
qed

lemma text_wrap_fits:
  "length ini < width \<Longrightarrow> length sub < width \<Longrightarrow> l \<in> set (text_wrap width ini sub s) \<Longrightarrow> length l \<le> width"
  using wrap_chunks_fit by (simp add: text_wrap_def)

lemma text_wrap_ink: "blank ini \<Longrightarrow> blank sub \<Longrightarrow> ink (concat (text_wrap width ini sub s)) = ink s"
  by (simp add: text_wrap_def wrap_chunks_ink concat_chunks ink_munge)

text \<open>Every line begins with its indent.\<close>

lemma text_wrap_indent: "l \<in> set (text_wrap width ind ind s) \<Longrightarrow> \<exists>t. l = ind @ t"
  unfolding text_wrap_def using wrap_chunks_lines [of l width ind ind] by fastforce

end
