(* ===== verification/MethodDoc.thy ===== *)
theory MethodDoc
  imports TextWrap PyExceptions "HOL-Library.Word"
begin

text \<open>
  The documentation and annotations of wrapped classes and methods: \<open>_jclassDoc\<close> of
  \<open>_jclass.py\<close>, the generators of \<open>_jmethod.py\<close>, and the getter of the extension module that
  keeps the text of a class. Java's reflection is the record \<open>reflection\<close> over the classes
  \<open>'c\<close>; modifiers are Java ints. The state is what the generators leave on the class objects.
\<close>

unbundle bit_operations_syntax

section \<open>Reflection\<close>

record 'c overload =
  ol_name :: string
  ol_modifiers :: "32 word"
  ol_exceptions :: "'c list"
  ol_return :: 'c
  ol_params :: "'c list"

record 'c constructor =
  ct_modifiers :: "32 word"
  ct_params :: "'c list"
  ct_exceptions :: "'c list"

record 'c field_info =
  fd_name :: string
  fd_type :: 'c
  fd_modifiers :: "32 word"
  fd_enum :: bool

record javadoc =
  jd_description :: "string option"
  jd_ctors :: "string option"
  jd_methods :: "string \<Rightarrow> string option"

text \<open>
  A canonical name may be null. \<open>rf_mro\<close> is the method resolution order of the wrapper, the
  class first; \<open>rf_javadoc\<close> the extractor of the support library; \<open>rf_class_set\<close> and
  \<open>rf_name_set\<close> list the members of a Python set made of a list, in an order of their own;
  \<open>rf_wrap\<close> makes the wrapper of a class.
\<close>

record ('c, 'w) reflection =
  rf_name :: "'c \<Rightarrow> string"
  rf_canonical :: "'c \<Rightarrow> string option"
  rf_simple :: "'c \<Rightarrow> string"
  rf_super :: "'c \<Rightarrow> 'c option"
  rf_interfaces :: "'c \<Rightarrow> 'c list"
  rf_ctors :: "'c \<Rightarrow> 'c constructor list"
  rf_fields :: "'c \<Rightarrow> 'c field_info list"
  rf_mro :: "'c \<Rightarrow> 'c list"
  rf_javadoc :: "'c \<Rightarrow> pyexn + javadoc option"
  rf_class_set :: "'c list \<Rightarrow> 'c list"
  rf_name_set :: "string option list \<Rightarrow> string option list"
  rf_wrap :: "'c \<Rightarrow> pyexn + 'w"

text \<open>Python's text of a Java string that may be null, and \<open>sep.join\<close>.\<close>

definition str_of :: "string option \<Rightarrow> string" where
  "str_of s = (case s of None \<Rightarrow> ''None'' | Some t \<Rightarrow> t)"

fun str_join :: "string \<Rightarrow> string list \<Rightarrow> string" where
  "str_join sep [] = []"
| "str_join sep [s] = s"
| "str_join sep (s # t # ss) = s @ sep @ str_join sep (t # ss)"

definition names :: "('c, 'w) reflection \<Rightarrow> 'c list \<Rightarrow> string" where
  "names R cs = str_join '', '' (map (\<lambda>c. str_of (rf_canonical R c)) cs)"

definition is_public :: "32 word \<Rightarrow> bool" where "is_public m = (m AND 1 \<noteq> 0)"
definition is_static :: "32 word \<Rightarrow> bool" where "is_static m = (m AND 8 \<noteq> 0)"
definition is_final :: "32 word \<Rightarrow> bool" where "is_final m = (m AND 16 \<noteq> 0)"

text \<open>A section: its title, its lines and an empty line, when there are lines.\<close>

definition doc_section :: "string \<Rightarrow> string list \<Rightarrow> string list" where
  "doc_section title ls = (if ls = [] then [] else title # ls @ [''''])"

definition raises_lines :: "('c, 'w) reflection \<Rightarrow> 'c list \<Rightarrow> string list" where
  "raises_lines R excs = map (\<lambda>e. ''    '' @ str_of (rf_canonical R e) @ '': from java'') (rf_class_set R excs)"

definition raises_section :: "('c, 'w) reflection \<Rightarrow> 'c list \<Rightarrow> string list" where
  "raises_section R excs = (if excs = [] then [] else ''  Raises:'' # raises_lines R excs @ [''''])"

section \<open>The text of a method\<close>

definition overload_line :: "('c, 'w) reflection \<Rightarrow> 'c overload \<Rightarrow> string" where
  "overload_line R ov =
     ''    * '' @ str_of (rf_canonical R (ol_return ov)) @ '' '' @ ol_name ov @ ''('' @ names R (ol_params ov) @ '')''"

definition returns_section :: "('c, 'w) reflection \<Rightarrow> string option list \<Rightarrow> string list" where
  "returns_section R returns =
     (if returns = [] then []
      else ''  Returns:'' # text_wrap 70 ''    '' ''    '' (str_join '', '' (map str_of (rf_name_set R returns))) @ [''''])"

record 'c doc_lists =
  dl_exceptions :: "'c list"
  dl_returns :: "string option list"
  dl_methods :: "string list"
  dl_classmethods :: "string list"

definition scan_overload :: "('c, 'w) reflection \<Rightarrow> 'c overload \<Rightarrow> 'c doc_lists \<Rightarrow> 'c doc_lists" where
  "scan_overload R ov d =
     (let returnName = rf_canonical R (ol_return ov);
          d = d\<lparr>dl_exceptions := dl_exceptions d @ ol_exceptions ov\<rparr>;
          d = (if returnName \<noteq> Some ''void'' then d\<lparr>dl_returns := dl_returns d @ [returnName]\<rparr> else d)
      in if is_static (ol_modifiers ov)
         then d\<lparr>dl_classmethods := dl_classmethods d @ [overload_line R ov]\<rparr>
         else d\<lparr>dl_methods := dl_methods d @ [overload_line R ov]\<rparr>)"

definition method_lines :: "('c, 'w) reflection \<Rightarrow> string \<Rightarrow> 'c \<Rightarrow> 'c overload list \<Rightarrow> string list" where
  "method_lines R name cls overloads =
     (let d = fold (scan_overload R) overloads
                \<lparr>dl_exceptions = [], dl_returns = [], dl_methods = [], dl_classmethods = []\<rparr>
      in [''Java method dispatch '' @ CHR 0x27 # name @ CHR 0x27 # '' for '' @ CHR 0x27 # rf_name R cls @ [CHR 0x27], '''']
         @ doc_section ''  Static Methods:'' (dl_classmethods d)
         @ doc_section ''  Virtual Methods:'' (dl_methods d)
         @ raises_section R (dl_exceptions d)
         @ returns_section R (dl_returns d))"

definition newline :: string where "newline = [CHR 0x0A]"

section \<open>The text of a class\<close>

definition extends_section :: "('c, 'w) reflection \<Rightarrow> 'c \<Rightarrow> string list" where
  "extends_section R c =
     (case rf_super R c of None \<Rightarrow> [] | Some s \<Rightarrow> [''    Extends:'', ''        '' @ rf_name R s, ''''])"

definition interfaces_section :: "('c, 'w) reflection \<Rightarrow> 'c \<Rightarrow> string list" where
  "interfaces_section R c =
     (let intfs = rf_interfaces R c
      in if intfs = [] then []
         else ''    Interfaces:'' # text_wrap 70 ''        '' ''        '' (names R intfs) @ [''''])"

definition scan_ctor ::
  "('c, 'w) reflection \<Rightarrow> string \<Rightarrow> 'c constructor \<Rightarrow> string list \<times> 'c list \<Rightarrow> string list \<times> 'c list" where
  "scan_ctor R name ctor = (\<lambda>(ctordecl, exceptions).
     if \<not> is_public (ct_modifiers ctor) then (ctordecl, exceptions)
     else (ctordecl @ [''    * '' @ name @ ''('' @ names R (ct_params ctor) @ '')''], exceptions @ ct_exceptions ctor))"

definition ctors_section :: "('c, 'w) reflection \<Rightarrow> 'c \<Rightarrow> string list" where
  "ctors_section R c =
     (let ctors = rf_ctors R c
      in if ctors = [] then []
         else let (ctordecl, exceptions) = fold (scan_ctor R (rf_simple R c)) ctors ([], [])
              in doc_section ''  Constructors:'' ctordecl @ raises_section R exceptions)"

definition field_line :: "('c, 'w) reflection \<Rightarrow> 'c field_info \<Rightarrow> string" where
  "field_line R f =
     (let fieldInfo = (if is_final (fd_modifiers f) then [''final''] else [])
            @ (if is_static (fd_modifiers f) then [''static''] else [])
            @ [if fd_enum f then ''enum constant'' else ''field'']
      in ''    '' @ fd_name f @ '' ('' @ rf_name R (fd_type f) @ ''): '' @ str_join '' '' fieldInfo)"

definition scan_field :: "('c, 'w) reflection \<Rightarrow> 'c field_info \<Rightarrow> string list \<Rightarrow> string list" where
  "scan_field R f fielddesc = (if \<not> is_public (fd_modifiers f) then fielddesc else fielddesc @ [field_line R f])"

definition fields_section :: "('c, 'w) reflection \<Rightarrow> 'c \<Rightarrow> string list" where
  "fields_section R c =
     (let fields = rf_fields R c
      in if fields = [] then [] else doc_section ''  Attributes:'' (fold (scan_field R) fields []))"

definition class_lines :: "('c, 'w) reflection \<Rightarrow> 'c \<Rightarrow> string list" where
  "class_lines R c =
     [''Java class '' @ CHR 0x27 # rf_name R c @ [CHR 0x27], '''']
     @ extends_section R c @ interfaces_section R c @ ctors_section R c @ fields_section R c"

section \<open>The generators\<close>

text \<open>The attribute \<open>__javadoc__\<close> in the dictionary of each class, and the kept text.\<close>

record 'c doc_state =
  ds_javadoc :: "'c \<Rightarrow> javadoc option option"
  ds_doc :: "'c \<Rightarrow> string option"

text \<open>Attribute lookup on a class goes along its resolution order.\<close>

primrec first_attr :: "('c \<Rightarrow> 'v option) \<Rightarrow> 'c list \<Rightarrow> 'v option" where
  "first_attr f [] = None"
| "first_attr f (c # cs) = (case f c of Some v \<Rightarrow> Some v | None \<Rightarrow> first_attr f cs)"

definition get_javadoc :: "('c, 'w) reflection \<Rightarrow> 'c \<Rightarrow> 'c doc_state \<Rightarrow> javadoc option option" where
  "get_javadoc R c s = first_attr (ds_javadoc s) (rf_mro R c)"

definition set_javadoc :: "'c \<Rightarrow> javadoc option \<Rightarrow> 'c doc_state \<Rightarrow> 'c doc_state" where
  "set_javadoc c jd s = s\<lparr>ds_javadoc := (ds_javadoc s)(c \<mapsto> jd)\<rparr>"

definition jclassDoc_plain :: "('c, 'w) reflection \<Rightarrow> 'c \<Rightarrow> ('c doc_state, pyexn, string) pyop" where
  "jclassDoc_plain R c = pseq (pmod (set_javadoc c None)) (ret (str_join newline (class_lines R c)))"

definition jclassDoc :: "('c, 'w) reflection \<Rightarrow> 'c \<Rightarrow> ('c doc_state, pyexn, string) pyop" where
  "jclassDoc R c =
     pbind (pget (\<lambda>s. get_javadoc R c s \<noteq> None)) (\<lambda>has.
       if \<not> has
       then pbind (plift (rf_javadoc R c)) (\<lambda>jd.
              case jd of
                Some j \<Rightarrow>
                  pseq (pmod (set_javadoc c (Some j)))
                    (ret ((case jd_description j of Some t \<Rightarrow> t | None \<Rightarrow> []) @ (case jd_ctors j of Some t \<Rightarrow> t | None \<Rightarrow> [])))
              | None \<Rightarrow> jclassDoc_plain R c)
       else jclassDoc_plain R c)"

text \<open>\<open>cls.__doc__\<close>: the extension module calls the generator once and keeps its text.\<close>

definition PyJPClass_getDoc :: "('c, 'w) reflection \<Rightarrow> 'c \<Rightarrow> ('c doc_state, pyexn, string) pyop" where
  "PyJPClass_getDoc R c =
     pbind (pget (\<lambda>s. ds_doc s c)) (\<lambda>kept.
       case kept of
         Some t \<Rightarrow> ret t
       | None \<Rightarrow> pbind (jclassDoc R c) (\<lambda>t.
           pseq (pmod (\<lambda>s. s\<lparr>ds_doc := (ds_doc s)(c \<mapsto> t)\<rparr>)) (ret t)))"

text \<open>\<open>cls.__doc__ = text\<close>, which a customizer with a docstring does to an existing class.\<close>

definition PyJPClass_setDoc :: "'c \<Rightarrow> string \<Rightarrow> ('c doc_state, pyexn, unit) pyop" where
  "PyJPClass_setDoc c t = pmod (\<lambda>s. s\<lparr>ds_doc := (ds_doc s)(c \<mapsto> t)\<rparr>)"

text \<open>The message is the interpreter's and is left empty.\<close>

definition no_javadoc :: pyexn where
  "no_javadoc = Exn AttributeError []"

definition jmethodGetDoc ::
  "('c, 'w) reflection \<Rightarrow> string \<Rightarrow> 'c \<Rightarrow> 'c overload list \<Rightarrow> ('c doc_state, pyexn, string) pyop" where
  "jmethodGetDoc R name cls overloads =
     pbind (pget (\<lambda>s. get_javadoc R cls s \<noteq> None)) (\<lambda>has.
     pseq (if \<not> has then pbind (PyJPClass_getDoc R cls) (\<lambda>_. ret ()) else ret ())
       (pbind (pget (get_javadoc R cls)) (\<lambda>jd.
          case jd of
            None \<Rightarrow> throw no_javadoc
          | Some None \<Rightarrow> ret (str_join newline (method_lines R name cls overloads))
          | Some (Some j) \<Rightarrow>
              (case jd_methods j name of
                 Some md \<Rightarrow> ret md
               | None \<Rightarrow> ret (str_join newline (method_lines R name cls overloads))))))"

section \<open>Annotations and code\<close>

definition arg_key :: "nat \<Rightarrow> string" where
  "arg_key i = ''arg'' @ nat_str i"

fun wrap_all :: "('c \<Rightarrow> pyexn + 'w) \<Rightarrow> nat \<Rightarrow> 'c list \<Rightarrow> (string, 'w) dict \<Rightarrow> pyexn + (string, 'w) dict" where
  "wrap_all wrap i [] out = Inr out"
| "wrap_all wrap i (p # ps) out =
     (case wrap p of Inl e \<Rightarrow> Inl e | Inr w \<Rightarrow> wrap_all wrap (i + 1) ps (dict_set (arg_key i) w out))"

definition jmethodGetAnnotation :: "('c, 'w) reflection \<Rightarrow> 'c overload list \<Rightarrow> pyexn + (string, 'w) dict" where
  "jmethodGetAnnotation R overloads =
     (case overloads of
        [ov] \<Rightarrow>
          (case wrap_all (rf_wrap R) 0 (ol_params ov) [] of
             Inl e \<Rightarrow> Inl e
           | Inr out \<Rightarrow>
               (case rf_wrap R (ol_return ov) of Inl e \<Rightarrow> Inl e | Inr w \<Rightarrow> Inr (dict_set ''return'' w out)))
      | _ \<Rightarrow>
          (case rf_class_set R (map ol_return overloads) of
             [r] \<Rightarrow> (case rf_wrap R r of Inl e \<Rightarrow> Inl e | Inr w \<Rightarrow> Inr [(''return'', w)])
           | _ \<Rightarrow> Inr []))"

text \<open>The code object of a method is that of a function that only calls the method.\<close>

definition jmethodGetCode :: "('a list \<Rightarrow> 'r) \<Rightarrow> 'a list \<Rightarrow> 'r" where
  "jmethodGetCode method_call = (\<lambda>args. method_call args)"

section \<open>Listings\<close>

lemma fold_overloads:
  "fold (scan_overload R) ovs d =
     \<lparr>dl_exceptions = dl_exceptions d @ concat (map ol_exceptions ovs),
      dl_returns = dl_returns d @ filter (\<lambda>r. r \<noteq> Some ''void'') (map (\<lambda>ov. rf_canonical R (ol_return ov)) ovs),
      dl_methods = dl_methods d @ map (overload_line R) (filter (\<lambda>ov. \<not> is_static (ol_modifiers ov)) ovs),
      dl_classmethods = dl_classmethods d @ map (overload_line R) (filter (\<lambda>ov. is_static (ol_modifiers ov)) ovs)\<rparr>"
  by (induction ovs arbitrary: d) (simp_all add: scan_overload_def Let_def)

lemma method_lines_eq:
  "method_lines R name cls ovs =
     [''Java method dispatch '' @ CHR 0x27 # name @ CHR 0x27 # '' for '' @ CHR 0x27 # rf_name R cls @ [CHR 0x27], '''']
     @ doc_section ''  Static Methods:'' (map (overload_line R) (filter (\<lambda>ov. is_static (ol_modifiers ov)) ovs))
     @ doc_section ''  Virtual Methods:'' (map (overload_line R) (filter (\<lambda>ov. \<not> is_static (ol_modifiers ov)) ovs))
     @ raises_section R (concat (map ol_exceptions ovs))
     @ returns_section R (filter (\<lambda>r. r \<noteq> Some ''void'') (map (\<lambda>ov. rf_canonical R (ol_return ov)) ovs))"
  by (simp add: method_lines_def fold_overloads Let_def)

text \<open>A bulleted line.\<close>

definition bullet :: "string \<Rightarrow> bool" where
  "bullet l = startswith l ''    * ''"

definition star_free :: "('c, 'w) reflection \<Rightarrow> bool" where
  "star_free R = (\<forall>c. CHR ''*'' \<notin> set (str_of (rf_canonical R c)))"

lemma bullet_overload: "bullet (overload_line R ov)"
  by (simp add: bullet_def startswith_def overload_line_def)

lemma bullet_star: "bullet l \<Longrightarrow> l = ''    '' @ t \<Longrightarrow> CHR ''*'' \<in> set t"
  by (cases t) (auto simp: bullet_def startswith_def)

lemma star_in_ink: "CHR ''*'' \<in> set l \<Longrightarrow> l \<in> set ls \<Longrightarrow> CHR ''*'' \<in> set (ink (concat ls))"
  by (auto simp: ink_def is_ws_def)

lemma star_join: "CHR ''*'' \<in> set (str_join '', '' ss) \<Longrightarrow> \<exists>s\<in>set ss. CHR ''*'' \<in> set s"
  by (induction "'', ''" ss rule: str_join.induct) auto

lemma wrapped_no_bullet:
  assumes "\<forall>s\<in>set ss. CHR ''*'' \<notin> set s"
  shows "filter bullet (text_wrap 70 ''    '' ''    '' (str_join '', '' ss)) = []"
proof (rule ccontr)
  let ?ls = "text_wrap 70 ''    '' ''    '' (str_join '', '' ss)"
  assume "filter bullet ?ls \<noteq> []"
  then obtain l where l: "l \<in> set ?ls" "bullet l" by (auto simp: filter_empty_conv)
  then have "CHR ''*'' \<in> set l" using text_wrap_indent [OF l(1)] bullet_star by fastforce
  then have "CHR ''*'' \<in> set (ink (str_join '', '' ss))"
    using star_in_ink [OF _ l(1)] text_wrap_ink [of "''    ''" "''    ''" 70] by (simp add: blank_def is_ws_def)
  then show False using assms star_join [of ss] by (auto simp: ink_def)
qed

lemma raises_no_bullet:
  assumes "star_free R"
  shows "filter bullet (raises_section R excs) = []"
proof -
  have "\<not> bullet (''    '' @ str_of (rf_canonical R e) @ '': from java'')" for e
    using bullet_star [OF _ refl, of "str_of (rf_canonical R e) @ '': from java''"] assms
    by (auto simp: star_free_def)
  then show ?thesis
    by (auto simp: raises_section_def raises_lines_def filter_empty_conv bullet_def startswith_def)
qed

lemma section_bullets:
  "\<not> bullet title \<Longrightarrow> \<forall>l\<in>set ls. bullet l \<Longrightarrow> filter bullet (doc_section title ls) = ls"
  by (auto simp: doc_section_def filter_id_conv bullet_def startswith_def)

text \<open>C29: The text generated for a method lists every overload once, one bulleted line each,
  the static ones first and each group in the order of the overloads; no other line is
  bulleted, whatever the order in which Python lists the sets of exceptions and returns.\<close>
theorem overloads_listed:
  assumes "star_free R" and "\<And>xs. set (rf_name_set R xs) = set xs"
  shows "filter bullet (method_lines R name cls ovs) =
      map (overload_line R) (filter (\<lambda>ov. is_static (ol_modifiers ov)) ovs) @
      map (overload_line R) (filter (\<lambda>ov. \<not> is_static (ol_modifiers ov)) ovs)"
proof -
  let ?rs = "filter (\<lambda>r. r \<noteq> Some ''void'') (map (\<lambda>ov. rf_canonical R (ol_return ov)) ovs)"
  have "\<forall>s\<in>set (map str_of (rf_name_set R ?rs)). CHR ''*'' \<notin> set s"
    using assms by (auto simp: star_free_def)
  then have r: "filter bullet (returns_section R ?rs) = []"
    using wrapped_no_bullet by (simp add: returns_section_def bullet_def startswith_def)
  have t: "\<not> bullet ''  Static Methods:''" "\<not> bullet ''  Virtual Methods:''" "\<not> bullet []"
    by (simp_all add: bullet_def startswith_def)
  have h: "\<not> bullet (''Java method dispatch '' @ u)" for u by (simp add: bullet_def startswith_def)
  have sec: "filter bullet (doc_section title (map (overload_line R) os)) = map (overload_line R) os"
    if "\<not> bullet title" for title os
    by (rule section_bullets [OF that]) (simp add: bullet_overload)
  show ?thesis
    by (simp add: method_lines_eq r raises_no_bullet [OF assms(1)] sec [OF t(1)] sec [OF t(2)] t(3) h [simplified])
qed

text \<open>A class per number: 0 is void, 1 is int, 2 is java.util.List, 3 an anonymous class.\<close>

definition demo_reflection :: "(nat, nat) reflection" where
  "demo_reflection =
     \<lparr>rf_name = \<lambda>c. if c = 2 then ''java.util.List'' else ''int'',
      rf_canonical = \<lambda>c. if c = 0 then Some ''void'' else if c = 1 then Some ''int'' else if c = 2 then Some ''java.util.List'' else None,
      rf_simple = \<lambda>_. ''List'', rf_super = \<lambda>_. None, rf_interfaces = \<lambda>_. [1, 2],
      rf_ctors = \<lambda>_. [], rf_fields = \<lambda>_. [], rf_mro = \<lambda>c. if c = 2 then [2, 1] else [c],
      rf_javadoc = \<lambda>_. Inr None, rf_class_set = remdups, rf_name_set = remdups, rf_wrap = \<lambda>c. Inr (10 * c)\<rparr>"

definition demo_overloads :: "nat overload list" where
  "demo_overloads =
     [\<lparr>ol_name = ''of'', ol_modifiers = 1, ol_exceptions = [], ol_return = 0, ol_params = [1, 3]\<rparr>,
      \<lparr>ol_name = ''of'', ol_modifiers = 9, ol_exceptions = [3], ol_return = 2, ol_params = []\<rparr>]"

theorem overloads_listed_witness:
  "filter bullet (method_lines demo_reflection ''of'' 2 demo_overloads) =
     [''    * java.util.List of()'', ''    * void of(int, None)'']"
proof -
  have f: "star_free demo_reflection" by (auto simp: star_free_def demo_reflection_def str_of_def)
  have s: "set (rf_name_set demo_reflection xs) = set xs" for xs by (simp add: demo_reflection_def)
  show ?thesis
    using overloads_listed [OF f s, of "''of''" 2 demo_overloads]
    by (simp add: demo_overloads_def overload_line_def demo_reflection_def names_def str_of_def is_static_def)
qed

section \<open>What the text of a class shows\<close>

lemma fold_ctors:
  "fold (scan_ctor R name) cs (ds, es) =
     (ds @ map (\<lambda>k. ''    * '' @ name @ ''('' @ names R (ct_params k) @ '')'') (filter (\<lambda>k. is_public (ct_modifiers k)) cs),
      es @ concat (map ct_exceptions (filter (\<lambda>k. is_public (ct_modifiers k)) cs)))"
  by (induction cs arbitrary: ds es) (simp_all add: scan_ctor_def)

lemma fold_fields:
  "fold (scan_field R) fs ls = ls @ map (field_line R) (filter (\<lambda>f. is_public (fd_modifiers f)) fs)"
  by (induction fs arbitrary: ls) (simp_all add: scan_field_def)

definition public_view :: "('c, 'w) reflection \<Rightarrow> ('c, 'w) reflection" where
  "public_view R = R\<lparr>rf_ctors := \<lambda>c. filter (\<lambda>k. is_public (ct_modifiers k)) (rf_ctors R c),
     rf_fields := \<lambda>c. filter (\<lambda>f. is_public (fd_modifiers f)) (rf_fields R c)\<rparr>"

lemma public_view_parts [simp]:
  "names (public_view R) = names R" "field_line (public_view R) = field_line R"
  "rf_simple (public_view R) = rf_simple R" "raises_section (public_view R) = raises_section R"
  "rf_name (public_view R) = rf_name R"
  "extends_section (public_view R) = extends_section R" "interfaces_section (public_view R) = interfaces_section R"
  by (auto simp: public_view_def names_def field_line_def raises_section_def raises_lines_def
      extends_section_def interfaces_section_def fun_eq_iff Let_def split: option.split)

lemma ctors_public: "ctors_section (public_view R) c = ctors_section R c"
  by (simp add: ctors_section_def Let_def fold_ctors)
    (simp add: public_view_def doc_section_def raises_section_def)

lemma fields_public: "fields_section (public_view R) c = fields_section R c"
  by (simp add: fields_section_def Let_def fold_fields) (simp add: public_view_def doc_section_def)

text \<open>The text generated for a class depends only on its public constructors and fields: it
  is the text of the same class without the others. The line of its interfaces is broken into
  lines of at most 70 characters that hold all their names.\<close>
theorem class_text_public:
  "class_lines (public_view R) c = class_lines R c \<and>
   (rf_interfaces R c = [] \<or> (\<exists>ls. interfaces_section R c = ''    Interfaces:'' # ls @ [''''] \<and>
      filter (\<lambda>l. 70 < length l) ls = [] \<and> ink (concat ls) = ink (names R (rf_interfaces R c))))"
proof -
  have fits: "filter (\<lambda>l. 70 < length l) (text_wrap 70 ''        '' ''        '' s) = []" for s
    using text_wrap_fits [of "''        ''" 70 "''        ''"] by (force simp: filter_empty_conv)
  have all: "ink (concat (text_wrap 70 ''        '' ''        '' s)) = ink s" for s
    by (rule text_wrap_ink) (simp_all add: blank_def is_ws_def)
  show ?thesis
    using fits all by (simp add: class_lines_def ctors_public fields_public interfaces_section_def Let_def)
qed

section \<open>Javadoc\<close>

lemma getDoc_fresh:
  assumes "ds_doc s c = None" and "get_javadoc R c s = None"
  shows "PyJPClass_getDoc R c s =
    (case rf_javadoc R c of
       Inl e \<Rightarrow> (Inl e, s)
     | Inr None \<Rightarrow> let t = str_join newline (class_lines R c)
         in (Inr t, (set_javadoc c None s)\<lparr>ds_doc := (ds_doc s)(c \<mapsto> t)\<rparr>)
     | Inr (Some j) \<Rightarrow> let t = (case jd_description j of Some t \<Rightarrow> t | None \<Rightarrow> []) @ (case jd_ctors j of Some t \<Rightarrow> t | None \<Rightarrow> [])
         in (Inr t, (set_javadoc c (Some j) s)\<lparr>ds_doc := (ds_doc s)(c \<mapsto> t)\<rparr>))"
  using assms
  by (auto simp: PyJPClass_getDoc_def jclassDoc_def jclassDoc_plain_def pyrun Let_def set_javadoc_def
      split: sum.split option.split)

lemma getDoc_has:
  assumes "ds_doc s c = None" and "get_javadoc R c s \<noteq> None"
  shows "PyJPClass_getDoc R c s =
    (let t = str_join newline (class_lines R c)
     in (Inr t, (set_javadoc c None s)\<lparr>ds_doc := (ds_doc s)(c \<mapsto> t)\<rparr>))"
  using assms
  by (auto simp: PyJPClass_getDoc_def jclassDoc_def jclassDoc_plain_def pyrun Let_def set_javadoc_def)

lemma getDoc_kept: "ds_doc s c = Some t \<Longrightarrow> PyJPClass_getDoc R c s = (Inr t, s)"
  by (simp add: PyJPClass_getDoc_def pyrun)

lemma getDoc_keeps:
  "PyJPClass_getDoc R c s = (Inr t, s1) \<Longrightarrow> ds_doc s1 c = Some t"
  by (auto simp: PyJPClass_getDoc_def pyrun split: option.splits sum.splits prod.splits)

lemma jmethodGetDoc_run:
  "get_javadoc R c s = Some jd \<Longrightarrow>
     jmethodGetDoc R name c ovs s =
       (Inr (case jd of
          None \<Rightarrow> str_join newline (method_lines R name c ovs)
        | Some j \<Rightarrow> (case jd_methods j name of Some md \<Rightarrow> md | None \<Rightarrow> str_join newline (method_lines R name c ovs))), s)"
  by (simp add: jmethodGetDoc_def pyrun split: option.split)

lemma jmethodGetDoc_fresh:
  "get_javadoc R c s = None \<Longrightarrow>
     jmethodGetDoc R name c ovs s =
       (case PyJPClass_getDoc R c s of
          (Inl e, s1) \<Rightarrow> (Inl e, s1)
        | (Inr _, s1) \<Rightarrow>
            (case get_javadoc R c s1 of
               None \<Rightarrow> (Inl no_javadoc, s1)
             | Some jd \<Rightarrow> jmethodGetDoc R name c ovs s1))"
  by (simp add: jmethodGetDoc_def pyrun split: option.split sum.split prod.split)

lemma get_set_own: "rf_mro R c = c # bs \<Longrightarrow> get_javadoc R c (set_javadoc c jd s) = Some jd"
  by (simp add: get_javadoc_def set_javadoc_def)

lemma get_javadoc_doc [simp]: "get_javadoc R c (s\<lparr>ds_doc := f\<rparr>) = get_javadoc R c s"
  by (simp add: get_javadoc_def)

text \<open>The first documentation read of a method reads its class's: when the extractor fails
  its error passes and nothing is kept; without javadoc both get the generated texts; with
  javadoc the class text is its description and constructors, and the method text its entry
  there, or the generated one when it has none. Afterwards the class text is kept: reading it
  again gives the same and changes nothing.\<close>
theorem method_doc_outcome:
  assumes "rf_mro R c = c # bs" and "get_javadoc R c s = None" and "ds_doc s c = None"
  shows "(\<forall>e. rf_javadoc R c = Inl e \<longrightarrow> jmethodGetDoc R name c ovs s = (Inl e, s)) \<and>
    (\<forall>jd. rf_javadoc R c = Inr jd \<longrightarrow>
      (\<exists>s1 t. jmethodGetDoc R name c ovs s =
          (Inr (case jd of
             None \<Rightarrow> str_join newline (method_lines R name c ovs)
           | Some j \<Rightarrow> (case jd_methods j name of Some md \<Rightarrow> md | None \<Rightarrow> str_join newline (method_lines R name c ovs))), s1) \<and>
        PyJPClass_getDoc R c s1 = (Inr t, s1) \<and>
        t = (case jd of
               None \<Rightarrow> str_join newline (class_lines R c)
             | Some j \<Rightarrow> (case jd_description j of Some t \<Rightarrow> t | None \<Rightarrow> []) @ (case jd_ctors j of Some t \<Rightarrow> t | None \<Rightarrow> []))))"
proof (intro conjI allI impI)
  fix e
  assume "rf_javadoc R c = Inl e"
  then show "jmethodGetDoc R name c ovs s = (Inl e, s)"
    using jmethodGetDoc_fresh [OF assms(2)] getDoc_fresh [OF assms(3,2)] by simp
next
  fix jd
  assume jd: "rf_javadoc R c = Inr jd"
  define t where "t = (case jd of
      None \<Rightarrow> str_join newline (class_lines R c)
    | Some j \<Rightarrow> (case jd_description j of Some t \<Rightarrow> t | None \<Rightarrow> []) @ (case jd_ctors j of Some t \<Rightarrow> t | None \<Rightarrow> []))"
  define s1 where "s1 = (set_javadoc c jd s)\<lparr>ds_doc := (ds_doc s)(c \<mapsto> t)\<rparr>"
  have g: "PyJPClass_getDoc R c s = (Inr t, s1)"
    using getDoc_fresh [OF assms(3,2)] jd by (cases jd) (simp_all add: t_def s1_def Let_def)
  have a: "get_javadoc R c s1 = Some jd" using get_set_own [OF assms(1)] by (simp add: s1_def)
  show "\<exists>s1 t. jmethodGetDoc R name c ovs s =
          (Inr (case jd of
             None \<Rightarrow> str_join newline (method_lines R name c ovs)
           | Some j \<Rightarrow> (case jd_methods j name of Some md \<Rightarrow> md | None \<Rightarrow> str_join newline (method_lines R name c ovs))), s1) \<and>
        PyJPClass_getDoc R c s1 = (Inr t, s1) \<and>
        t = (case jd of
               None \<Rightarrow> str_join newline (class_lines R c)
             | Some j \<Rightarrow> (case jd_description j of Some t \<Rightarrow> t | None \<Rightarrow> []) @ (case jd_ctors j of Some t \<Rightarrow> t | None \<Rightarrow> []))"
    using jmethodGetDoc_fresh [OF assms(2), of name ovs] g a jmethodGetDoc_run [OF a]
      getDoc_kept [OF getDoc_keeps [OF g]] t_def
    by (intro exI [of _ s1] exI [of _ t]) simp
qed

definition demo_javadoc :: javadoc where
  "demo_javadoc = \<lparr>jd_description = Some ''A list.'', jd_ctors = None,
     jd_methods = \<lambda>m. if m = ''of'' then Some ''Makes a list.'' else None\<rparr>"

definition demo_documented :: "(nat, nat) reflection" where
  "demo_documented = demo_reflection\<lparr>rf_javadoc := \<lambda>c. Inr (if c = 2 then Some demo_javadoc else None)\<rparr>"

definition no_docs :: "nat doc_state" where
  "no_docs = \<lparr>ds_javadoc = \<lambda>_. None, ds_doc = \<lambda>_. None\<rparr>"

lemma demo_documented_mro: "rf_mro demo_documented 2 = 2 # [1]" "rf_mro demo_documented 1 = 1 # []"
  by (simp_all add: demo_documented_def demo_reflection_def)

theorem method_doc_outcome_witness:
  "\<exists>s1. jmethodGetDoc demo_documented ''of'' 2 demo_overloads no_docs = (Inr ''Makes a list.'', s1) \<and>
     PyJPClass_getDoc demo_documented 2 s1 = (Inr ''A list.'', s1)"
proof -
  have n: "get_javadoc demo_documented 2 no_docs = None" "ds_doc no_docs 2 = None"
    by (simp_all add: get_javadoc_def no_docs_def demo_documented_mro)
  have j: "rf_javadoc demo_documented 2 = Inr (Some demo_javadoc)" by (simp add: demo_documented_def)
  from method_doc_outcome [OF demo_documented_mro(1) n, of "''of''" demo_overloads] j
  show ?thesis by (fastforce simp: demo_javadoc_def)
qed

lemma first_attr_None: "first_attr f cs = None \<longleftrightarrow> (\<forall>c\<in>set cs. f c = None)"
  by (induction cs) (auto split: option.split)

text \<open>Once the documentation of a base class was read, the text of a class is the generated
  listing, even when the extractor has javadoc for it: the attribute of the base answers the
  test for the attribute of the class.\<close>
theorem base_doc_hides_javadoc:
  assumes "rf_mro R c = c # bs" and "b \<in> set bs" and "b \<noteq> c" and "rf_mro R b = b # ds"
    and "ds_doc s b = None" and "ds_doc s c = None" and "get_javadoc R b s = None"
    and "rf_javadoc R b = Inr jb"
  shows "fst (PyJPClass_getDoc R c (snd (PyJPClass_getDoc R b s))) = Inr (str_join newline (class_lines R c))"
proof -
  define s1 where "s1 = snd (PyJPClass_getDoc R b s)"
  have a: "ds_javadoc s1 b \<noteq> None" and d: "ds_doc s1 c = None"
    using getDoc_fresh [OF assms(5,7)] assms(3,6,8)
    by (cases jb; simp add: s1_def Let_def set_javadoc_def)+
  have h: "get_javadoc R c s1 \<noteq> None"
    using a assms(1,2) by (auto simp: get_javadoc_def first_attr_None simp del: first_attr.simps)
  show ?thesis using getDoc_has [OF d h] by (simp add: s1_def [symmetric] Let_def)
qed

theorem base_doc_hides_javadoc_witness:
  "fst (PyJPClass_getDoc demo_documented 2 no_docs) = Inr ''A list.'' \<and>
   fst (PyJPClass_getDoc demo_documented 2 (snd (PyJPClass_getDoc demo_documented 1 no_docs))) =
     Inr (str_join newline (class_lines demo_documented 2))"
proof -
  have n: "get_javadoc demo_documented c no_docs = None" "ds_doc no_docs c = None" for c
    by (simp_all add: get_javadoc_def no_docs_def first_attr_None)
  have "rf_javadoc demo_documented 1 = Inr None" by (simp add: demo_documented_def)
  from base_doc_hides_javadoc [OF demo_documented_mro(1) _ _ demo_documented_mro(2) n(2) n(2) n(1) this]
  show ?thesis
    using getDoc_fresh [OF n(2) n(1), of 2] by (simp add: demo_documented_def demo_javadoc_def Let_def)
qed

text \<open>A class whose documentation text was assigned, by a customizer with a docstring say,
  has no javadoc attribute: the first read of a method's documentation raises AttributeError,
  unless a base class has the attribute.\<close>
theorem assigned_doc_breaks_methods:
  assumes "get_javadoc R c s = None"
  shows "fst (jmethodGetDoc R name c ovs (snd (PyJPClass_setDoc c t s))) = Inl no_javadoc"
proof -
  let ?s = "snd (PyJPClass_setDoc c t s)"
  have "get_javadoc R c ?s = None" "ds_doc ?s c = Some t"
    using assms by (simp_all add: PyJPClass_setDoc_def pyrun)
  then show ?thesis by (simp add: jmethodGetDoc_fresh getDoc_kept)
qed

theorem assigned_doc_breaks_methods_witness:
  "fst (jmethodGetDoc demo_documented ''of'' 2 [] (snd (PyJPClass_setDoc 2 ''Customizer'' no_docs))) = Inl no_javadoc"
  using assigned_doc_breaks_methods [of demo_documented 2 no_docs]
  by (simp add: get_javadoc_def no_docs_def first_attr_None)

section \<open>Annotations\<close>

lemma nat_str_value: "foldl (\<lambda>a c. 10 * a + (of_char c - 48)) 0 (nat_str n) = n"
proof (induction n rule: nat_str.induct)
  case (1 n)
  then show ?case by (cases "n < 10") (simp_all add: nat_str.simps [of n])
qed

lemma arg_key_inj: "arg_key i = arg_key j \<longleftrightarrow> i = j"
  using nat_str_value by (metis append_eq_append_conv arg_key_def)

lemma arg_key_return: "arg_key i \<noteq> ''return''"
  by (simp add: arg_key_def)

lemma dict_set_fresh: "k \<notin> fst ` set d \<Longrightarrow> dict_set k v d = d @ [(k, v)]"
  by (induction d) (auto simp: dict_set_def)

lemma wrap_all_eq:
  assumes "\<And>c. wrap c = Inr (w c)" and "\<And>j. i \<le> j \<Longrightarrow> arg_key j \<notin> fst ` set out"
  shows "wrap_all wrap i ps out = Inr (out @ zip (map arg_key [i..<i + length ps]) (map w ps))"
  using assms(2)
proof (induction ps arbitrary: i out)
  case (Cons p ps)
  have s: "dict_set (arg_key i) (w p) out = out @ [(arg_key i, w p)]"
    using Cons.prems [of i] by (rule dict_set_fresh) simp
  have "arg_key j \<notin> fst ` set (out @ [(arg_key i, w p)])" if "i + 1 \<le> j" for j
    using Cons.prems [of j] that by (simp add: arg_key_inj)
  from Cons.IH [of "i + 1", OF this]
  have IH: "wrap_all wrap (i + 1) ps (out @ [(arg_key i, w p)]) =
      Inr ((out @ [(arg_key i, w p)]) @ zip (map arg_key [i + 1..<i + 1 + length ps]) (map w ps))" .
  have u: "[i..<i + length (p # ps)] = i # [i + 1..<i + 1 + length ps]" by (simp add: upt_conv_Cons del: upt_Suc)
  show ?case unfolding u using IH s assms(1) [of p] by (simp del: upt_Suc)
qed simp

text \<open>C28: The annotations of a method with one overload are its parameters, arg0 and on in
  order, each with the wrapper of its type, and then its return type. With several overloads
  there are none for the parameters, and the return type is given when all agree on it; so it
  is for any listing of the set of return types.\<close>
theorem annotation_types:
  assumes "\<And>c. rf_wrap R c = Inr (w c)"
    and "\<And>xs. distinct (rf_class_set R xs) \<and> set (rf_class_set R xs) = set xs"
  shows "jmethodGetAnnotation R [ov] =
      Inr (zip (map arg_key [0..<length (ol_params ov)]) (map w (ol_params ov)) @ [(''return'', w (ol_return ov))]) \<and>
    jmethodGetAnnotation R (ov # ov2 # ovs) =
      Inr (if list_all (\<lambda>x. ol_return x = ol_return ov) (ov2 # ovs) then [(''return'', w (ol_return ov))] else [])"
proof
  have "''return'' \<notin> fst ` set (zip (map arg_key [0..<length (ol_params ov)]) (map w (ol_params ov)))"
    using arg_key_return by (auto dest!: set_zip_leftD) metis
  from dict_set_fresh [OF this] show "jmethodGetAnnotation R [ov] =
      Inr (zip (map arg_key [0..<length (ol_params ov)]) (map w (ol_params ov)) @ [(''return'', w (ol_return ov))])"
    using wrap_all_eq [where wrap = "rf_wrap R" and out = "[]" and i = 0, OF assms(1)] assms(1) by (simp add: jmethodGetAnnotation_def)
next
  let ?rs = "map ol_return (ov # ov2 # ovs)"
  let ?l = "rf_class_set R ?rs"
  have l: "distinct ?l" "set ?l = set ?rs" using assms(2) by blast+
  show "jmethodGetAnnotation R (ov # ov2 # ovs) =
      Inr (if list_all (\<lambda>x. ol_return x = ol_return ov) (ov2 # ovs) then [(''return'', w (ol_return ov))] else [])"
  proof (cases "list_all (\<lambda>x. ol_return x = ol_return ov) (ov2 # ovs)")
    case True
    then have "set ?l = {ol_return ov}" unfolding l(2) by (auto simp: list_all_iff)
    then have "?l = [ol_return ov]"
      using l(1) by (cases ?l; cases "tl ?l") auto
    with True show ?thesis using assms(1) by (simp add: jmethodGetAnnotation_def)
  next
    case False
    then have "\<nexists>r. ?l = [r]" using l(2) by (force simp: list_all_iff)
    with False show ?thesis by (auto simp: jmethodGetAnnotation_def split: list.split)
  qed
qed

theorem annotation_types_witness:
  "jmethodGetAnnotation demo_reflection [hd demo_overloads] =
     Inr [(arg_key 0, 10), (arg_key 1, 30), (''return'', 0)] \<and>
   jmethodGetAnnotation demo_reflection demo_overloads = Inr []"
proof -
  have w: "rf_wrap demo_reflection c = Inr (10 * c)" for c by (simp add: demo_reflection_def)
  have d: "distinct (rf_class_set demo_reflection xs) \<and> set (rf_class_set demo_reflection xs) = set xs" for xs
    by (simp add: demo_reflection_def)
  show ?thesis
    using annotation_types [where R = demo_reflection and w = "\<lambda>c. 10 * c" and ov = "hd demo_overloads"
        and ?ov2.0 = "demo_overloads ! 1" and ovs = "[]", OF w d]
    by (simp add: demo_overloads_def upt_conv_Cons)
qed

end
