(* ===== verification/Gui.thy ===== *)
theory Gui
  imports Proxies
begin

text \<open>
  The GUI helper (\<open>_gui.py\<close>). On macOS the callback becomes the \<open>run\<close> method of a proxy of
  \<open>java.lang.Runnable\<close> that a Java thread executes while the main thread serves the event
  loop; elsewhere it is called directly. The class \<open>java.lang.Thread\<close> and the event loop of \<open>PyObjCTools\<close> are
  arguments.
\<close>

section \<open>The two functions\<close>

record ('w, 'c, 'f, 't) gui_env =
  g_platform :: string
  g_import_helper :: "pyexn + unit"
  g_proxies :: "'c proxy_env"
  g_new_thread :: "('c, 'f, unit) jproxy \<Rightarrow> ('w, pyexn, 't) pyop"
  g_start :: "'t \<Rightarrow> ('w, pyexn, unit) pyop"
  g_run_loop :: "('w, pyexn, unit) pyop"
  g_stop_loop :: "('w, pyexn, unit) pyop"
  g_call :: "'f \<Rightarrow> ('w, pyexn, unit) pyop"

definition setupGuiEnvironment :: "('w, 'c, 'f, 't) gui_env \<Rightarrow> 'f \<Rightarrow> ('w, pyexn, unit) pyop" where
  "setupGuiEnvironment G cb =
     (if g_platform G = ''darwin'' then
        pseq (plift (g_import_helper G))
          (let m = dict_set ''run'' cb []
           in pbind (plift (JProxy_new (g_proxies G) (PStr ''java.lang.Runnable'') (Some m) None False)) (\<lambda>proxy.
              pbind (g_new_thread G proxy) (\<lambda>cbthread.
              pseq (g_start G cbthread) (g_run_loop G))))
      else g_call G cb)"

definition shutdownGuiEnvironment :: "('w, 'c, 'f, 't) gui_env \<Rightarrow> ('w, pyexn, unit) pyop" where
  "shutdownGuiEnvironment G =
     (if g_platform G = ''darwin'' then pseq (plift (g_import_helper G)) (g_stop_loop G) else ret ())"

section \<open>Where the callback runs\<close>

text \<open>Every method of \<open>Runnable\<close> that Java calls on the proxy is looked up in the table of
  the proxy: \<open>run\<close> is the callback and there is nothing else.\<close>

definition runnable_proxy :: "'f \<Rightarrow> 'c \<Rightarrow> ('c, 'f, unit) jproxy" where
  "runnable_proxy cb c = DictProxy None [(''run'', cb)] [c] False"

lemma runnable_proxy_methods:
  "JFromDict_getattribute [(''run'', cb)] n =
     (if n = ''run'' then Inr cb else Inl (Exn AttributeError ''attribute not found''))"
  by (simp add: JFromDict_getattribute_def dict_get_def)

lemma runnable_proxy_made:
  assumes "px_lookup E ''java.lang.Runnable'' = Inr c" and "px_isInterface E c"
  shows "JProxy_new E (PStr ''java.lang.Runnable'') (Some (dict_set ''run'' cb [])) None False = Inr (runnable_proxy cb c)"
  using assms by (simp add: JProxy_new_def convertInterfaces_def flatten_items_def runnable_proxy_def dict_set_def)

text \<open>On macOS the callback is given to a Java thread that is started before the event loop;
  the main thread does not call it. When the interface is not found, as before the JVM is
  started, no thread is made and the loop is not entered.\<close>

lemma gui_callback:
  assumes "g_platform G = ''darwin''" and "g_import_helper G = Inr ()"
    and "px_lookup (g_proxies G) ''java.lang.Runnable'' = Inr c" and "px_isInterface (g_proxies G) c"
  shows "setupGuiEnvironment G cb =
     pbind (g_new_thread G (runnable_proxy cb c)) (\<lambda>t. pseq (g_start G t) (g_run_loop G))"
proof -
  have "JProxy_new (g_proxies G) (PStr ''java.lang.Runnable'') (Some (dict_set ''run'' cb [])) None False =
      Inr (runnable_proxy cb c)"
    by (rule runnable_proxy_made [OF assms(3,4)])
  with assms(1,2) show ?thesis by (simp add: setupGuiEnvironment_def Let_def pyrun fun_eq_iff)
qed

lemma gui_before_start:
  assumes "g_platform G = ''darwin''" and "g_import_helper G = Inr ()"
    and "px_lookup (g_proxies G) ''java.lang.Runnable'' = Inl e"
  shows "setupGuiEnvironment G cb w = (Inl e, w)"
  using assms by (simp add: setupGuiEnvironment_def Let_def pyrun JProxy_new_def convertInterfaces_def flatten_items_def)

lemma gui_elsewhere: "g_platform G \<noteq> ''darwin'' \<Longrightarrow>
    setupGuiEnvironment G cb = g_call G cb \<and> shutdownGuiEnvironment G = ret ()"
  by (simp add: setupGuiEnvironment_def shutdownGuiEnvironment_def)

end
