(* ===== verification/Overloads.thy ===== *)
theory Overloads
  imports JPrelude
begin

text \<open>
  The order of method overloads: \<open>MethodResolution.java\<close> decides which overload is more
  specific and sorts them, \<open>TypeManager.createMethods\<close> turns the order into the list of
  method objects that the dispatcher searches, each with the overloads it hides. Java's class
  hierarchy is the argument \<open>class_world\<close>.
\<close>

section \<open>Java types\<close>

datatype prim = ByteT | CharT | ShortT | IntT | LongT | FloatT | DoubleT | BooleanT | VoidT

datatype 'c jtype = PrimT prim | RefT 'c | ArrT "'c jtype"

text \<open>\<open>cw_sub c d\<close>: \<open>c\<close> is \<open>d\<close> or a subtype of it; \<open>cw_array\<close>: the classes and interfaces that
  every array has.\<close>

record 'c class_world =
  cw_sub :: "'c \<Rightarrow> 'c \<Rightarrow> bool"
  cw_array :: "'c \<Rightarrow> bool"
  cw_box :: "prim \<Rightarrow> 'c"

text \<open>\<open>c2.isAssignableFrom(c1)\<close> of \<open>java.lang.Class\<close>.\<close>

fun isAssignableFrom :: "'c class_world \<Rightarrow> 'c jtype \<Rightarrow> 'c jtype \<Rightarrow> bool" where
  "isAssignableFrom W (RefT d) (RefT c) = cw_sub W c d"
| "isAssignableFrom W (RefT d) (ArrT t) = cw_array W d"
| "isAssignableFrom W (ArrT u) (ArrT t) = isAssignableFrom W u t"
| "isAssignableFrom W (PrimT q) (PrimT p) = (q = p)"
| "isAssignableFrom W _ _ = False"

fun widenings :: "prim \<Rightarrow> prim list option" where
  "widenings ByteT = Some [ByteT, ShortT, IntT, LongT, FloatT, DoubleT]"
| "widenings CharT = Some [CharT, ShortT, IntT, LongT, FloatT, DoubleT]"
| "widenings ShortT = Some [ShortT, IntT, LongT, FloatT, DoubleT]"
| "widenings IntT = Some [IntT, LongT, FloatT, DoubleT]"
| "widenings LongT = Some [LongT, FloatT, DoubleT]"
| "widenings FloatT = Some [FloatT, DoubleT]"
| "widenings DoubleT = Some [DoubleT]"
| "widenings BooleanT = Some [BooleanT]"
| "widenings VoidT = None"

text \<open>The table \<open>CONVERSION\<close>: every primitive type with its box.\<close>

definition CONVERSION :: "'c class_world \<Rightarrow> prim \<Rightarrow> 'c jtype list option" where
  "CONVERSION W p = map_option (\<lambda>qs. concat (map (\<lambda>q. [PrimT q, RefT (cw_box W q)]) qs)) (widenings p)"

definition isAssignableTo :: "'c class_world \<Rightarrow> 'c jtype \<Rightarrow> 'c jtype \<Rightarrow> bool" where
  "isAssignableTo W c1 c2 =
     (case c1 of
        PrimT p \<Rightarrow> (case CONVERSION W p of None \<Rightarrow> False | Some cl \<Rightarrow> c2 \<in> set cl)
      | _ \<Rightarrow> isAssignableFrom W c2 c1)"

section \<open>More specific methods\<close>

record 'c executable =
  ex_static :: bool
  ex_ctor :: bool
  ex_varargs :: bool
  ex_decl :: 'c
  ex_params :: "'c jtype list"

text \<open>The parameters with the declaring class in front, unless the method is static.\<close>

definition full_params :: "'c executable \<Rightarrow> 'c jtype list" where
  "full_params m = (if ex_static m then ex_params m else RefT (ex_decl m) # ex_params m)"

text \<open>\<open>getComponentType\<close>; the last parameter of a method with variable arguments is an array.\<close>

fun component :: "'c jtype \<Rightarrow> 'c jtype" where
  "component (ArrT t) = t"
| "component t = t"

definition params_specific :: "'c class_world \<Rightarrow> 'c jtype list \<Rightarrow> 'c jtype list \<Rightarrow> bool" where
  "params_specific W ps qs = (length ps = length qs \<and> list_all2 (isAssignableTo W) ps qs)"

text \<open>A method with variable arguments against one without, and the converse.\<close>

definition varargs_against_fixed :: "'c class_world \<Rightarrow> 'c jtype list \<Rightarrow> 'c jtype list \<Rightarrow> bool" where
  "varargs_against_fixed W ps qs =
     (if length ps = length qs then
        let cls2 = component (last ps); sv = last qs
        in (params_specific W ps qs \<or> params_specific W (butlast ps @ [cls2]) qs) \<and>
           \<not> (isAssignableTo W cls2 sv \<and> isAssignableTo W sv cls2)
      else False)"

definition fixed_against_varargs :: "'c class_world \<Rightarrow> 'c jtype list \<Rightarrow> 'c jtype list \<Rightarrow> bool" where
  "fixed_against_varargs W ps qs =
     (let n1 = length ps; n2 = length qs; cls = last qs; cls2 = component cls
      in if n1 < n2 - 1 then False
         else if n1 = n2 - 1 then params_specific W ps (take n1 qs)
         else if n1 = n2 then
           list_all2 (isAssignableTo W) (butlast ps) (butlast qs) \<and>
           (isAssignableTo W (last ps) cls2 \<or> isAssignableTo W (last ps) cls)
         else list_all2 (isAssignableTo W) (take (n2 - 1) ps) (butlast qs) \<and>
           (\<forall>t\<in>set (drop (n2 - 1) ps). isAssignableTo W t cls2))"

definition isMoreSpecificThan :: "'c class_world \<Rightarrow> 'c executable \<Rightarrow> 'c executable \<Rightarrow> bool" where
  "isMoreSpecificThan W m1 m2 =
     (let ps = full_params m1; qs = full_params m2
      in if ex_varargs m1 \<and> ex_varargs m2 then params_specific W ps qs
         else if ex_varargs m1 then varargs_against_fixed W ps qs
         else if ex_varargs m2 then fixed_against_varargs W ps qs
         else params_specific W ps qs)"

section \<open>Sorting\<close>

text \<open>Methods are numbered by their place in the list; the children of one are the less specific
  ones.\<close>

definition strictly_more :: "'c class_world \<Rightarrow> 'c executable \<Rightarrow> 'c executable \<Rightarrow> bool" where
  "strictly_more W m1 m2 = (isMoreSpecificThan W m1 m2 \<and> \<not> isMoreSpecificThan W m2 m1)"

definition children :: "'c class_world \<Rightarrow> 'c executable list \<Rightarrow> nat \<Rightarrow> nat list" where
  "children W ms i = filter (\<lambda>j. j \<noteq> i \<and> strictly_more W (ms ! i) (ms ! j)) [0..<length ms]"

text \<open>The queue of \<open>sortMethods\<close>: a method whose children are all in the output (\<open>covered\<close>) is
  put there, any other one goes back to the end. Nothing in the code bounds the loop.\<close>

partial_function (option) sort_loop :: "(nat \<Rightarrow> nat list) \<Rightarrow> nat list \<Rightarrow> nat list \<Rightarrow> nat list option" where
  "sort_loop ch unsorted out =
     (case unsorted of
        [] \<Rightarrow> Some out
      | front # rest \<Rightarrow>
          if list_all (\<lambda>c. c \<in> set out) (ch front) then sort_loop ch rest (out @ [front])
          else sort_loop ch (rest @ [front]) out)"

definition sortMethods :: "'c class_world \<Rightarrow> 'c executable list \<Rightarrow> nat list option" where
  "sortMethods W ms = sort_loop (children W ms) [0..<length ms] []"

section \<open>Method objects\<close>

text \<open>\<open>jm_id\<close> is the address of the object, \<open>jm_more\<close> the addresses of the overloads it hides.\<close>

record 'c jp_method =
  jm_id :: nat
  jm_exec :: "'c executable"
  jm_more :: "nat list"

text \<open>\<open>createMethods\<close> on the sorted list: a method of another class is the object made there, with
  the list it got there; \<open>None\<close> when it is not found, which raises. The result is filled from
  its end. \<open>new\<close> gives the addresses of new objects.\<close>

fun create_loop :: "'c \<Rightarrow> ('c executable \<Rightarrow> 'c jp_method option) \<Rightarrow> (nat \<Rightarrow> nat) \<Rightarrow> 'c executable list \<Rightarrow> (nat \<Rightarrow> nat list) \<Rightarrow>
    nat list \<Rightarrow> (nat \<Rightarrow> nat) \<Rightarrow> 'c jp_method list \<Rightarrow> 'c jp_method list option" where
  "create_loop cls inherited new ms ch [] ptr acc = Some acc"
| "create_loop cls inherited new ms ch (i # is) ptr acc =
     (if ex_decl (ms ! i) \<noteq> cls then
        (case inherited (ms ! i) of
           None \<Rightarrow> None
         | Some m \<Rightarrow> create_loop cls inherited new ms ch is (ptr(i := jm_id m)) (m # acc))
      else let m = \<lparr>jm_id = new i, jm_exec = ms ! i, jm_more = map ptr (ch i)\<rparr>
           in create_loop cls inherited new ms ch is (ptr(i := new i)) (m # acc))"

definition createMethods :: "'c \<Rightarrow> ('c executable \<Rightarrow> 'c jp_method option) \<Rightarrow> (nat \<Rightarrow> nat) \<Rightarrow> 'c class_world \<Rightarrow>
    'c executable list \<Rightarrow> 'c jp_method list option" where
  "createMethods cls inherited new W ms =
     (case sortMethods W ms of
        None \<Rightarrow> None
      | Some order \<Rightarrow> create_loop cls inherited new ms (children W ms) order (\<lambda>_. 0) [])"

section \<open>The loop ends exactly for acyclic relations\<close>

text \<open>Every method comes after its children.\<close>

definition children_first :: "(nat \<Rightarrow> nat list) \<Rightarrow> nat list \<Rightarrow> bool" where
  "children_first ch out = (\<forall>k<length out. set (ch (out ! k)) \<subseteq> set (take k out))"

definition child_rel :: "(nat \<Rightarrow> nat list) \<Rightarrow> nat list \<Rightarrow> (nat \<times> nat) set" where
  "child_rel ch ns = {(c, x). x \<in> set ns \<and> c \<in> set (ch x)}"

lemma children_first_Nil [simp]: "children_first ch []"
  by (simp add: children_first_def)

lemma children_first_snoc [simp]:
  "children_first ch (out @ [x]) \<longleftrightarrow> children_first ch out \<and> set (ch x) \<subseteq> set out"
  by (auto simp: children_first_def less_Suc_eq nth_append)

lemma sort_loop_Nil [simp]: "sort_loop ch [] out = Some out"
  by (simp add: sort_loop.simps)

lemma sort_loop_ready: "set (ch x) \<subseteq> set out \<Longrightarrow> sort_loop ch (x # q) out = sort_loop ch q (out @ [x])"
  by (subst sort_loop.simps) (auto simp: list_all_iff)

lemma sort_loop_rotate: "\<not> set (ch x) \<subseteq> set out \<Longrightarrow> sort_loop ch (x # q) out = sort_loop ch (q @ [x]) out"
  by (subst sort_loop.simps) (auto simp: list_all_iff)

lemmas sort_loop_steps = sort_loop_ready sort_loop_rotate

lemma sort_loop_result:
  assumes "sort_loop ch q out = Some r" and "children_first ch out" and "distinct (q @ out)"
  shows "children_first ch r \<and> set r = set q \<union> set out \<and> distinct r"
  using assms
proof (induction rule: sort_loop.raw_induct [rotated, consumes 1, case_names step])
  case (step loop ch q out r)
  show ?case
  proof (cases q)
    case (Cons x rest)
    show ?thesis
    proof (cases "set (ch x) \<subseteq> set out")
      case True
      then have "list_all (\<lambda>c. c \<in> set out) (ch x)" by (auto simp: list_all_iff)
      with step.hyps Cons have "loop ch rest (out @ [x]) = Some r" by simp
      from step.IH [OF this] step.prems True Cons show ?thesis by auto
    next
      case False
      then have "\<not> list_all (\<lambda>c. c \<in> set out) (ch x)" by (auto simp: list_all_iff)
      with step.hyps Cons have "loop ch (rest @ [x]) out = Some r" by simp
      from step.IH [OF this] step.prems Cons show ?thesis by auto
    qed
  qed (use step in simp)
qed

text \<open>A method that is ready comes to the front, if no other does before it.\<close>

lemma sort_loop_reaches:
  assumes "set (ch z) \<subseteq> set out"
  shows "\<exists>x q'. x \<in> set (pre @ z # post) \<and> set (ch x) \<subseteq> set out \<and>
     length q' = length pre + length post \<and> insert x (set q') = set (pre @ z # post) \<and>
     sort_loop ch (pre @ z # post) out = sort_loop ch q' (out @ [x])"
proof (induction pre arbitrary: post)
  case Nil
  show ?case using assms by (intro exI [of _ z] exI [of _ post]) (simp add: sort_loop_ready)
next
  case (Cons f pre)
  show ?case
  proof (cases "set (ch f) \<subseteq> set out")
    case True
    then show ?thesis
      by (intro exI [of _ f] exI [of _ "pre @ z # post"]) (auto simp: sort_loop_ready)
  next
    case False
    obtain x q' where "x \<in> set (pre @ z # post @ [f])" "set (ch x) \<subseteq> set out"
        "length q' = length pre + length (post @ [f])" "insert x (set q') = set (pre @ z # post @ [f])"
        "sort_loop ch (pre @ z # post @ [f]) out = sort_loop ch q' (out @ [x])"
      using Cons.IH [of "post @ [f]"] by auto
    with False show ?thesis by (intro exI [of _ x] exI [of _ q']) (auto simp: sort_loop_rotate)
  qed
qed

lemma sort_loop_returns:
  assumes "wf (child_rel ch ns)" and "\<forall>x\<in>set ns. set (ch x) \<subseteq> set ns" and "set q \<union> set out = set ns"
  shows "\<exists>r. sort_loop ch q out = Some r"
  using assms(3)
proof (induction "length q" arbitrary: q out)
  case 0
  then show ?case by simp
next
  case (Suc n)
  have fresh: "\<exists>z\<in>set q. set (ch z) \<subseteq> set out"
  proof -
    have "set q \<noteq> {}" using Suc.hyps(2) by auto
    then obtain z where z: "z \<in> set q" "\<And>y. (y, z) \<in> child_rel ch ns \<Longrightarrow> y \<notin> set q"
      using assms(1) [THEN wfE_min, of _ "set q"] by (metis equals0I)
    have "z \<in> set ns" using z(1) Suc.prems by auto
    then have "set (ch z) \<subseteq> set out"
      using z(2) Suc.prems assms(2) by (fastforce simp: child_rel_def)
    with z(1) show ?thesis by blast
  qed
  then obtain z pre post where z: "q = pre @ z # post" "set (ch z) \<subseteq> set out" by (meson split_list)
  obtain x q' where "length q' = n" "insert x (set q') = set q" "sort_loop ch q out = sort_loop ch q' (out @ [x])"
    using sort_loop_reaches [where ch = ch and z = z and pre = pre and post = post, OF z(2)] z(1) Suc.hyps(2) by auto
  with Suc.hyps(1) [of q' "out @ [x]"] Suc.prems show ?case by auto
qed

lemma children_first_index:
  assumes "children_first ch r" and "distinct r" and "i < length r" and "c \<in> set (ch (r ! i))"
  obtains j where "j < i" and "c = r ! j"
proof -
  from assms have "c \<in> set (take i r)" by (auto simp: children_first_def)
  then show ?thesis using that assms(3) by (auto simp: in_set_conv_nth)
qed

definition position :: "nat list \<Rightarrow> nat \<Rightarrow> nat" where
  "position xs x = length (takeWhile (\<lambda>y. y \<noteq> x) xs)"

lemma position_nth: "distinct xs \<Longrightarrow> i < length xs \<Longrightarrow> position xs (xs ! i) = i"
proof (induction xs arbitrary: i)
  case (Cons a xs)
  then show ?case by (cases i) (auto simp: position_def)
qed simp

lemma children_first_acyclic:
  assumes "children_first ch r" and "distinct r" and "set r = set ns"
  shows "wf (child_rel ch ns)"
proof (rule wf_subset [OF wf_measure [of "position r"]])
  show "child_rel ch ns \<subseteq> measure (position r)"
  proof (rule subrelI)
    fix c x assume "(c, x) \<in> child_rel ch ns"
    then have "x \<in> set r" and c: "c \<in> set (ch x)" using assms(3) by (auto simp: child_rel_def)
    then obtain i where i: "i < length r" "x = r ! i" by (auto simp: in_set_conv_nth)
    with c obtain j where "j < i" "c = r ! j" using children_first_index [OF assms(1,2)] by blast
    with i show "(c, x) \<in> measure (position r)" using assms(2) by (simp add: position_nth)
  qed
qed

lemma sort_loop_iff:
  assumes "distinct ns" and "\<forall>x\<in>set ns. set (ch x) \<subseteq> set ns"
  shows "(\<exists>r. sort_loop ch ns [] = Some r) \<longleftrightarrow> acyclic (child_rel ch ns)"
proof -
  have "finite (child_rel ch ns)"
    by (rule finite_subset [of _ "(\<Union>x\<in>set ns. set (ch x)) \<times> set ns"]) (auto simp: child_rel_def)
  then have "acyclic (child_rel ch ns) \<longleftrightarrow> wf (child_rel ch ns)"
    by (metis finite_acyclic_wf wf_acyclic)
  moreover have "wf (child_rel ch ns)" if "sort_loop ch ns [] = Some r" for r
    using sort_loop_result [OF that] assms(1) children_first_acyclic by auto
  moreover have "\<exists>r. sort_loop ch ns [] = Some r" if "wf (child_rel ch ns)"
    using sort_loop_returns [OF that assms(2)] by simp
  ultimately show ?thesis by blast
qed

lemma children_in: "set (children W ms i) \<subseteq> {0..<length ms}"
  by (auto simp: children_def)

section \<open>Methods of fixed arity\<close>

text \<open>Subtyping is a partial order, and what every array is, is inherited upwards.\<close>

definition class_order :: "'c class_world \<Rightarrow> bool" where
  "class_order W \<longleftrightarrow> (\<forall>c. cw_sub W c c) \<and> (\<forall>c d e. cw_sub W c d \<longrightarrow> cw_sub W d e \<longrightarrow> cw_sub W c e) \<and>
     (\<forall>c d. cw_sub W c d \<longrightarrow> cw_sub W d c \<longrightarrow> c = d) \<and> (\<forall>c d. cw_array W c \<longrightarrow> cw_sub W c d \<longrightarrow> cw_array W d)"

lemma class_orderD:
  assumes "class_order W"
  shows "cw_sub W c c" and "cw_sub W c d \<Longrightarrow> cw_sub W d e \<Longrightarrow> cw_sub W c e"
    and "cw_sub W c d \<Longrightarrow> cw_sub W d c \<Longrightarrow> c = d" and "cw_array W c \<Longrightarrow> cw_sub W c d \<Longrightarrow> cw_array W d"
  using assms unfolding class_order_def by blast+

text \<open>Assignability itself is not transitive, because a primitive type is assignable to boxes and
  not to what boxes are. This relation is transitive and contains it.\<close>

definition prim_widens :: "prim \<Rightarrow> prim \<Rightarrow> bool" where
  "prim_widens p q = (p = q \<or> (case widenings p of None \<Rightarrow> False | Some qs \<Rightarrow> q \<in> set qs))"

fun widens :: "'c class_world \<Rightarrow> 'c jtype \<Rightarrow> 'c jtype \<Rightarrow> bool" where
  "widens W (PrimT p) (PrimT q) = prim_widens p q"
| "widens W (PrimT p) _ = True"
| "widens W t u = isAssignableFrom W u t"

lemma prim_widens_refl: "prim_widens p p"
  by (simp add: prim_widens_def)

lemma prim_widens_trans: "prim_widens p q \<Longrightarrow> prim_widens q r \<Longrightarrow> prim_widens p r"
  by (cases p; cases q; simp add: prim_widens_def; cases r; simp)

lemma prim_widens_antisym: "prim_widens p q \<Longrightarrow> prim_widens q p \<Longrightarrow> p = q"
  by (cases p; cases q; simp add: prim_widens_def)

lemma isAssignableTo_prim: "isAssignableTo W (PrimT p) t \<Longrightarrow> (\<exists>q. t = PrimT q \<and> prim_widens p q) \<or> (\<exists>c. t = RefT c)"
  by (auto simp: isAssignableTo_def CONVERSION_def prim_widens_def split: option.splits)

lemma assignable_widens: "isAssignableTo W t u \<Longrightarrow> widens W t u"
proof (cases t)
  case (PrimT p)
  assume "isAssignableTo W t u"
  with PrimT isAssignableTo_prim [of W p u] show ?thesis by auto
qed (simp_all add: isAssignableTo_def)

lemma assignable_from_refl: "class_order W \<Longrightarrow> isAssignableFrom W t t"
  by (induction t) (simp_all add: class_orderD(1))

lemma assignable_from_trans:
  assumes "class_order W"
  shows "isAssignableFrom W u t \<Longrightarrow> isAssignableFrom W v u \<Longrightarrow> isAssignableFrom W v t"
proof (induction t arbitrary: u v)
  case (PrimT p)
  then show ?case by (cases u; cases v; simp)
next
  case (RefT c)
  then obtain d e where "u = RefT d" "v = RefT e" by (cases u; cases v; simp)
  with RefT class_orderD(2) [OF assms, of c d e] show ?case by simp
next
  case (ArrT t)
  show ?case
  proof (cases u)
    case (RefT d)
    with ArrT.prems obtain e where "v = RefT e" by (cases v; simp)
    with RefT ArrT.prems class_orderD(4) [OF assms, of d e] show ?thesis by simp
  next
    case (ArrT a)
    with ArrT.prems ArrT.IH [of a] show ?thesis by (cases v; simp)
  qed (use ArrT.prems in simp)
qed

lemma assignable_from_antisym:
  assumes "class_order W"
  shows "isAssignableFrom W u t \<Longrightarrow> isAssignableFrom W t u \<Longrightarrow> t = u"
proof (induction t arbitrary: u)
  case (PrimT p)
  then show ?case by (cases u; simp)
next
  case (RefT c)
  then show ?case using class_orderD(3) [OF assms] by (cases u; simp)
next
  case (ArrT t)
  then show ?case by (cases u; simp)
qed

lemma widens_trans:
  assumes "class_order W" and "widens W t u" and "widens W u v"
  shows "widens W t v"
proof (cases t)
  case (PrimT p)
  with assms show ?thesis by (cases u; cases v; auto intro: prim_widens_trans)
next
  case (RefT c)
  with assms have "isAssignableFrom W u t" "isAssignableFrom W v u" by (cases u; simp)+
  with RefT assignable_from_trans [OF assms(1)] show ?thesis by simp
next
  case (ArrT a)
  with assms have "isAssignableFrom W u t" "isAssignableFrom W v u" by (cases u; simp)+
  with ArrT assignable_from_trans [OF assms(1)] show ?thesis by simp
qed

lemma widens_antisym:
  assumes "class_order W" and "widens W t u" and "widens W u t"
  shows "t = u"
proof (cases t)
  case (PrimT p)
  with assms show ?thesis by (cases u; auto intro: prim_widens_antisym)
next
  case (RefT c)
  with assms show ?thesis using class_orderD(3) [OF assms(1)] by (cases u; simp)
next
  case (ArrT a)
  with assms show ?thesis using assignable_from_antisym [OF assms(1)] by (cases u; simp)
qed

lemma widens_all_trans:
  "class_order W \<Longrightarrow> list_all2 (widens W) ts us \<Longrightarrow> list_all2 (widens W) us vs \<Longrightarrow> list_all2 (widens W) ts vs"
  using list_all2_trans [of "widens W" "widens W" "widens W" ts us vs] widens_trans by blast

lemma widens_all_antisym:
  "class_order W \<Longrightarrow> list_all2 (widens W) ts us \<Longrightarrow> list_all2 (widens W) us ts \<Longrightarrow> ts = us"
  by (rule nth_equalityI) (auto simp: list_all2_conv_all_nth intro: widens_antisym)

lemma fixed_specific_widens:
  assumes "\<not> ex_varargs m1" and "\<not> ex_varargs m2" and "isMoreSpecificThan W m1 m2"
  shows "list_all2 (widens W) (full_params m1) (full_params m2)"
proof -
  have "list_all2 (isAssignableTo W) (full_params m1) (full_params m2)"
    using assms by (simp add: isMoreSpecificThan_def params_specific_def Let_def)
  then show ?thesis by (rule list_all2_mono) (rule assignable_widens)
qed

lemma fixed_chain:
  assumes "class_order W" and "\<forall>m\<in>set ms. \<not> ex_varargs m" and "(c, x) \<in> (child_rel (children W ms) [0..<length ms])\<^sup>+"
  shows "c < length ms \<and> x < length ms \<and> list_all2 (widens W) (full_params (ms ! x)) (full_params (ms ! c))"
  using assms(3)
proof (induction rule: trancl_induct)
  case (base x)
  then show ?case using assms(2) by (auto simp: child_rel_def children_def strictly_more_def intro: fixed_specific_widens)
next
  case (step y z)
  then have "list_all2 (widens W) (full_params (ms ! z)) (full_params (ms ! y))" "z < length ms"
    using assms(2) by (auto simp: child_rel_def children_def strictly_more_def intro: fixed_specific_widens)
  with step.IH widens_all_trans [OF assms(1)] show ?case by blast
qed

lemma fixed_acyclic:
  assumes "class_order W" and "\<forall>m\<in>set ms. \<not> ex_varargs m"
  shows "acyclic (child_rel (children W ms) [0..<length ms])"
proof (rule acyclicI, rule allI, rule notI)
  fix x assume "(x, x) \<in> (child_rel (children W ms) [0..<length ms])\<^sup>+"
  then obtain y where y: "(x, y) \<in> child_rel (children W ms) [0..<length ms]"
      "(y, x) \<in> (child_rel (children W ms) [0..<length ms])\<^sup>*" by (meson tranclD)
  from y(1) have xy: "y < length ms" "x < length ms" "strictly_more W (ms ! y) (ms ! x)"
    by (auto simp: child_rel_def children_def)
  then have 1: "list_all2 (widens W) (full_params (ms ! y)) (full_params (ms ! x))"
    using assms(2) fixed_specific_widens [of "ms ! y" "ms ! x" W] by (auto simp: strictly_more_def)
  have 2: "list_all2 (widens W) (full_params (ms ! x)) (full_params (ms ! y))"
  proof (cases "x = y")
    case False
    with y(2) have "(y, x) \<in> (child_rel (children W ms) [0..<length ms])\<^sup>+" by (simp add: rtrancl_eq_or_trancl)
    with fixed_chain [OF assms] show ?thesis by blast
  qed (use 1 in simp)
  have "full_params (ms ! y) = full_params (ms ! x)" using widens_all_antisym [OF assms(1) 1 2] .
  moreover have "isMoreSpecificThan W (ms ! y) (ms ! x)" "\<not> isMoreSpecificThan W (ms ! x) (ms ! y)"
    using xy(3) by (auto simp: strictly_more_def)
  ultimately show False
    using assms(2) xy(1,2) by (simp add: isMoreSpecificThan_def)
qed

section \<open>What the sorting gives\<close>

lemma sortMethods_result:
  assumes "sortMethods W ms = Some order"
  shows "distinct order" and "set order = {0..<length ms}" and "children_first (children W ms) order"
  using sort_loop_result [OF assms [unfolded sortMethods_def]] by simp_all

lemma sortMethods_iff: "(\<exists>order. sortMethods W ms = Some order) \<longleftrightarrow> acyclic (child_rel (children W ms) [0..<length ms])"
  unfolding sortMethods_def by (rule sort_loop_iff) (use children_in in auto)

lemma sorted_before:
  assumes "sortMethods W ms = Some order" and "b < length order"
    and "strictly_more W (ms ! (order ! b)) (ms ! (order ! a))" and "a < length order" and "a \<noteq> b"
  shows "a < b"
proof -
  note sorted = sortMethods_result [OF assms(1)]
  have "order ! a \<noteq> order ! b" using assms(2,4,5) sorted(1) by (simp add: nth_eq_iff_index_eq)
  moreover have "order ! a < length ms" using assms(4) sorted(2) nth_mem by fastforce
  ultimately have "order ! a \<in> set (children W ms (order ! b))" using assms(3) by (simp add: children_def)
  then obtain j where "j < b" "order ! a = order ! j"
    using children_first_index [OF sorted(3,1) assms(2)] by blast
  with assms(2,4) sorted(1) show ?thesis by (simp add: nth_eq_iff_index_eq)
qed

text \<open>C12: Sorting the overloads of a name ends exactly when no method is, along a chain of
  strictly more specific ones, more specific than itself. Then every method is listed once and
  each one after all the methods that it is strictly more specific than. For methods without
  variable arguments there is no such chain, although assignability of parameters is not
  transitive.\<close>
theorem overloads_sorted:
  assumes "class_order W"
  shows "((\<exists>order. sortMethods W ms = Some order) \<longleftrightarrow> acyclic (child_rel (children W ms) [0..<length ms])) \<and>
    ((\<forall>m\<in>set ms. \<not> ex_varargs m) \<longrightarrow> (\<exists>order. sortMethods W ms = Some order)) \<and>
    (\<forall>order. sortMethods W ms = Some order \<longrightarrow> distinct order \<and> set order = {0..<length ms} \<and>
      (\<forall>a b. a < length order \<and> b < length order \<and> a \<noteq> b \<and>
         strictly_more W (ms ! (order ! b)) (ms ! (order ! a)) \<longrightarrow> a < b))"
proof -
  have "a < b" if "sortMethods W ms = Some order" "a < length order" "b < length order" "a \<noteq> b"
      "strictly_more W (ms ! (order ! b)) (ms ! (order ! a))" for order a b
    using sorted_before [OF that(1,3,5,2,4)] .
  then show ?thesis
    using sortMethods_iff [of W ms] sortMethods_result [of W ms] fixed_acyclic [OF assms, of ms] by auto
qed

text \<open>Classes as numbers: 0 Object, 1 Number, 2 Integer and the box of all types, 3 another class.
  The methods are those of class 3: of an Object, an int, a Number and an Integer.\<close>

definition demo_world :: "nat class_world" where
  "demo_world = \<lparr>cw_sub = \<lambda>c d. c = d \<or> d = 0 \<or> c = 2 \<and> d = 1, cw_array = \<lambda>d. d = 0, cw_box = \<lambda>_. 2\<rparr>"

definition demo_exec :: "nat jtype \<Rightarrow> nat executable" where
  "demo_exec t = \<lparr>ex_static = False, ex_ctor = False, ex_varargs = False, ex_decl = 3, ex_params = [t]\<rparr>"

definition demo_methods :: "nat executable list" where
  "demo_methods = map demo_exec [RefT 0, PrimT IntT, RefT 1, RefT 2]"

lemma demo_class_order: "class_order demo_world"
  by (auto simp: class_order_def demo_world_def)

lemma demo_children:
  "children demo_world demo_methods 0 = []" "children demo_world demo_methods (Suc 0) = [3]"
  "children demo_world demo_methods 2 = [0]" "children demo_world demo_methods 3 = [0, 2]"
  by (simp_all add: children_def demo_methods_def strictly_more_def isMoreSpecificThan_def full_params_def
      params_specific_def isAssignableTo_def CONVERSION_def demo_world_def demo_exec_def upt_rec numeral_eq_Suc)

lemma demo_sorted: "sortMethods demo_world demo_methods = Some [0, 2, 3, 1]"
proof -
  have "[0..<length demo_methods] = [0, 1, 2, 3]" by (simp add: upt_rec demo_methods_def)
  then show ?thesis by (simp add: sortMethods_def sort_loop_steps demo_children)
qed

theorem overloads_sorted_witness: "\<exists>order. sortMethods demo_world demo_methods = Some order \<and> distinct order"
proof -
  have "\<forall>m\<in>set demo_methods. \<not> ex_varargs m" by (simp add: demo_exec_def demo_methods_def)
  then show ?thesis using overloads_sorted [OF demo_class_order, of demo_methods] by blast
qed

text \<open>The objects of methods declared in the class itself.\<close>

definition method_object :: "(nat \<Rightarrow> nat) \<Rightarrow> 'c executable list \<Rightarrow> (nat \<Rightarrow> nat list) \<Rightarrow> nat \<Rightarrow> 'c jp_method" where
  "method_object new ms ch i = \<lparr>jm_id = new i, jm_exec = ms ! i, jm_more = map new (ch i)\<rparr>"

lemma create_loop_declared:
  assumes "\<forall>i\<in>set is. ex_decl (ms ! i) = cls" and "\<forall>k<length is. set (ch (is ! k)) \<subseteq> seen \<union> set (take k is)"
    and "\<forall>i\<in>seen. ptr i = new i"
  shows "create_loop cls inh new ms ch is ptr acc = Some (rev (map (method_object new ms ch) is) @ acc)"
  using assms
proof (induction "is" arbitrary: ptr acc seen)
  case (Cons i "is")
  have "map ptr (ch i) = map new (ch i)"
    using Cons.prems(2) [rule_format, of 0] Cons.prems(3) by auto
  moreover have "create_loop cls inh new ms ch is (ptr(i := new i)) (method_object new ms ch i # acc) =
      Some (rev (map (method_object new ms ch) is) @ method_object new ms ch i # acc)"
  proof (rule Cons.IH [of "insert i seen"])
    show "\<forall>k<length is. set (ch (is ! k)) \<subseteq> insert i seen \<union> set (take k is)"
      using Cons.prems(2) by (metis Suc_less_eq insert_is_Un length_Cons list.simps(15) nth_Cons_Suc sup_assoc sup_commute take_Suc_Cons)
  qed (use Cons.prems in auto)
  ultimately have "create_loop cls inh new ms ch (i # is) ptr acc =
      Some (rev (map (method_object new ms ch) is) @ method_object new ms ch i # acc)"
    using Cons.prems(1) by (simp only: create_loop.simps Let_def method_object_def) simp
  then show ?case by simp
qed simp

lemma createMethods_declared:
  assumes "sortMethods W ms = Some order" and "\<forall>m\<in>set ms. ex_decl m = cls"
  shows "createMethods cls inh new W ms = Some (rev (map (method_object new ms (children W ms)) order))"
proof -
  note sorted = sortMethods_result [OF assms(1)]
  have "\<forall>i\<in>set order. ex_decl (ms ! i) = cls" using sorted(2) assms(2) by simp
  then have "create_loop cls inh new ms (children W ms) order (\<lambda>_. 0) [] =
      Some (rev (map (method_object new ms (children W ms)) order) @ [])"
    by (rule create_loop_declared [where seen = "{}"]) (use sorted(3) in \<open>simp_all add: children_first_def\<close>)
  then show ?thesis by (simp add: createMethods_def assms(1))
qed

end
