(* ===== verification/Dispatch.thy ===== *)
theory Dispatch
  imports Overloads UserConversions
begin

text \<open>
  Calling an overloaded method: \<open>JPMethod::matches\<close> rates one overload for the arguments,
  \<open>JPMethodDispatch::findOverload\<close> searches the list of \<open>createMethods\<close> for the best one, with
  a cache of the last overload under a hash of the argument types. How well a type takes an
  argument (\<open>findJavaConversion\<close>) is the argument \<open>conv\<close>.
\<close>

section \<open>Rating one overload\<close>

text \<open>The parameters of \<open>populateMethod\<close>: an instance method takes its object first.\<close>

definition is_instance :: "'c executable \<Rightarrow> bool" where
  "is_instance e = (\<not> ex_static e \<and> \<not> ex_ctor e)"

definition jp_params :: "'c executable \<Rightarrow> 'c jtype list" where
  "jp_params e = (if is_instance e then RefT (ex_decl e) # ex_params e else ex_params e)"

record method_match =
  mm_type :: quality
  mm_offset :: nat
  mm_skip :: nat
  mm_indirect :: bool

text \<open>The loop over the fixed parameters, from the quality so far.\<close>

fun match_args :: "('c jtype \<Rightarrow> 'a \<Rightarrow> quality) \<Rightarrow> 'c jtype list \<Rightarrow> 'a list \<Rightarrow> quality \<Rightarrow> quality" where
  "match_args conv (t # ts) (a # as) q =
     (let q' = (if conv t a < q then conv t a else q)
      in if q' < QImplicit then q' else match_args conv ts as q')"
| "match_args conv _ _ q = q"

text \<open>\<open>matchVars\<close>: the arguments as elements of the array.\<close>

fun match_vars :: "('c jtype \<Rightarrow> 'a \<Rightarrow> quality) \<Rightarrow> 'c jtype \<Rightarrow> 'a list \<Rightarrow> quality \<Rightarrow> quality" where
  "match_vars conv t [] worst = worst"
| "match_vars conv t (a # as) worst =
     (let q = conv t a in if q < QImplicit then QNone else match_vars conv t as (if q < worst then q else worst))"

text \<open>Lengths are of type \<open>size_t\<close>, 64 bits here; an index past the vector reads memory that is
  not an argument, which is \<open>None\<close>.\<close>

definition size_minus :: "nat \<Rightarrow> nat \<Rightarrow> nat" where
  "size_minus a b = (if b \<le> a then a - b else 2 ^ 64 + a - b)"

definition arg_at :: "'a list \<Rightarrow> nat \<Rightarrow> 'a option" where
  "arg_at args i = (if i < length args then Some (args ! i) else None)"

definition match_offset :: "bool \<Rightarrow> 'c executable \<Rightarrow> nat" where
  "match_offset callInstance e = (if callInstance \<and> ex_static e then 1 else 0)"

definition match_result :: "bool \<Rightarrow> 'c executable \<Rightarrow> bool \<Rightarrow> quality \<Rightarrow> method_match" where
  "match_result callInstance e ind q =
     \<lparr>mm_type = q, mm_offset = match_offset callInstance e,
      mm_skip = (if callInstance \<or> is_instance e then 1 else 0), mm_indirect = ind\<rparr>"

text \<open>The array parameter: given as an array (\<open>direct\<close>), else by its elements, else empty.\<close>

definition match_direct :: "('c jtype \<Rightarrow> 'a \<Rightarrow> quality) \<Rightarrow> bool \<Rightarrow> 'c executable \<Rightarrow> 'a list \<Rightarrow> quality option" where
  "match_direct conv callInstance e args =
     (let tlen = length (jp_params e); off = match_offset callInstance e
      in if length args - off = tlen
         then map_option (conv (last (jp_params e))) (arg_at args (size_minus (tlen - 1) off))
         else Some QNone)"

definition match_varargs :: "('c jtype \<Rightarrow> 'a \<Rightarrow> quality) \<Rightarrow> bool \<Rightarrow> 'c executable \<Rightarrow> 'a list \<Rightarrow> quality \<Rightarrow> quality \<times> bool" where
  "match_varargs conv callInstance e args direct =
     (let tlen = length (jp_params e); off = match_offset callInstance e; len = length args - off
      in if direct < QImplicit \<and> len \<ge> tlen
         then (match_vars conv (component (last (jp_params e))) (drop (tlen - 1 + off) args) QExact, True)
         else if len < tlen then (QExact, True)
         else (direct, False))"

definition matches :: "('c jtype \<Rightarrow> 'a \<Rightarrow> quality) \<Rightarrow> bool \<Rightarrow> 'a list \<Rightarrow> 'c executable \<Rightarrow> method_match option" where
  "matches conv callInstance args e =
     (let ps = jp_params e; tlen = length ps; off = match_offset callInstance e; len = length args - off
      in if \<not> ex_varargs e then
           Some (match_result callInstance e False
             (if len \<noteq> tlen then QNone else match_args conv ps (drop off args) QExact))
         else if len < tlen - 1 then Some (match_result callInstance e False QNone)
         else map_option (\<lambda>direct.
           let (q, ind) = match_varargs conv callInstance e args direct
           in match_result callInstance e ind
                (if q < QImplicit then q else match_args conv (butlast ps) (drop off args) q))
           (match_direct conv callInstance e args))"

section \<open>The search\<close>

type_synonym 'c best_match = "('c jp_method \<times> method_match) option"

definition hides :: "'c jp_method \<Rightarrow> 'c jp_method \<Rightarrow> bool" where
  "hides m other = (jm_id other \<in> set (jm_more m))"

text \<open>One applicable overload against the best so far; the second component lists the ambiguous
  ones. Qualities decide when neither hides the other and the two fit the kind of call alike.\<close>

definition by_quality :: "'c jp_method \<times> method_match \<Rightarrow> 'c jp_method \<times> method_match \<Rightarrow> 'c jp_method list \<Rightarrow>
    'c best_match \<times> 'c jp_method list" where
  "by_quality best new ambiguous =
     (if mm_type (snd best) < mm_type (snd new) then (Some new, [])
      else if mm_type (snd best) > mm_type (snd new) then (Some best, ambiguous)
      else (Some best, ambiguous @ [fst new]))"

definition compare_overloads :: "bool \<Rightarrow> 'c jp_method \<times> method_match \<Rightarrow> 'c jp_method \<times> method_match \<Rightarrow>
    'c jp_method list \<Rightarrow> 'c best_match \<times> 'c jp_method list" where
  "compare_overloads callInstance best new ambiguous =
     (let bstatic = ex_static (jm_exec (fst best)); cstatic = ex_static (jm_exec (fst new))
      in if hides (fst best) (fst new) then (Some best, ambiguous)
         else if callInstance = (\<not> cstatic) then
           if callInstance = bstatic then (Some new, ambiguous) else by_quality best new ambiguous
         else if callInstance = (\<not> bstatic) then (Some best, ambiguous)
         else by_quality best new ambiguous)"

fun overload_loop :: "('c jp_method \<Rightarrow> method_match option) \<Rightarrow> bool \<Rightarrow> 'c jp_method list \<Rightarrow> 'c best_match \<Rightarrow> 'c jp_method list \<Rightarrow>
    ('c best_match \<times> 'c jp_method list) option" where
  "overload_loop rate callInstance [] best ambiguous = Some (best, ambiguous)"
| "overload_loop rate callInstance (current # ms) best ambiguous =
     (case rate current of
        None \<Rightarrow> None
      | Some r \<Rightarrow>
          if mm_type r = QExact then Some (Some (current, r), ambiguous)
          else if mm_type r < QImplicit then overload_loop rate callInstance ms best ambiguous
          else (case best of
                  None \<Rightarrow> overload_loop rate callInstance ms (Some (current, r)) ambiguous
                | Some b \<Rightarrow>
                    (case compare_overloads callInstance b (current, r) ambiguous of
                       (best', ambiguous') \<Rightarrow> overload_loop rate callInstance ms best' ambiguous')))"

datatype 'c overload_error = AmbiguousOverloads "'c jp_method list" | NoMatchingOverload

definition search_result :: "'c best_match \<Rightarrow> 'c jp_method list \<Rightarrow> 'c overload_error + 'c jp_method \<times> method_match" where
  "search_result best ambiguous =
     (if ambiguous \<noteq> [] then Inl (AmbiguousOverloads (ambiguous @ (case best of None \<Rightarrow> [] | Some b \<Rightarrow> [fst b])))
      else (case best of None \<Rightarrow> Inl NoMatchingOverload | Some b \<Rightarrow> Inr b))"

definition search :: "('c jp_method \<Rightarrow> method_match option) \<Rightarrow> bool \<Rightarrow> 'c jp_method list \<Rightarrow>
    ('c overload_error + 'c jp_method \<times> method_match) option" where
  "search rate callInstance ms =
     map_option (\<lambda>(best, ambiguous). search_result best ambiguous) (overload_loop rate callInstance ms None [])"

section \<open>The cache\<close>

text \<open>\<open>JPMethodMatch\<close> hashes the addresses of the types of the arguments, and for functions and
  bound methods the address of their code.\<close>

definition match_hash :: "('a \<Rightarrow> 64 word) \<Rightarrow> ('a \<Rightarrow> 64 word option) \<Rightarrow> bool \<Rightarrow> 'a list \<Rightarrow> 64 word" where
  "match_hash type_addr code_addr callInstance args =
     fold (\<lambda>a h. let h' = h * 0x10523C01 + type_addr a
                  in case code_addr a of None \<Rightarrow> h' | Some c \<Rightarrow> xor h' c)
       args (if callInstance then 0 else 1000)"

record 'c dispatch =
  dp_overloads :: "'c jp_method list"
  dp_last :: "'c jp_method option"
  dp_hash :: "nat \<Rightarrow> 64 word"

definition cached :: "('c jp_method \<Rightarrow> method_match option) \<Rightarrow> 64 word \<Rightarrow> 'c dispatch \<Rightarrow> 'c best_match option" where
  "cached rate h d =
     (case dp_last d of
        None \<Rightarrow> Some None
      | Some m \<Rightarrow>
          if \<not> ex_varargs (jm_exec m) \<and> dp_hash d (jm_id m) = h then
            map_option (\<lambda>r. if mm_type r > QExplicit then Some (m, r) else None) (rate m)
          else Some None)"

definition findOverload :: "('c jp_method \<Rightarrow> method_match option) \<Rightarrow> 64 word \<Rightarrow> bool \<Rightarrow> 'c dispatch \<Rightarrow>
    (('c overload_error + 'c jp_method \<times> method_match) \<times> 'c dispatch) option" where
  "findOverload rate h callInstance d =
     (case cached rate h d of
        None \<Rightarrow> None
      | Some (Some b) \<Rightarrow> Some (Inr b, d)
      | Some None \<Rightarrow>
          map_option (\<lambda>r. (r,
            (case r of
               Inl e \<Rightarrow> d
             | Inr (m, mt) \<Rightarrow>
                 if mm_type mt \<ge> QImplicit then d\<lparr>dp_hash := (dp_hash d)(jm_id m := h), dp_last := Some m\<rparr> else d)))
            (search rate callInstance (dp_overloads d)))"

text \<open>\<open>invoke\<close> raises for either failure; \<open>JPMethodDispatch::matches\<close> only asks.\<close>

definition overload_exn :: "'c overload_error \<Rightarrow> pyexn" where
  "overload_exn e = (case e of
      AmbiguousOverloads ms \<Rightarrow> Exn TypeError ''Ambiguous overloads found''
    | NoMatchingOverload \<Rightarrow> Exn TypeError ''No matching overloads found'')"

definition select_overload :: "('c jtype \<Rightarrow> 'a \<Rightarrow> quality) \<Rightarrow> ('a \<Rightarrow> 64 word) \<Rightarrow> ('a \<Rightarrow> 64 word option) \<Rightarrow> bool \<Rightarrow> 'a list \<Rightarrow>
    'c dispatch \<Rightarrow> ((pyexn + 'c jp_method \<times> method_match) \<times> 'c dispatch) option" where
  "select_overload conv type_addr code_addr callInstance args d =
     map_option (apfst (map_sum overload_exn id))
       (findOverload (\<lambda>m. matches conv callInstance args (jm_exec m)) (match_hash type_addr code_addr callInstance args)
          callInstance d)"

definition dispatch_matches :: "('c jtype \<Rightarrow> 'a \<Rightarrow> quality) \<Rightarrow> ('a \<Rightarrow> 64 word) \<Rightarrow> ('a \<Rightarrow> 64 word option) \<Rightarrow> bool \<Rightarrow> 'a list \<Rightarrow>
    'c dispatch \<Rightarrow> (bool \<times> 'c dispatch) option" where
  "dispatch_matches conv type_addr code_addr callInstance args d =
     map_option (apfst (\<lambda>r. case r of Inl _ \<Rightarrow> False | Inr _ \<Rightarrow> True))
       (findOverload (\<lambda>m. matches conv callInstance args (jm_exec m)) (match_hash type_addr code_addr callInstance args)
          callInstance d)"

section \<open>The best overload\<close>


























text \<open>Two overloads, the first hiding the second, both implicit; and a third that fits as well.\<close>

definition demo_jm :: "nat \<Rightarrow> nat list \<Rightarrow> nat jp_method" where
  "demo_jm i hs = \<lparr>jm_id = i, jm_exec = demo_exec (RefT i), jm_more = hs\<rparr>"

definition demo_rate :: "quality \<Rightarrow> method_match" where
  "demo_rate q = match_result True (demo_exec (RefT 0)) False q"


section \<open>The most specific overload is called\<close>















text \<open>The methods of the example called with an object (3) and a Number that is no Integer (1):
  the method for numbers is found, and the one for objects is not.\<close>

definition demo_conv :: "nat jtype \<Rightarrow> nat \<Rightarrow> quality" where
  "demo_conv t a = (if isAssignableTo demo_world (RefT a) t then QImplicit else QNone)"




section \<open>Exact overloads after a tie\<close>


lemma overload_loop_append:
  assumes "\<forall>m\<in>set P. \<exists>r. rate m = Some r \<and> mm_type r \<noteq> QExact"
  shows "overload_loop rate ci (P @ L) best amb =
     Option.bind (overload_loop rate ci P best amb) (\<lambda>(best', amb'). overload_loop rate ci L best' amb')"
  using assms
proof (induction P arbitrary: best amb)
  case (Cons m P)
  then obtain r where "rate m = Some r" "mm_type r \<noteq> QExact" by auto
  with Cons show ?case by (auto split: option.split prod.split)
qed simp

text \<open>C30: An overload that fits the arguments exactly is found by the search, which stops at it, but
  when two overloads before it were ambiguous, the call is refused as ambiguous all the same.\<close>
theorem exact_after_tie:
  assumes "\<forall>m\<in>set P. \<exists>r. rate m = Some r \<and> mm_type r \<noteq> QExact" and "rate c = Some rc" and "mm_type rc = QExact"
    and "search rate ci P = Some (Inl (AmbiguousOverloads ms))"
  shows "\<exists>amb. amb \<noteq> [] \<and> overload_loop rate ci (P @ c # L) None [] = Some (Some (c, rc), amb) \<and>
    search rate ci (P @ c # L) = Some (Inl (AmbiguousOverloads (amb @ [c])))"
proof -
  obtain best amb where run: "overload_loop rate ci P None [] = Some (best, amb)" "search_result best amb = Inl (AmbiguousOverloads ms)"
    using assms(4) by (auto simp: search_def)
  then have "amb \<noteq> []" by (auto simp: search_result_def split: option.splits if_splits)
  moreover have "overload_loop rate ci (P @ c # L) None [] = Some (Some (c, rc), amb)"
    using overload_loop_append [OF assms(1), of ci "c # L"] run(1) assms(2,3) by simp
  ultimately show ?thesis by (simp add: search_def search_result_def)
qed

text \<open>A Python bool for methods of Byte (0), Short (1) and boolean (2): the boxes take it as the
  integer it also is, the last takes it exactly.\<close>

definition bool_rate :: "nat jp_method \<Rightarrow> method_match option" where
  "bool_rate m = Some (demo_rate (if jm_id m = 2 then QExact else QImplicit))"

theorem exact_after_tie_witness:
  "search bool_rate True [demo_jm 0 [], demo_jm 1 [], demo_jm 2 []] =
     Some (Inl (AmbiguousOverloads [demo_jm 1 [], demo_jm 2 []]))"
proof -
  have tie: "overload_loop bool_rate True [demo_jm 0 [], demo_jm 1 []] None [] =
      Some (Some (demo_jm 0 [], demo_rate QImplicit), [demo_jm 1 []])"
    by (simp add: bool_rate_def demo_rate_def match_result_def less_quality_def compare_overloads_def by_quality_def
        hides_def demo_jm_def demo_exec_def)
  then have "search bool_rate True [demo_jm 0 [], demo_jm 1 []] = Some (Inl (AmbiguousOverloads [demo_jm 1 [], demo_jm 0 []]))"
    by (simp add: search_def search_result_def)
  moreover have "\<forall>m\<in>set [demo_jm 0 [], demo_jm 1 []]. \<exists>r. bool_rate m = Some r \<and> mm_type r \<noteq> QExact"
    and "bool_rate (demo_jm 2 []) = Some (demo_rate QExact)" and "mm_type (demo_rate QExact) = QExact"
    by (simp_all add: bool_rate_def demo_rate_def match_result_def demo_jm_def)
  ultimately obtain amb where a: "overload_loop bool_rate True ([demo_jm 0 [], demo_jm 1 []] @ [demo_jm 2 []]) None [] =
        Some (Some (demo_jm 2 [], demo_rate QExact), amb)"
      "search bool_rate True ([demo_jm 0 [], demo_jm 1 []] @ [demo_jm 2 []]) = Some (Inl (AmbiguousOverloads (amb @ [demo_jm 2 []])))"
    using exact_after_tie [of "[demo_jm 0 [], demo_jm 1 []]" bool_rate "demo_jm 2 []" "demo_rate QExact" True _ "[]"] by blast
  have "amb = [demo_jm 1 []]"
    using a(1) by (simp add: bool_rate_def demo_rate_def match_result_def less_quality_def compare_overloads_def by_quality_def
        hides_def demo_jm_def demo_exec_def)
  with a(2) show ?thesis by simp
qed

section \<open>Static methods with variable arguments, called on an object\<close>

text \<open>C32: When a static method whose last parameter is an array of variable arguments is called on
  an object with as many arguments as it has parameters, the test for a given array does not
  look at the last argument: with one parameter it reads outside the arguments, with more it
  looks at the argument two places earlier.\<close>
theorem static_varargs_on_object:
  assumes "ex_static e" and "ex_varargs e" and "length args = Suc (length (ex_params e))" and "ex_params e \<noteq> []"
    and "length (ex_params e) < 2 ^ 63"
  shows "(length (ex_params e) = 1 \<longrightarrow> matches conv True args e = None) \<and>
    (length (ex_params e) \<ge> 2 \<longrightarrow>
       match_direct conv True e args = Some (conv (last (ex_params e)) (args ! (length (ex_params e) - 2))))"
proof -
  have params: "jp_params e = ex_params e" "match_offset True e = 1"
    using assms(1) by (simp_all add: jp_params_def is_instance_def match_offset_def)
  have "matches conv True args e = None" if "length (ex_params e) = 1"
    using assms(1-3) that by (simp add: matches_def match_direct_def params arg_at_def size_minus_def)
  moreover have "match_direct conv True e args = Some (conv (last (ex_params e)) (args ! (length (ex_params e) - 2)))"
    if "length (ex_params e) \<ge> 2"
  proof -
    have "length (ex_params e) - Suc (Suc 0) < length args" using assms(3) by simp
    with that assms(3) show ?thesis
      by (simp add: match_direct_def params arg_at_def size_minus_def numeral_2_eq_2 Let_def)
  qed
  ultimately show ?thesis by blast
qed

text \<open>A static method of an int and ints, called on an object (3) with an int (0) and an array (1):
  the object is asked whether it is the array.\<close>

definition demo_static :: "nat executable" where
  "demo_static = \<lparr>ex_static = True, ex_ctor = False, ex_varargs = True, ex_decl = 3, ex_params = [PrimT IntT, ArrT (PrimT IntT)]\<rparr>"

theorem static_varargs_on_object_witness:
  "match_direct (\<lambda>t a. if a = 1 then QExact else QNone) True demo_static [3, 0, 1 :: nat] = Some QNone"
  using static_varargs_on_object [of demo_static "[3, 0, 1 :: nat]" "\<lambda>t a. if a = 1 then QExact else QNone"]
  by (simp add: demo_static_def)

section \<open>The cache and the history of calls\<close>











text \<open>Methods of class 3 that take an array of ints and an array of doubles; the arguments are an
  object (9), a Python list of ints (0) and one of floats (1). Both lists are of the same type, the
  first converts to either array.\<close>

definition array_method :: "nat \<Rightarrow> prim \<Rightarrow> nat jp_method" where
  "array_method i p = \<lparr>jm_id = i, jm_exec = demo_exec (ArrT (PrimT p)), jm_more = []\<rparr>"

definition list_conv :: "nat jtype \<Rightarrow> nat \<Rightarrow> quality" where
  "list_conv t a = (if a = 9 \<and> t = RefT 3 \<or> a \<noteq> 9 \<and> (t = ArrT (PrimT DoubleT) \<or> t = ArrT (PrimT IntT) \<and> a = 0)
     then QImplicit else QNone)"

definition list_dispatch :: "nat dispatch" where
  "list_dispatch = \<lparr>dp_overloads = [array_method 0 IntT, array_method 1 DoubleT], dp_last = None, dp_hash = \<lambda>_. -1\<rparr>"

text \<open>But the hash covers the types of the arguments and not their contents: the outcome of a
  call with a list of ints depends on the calls before it. At first it is refused as ambiguous
  between an array of ints and one of doubles; after a call with a list of floats the same call
  goes to the array of doubles.\<close>
theorem cache_remembers:
  "(\<exists>d. select_overload list_conv (\<lambda>_. 7) (\<lambda>_. None) True [9, 0] list_dispatch =
      Some (Inl (Exn TypeError ''Ambiguous overloads found''), d)) \<and>
   (\<exists>r d. select_overload list_conv (\<lambda>_. 7) (\<lambda>_. None) True [9, 1] list_dispatch = Some (Inr r, d) \<and>
      (\<exists>m d'. select_overload list_conv (\<lambda>_. 7) (\<lambda>_. None) True [9, 0] d = Some (Inr (array_method 1 DoubleT, m), d')))"
proof -
  have ints: "matches list_conv True [9, 0] (jm_exec (array_method i p)) =
      Some (match_result True (demo_exec (ArrT (PrimT p))) False (if p = IntT \<or> p = DoubleT then QImplicit else QNone))"
    and floats: "matches list_conv True [9, Suc 0] (jm_exec (array_method i p)) =
      Some (match_result True (demo_exec (ArrT (PrimT p))) False (if p = DoubleT then QImplicit else QNone))" for i p
    by (simp_all add: matches_def array_method_def demo_exec_def jp_params_def is_instance_def match_offset_def list_conv_def
        match_result_def less_quality_def)
  have hash: "match_hash (\<lambda>_. 7) (\<lambda>_. None) True [9, 0 :: nat] = match_hash (\<lambda>_. 7) (\<lambda>_. None) True [9, Suc 0]"
    by (simp add: match_hash_def)
  note steps = select_overload_def findOverload_def cached_def search_def search_result_def ints floats match_result_def
    compare_overloads_def by_quality_def hides_def overload_exn_def less_quality_def less_eq_quality_def
  have simps: "jm_id (array_method i p) = i" "jm_more (array_method i p) = []" "ex_static (jm_exec (array_method i p)) = False"
    "ex_varargs (jm_exec (array_method i p)) = False" for i p
    by (simp_all add: array_method_def demo_exec_def)
  show ?thesis by (simp add: steps simps list_dispatch_def hash)
qed

section \<open>Inherited overloads\<close>

definition static_exec :: "nat \<Rightarrow> nat \<Rightarrow> nat executable" where
  "static_exec cls c = \<lparr>ex_static = True, ex_ctor = False, ex_varargs = False, ex_decl = cls, ex_params = [RefT c]\<rparr>"

text \<open>An inherited method keeps the list of hidden overloads that it got in its own class: with
  a static method for Numbers (1) in a base class (4) and one for Objects (0) in the class (3), a
  call with an Integer (2) is ambiguous, while the method for Numbers is found when both are
  declared in one class.\<close>
theorem inherited_hides_nothing:
  "createMethods 4 (\<lambda>_. None) (\<lambda>_. 7) demo_world [static_exec 4 1] =
     Some [\<lparr>jm_id = 7, jm_exec = static_exec 4 1, jm_more = []\<rparr>] \<and>
   (\<exists>L ms. createMethods 3 (\<lambda>_. Some \<lparr>jm_id = 7, jm_exec = static_exec 4 1, jm_more = []\<rparr>) id demo_world
        [static_exec 4 1, static_exec 3 0] = Some L \<and>
      search (\<lambda>m. matches demo_conv False [2] (jm_exec m)) False L = Some (Inl (AmbiguousOverloads ms))) \<and>
   (\<exists>L m r. createMethods 3 (\<lambda>_. None) id demo_world [static_exec 3 1, static_exec 3 0] = Some L \<and>
      search (\<lambda>m. matches demo_conv False [2] (jm_exec m)) False L = Some (Inr (m, r)) \<and> jm_exec m = static_exec 3 1)"
proof -
  have more: "strictly_more demo_world (static_exec a c) (static_exec b d) \<longleftrightarrow> isAssignableTo demo_world (RefT c) (RefT d) \<and>
      \<not> isAssignableTo demo_world (RefT d) (RefT c)" for a b c d
    by (simp add: strictly_more_def isMoreSpecificThan_def full_params_def params_specific_def static_exec_def)
  have assign: "isAssignableTo demo_world (RefT c) (RefT d) \<longleftrightarrow> c = d \<or> d = 0 \<or> c = 2 \<and> d = Suc 0" for c d
    by (simp add: isAssignableTo_def demo_world_def)
  have kids: "children demo_world [static_exec a 1, static_exec b 0] 0 = [Suc 0]"
    "children demo_world [static_exec a (Suc 0), static_exec b 0] 0 = [Suc 0]"
    "children demo_world [static_exec a (Suc 0), static_exec b 0] (Suc 0) = []"
    "children demo_world [static_exec a (Suc 0)] 0 = []" for a b
    by (simp_all add: children_def more assign)
  have rate: "matches demo_conv False [2] (static_exec a c) =
      Some (match_result False (static_exec a c) False (if c = 0 \<or> c = Suc 0 \<or> c = 2 then QImplicit else QNone))" for a c
    by (auto simp: matches_def static_exec_def jp_params_def is_instance_def match_offset_def demo_conv_def assign
        less_quality_def)
  note made = createMethods_def sortMethods_def sort_loop_steps kids
  have decl: "ex_decl (static_exec a c) = a" "ex_static (static_exec a c)" for a c by (simp_all add: static_exec_def)
  note found = search_def search_result_def rate match_result_def compare_overloads_def by_quality_def hides_def less_quality_def
  show ?thesis by (simp add: made decl found)
qed

end
