(* ===== verification/ArrayViews.thy ===== *)
theory ArrayViews
  imports Containers
begin

text \<open>
  Indexing and slicing of Java arrays (\<open>jp_array.cpp\<close>, \<open>pyjp_array.cpp\<close>, and the int arrays of
  \<open>jp_inttype.cpp\<close>): a Python wrapper of an array is a view with a start, a step and a length,
  all of the 32-bit type \<open>jsize\<close>, and a slice is another view of the same array. The reference
  is Python's slice of a list, \<open>py_str_slice\<close>.
\<close>

section \<open>Views\<close>

text \<open>The cast to \<open>jsize\<close>, which also is the overflow of its arithmetic.\<close>

definition jsize :: "int \<Rightarrow> int" where
  "jsize i = sint (word_of_int i :: 32 word)"

record jarray_view =
  av_start :: int
  av_step :: int
  av_length :: int

definition JPArray_whole :: "int \<Rightarrow> jarray_view" where
  "JPArray_whole n = \<lparr>av_start = 0, av_step = 1, av_length = n\<rparr>"

text \<open>Division of C++, which cuts towards zero.\<close>

definition c_div :: "int \<Rightarrow> int \<Rightarrow> int" where
  "c_div a b = (if (a < 0) = (b < 0) then \<bar>a\<bar> div \<bar>b\<bar> else - (\<bar>a\<bar> div \<bar>b\<bar>))"

text \<open>The slice of a view; a step of zero divides by zero, which is \<open>None\<close>.\<close>

definition JPArray_slice :: "jarray_view \<Rightarrow> int \<Rightarrow> int \<Rightarrow> int \<Rightarrow> jarray_view option" where
  "JPArray_slice v start stop step =
     (if step = 0 then None
      else Some \<lparr>av_start = jsize (av_start v + jsize (av_step v * start)), av_step = jsize (step * av_step v),
        av_length = max 0 (if step > 0 then c_div (jsize (stop - start - 1 + step)) step
                           else c_div (jsize (stop - start + 1 + step)) step)\<rparr>)"

section \<open>Python's slice objects\<close>

text \<open>\<open>PySlice_Unpack\<close>: 64-bit numbers, with the defaults of the missing parts.\<close>

definition ssize_clip :: "int \<Rightarrow> int" where
  "ssize_clip x = max (- (2 ^ 63)) (min (2 ^ 63 - 1) x)"

definition slice_unpack :: "slice \<Rightarrow> pyexn + int \<times> int \<times> int" where
  "slice_unpack slc =
     (let step = (case sl_step slc of None \<Rightarrow> 1 | Some k \<Rightarrow> max (- (2 ^ 63 - 1)) (ssize_clip k))
      in if step = 0 then Inl (Exn ValueError ''slice step cannot be zero'')
         else Inr (case sl_start slc of None \<Rightarrow> if step < 0 then 2 ^ 63 - 1 else 0 | Some i \<Rightarrow> ssize_clip i,
                   case sl_stop slc of None \<Rightarrow> if step < 0 then - (2 ^ 63) else 2 ^ 63 - 1 | Some i \<Rightarrow> ssize_clip i,
                   step))"

text \<open>\<open>PySlice_AdjustIndices\<close>: both ends moved into the range, and the number of elements.\<close>

definition adjust_index :: "int \<Rightarrow> int \<Rightarrow> int \<Rightarrow> int" where
  "adjust_index n step x =
     (if x < 0 then (if x + n < 0 then (if step < 0 then - 1 else 0) else x + n)
      else if x \<ge> n then (if step < 0 then n - 1 else n) else x)"

definition slice_count :: "int \<Rightarrow> int \<Rightarrow> int \<Rightarrow> int" where
  "slice_count start stop step =
     (if step < 0 then (if stop < start then (start - stop - 1) div (- step) + 1 else 0)
      else if start < stop then (stop - start - 1) div step + 1 else 0)"

section \<open>Reading\<close>

definition JPArray_getItem :: "jarray_view \<Rightarrow> 'v list \<Rightarrow> int \<Rightarrow> pyexn + 'v" where
  "JPArray_getItem v xs ndx =
     (let ndx = (if ndx < 0 then ndx + av_length v else ndx)
      in if ndx \<ge> av_length v \<or> ndx < 0 then Inl (Exn IndexError ''array index out of bounds'')
         else Inr (xs ! nat (av_start v + ndx * av_step v)))"

text \<open>\<open>PyJPArray_getArrayItem\<close> with an integer and with a slice; a number that is no 64-bit
  integer is refused by \<open>PyNumber_AsSsize_t\<close>.\<close>

definition in_ssize :: "int \<Rightarrow> bool" where
  "in_ssize i = (- (2 ^ 63) \<le> i \<and> i < 2 ^ 63)"

definition PyJPArray_getItem :: "jarray_view \<Rightarrow> 'v list \<Rightarrow> int \<Rightarrow> pyexn + 'v" where
  "PyJPArray_getItem v xs i =
     (if in_ssize i then JPArray_getItem v xs (jsize i) else Inl (Exn IndexError ''cannot fit into an index-sized integer''))"

definition PyJPArray_getSlice :: "jarray_view \<Rightarrow> slice \<Rightarrow> pyexn + jarray_view option" where
  "PyJPArray_getSlice v slc =
     (case slice_unpack slc of
        Inl e \<Rightarrow> Inl e
      | Inr (start, stop, step) \<Rightarrow>
          let start = adjust_index (av_length v) step start; stop = adjust_index (av_length v) step stop
          in if slice_count start stop step \<le> 0 then Inr (JPArray_slice v (jsize 0) (jsize 0) (jsize 1))
             else Inr (JPArray_slice v (jsize start) (jsize stop) (jsize step)))"

section \<open>Writing to int arrays\<close>

text \<open>An item of the assigned sequence: one with \<open>__index__\<close>, or another.\<close>

datatype py_item = IndexItem int | OtherItem

definition as_long_long :: "int \<Rightarrow> pyexn + int" where
  "as_long_long x = (if - (2 ^ 63) \<le> x \<and> x < 2 ^ 63 then Inr x
     else Inl (Exn OverflowError ''Python int too large to convert to C long''))"

definition assertRange :: "int \<Rightarrow> pyexn + int" where
  "assertRange l = (if l < - 2147483648 \<or> l > 2147483647 then Inl (Exn OverflowError ''Cannot convert value to Java int'') else Inr l)"

definition int_element :: "py_item \<Rightarrow> pyexn + 32 word" where
  "int_element item =
     (case item of
        OtherItem \<Rightarrow> Inl (Exn TypeError ''Unable to implicitly convert'')
      | IndexItem x \<Rightarrow>
          (case as_long_long x of
             Inl e \<Rightarrow> Inl e
           | Inr l \<Rightarrow> (case assertRange l of Inl e \<Rightarrow> Inl e | Inr l \<Rightarrow> Inr (word_of_int l))))"

text \<open>The loop of \<open>setArrayRange\<close> on the memory of the accessor: what is written, and the error
  that stopped it.\<close>

fun set_range_loop :: "32 word list \<Rightarrow> int \<Rightarrow> int \<Rightarrow> py_item list \<Rightarrow> (pyexn + unit) \<times> 32 word list" where
  "set_range_loop val index step [] = (Inr (), val)"
| "set_range_loop val index step (item # items) =
     (case int_element item of
        Inl e \<Rightarrow> (Inl e, val)
      | Inr w \<Rightarrow> set_range_loop (val[nat index := w]) (jsize (index + step)) step items)"

text \<open>\<open>commit\<close> writes the memory back; without it the destructor releases it with \<open>JNI_ABORT\<close>,
  which drops it when it is a copy.\<close>

definition int_setArrayRange :: "bool \<Rightarrow> 32 word list \<Rightarrow> int \<Rightarrow> int \<Rightarrow> py_item list \<Rightarrow> (pyexn + unit) \<times> 32 word list" where
  "int_setArrayRange is_copy xs start step items =
     (case set_range_loop xs start step items of
        (Inr u, val) \<Rightarrow> (Inr u, val)
      | (Inl e, val) \<Rightarrow> (Inl e, if is_copy then xs else val))"

definition JPArray_setRange :: "bool \<Rightarrow> jarray_view \<Rightarrow> 32 word list \<Rightarrow> int \<Rightarrow> int \<Rightarrow> int \<Rightarrow> py_item list \<Rightarrow>
    (pyexn + unit) \<times> 32 word list" where
  "JPArray_setRange is_copy v xs start len step items =
     (if len \<noteq> int (length items) then (Inl (Exn ValueError ''Slice assignment must be of equal lengths''), xs)
      else int_setArrayRange is_copy xs (jsize (av_start v + jsize (av_step v * start))) (jsize (av_step v * step)) items)"

text \<open>\<open>PyJPArray_assignSubscript\<close> with a slice and a sequence that is no array and no buffer.\<close>

definition PyJPArray_setSlice :: "bool \<Rightarrow> jarray_view \<Rightarrow> 32 word list \<Rightarrow> slice \<Rightarrow> py_item list \<Rightarrow> (pyexn + unit) \<times> 32 word list" where
  "PyJPArray_setSlice is_copy v xs slc items =
     (case slice_unpack slc of
        Inl e \<Rightarrow> (Inl e, xs)
      | Inr (start, stop, step) \<Rightarrow>
          let start = adjust_index (av_length v) step start; stop = adjust_index (av_length v) step stop;
              n = slice_count start stop step
          in if n \<le> 0 then (Inr (), xs)
             else JPArray_setRange is_copy v xs (jsize start) (jsize n) (jsize step) items)"

definition JPArray_setItem :: "jarray_view \<Rightarrow> 32 word list \<Rightarrow> int \<Rightarrow> (pyexn + 32 word) \<Rightarrow> (pyexn + unit) \<times> 32 word list" where
  "JPArray_setItem v xs ndx converted =
     (let ndx = (if ndx < 0 then ndx + av_length v else ndx)
      in if ndx \<ge> av_length v \<or> ndx < 0 then (Inl (Exn IndexError ''java array assignment out of bounds''), xs)
         else (case converted of
                 Inl e \<Rightarrow> (Inl e, xs)
               | Inr w \<Rightarrow> (Inr (), xs[nat (av_start v + ndx * av_step v) := w])))"

definition PyJPArray_setItem :: "jarray_view \<Rightarrow> 32 word list \<Rightarrow> int \<Rightarrow> (pyexn + 32 word) \<Rightarrow> (pyexn + unit) \<times> 32 word list" where
  "PyJPArray_setItem v xs i converted =
     (if in_ssize i then JPArray_setItem v xs (jsize i) converted
      else (Inl (Exn IndexError ''cannot fit into an index-sized integer''), xs))"

section \<open>What a view shows\<close>

definition view_contents :: "jarray_view \<Rightarrow> 'v list \<Rightarrow> 'v list" where
  "view_contents v xs = map (\<lambda>k. xs ! nat (av_start v + int k * av_step v)) [0..<nat (av_length v)]"

text \<open>A view of an array of \<open>n\<close> elements: every index it has is one of the array.\<close>

definition view_ok :: "jarray_view \<Rightarrow> int \<Rightarrow> bool" where
  "view_ok v n \<longleftrightarrow> n < 2 ^ 31 \<and> 0 \<le> av_length v \<and> av_length v \<le> n \<and> 0 \<le> av_start v \<and> av_start v \<le> n \<and>
     (\<forall>k. 0 \<le> k \<and> k < av_length v \<longrightarrow> 0 \<le> av_start v + k * av_step v \<and> av_start v + k * av_step v < n) \<and>
     (av_length v \<ge> 2 \<longrightarrow> av_step v \<noteq> 0)"

lemma jsize_id: "- (2 ^ 31) \<le> i \<Longrightarrow> i < 2 ^ 31 \<Longrightarrow> jsize i = i"
  by (simp add: jsize_def sint_sbintrunc' signed_take_bit_int_eq_self)

lemma jsize_small: "jsize 0 = 0" "jsize 1 = 1" "jsize (- 1) = - 1"
  by (simp_all add: jsize_id)

lemma jsize_range: "- (2 ^ 31) \<le> jsize i \<and> jsize i < 2 ^ 31"
  using sint_range_size [of "word_of_int i :: 32 word"] by (simp add: jsize_def word_size)

lemma jsize_mult: "jsize (jsize a * b) = jsize (a * b)"
  by (simp add: jsize_def)

lemma whole_ok: "0 \<le> n \<Longrightarrow> n < 2 ^ 31 \<Longrightarrow> view_ok (JPArray_whole n) n"
  by (simp add: view_ok_def JPArray_whole_def)

lemma whole_contents: "view_contents (JPArray_whole (int (length xs))) xs = xs"
  by (simp add: view_contents_def JPArray_whole_def map_nth)

lemma contents_length: "length (view_contents v xs) = nat (av_length v)"
  by (simp add: view_contents_def)

lemma contents_nth:
  "0 \<le> k \<Longrightarrow> k < av_length v \<Longrightarrow> view_contents v xs ! nat k = xs ! nat (av_start v + k * av_step v)"
  by (simp add: view_contents_def)

lemma c_div_pos: "0 \<le> a \<Longrightarrow> 0 < b \<Longrightarrow> c_div a b = a div b"
  by (simp add: c_div_def)

lemma c_div_neg: "0 < a \<Longrightarrow> 0 < b \<Longrightarrow> c_div (- a) (- b) = a div b"
  by (simp add: c_div_def)

section \<open>Slices of views\<close>

text \<open>The ends that a slice has in a view, by the reference.\<close>

definition slice_start :: "slice \<Rightarrow> nat \<Rightarrow> int \<Rightarrow> int" where
  "slice_start slc n k = (if k > 0 then slice_bound (sl_start slc) 0 0 (int n) n
     else slice_bound (sl_start slc) (int n - 1) (- 1) (int n - 1) n)"

definition slice_stop :: "slice \<Rightarrow> nat \<Rightarrow> int \<Rightarrow> int" where
  "slice_stop slc n k = (if k > 0 then slice_bound (sl_stop slc) (int n) 0 (int n) n
     else slice_bound (sl_stop slc) (- 1) (- 1) (int n - 1) n)"

definition slice_step :: "slice \<Rightarrow> int" where
  "slice_step slc = (case sl_step slc of None \<Rightarrow> 1 | Some k \<Rightarrow> k)"

lemma py_str_slice_range:
  "py_str_slice slc s =
     (if slice_step slc = 0 then Inl (Exn ValueError ''slice step cannot be zero'')
      else Inr (map (\<lambda>i. s ! nat i) (py_range (slice_start slc (length s) (slice_step slc))
        (slice_stop slc (length s) (slice_step slc)) (slice_step slc))))"
  by (simp add: py_str_slice_def slice_start_def slice_stop_def slice_step_def Let_def)

lemma ssize_clip_id: "- (2 ^ 63) \<le> x \<Longrightarrow> x < 2 ^ 63 \<Longrightarrow> ssize_clip x = x"
  by (simp add: ssize_clip_def)

lemma adjust_clip:
  assumes "int n < 2 ^ 31"
  shows "adjust_index (int n) k (ssize_clip i) = (if k < 0 then max (- 1) (min (int n - 1) (wrap_index i n)) else max 0 (min (int n) (wrap_index i n)))"
  using assms by (simp add: adjust_index_def ssize_clip_def wrap_index_def max_def min_def)

lemma unpack_ends:
  assumes "int n < 2 ^ 31" and "slice_step slc \<noteq> 0" and "\<bar>slice_step slc\<bar> < 2 ^ 31"
  obtains start stop where "slice_unpack slc = Inr (start, stop, slice_step slc)"
    and "adjust_index (int n) (slice_step slc) start = slice_start slc n (slice_step slc)"
    and "adjust_index (int n) (slice_step slc) stop = slice_stop slc n (slice_step slc)"
proof -
  let ?k = "slice_step slc"
  have step: "(case sl_step slc of None \<Rightarrow> 1 | Some k \<Rightarrow> max (- (2 ^ 63 - 1)) (ssize_clip k)) = ?k"
    using assms(3) by (auto simp: slice_step_def ssize_clip_def split: option.splits)
  define start where "start = (case sl_start slc of None \<Rightarrow> if ?k < 0 then 2 ^ 63 - 1 else 0 | Some i \<Rightarrow> ssize_clip i)"
  define stop where "stop = (case sl_stop slc of None \<Rightarrow> if ?k < 0 then - (2 ^ 63) else 2 ^ 63 - 1 | Some i \<Rightarrow> ssize_clip i)"
  have "slice_unpack slc = Inr (start, stop, ?k)"
    using assms(2) by (simp add: slice_unpack_def step start_def stop_def Let_def)
  moreover have "adjust_index (int n) ?k start = slice_start slc n ?k"
  proof (cases "sl_start slc")
    case None
    with assms(1,2) show ?thesis by (simp add: start_def slice_start_def slice_bound_def adjust_index_def)
  next
    case (Some i)
    with assms(2) show ?thesis by (simp add: start_def slice_start_def slice_bound_def adjust_clip [OF assms(1)])
  qed
  moreover have "adjust_index (int n) ?k stop = slice_stop slc n ?k"
  proof (cases "sl_stop slc")
    case None
    with assms(1,2) show ?thesis by (simp add: stop_def slice_stop_def slice_bound_def adjust_index_def)
  next
    case (Some i)
    with assms(2) show ?thesis by (simp add: stop_def slice_stop_def slice_bound_def adjust_clip [OF assms(1)])
  qed
  ultimately show thesis by (rule that)
qed

lemma slice_ends_range:
  "- 1 \<le> slice_start slc n k \<and> slice_start slc n k \<le> int n" "- 1 \<le> slice_stop slc n k \<and> slice_stop slc n k \<le> int n"
  by (auto simp: slice_start_def slice_stop_def slice_bound_def split: option.split)

lemma slice_ends_direction:
  "k > 0 \<Longrightarrow> 0 \<le> slice_start slc n k" "k > 0 \<Longrightarrow> slice_stop slc n k \<le> int n"
  "k < 0 \<Longrightarrow> slice_start slc n k < int n" "k < 0 \<Longrightarrow> - 1 \<le> slice_stop slc n k"
  by (auto simp: slice_start_def slice_stop_def slice_bound_def split: option.split)

lemma py_range_count: "k \<noteq> 0 \<Longrightarrow> py_range a b k = map (\<lambda>j. a + int j * k) [0..<nat (slice_count a b k)]"
  by (simp add: py_range_def slice_count_def)

lemma div_mult_below: "0 < k \<Longrightarrow> x div k * k \<le> (x :: int)"
  using pos_mod_sign [of k x] div_mult_mod_eq [of x k] by linarith

text \<open>Every element of the range is an index of the view.\<close>

lemma slice_count_inside:
  assumes "k \<noteq> 0" and "0 \<le> j" and "j < slice_count (slice_start slc n k) (slice_stop slc n k) k"
  shows "0 \<le> slice_start slc n k + j * k \<and> slice_start slc n k + j * k < int n"
proof (cases "k > 0")
  case True
  let ?a = "slice_start slc n k" and ?b = "slice_stop slc n k"
  have ab: "?a < ?b" "j \<le> (?b - ?a - 1) div k" using assms True by (auto simp: slice_count_def split: if_splits)
  then have "j * k \<le> (?b - ?a - 1) div k * k" using True by (simp add: mult_right_mono)
  also have "\<dots> \<le> ?b - ?a - 1" by (rule div_mult_below [OF True])
  finally have "?a + j * k < ?b" by simp
  moreover have "0 \<le> j * k" using assms(2) True by simp
  ultimately show ?thesis using slice_ends_direction(1,2) [OF True, of slc n] by linarith
next
  case False
  then have neg: "k < 0" using assms(1) by simp
  let ?a = "slice_start slc n k" and ?b = "slice_stop slc n k"
  have ab: "?b < ?a" "j \<le> (?a - ?b - 1) div (- k)" using assms neg by (auto simp: slice_count_def split: if_splits)
  then have "j * (- k) \<le> (?a - ?b - 1) div (- k) * (- k)" using neg by (intro mult_right_mono) auto
  also have "\<dots> \<le> ?a - ?b - 1" using neg by (intro div_mult_below) simp
  finally have "?b < ?a + j * k" by simp
  moreover have "j * k \<le> 0" using assms(2) neg by (simp add: mult_nonneg_nonpos)
  ultimately show ?thesis using slice_ends_direction(3,4) [OF neg, of slc n] by linarith
qed

lemma slice_length:
  assumes "k \<noteq> 0" and "\<bar>k\<bar> + int n < 2 ^ 31" and "slice_count (slice_start slc n k) (slice_stop slc n k) k > 0"
  shows "max 0 (if k > 0 then c_div (jsize (slice_stop slc n k - slice_start slc n k - 1 + k)) k
      else c_div (jsize (slice_stop slc n k - slice_start slc n k + 1 + k)) k) =
    slice_count (slice_start slc n k) (slice_stop slc n k) k"
proof (cases "k > 0")
  case True
  let ?d = "slice_stop slc n k - slice_start slc n k - 1"
  have d: "0 \<le> ?d" "slice_count (slice_start slc n k) (slice_stop slc n k) k = ?d div k + 1"
    using assms(3) True by (auto simp: slice_count_def split: if_splits)
  have "jsize (?d + k) = ?d + k"
    using d(1) True assms(2) slice_ends_direction(1,2) [OF True, of slc n] by (intro jsize_id) linarith+
  moreover have "(?d + k) div k = ?d div k + 1" using True div_add_self2 [of k ?d] by simp
  ultimately have "c_div (jsize (?d + k)) k = ?d div k + 1" using d(1) True c_div_pos [of "?d + k" k] by simp
  with d True show ?thesis by (simp add: algebra_simps pos_imp_zdiv_nonneg_iff)
next
  case False
  then have neg: "k < 0" using assms(1) by simp
  let ?d = "slice_start slc n k - slice_stop slc n k - 1"
  have d: "0 \<le> ?d" "slice_count (slice_start slc n k) (slice_stop slc n k) k = ?d div (- k) + 1"
    using assms(3) neg by (auto simp: slice_count_def split: if_splits)
  have "jsize (- (?d + - k)) = - (?d + - k)"
    using d(1) neg assms(2) slice_ends_direction(3,4) [OF neg, of slc n] by (intro jsize_id) linarith+
  moreover have "c_div (- (?d + - k)) (- (- k)) = (?d + - k) div (- k)" using d(1) neg by (intro c_div_neg) linarith+
  moreover have "(?d + - k) div (- k) = ?d div (- k) + 1" using neg div_add_self2 [of "- k" ?d] by simp
  moreover have "0 \<le> ?d div (- k)" using d(1) neg pos_imp_zdiv_nonneg_iff [of "- k" ?d] by simp
  moreover have "slice_stop slc n k - slice_start slc n k + 1 + k = - (?d + - k)" "- (- k) = k" by simp_all
  ultimately have "c_div (jsize (slice_stop slc n k - slice_start slc n k + 1 + k)) k = ?d div (- k) + 1" "0 \<le> ?d div (- k)"
    by metis+
  with neg d(2) show ?thesis by simp
qed

text \<open>The step of the new view may overflow, but only when it has one element.\<close>

lemma slice_step_fits:
  assumes "view_ok v n" and "\<And>j. 0 \<le> j \<Longrightarrow> j < cnt \<Longrightarrow> 0 \<le> a + j * k \<and> a + j * k < av_length v" and "0 \<le> j" and "j < cnt"
  shows "j * jsize (k * av_step v) = j * (k * av_step v)"
proof (cases "j = 0")
  case False
  with assms(3,4) have "0 \<le> a \<and> a < av_length v" "0 \<le> a + k \<and> a + k < av_length v"
    using assms(2) [of 0] assms(2) [of 1] by simp_all
  then have 1: "0 \<le> av_start v + a * av_step v" "av_start v + a * av_step v < n"
    and 2: "0 \<le> av_start v + (a + k) * av_step v" "av_start v + (a + k) * av_step v < n"
    using assms(1) unfolding view_ok_def by blast+
  have "n < 2 ^ 31" using assms(1) by (simp add: view_ok_def)
  then have "jsize (k * av_step v) = k * av_step v"
    using 1 2 by (intro jsize_id) (simp_all add: algebra_simps)
  then show ?thesis by simp
qed simp

lemma slice_view:
  assumes ok: "view_ok v n" and k: "slice_step slc = k" "k \<noteq> 0" "\<bar>k\<bar> + av_length v < 2 ^ 31"
  shows "\<exists>v'. PyJPArray_getSlice v slc = Inr (Some v') \<and> view_ok v' n \<and>
    view_contents v' xs = map (\<lambda>i. view_contents v xs ! nat i)
      (py_range (slice_start slc (nat (av_length v)) k) (slice_stop slc (nat (av_length v)) k) k)"
proof -
  let ?n = "nat (av_length v)"
  let ?a = "slice_start slc ?n k" and ?b = "slice_stop slc ?n k"
  let ?cnt = "slice_count ?a ?b k"
  have len: "int ?n = av_length v" and n: "int ?n < 2 ^ 31" "\<bar>k\<bar> < 2 ^ 31" using ok k(3) by (auto simp: view_ok_def)
  obtain start stop where unpack: "slice_unpack slc = Inr (start, stop, k)" "adjust_index (av_length v) k start = ?a"
      "adjust_index (av_length v) k stop = ?b"
    using unpack_ends [of ?n slc] n k(1,2) len by auto
  have inside: "\<And>j. 0 \<le> j \<Longrightarrow> j < ?cnt \<Longrightarrow> 0 \<le> ?a + j * k \<and> ?a + j * k < av_length v"
    using slice_count_inside [OF k(2), of _ slc ?n] len by simp
  show ?thesis
  proof (cases "?cnt > 0")
    case False
    define v' where "v' = \<lparr>av_start = jsize (av_start v + jsize (av_step v * 0)), av_step = jsize (1 * av_step v), av_length = 0\<rparr>"
    have "JPArray_slice v (jsize 0) (jsize 0) (jsize 1) = Some v'"
      by (simp add: JPArray_slice_def jsize_small c_div_def v'_def)
    then have "PyJPArray_getSlice v slc = Inr (Some v')" using False unpack by (simp add: PyJPArray_getSlice_def Let_def)
    moreover have "view_ok v' n" using ok by (auto simp: view_ok_def v'_def jsize_small jsize_id)
    ultimately show ?thesis using False k(2) by (auto simp: py_range_count view_contents_def v'_def)
  next
    case True
    have a: "0 \<le> ?a" "?a < av_length v" using inside [of 0] True by simp_all
    define v' where "v' = \<lparr>av_start = av_start v + ?a * av_step v, av_step = jsize (k * av_step v), av_length = ?cnt\<rparr>"
    have ends: "jsize ?a = ?a" "jsize ?b = ?b" "jsize k = k"
      using slice_ends_range [of slc ?n k] n by (intro jsize_id; linarith)+
    have first: "0 \<le> av_start v + ?a * av_step v" "av_start v + ?a * av_step v < n" using ok a by (auto simp: view_ok_def)
    have n31: "n < 2 ^ 31" "0 \<le> n" using ok by (auto simp: view_ok_def)
    have "jsize (av_start v + jsize (av_step v * ?a)) = jsize (av_start v + av_step v * ?a)" by (simp add: jsize_def)
    also have "\<dots> = av_start v + ?a * av_step v" using first n31 by (simp add: jsize_id mult.commute)
    finally have start': "jsize (av_start v + jsize (av_step v * ?a)) = av_start v + ?a * av_step v" .
    have "JPArray_slice v (jsize ?a) (jsize ?b) (jsize k) = Some v'"
      using slice_length [OF k(2), of ?n slc] True k(2,3) len by (simp add: JPArray_slice_def ends start' v'_def)
    then have run: "PyJPArray_getSlice v slc = Inr (Some v')" using True unpack by (simp add: PyJPArray_getSlice_def Let_def)
    have elem: "av_start v' + j * av_step v' = av_start v + (?a + j * k) * av_step v" if "0 \<le> j" "j < ?cnt" for j
      using slice_step_fits [OF ok inside that] by (simp add: v'_def algebra_simps)
    have "0 \<le> av_start v + (?a + j * k) * av_step v \<and> av_start v + (?a + j * k) * av_step v < n" if "0 \<le> j" "j < ?cnt" for j
      using ok inside [OF that] unfolding view_ok_def by blast
    then have "0 \<le> av_start v' + j * av_step v' \<and> av_start v' + j * av_step v' < n" if "0 \<le> j" "j < ?cnt" for j
      using elem [OF that] that by simp
    moreover have "av_start v' = av_start v + ?a * av_step v" "av_length v' = ?cnt" by (simp_all add: v'_def)
    moreover have "av_step v' \<noteq> 0" if "?cnt \<ge> 2"
    proof -
      have "?a + 1 * k \<noteq> ?a" "0 \<le> ?a + 1 * k" "?a + 1 * k < av_length v" using inside [of 1] that k(2) by simp_all
      then have "av_step v \<noteq> 0" using ok a by (simp add: view_ok_def)
      moreover have "av_step v' = k * av_step v" using elem [of 1] that by (simp add: v'_def algebra_simps)
      ultimately show ?thesis using k(2) by simp
    qed
    moreover have "?cnt \<le> n"
    proof -
      have "\<bar>?cnt - 1\<bar> * 1 \<le> \<bar>?cnt - 1\<bar> * \<bar>k\<bar>" using k(2) by (intro mult_left_mono) auto
      also have "\<dots> = \<bar>(?cnt - 1) * k\<bar>" by (rule abs_mult [symmetric])
      also have "\<dots> < av_length v" using inside [of "?cnt - 1"] a True by linarith
      finally have "?cnt - 1 < av_length v" by simp
      moreover have "av_length v \<le> n" using ok by (simp add: view_ok_def)
      ultimately show ?thesis by linarith
    qed
    ultimately have "view_ok v' n" using first n31 True by (simp add: view_ok_def)
    moreover have "view_contents v' xs = map (\<lambda>i. view_contents v xs ! nat i) (py_range ?a ?b k)"
    proof (rule nth_equalityI)
      show "length (view_contents v' xs) = length (map (\<lambda>i. view_contents v xs ! nat i) (py_range ?a ?b k))"
        by (simp add: contents_length py_range_count [OF k(2)], simp add: v'_def)
    next
      fix i assume "i < length (view_contents v' xs)"
      then have i: "int i < ?cnt" "int i < av_length v'" by (auto simp: contents_length v'_def)
      have "view_contents v' xs ! i = xs ! nat (av_start v' + int i * av_step v')"
        using contents_nth [of "int i" v' xs] i(2) by simp
      also have "\<dots> = view_contents v xs ! nat (?a + int i * k)"
        using elem [of "int i"] contents_nth [of "?a + int i * k" v xs] inside [of "int i"] i(1) by simp
      finally show "view_contents v' xs ! i = map (\<lambda>i. view_contents v xs ! nat i) (py_range ?a ?b k) ! i"
        using i(1) by (simp add: py_range_count [OF k(2)])
    qed
    ultimately show ?thesis using run by blast
  qed
qed

text \<open>Slices applied one after the other, to a view and to a list.\<close>

fun view_slices :: "jarray_view \<Rightarrow> slice list \<Rightarrow> pyexn + jarray_view option" where
  "view_slices v [] = Inr (Some v)"
| "view_slices v (s # ss) =
     (case PyJPArray_getSlice v s of
        Inl e \<Rightarrow> Inl e
      | Inr None \<Rightarrow> Inr None
      | Inr (Some v') \<Rightarrow> view_slices v' ss)"

fun list_slices :: "'v list \<Rightarrow> slice list \<Rightarrow> pyexn + 'v list" where
  "list_slices xs [] = Inr xs"
| "list_slices xs (s # ss) = (case py_str_slice s xs of Inl e \<Rightarrow> Inl e | Inr ys \<Rightarrow> list_slices ys ss)"

lemma zero_step_slice: "slice_step slc = 0 \<Longrightarrow> PyJPArray_getSlice v slc = Inl (Exn ValueError ''slice step cannot be zero'')"
  by (auto simp: slice_step_def PyJPArray_getSlice_def slice_unpack_def ssize_clip_def split: option.splits)

lemma view_slices_refine:
  assumes "view_ok v (int (length xs))" and "\<forall>s\<in>set ss. \<bar>slice_step s\<bar> + int (length xs) < 2 ^ 31"
  shows "map_sum id (map_option (\<lambda>v. view_contents v xs)) (view_slices v ss) =
    map_sum id Some (list_slices (view_contents v xs) ss)"
  using assms
proof (induction ss arbitrary: v)
  case (Cons s ss)
  have len: "length (view_contents v xs) = nat (av_length v)" by (rule contents_length)
  show ?case
  proof (cases "slice_step s = 0")
    case True
    then show ?thesis by (simp add: zero_step_slice py_str_slice_range)
  next
    case False
    have "\<bar>slice_step s\<bar> + av_length v < 2 ^ 31" using Cons.prems by (auto simp: view_ok_def)
    then obtain v' where v': "PyJPArray_getSlice v s = Inr (Some v')" "view_ok v' (int (length xs))"
        "py_str_slice s (view_contents v xs) = Inr (view_contents v' xs)"
      using slice_view [OF Cons.prems(1) refl False, of xs] False by (auto simp: py_str_slice_range len)
    with Cons.IH [OF v'(2)] Cons.prems(2) show ?thesis by simp
  qed
qed simp

text \<open>C9: Slices of slices of a Java array show what the same slices of a Python list would: with
  negative ends and steps, missing parts, empty results and the refusal of step zero. This holds
  when the step and the length of the array together stay below 2 to the 31, although the view
  keeps the product of all steps in 32 bits.\<close>
theorem array_slices_refine:
  assumes "int (length xs) < 2 ^ 31" and "\<forall>s\<in>set ss. \<bar>slice_step s\<bar> + int (length xs) < 2 ^ 31"
  shows "map_sum id (map_option (\<lambda>v. view_contents v xs)) (view_slices (JPArray_whole (int (length xs))) ss) =
    map_sum id Some (list_slices xs ss)"
  using view_slices_refine [OF whole_ok assms(2)] assms(1) by (simp add: whole_contents)

theorem array_slices_refine_witness:
  "map_sum id (map_option (\<lambda>v. view_contents v [10, 11, 12, 13, 14 :: nat]))
     (view_slices (JPArray_whole 5) [\<lparr>sl_start = None, sl_stop = None, sl_step = Some (- 2)\<rparr>, \<lparr>sl_start = Some 1, sl_stop = None, sl_step = None\<rparr>]) =
   Inr (Some [12, 10])"
  using array_slices_refine [of "[10, 11, 12, 13, 14 :: nat]"
      "[\<lparr>sl_start = None, sl_stop = None, sl_step = Some (- 2)\<rparr>, \<lparr>sl_start = Some 1, sl_stop = None, sl_step = None\<rparr>]"]
  by (simp add: slice_step_def py_str_slice_def py_range_def slice_bound_def wrap_index_def upt_rec Let_def)

section \<open>Indices\<close>

text \<open>An index from minus the length to the length reads the element of the view that Python
  would; any other 32-bit index raises IndexError. A larger index is cut to 32 bits first, so that
  2 to the 32 reads the first element instead of raising; and a step of 2 to the 32 divides by
  zero.\<close>
theorem array_index:
  assumes "view_ok v (int (length xs))" and "in_ssize i"
  shows "PyJPArray_getItem v xs i =
      (if - av_length v \<le> jsize i \<and> jsize i < av_length v
       then Inr (view_contents v xs ! nat (if jsize i < 0 then jsize i + av_length v else jsize i))
       else Inl (Exn IndexError ''array index out of bounds'')) \<and>
    (- (2 ^ 31) \<le> i \<and> i < 2 ^ 31 \<longrightarrow> jsize i = i) \<and>
    (0 < av_length v \<longrightarrow> PyJPArray_getItem v xs (2 ^ 32) = Inr (view_contents v xs ! 0)) \<and>
    (0 < av_length v \<longrightarrow> PyJPArray_getSlice v \<lparr>sl_start = None, sl_stop = None, sl_step = Some (2 ^ 32)\<rparr> = Inr None)"
proof -
  have read: "JPArray_getItem v xs j = (if - av_length v \<le> j \<and> j < av_length v
       then Inr (view_contents v xs ! nat (if j < 0 then j + av_length v else j))
       else Inl (Exn IndexError ''array index out of bounds''))" for j
    by (auto simp: JPArray_getItem_def Let_def contents_nth)
  have "jsize (2 ^ 32) = 0" by (simp add: jsize_def)
  then have "PyJPArray_getItem v xs (2 ^ 32) = Inr (view_contents v xs ! 0)" if "0 < av_length v"
    using that by (simp add: PyJPArray_getItem_def in_ssize_def read)
  moreover have "PyJPArray_getSlice v \<lparr>sl_start = None, sl_stop = None, sl_step = Some (2 ^ 32)\<rparr> = Inr None" if "0 < av_length v"
  proof -
    have "av_length v < 2 ^ 31" using assms(1) by (auto simp: view_ok_def)
    then have "slice_unpack \<lparr>sl_start = None, sl_stop = None, sl_step = Some (2 ^ 32)\<rparr> = Inr (0, 2 ^ 63 - 1, 2 ^ 32)"
        "adjust_index (av_length v) (2 ^ 32) 0 = 0" "adjust_index (av_length v) (2 ^ 32) (2 ^ 63 - 1) = av_length v"
      using that by (simp_all add: slice_unpack_def ssize_clip_def adjust_index_def)
    moreover have "slice_count 0 (av_length v) (2 ^ 32) > 0"
      using that by (simp add: slice_count_def)
    ultimately show ?thesis using \<open>jsize (2 ^ 32) = 0\<close> by (simp add: PyJPArray_getSlice_def JPArray_slice_def)
  qed
  ultimately show ?thesis using assms(2) jsize_id [of i] by (simp add: PyJPArray_getItem_def read)
qed

theorem array_index_witness:
  "PyJPArray_getItem (JPArray_whole 2) [7, 8 :: nat] (- 1) = Inr 8 \<and> PyJPArray_getItem (JPArray_whole 2) [7, 8 :: nat] (2 ^ 32) = Inr 7"
proof -
  have "view_ok (JPArray_whole 2) (int (length [7, 8 :: nat]))" using whole_ok [of 2] by simp
  from array_index [OF this, of "- 1"] show ?thesis
    by (simp add: in_ssize_def jsize_small JPArray_whole_def view_contents_def upt_rec)
qed

section \<open>Assigning to a slice of an int array\<close>

text \<open>What a sequence of items writes, or the error of the first one that does not fit.\<close>

fun int_elements :: "py_item list \<Rightarrow> pyexn + 32 word list" where
  "int_elements [] = Inr []"
| "int_elements (i # is) = (case int_element i of Inl e \<Rightarrow> Inl e | Inr w \<Rightarrow> map_sum id (Cons w) (int_elements is))"

lemma int_element_iff: "int_element i = Inr w \<longleftrightarrow> (\<exists>x. i = IndexItem x \<and> - (2 ^ 31) \<le> x \<and> x < 2 ^ 31 \<and> w = word_of_int x)"
  by (auto simp: int_element_def as_long_long_def assertRange_def split: py_item.splits)

lemma int_element_word: "int_element i = Inr w \<longleftrightarrow> i = IndexItem (sint w)"
proof
  assume "int_element i = Inr w"
  then show "i = IndexItem (sint w)" using jsize_id by (auto simp: int_element_iff jsize_def)
next
  assume "i = IndexItem (sint w)"
  then show "int_element i = Inr w" using sint_range_size [of w] by (auto simp: int_element_iff word_size)
qed

lemma int_elements_Cons:
  "int_elements (i # is) = Inr ws \<longleftrightarrow> (\<exists>w ws'. ws = w # ws' \<and> int_element i = Inr w \<and> int_elements is = Inr ws')"
  by (cases "int_element i"; cases "int_elements is") auto

lemma int_elements_iff:
  "int_elements is = Inr ws \<longleftrightarrow> is = map (\<lambda>w. IndexItem (sint w)) ws"
proof (induction "is" arbitrary: ws)
  case (Cons i "is")
  show ?case unfolding int_elements_Cons int_element_word Cons.IH by (cases ws) auto
qed auto

text \<open>Writing a list of values to a list of places.\<close>

fun write_at :: "'v list \<Rightarrow> nat list \<Rightarrow> 'v list \<Rightarrow> 'v list" where
  "write_at xs (p # ps) (w # ws) = write_at (xs[p := w]) ps ws"
| "write_at xs _ _ = xs"

lemma write_at_length [simp]: "length (write_at xs ps ws) = length xs"
  by (induction xs ps ws rule: write_at.induct) simp_all

lemma write_at_other: "p \<notin> set ps \<Longrightarrow> write_at xs ps ws ! p = xs ! p"
  by (induction xs ps ws rule: write_at.induct) simp_all

lemma write_at_read:
  "distinct ps \<Longrightarrow> length ps = length ws \<Longrightarrow> \<forall>p\<in>set ps. p < length xs \<Longrightarrow> map ((!) (write_at xs ps ws)) ps = ws"
proof (induction xs ps ws rule: write_at.induct)
  case (1 xs p ps w ws)
  then show ?case by (simp add: write_at_other)
qed simp_all

definition places :: "int \<Rightarrow> int \<Rightarrow> nat \<Rightarrow> nat list" where
  "places start step m = map (\<lambda>j. nat (start + int j * step)) [0..<m]"

lemma places_Suc: "places start step (Suc m) = nat start # places (start + step) step m"
  by (simp add: places_def upt_conv_Cons map_Suc_upt [symmetric] comp_def algebra_simps del: upt_Suc)

text \<open>The loop writes to these places, as long as they are all in the array.\<close>

lemma set_range_loop_places:
  assumes "\<forall>j. 0 \<le> j \<and> j < int (length is) \<longrightarrow> 0 \<le> start + j * step \<and> start + j * step < 2 ^ 31"
  shows "set_range_loop xs start step is =
    (case int_elements is of Inl e \<Rightarrow> (Inl e, snd (set_range_loop xs start step is))
     | Inr ws \<Rightarrow> (Inr (), write_at xs (places start step (length is)) ws))"
  using assms
proof (induction "is" arbitrary: xs start)
  case Nil
  then show ?case by (simp add: places_def)
next
  case (Cons i "is")
  show ?case
  proof (cases "int_element i")
    case (Inr w)
    show ?thesis
    proof (cases "is")
      case Nil
      with Inr show ?thesis by (simp add: places_Suc places_def)
    next
      case (Cons i2 is2)
      then have "jsize (start + step) = start + step"
        using Cons.prems [rule_format, of 1] by (intro jsize_id) auto
      moreover have "\<forall>j. 0 \<le> j \<and> j < int (length is) \<longrightarrow> 0 \<le> start + step + j * step \<and> start + step + j * step < 2 ^ 31"
      proof (intro allI impI)
        fix j assume "0 \<le> j \<and> j < int (length is)"
        then show "0 \<le> start + step + j * step \<and> start + step + j * step < 2 ^ 31"
          using Cons.prems [rule_format, of "j + 1"] by (simp add: algebra_simps)
      qed
      ultimately show ?thesis
        using Inr Cons.IH [of "start + step" "xs[nat start := w]"]
        by (cases "int_elements is") (simp_all add: places_Suc)
    qed
  qed simp
qed

lemma contents_places: "view_contents v xs = map ((!) xs) (places (av_start v) (av_step v) (nat (av_length v)))"
  by (simp add: view_contents_def places_def)

lemma setSlice_view:
  assumes ok: "view_ok v n" and k: "slice_step slc = k" "k \<noteq> 0" "\<bar>k\<bar> + av_length v < 2 ^ 31"
    and slice: "PyJPArray_getSlice v slc = Inr (Some v')" and new: "av_length v' \<le> n"
  shows "PyJPArray_setSlice is_copy v xs slc items =
    (if av_length v' = 0 then (Inr (), xs)
     else if av_length v' \<noteq> int (length items) then (Inl (Exn ValueError ''Slice assignment must be of equal lengths''), xs)
     else int_setArrayRange is_copy xs (av_start v') (av_step v') items)"
proof -
  let ?n = "nat (av_length v)"
  let ?a = "slice_start slc ?n k" and ?b = "slice_stop slc ?n k"
  let ?cnt = "slice_count ?a ?b k"
  have len: "int ?n = av_length v" and n: "int ?n < 2 ^ 31" "\<bar>k\<bar> < 2 ^ 31" "n < 2 ^ 31" using ok k(3) by (auto simp: view_ok_def)
  obtain start stop where unpack: "slice_unpack slc = Inr (start, stop, k)" "adjust_index (av_length v) k start = ?a"
      "adjust_index (av_length v) k stop = ?b"
    using unpack_ends [of ?n slc] n k(1,2) len by auto
  show ?thesis
  proof (cases "?cnt > 0")
    case False
    then have "av_length v' = 0"
      using slice unpack by (auto simp: PyJPArray_getSlice_def JPArray_slice_def jsize_small c_div_def)
    with False unpack show ?thesis by (simp add: PyJPArray_setSlice_def Let_def)
  next
    case True
    have ends: "jsize ?a = ?a" "jsize ?b = ?b" "jsize k = k"
      using slice_ends_range [of slc ?n k] n by (intro jsize_id; linarith)+
    have v': "JPArray_slice v ?a ?b k = Some v'" using slice True unpack by (simp add: PyJPArray_getSlice_def Let_def ends)
    then have fields: "av_start v' = jsize (av_start v + jsize (av_step v * ?a))" "av_step v' = jsize (k * av_step v)"
        "av_length v' = ?cnt"
      using slice_length [OF k(2), of ?n slc] True k(2,3) len by (auto simp: JPArray_slice_def)
    have "jsize ?cnt = ?cnt" using True fields(3) new n(3) by (intro jsize_id) linarith+
    then show ?thesis
      using True unpack fields by (simp add: PyJPArray_setSlice_def Let_def ends JPArray_setRange_def mult.commute)
  qed
qed

lemma view_places:
  assumes "view_ok v (int (length xs))"
  shows "distinct (places (av_start v) (av_step v) (nat (av_length v)))"
    and "\<forall>p\<in>set (places (av_start v) (av_step v) (nat (av_length v))). p < length xs"
proof -
  have inside: "0 \<le> av_start v + int j * av_step v \<and> av_start v + int j * av_step v < int (length xs)" if "j < nat (av_length v)" for j
    using assms that unfolding view_ok_def by auto
  have "j = k" if "j < nat (av_length v)" "k < nat (av_length v)"
      "nat (av_start v + int j * av_step v) = nat (av_start v + int k * av_step v)" for j k
  proof (rule ccontr)
    assume "j \<noteq> k"
    then have "av_step v \<noteq> 0" using assms that(1,2) by (simp add: view_ok_def)
    moreover have "av_start v + int j * av_step v = av_start v + int k * av_step v"
      using inside [OF that(1)] inside [OF that(2)] that(3) by (simp add: nat_eq_iff)
    ultimately show False using \<open>j \<noteq> k\<close> by simp
  qed
  then show "distinct (places (av_start v) (av_step v) (nat (av_length v)))"
    by (auto simp: places_def distinct_map inj_on_def)
  show "\<forall>p\<in>set (places (av_start v) (av_step v) (nat (av_length v))). p < length xs"
    using inside by (fastforce simp: places_def)
qed

lemma int_setArrayRange_view:
  assumes ok: "view_ok v' (int (length xs))" and len: "int (length items) = av_length v'"
  shows "int_setArrayRange True xs (av_start v') (av_step v') items =
    (case int_elements items of
       Inl e \<Rightarrow> (Inl e, xs)
     | Inr ws \<Rightarrow> (Inr (), write_at xs (places (av_start v') (av_step v') (nat (av_length v'))) ws))"
proof -
  have "\<forall>j. 0 \<le> j \<and> j < int (length items) \<longrightarrow> 0 \<le> av_start v' + j * av_step v' \<and> av_start v' + j * av_step v' < 2 ^ 31"
  proof (intro allI impI)
    fix j assume "0 \<le> j \<and> j < int (length items)"
    then have "0 \<le> av_start v' + j * av_step v' \<and> av_start v' + j * av_step v' < int (length xs)"
      using ok len unfolding view_ok_def by simp
    moreover have "int (length xs) < 2 ^ 31" using ok by (simp add: view_ok_def)
    ultimately show "0 \<le> av_start v' + j * av_step v' \<and> av_start v' + j * av_step v' < 2 ^ 31" by linarith
  qed
  note loop = set_range_loop_places [OF this, of xs]
  show ?thesis
  proof (cases "int_elements items")
    case (Inl e)
    obtain val where "set_range_loop xs (av_start v') (av_step v') items = (Inl e, val)"
      using loop Inl by (metis old.sum.simps(5))
    with Inl show ?thesis by (simp add: int_setArrayRange_def)
  next
    case (Inr ws)
    have "set_range_loop xs (av_start v') (av_step v') items =
        (Inr (), write_at xs (places (av_start v') (av_step v') (length items)) ws)"
      using loop Inr by (metis old.sum.simps(6))
    moreover have "nat (av_length v') = length items" using len by simp
    ultimately show ?thesis using Inr by (simp add: int_setArrayRange_def)
  qed
qed

text \<open>C18: Assigning a sequence to a slice of an int array, when the JVM gives a copy of its elements:
  an empty slice takes any sequence and changes nothing; for any other, as many items are needed,
  each of them an integer of 32 bits, and then the slice reads back as the items and the rest of
  the array is unchanged; on every error the array is unchanged, although items before the bad
  one were converted and written.\<close>
theorem int_slice_assignment:
  assumes "view_ok v (int (length xs))" and "slice_step slc \<noteq> 0" and "\<bar>slice_step slc\<bar> + av_length v < 2 ^ 31"
    and "PyJPArray_setSlice True v xs slc items = (r, xs')"
  shows "\<exists>v'. PyJPArray_getSlice v slc = Inr (Some v') \<and>
    (r = Inr () \<longleftrightarrow> av_length v' = 0 \<or> av_length v' = int (length items) \<and> (\<exists>ws :: 32 word list. items = map (\<lambda>w. IndexItem (sint w)) ws)) \<and>
    (r = Inr () \<and> av_length v' \<noteq> 0 \<longrightarrow>
       items = map (\<lambda>w. IndexItem (sint w)) (view_contents v' xs') \<and> length xs' = length xs \<and>
       (\<forall>p. p \<notin> set (places (av_start v') (av_step v') (nat (av_length v'))) \<longrightarrow> xs' ! p = xs ! p)) \<and>
    (r \<noteq> Inr () \<or> av_length v' = 0 \<longrightarrow> xs' = xs)"
proof -
  obtain v' where v': "PyJPArray_getSlice v slc = Inr (Some v')" "view_ok v' (int (length xs))"
    using slice_view [OF assms(1) refl assms(2,3)] by blast
  have "av_length v' \<le> int (length xs)" using v'(2) by (simp add: view_ok_def)
  note run = setSlice_view [OF assms(1) refl assms(2,3) v'(1) this, of True xs items]
  consider (empty) "av_length v' = 0" | (length) "av_length v' \<noteq> 0" "av_length v' \<noteq> int (length items)"
    | (assign) "av_length v' \<noteq> 0" "int (length items) = av_length v'" by metis
  then show ?thesis
  proof cases
    case empty
    with run assms(4) v'(1) show ?thesis by auto
  next
    case length
    with run assms(4) v'(1) show ?thesis by auto
  next
    case assign
    let ?ps = "places (av_start v') (av_step v') (nat (av_length v'))"
    have res: "(r, xs') = (case int_elements items of Inl e \<Rightarrow> (Inl e, xs) | Inr ws \<Rightarrow> (Inr (), write_at xs ?ps ws))"
      using run assms(4) assign int_setArrayRange_view [OF v'(2) assign(2)] by simp
    show ?thesis
    proof (cases "int_elements items")
      case (Inl e)
      have "False" if "items = map (\<lambda>w. IndexItem (sint w)) ws" for ws :: "32 word list"
        using that int_elements_iff [of items ws] Inl by simp
      with res Inl v'(1) assign show ?thesis by auto
    next
      case (Inr ws)
      then have items: "items = map (\<lambda>w. IndexItem (sint w)) ws" by (simp add: int_elements_iff)
      have "length ?ps = length ws" using assign items by (simp add: places_def)
      then have read: "view_contents v' (write_at xs ?ps ws) = ws"
        using write_at_read [of ?ps ws xs] view_places [OF v'(2)] by (simp add: contents_places)
      have r: "r = Inr ()" and xs': "xs' = write_at xs ?ps ws" using res Inr by simp_all
      have "items = map (\<lambda>w. IndexItem (sint w)) (view_contents v' xs')" unfolding xs' read by (rule items)
      moreover have "length xs' = length xs" "\<forall>p. p \<notin> set ?ps \<longrightarrow> xs' ! p = xs ! p"
        unfolding xs' by (simp_all add: write_at_other)
      ultimately show ?thesis using r v'(1) assign by metis
    qed
  qed
qed

theorem int_slice_assignment_witness:
  "\<exists>xs'. PyJPArray_setSlice True (JPArray_whole 3) [1, 2, 3] \<lparr>sl_start = None, sl_stop = None, sl_step = Some (- 1)\<rparr>
       [IndexItem 7, IndexItem (2 ^ 31), IndexItem 9] = (Inl (Exn OverflowError ''Cannot convert value to Java int''), xs') \<and>
     xs' = [1, 2, 3]"
proof -
  let ?slc = "\<lparr>sl_start = None, sl_stop = None, sl_step = Some (- 1)\<rparr>" and ?items = "[IndexItem 7, IndexItem (2 ^ 31), IndexItem 9]"
  have ok: "view_ok (JPArray_whole 3) (int (length [1, 2, 3 :: 32 word]))" using whole_ok [of 3] by simp
  have step: "slice_step ?slc = - 1" by (simp add: slice_step_def)
  obtain xs' where run: "PyJPArray_setSlice True (JPArray_whole 3) [1, 2, 3] ?slc ?items =
      (Inl (Exn OverflowError ''Cannot convert value to Java int''), xs')"
    by (simp add: PyJPArray_setSlice_def slice_unpack_def ssize_clip_def adjust_index_def slice_count_def JPArray_whole_def
        JPArray_setRange_def int_setArrayRange_def jsize_id jsize_small int_element_def as_long_long_def assertRange_def)
  with int_slice_assignment [OF ok _ _ run] show ?thesis by (auto simp: step JPArray_whole_def)
qed

end
