(* ===== verification/Mirrors.thy ===== *)
theory Mirrors
  imports Lifecycle
begin

text \<open>
  The scripts of \<open>src/project\<close> that keep local copies of GitHub's pull requests, issues and code
  scanning alerts (\<open>fetch_prs.py\<close>, \<open>fetch_issues.py\<close>, \<open>fetch_codescan.py\<close>): one file for each
  item, an index and a summary. The three share their commands line by line; what differs is the
  record \<open>script\<close>. The state is the directory of the files and the log of requests and pauses;
  the server answers a request as any function of that log.
\<close>

section \<open>JSON\<close>

text \<open>Numbers are integers, as in all fields the scripts read.\<close>

datatype json = JNull | JBool bool | JNum int | JStr string | JList "json list" | JObj "(string, json) dict"

datatype gh_exn = HTTPError int "string option" | URLError | PyError pyexn | SystemExit int | OutOfFuel

definition py_err :: "exn_class \<Rightarrow> string \<Rightarrow> gh_exn + 'a" where
  "py_err c m = Inl (PyError (Exn c m))"

text \<open>\<open>j[k]\<close>, \<open>j.get(k, d)\<close>, \<open>k in j\<close>, \<open>bool(j)\<close>, \<open>iter(j)\<close> and \<open>len(j)\<close>.\<close>

definition jget :: "string \<Rightarrow> json \<Rightarrow> gh_exn + json" where
  "jget k j = (case j of
      JObj d \<Rightarrow> (case dict_get d k of None \<Rightarrow> py_err KeyError k | Some v \<Rightarrow> Inr v)
    | _ \<Rightarrow> py_err TypeError ''not subscriptable by a string'')"

definition jget_or :: "string \<Rightarrow> json \<Rightarrow> json \<Rightarrow> gh_exn + json" where
  "jget_or k d j = (case j of
      JObj m \<Rightarrow> Inr (case dict_get m k of None \<Rightarrow> d | Some v \<Rightarrow> v)
    | _ \<Rightarrow> py_err AttributeError ''get'')"

definition jset :: "string \<Rightarrow> json \<Rightarrow> json \<Rightarrow> gh_exn + json" where
  "jset k v j = (case j of JObj d \<Rightarrow> Inr (JObj (dict_set k v d)) | _ \<Rightarrow> py_err TypeError ''item assignment'')"

definition jhas :: "string \<Rightarrow> json \<Rightarrow> gh_exn + bool" where
  "jhas k j = (case j of
      JObj d \<Rightarrow> Inr (dict_get d k \<noteq> None)
    | JList xs \<Rightarrow> Inr (JStr k \<in> set xs)
    | JStr s \<Rightarrow> Inr (str_in k s)
    | _ \<Rightarrow> py_err TypeError ''not iterable'')"

definition truthy :: "json \<Rightarrow> bool" where
  "truthy j = (case j of JNull \<Rightarrow> False | JBool b \<Rightarrow> b | JNum n \<Rightarrow> n \<noteq> 0 | JStr s \<Rightarrow> s \<noteq> [] | JList xs \<Rightarrow> xs \<noteq> []
    | JObj d \<Rightarrow> d \<noteq> [])"

definition jiter :: "json \<Rightarrow> gh_exn + json list" where
  "jiter j = (case j of
      JList xs \<Rightarrow> Inr xs
    | JObj d \<Rightarrow> Inr (map JStr (dict_keys d))
    | JStr s \<Rightarrow> Inr (map (\<lambda>c. JStr [c]) s)
    | _ \<Rightarrow> py_err TypeError ''not iterable'')"

definition jlen :: "json \<Rightarrow> gh_exn + json" where
  "jlen j = map_sum id (\<lambda>xs. JNum (int (length xs))) (jiter j)"

text \<open>Sequencing of such reads; a dict display and a list comprehension evaluate left to right.\<close>

definition sbind :: "'e + 'a \<Rightarrow> ('a \<Rightarrow> 'e + 'b) \<Rightarrow> 'e + 'b" where
  "sbind r f = (case r of Inl e \<Rightarrow> Inl e | Inr x \<Rightarrow> f x)"

fun smap :: "('a \<Rightarrow> 'e + 'b) \<Rightarrow> 'a list \<Rightarrow> 'e + 'b list" where
  "smap f [] = Inr []"
| "smap f (x # xs) = sbind (f x) (\<lambda>y. sbind (smap f xs) (\<lambda>ys. Inr (y # ys)))"

definition make_obj :: "(string \<times> (gh_exn + json)) list \<Rightarrow> gh_exn + json" where
  "make_obj kvs = map_sum id (\<lambda>vs. JObj (zip (map fst kvs) vs)) (smap snd kvs)"

lemma sbind_Inr: "sbind r f = Inr y \<longleftrightarrow> (\<exists>x. r = Inr x \<and> f x = Inr y)"
  by (cases r) (simp_all add: sbind_def)

lemma sbind_simps [simp]: "sbind (Inl e) f = Inl e" "sbind (Inr x) f = f x"
  by (simp_all add: sbind_def)

lemma smap_Inr: "smap f xs = Inr ys \<longleftrightarrow> list_all2 (\<lambda>x y. f x = Inr y) xs ys"
  by (induction xs arbitrary: ys) (auto simp: sbind_Inr list_all2_Cons1)

section \<open>File names\<close>

definition py_space :: "char \<Rightarrow> bool" where
  "py_space c = (let n = of_char c :: nat in 9 \<le> n \<and> n \<le> 13 \<or> 28 \<le> n \<and> n \<le> 32)"

definition py_strip :: "string \<Rightarrow> string" where
  "py_strip s = rev (dropWhile py_space (rev (dropWhile py_space s)))"

text \<open>\<open>int(s)\<close>: white space around, a sign, and digits with single underscores between them.\<close>

definition py_digits :: "string \<Rightarrow> nat option" where
  "py_digits s = (let ps = py_split (CHR ''_'') s
     in if list_all (\<lambda>p. p \<noteq> [] \<and> list_all is_digit p) ps then Some (nat_of_digits (concat ps)) else None)"

definition py_int :: "string \<Rightarrow> int option" where
  "py_int s = (let t = py_strip s
     in if startswith t ''-'' then map_option (\<lambda>n. - int n) (py_digits (tl t))
        else map_option int (py_digits (if startswith t ''+'' then tl t else t)))"

text \<open>\<open>s.replace(p, "")\<close>.\<close>

fun remove_all :: "string \<Rightarrow> string \<Rightarrow> string" where
  "remove_all p [] = []"
| "remove_all p (c # s) =
     (if p \<noteq> [] \<and> startswith (c # s) p then remove_all p (drop (length p - 1) s) else c # remove_all p s)"

section \<open>Requests and the directory\<close>

record request =
  rq_url :: string
  rq_headers :: "(string, string) dict"

datatype event = Requested request | Slept int

datatype piece = Txt string | Val json
datatype content = Json json | Markdown "piece list"

record mirror =
  mi_dir :: "(string, content) dict option"
  mi_log :: "event list"

type_synonym 'a ghop = "(mirror, gh_exn, 'a) pyop"

record github =
  gh_token :: "string option"
  gh_server :: "event list \<Rightarrow> request \<Rightarrow> gh_exn + json"
  gh_fuel :: nat

text \<open>What differs between the three scripts. \<open>sc_accept\<close> turns the answer for one item into the
  item, or \<open>None\<close> when it counts as missing; \<open>sc_keep\<close> chooses among the items of a listing and
  \<open>sc_listed\<close> are the fields read of each;
  \<open>sc_carry\<close> are the fields that cleanup takes over from the file; \<open>sc_shown\<close> those that refresh
  prints.\<close>

record script =
  sc_headers :: "(string, string) dict"
  sc_prefix :: string
  sc_item_url :: "int \<Rightarrow> string"
  sc_list_url :: "string \<Rightarrow> int \<Rightarrow> string"
  sc_states :: "string list"
  sc_accept :: "json \<Rightarrow> gh_exn + json option"
  sc_keep :: "json \<Rightarrow> gh_exn + bool"
  sc_listed :: "json \<Rightarrow> gh_exn + unit"
  sc_enrich :: "github \<Rightarrow> json \<Rightarrow> json ghop"
  sc_carry :: "string list"
  sc_shown :: "json \<Rightarrow> gh_exn + unit"
  sc_entry :: "json \<Rightarrow> gh_exn + json"
  sc_head :: "json list \<Rightarrow> piece list"
  sc_lines :: "json \<Rightarrow> (gh_exn + piece list) list"

definition API_BASE :: string where
  "API_BASE = ''https://api.github.com/repos/jpype-project/jpype''"

definition request_for :: "github \<Rightarrow> (string, string) dict \<Rightarrow> string \<Rightarrow> request" where
  "request_for G headers url = \<lparr>rq_url = url, rq_headers =
     (case gh_token G of
        Some t \<Rightarrow> if t \<noteq> [] then dict_set ''Authorization'' (''token '' @ t) headers else headers
      | None \<Rightarrow> headers)\<rparr>"

definition make_request :: "github \<Rightarrow> (string, string) dict \<Rightarrow> string \<Rightarrow> json ghop" where
  "make_request G headers url = (\<lambda>s.
     (gh_server G (mi_log s) (request_for G headers url), s\<lparr>mi_log := mi_log s @ [Requested (request_for G headers url)]\<rparr>))"

text \<open>\<open>time.sleep\<close> in milliseconds.\<close>

definition sleep :: "int \<Rightarrow> unit ghop" where
  "sleep ms = (if ms < 0 then plift (py_err ValueError ''sleep length must be non-negative'')
     else pmod (\<lambda>s. s\<lparr>mi_log := mi_log s @ [Slept ms]\<rparr>))"

definition PER_ITEM_DELAY :: int where
  "PER_ITEM_DELAY = 300"

text \<open>The loop over pages. \<open>on_fail\<close> says what a failed request does: end the loop with the items
  so far (\<open>True\<close>), or the program. The server decides how many pages there are, so the loop takes
  fuel.\<close>

fun pages_loop :: "nat \<Rightarrow> (int \<Rightarrow> json ghop) \<Rightarrow> (json \<Rightarrow> gh_exn + bool) \<Rightarrow> bool \<Rightarrow> int \<Rightarrow> json list \<Rightarrow> json list ghop" where
  "pages_loop 0 req keep on_fail page items = throw OutOfFuel"
| "pages_loop (Suc k) req keep on_fail page items =
     pbind (pcatch
       (pbind (req page) (\<lambda>j.
          if truthy j then plift (sbind (jiter j) (\<lambda>xs. sbind (smap keep xs) (\<lambda>bs.
                 Inr (Some (map fst (filter snd (zip xs bs)))))))
          else ret None))
       (\<lambda>e. case e of
          HTTPError _ _ \<Rightarrow> if on_fail then ret None else throw (SystemExit 1)
        | URLError \<Rightarrow> if on_fail then ret None else throw (SystemExit 1)
        | _ \<Rightarrow> throw e))
     (\<lambda>r. case r of None \<Rightarrow> ret items | Some xs \<Rightarrow> pages_loop k req keep on_fail (page + 1) (items @ xs))"

definition page_query :: "int \<Rightarrow> string" where
  "page_query page = ''per_page=100&page='' @ int_str page"

definition fetch_paginated :: "github \<Rightarrow> (string, string) dict \<Rightarrow> string \<Rightarrow> json list ghop" where
  "fetch_paginated G headers url =
     pages_loop (gh_fuel G) (\<lambda>page. make_request G headers (url @ ''?'' @ page_query page)) (\<lambda>_. Inr True) True 1 []"

section \<open>One item\<close>

text \<open>The attempts of \<open>fetch_pr_details\<close>: a missing item is \<open>None\<close>, a request refused for its rate
  is repeated after a pause unless it was the last attempt, any other failure is raised.\<close>

fun details_loop :: "github \<Rightarrow> script \<Rightarrow> string \<Rightarrow> nat \<Rightarrow> nat list \<Rightarrow> json option ghop" where
  "details_loop G sc url retries [] = ret None"
| "details_loop G sc url retries (attempt # rest) =
     pcatch (pbind (make_request G (sc_headers sc) url) (\<lambda>j. plift (sc_accept sc j)))
       (\<lambda>e. case e of
          HTTPError code retry_after \<Rightarrow>
            if code = 404 then ret None
            else if code = 429 \<and> attempt < retries - 1 then
              (case (case retry_after of None \<Rightarrow> Some 5 | Some t \<Rightarrow> py_int t) of
                 None \<Rightarrow> plift (py_err ValueError ''invalid literal for int()'')
               | Some wait \<Rightarrow> pseq (sleep (1000 * wait)) (details_loop G sc url retries rest))
            else throw e
        | _ \<Rightarrow> throw e)"

definition fetch_details :: "github \<Rightarrow> script \<Rightarrow> int \<Rightarrow> json option ghop" where
  "fetch_details G sc n = details_loop G sc (sc_item_url sc n) 4 [0..<4]"

text \<open>The \<open>try\<close> statement around it in refresh and cleanup: \<open>None\<close> when the check failed.\<close>

definition try_details :: "github \<Rightarrow> script \<Rightarrow> int \<Rightarrow> json option option ghop" where
  "try_details G sc n = pcatch (pbind (fetch_details G sc n) (\<lambda>r. ret (Some r)))
     (\<lambda>e. case e of HTTPError _ _ \<Rightarrow> ret None | URLError \<Rightarrow> ret None | _ \<Rightarrow> throw e)"

definition fetch_all :: "github \<Rightarrow> script \<Rightarrow> string \<Rightarrow> json list ghop" where
  "fetch_all G sc state =
     pbind (pages_loop (gh_fuel G) (\<lambda>page. make_request G (sc_headers sc) (sc_list_url sc state page)) (sc_keep sc) False 1 [])
       (\<lambda>items. pmapM items (\<lambda>j. pseq (plift (sc_listed sc j)) (sc_enrich sc G j)))"

section \<open>Files\<close>

definition files :: "mirror \<Rightarrow> (string, content) dict" where
  "files s = (case mi_dir s of None \<Rightarrow> [] | Some fs \<Rightarrow> fs)"

definition mkdir :: "unit ghop" where
  "mkdir = pmod (\<lambda>s. s\<lparr>mi_dir := Some (files s)\<rparr>)"

definition put_file :: "string \<Rightarrow> content \<Rightarrow> unit ghop" where
  "put_file name c = pmod (\<lambda>s. s\<lparr>mi_dir := Some (dict_set name c (files s))\<rparr>)"

definition file_name :: "script \<Rightarrow> int \<Rightarrow> string" where
  "file_name sc n = sc_prefix sc @ int_str n @ ''.json''"

definition item_number :: "script \<Rightarrow> string \<Rightarrow> int option" where
  "item_number sc name =
     (if startswith name (sc_prefix sc) \<and> endswith name ''.json'' \<and> length name \<ge> length (sc_prefix sc) + 5
      then py_int (remove_all (sc_prefix sc) (take (length name - 5) name)) else None)"

fun load_files :: "script \<Rightarrow> (string \<times> content) list \<Rightarrow> (int, json) dict \<Rightarrow> gh_exn + (int, json) dict" where
  "load_files sc [] local = Inr local"
| "load_files sc ((name, c) # fs) local =
     (case item_number sc name of
        None \<Rightarrow> load_files sc fs local
      | Some n \<Rightarrow> (case c of
            Json j \<Rightarrow> load_files sc fs (dict_set n j local)
          | Markdown _ \<Rightarrow> py_err ValueError ''Expecting value''))"

text \<open>In the order in which the directory lists the files.\<close>

definition load_local :: "script \<Rightarrow> (int, json) dict ghop" where
  "load_local sc = pbind (pget files) (\<lambda>fs. plift (load_files sc fs []))"

text \<open>The name of the file is made from the text of the number that the item holds; the text of a
  list or an object is left out.\<close>

definition number_text :: "json \<Rightarrow> gh_exn + string" where
  "number_text j = sbind (jget ''number'' j) (\<lambda>n. case n of
      JNum i \<Rightarrow> Inr (int_str i)
    | JStr s \<Rightarrow> Inr s
    | JNull \<Rightarrow> Inr ''None''
    | JBool b \<Rightarrow> Inr (if b then ''True'' else ''False'')
    | _ \<Rightarrow> py_err ValueError ''not a number'')"

definition write_item :: "script \<Rightarrow> json \<Rightarrow> unit ghop" where
  "write_item sc j = pseq mkdir
     (pbind (plift (number_text j)) (\<lambda>t. put_file (sc_prefix sc @ t @ ''.json'') (Json j)))"

definition remove_item :: "script \<Rightarrow> int \<Rightarrow> unit ghop" where
  "remove_item sc n = pbind (pget files) (\<lambda>fs.
     if dict_get fs (file_name sc n) \<noteq> None
     then pmod (\<lambda>s. s\<lparr>mi_dir := Some (dict_del (file_name sc n) (files s))\<rparr>) else ret ())"

section \<open>The index and the summary\<close>

definition number_of :: "json \<Rightarrow> gh_exn + int" where
  "number_of j = sbind (jget ''number'' j) (\<lambda>n. case n of JNum i \<Rightarrow> Inr i | _ \<Rightarrow> py_err TypeError ''no integer'')"

text \<open>\<open>index.sort\<close> by the numbers, which are integers.\<close>

definition sort_entries :: "json list \<Rightarrow> gh_exn + json list" where
  "sort_entries es = sbind (smap number_of es) (\<lambda>ns. Inr (map snd (sort_key fst (zip ns es))))"

definition append_summary :: "gh_exn + piece list \<Rightarrow> unit ghop" where
  "append_summary line = pbind (plift line) (\<lambda>ps.
     pmod (\<lambda>s. s\<lparr>mi_dir := Some (dict_set ''README.md''
       (Markdown ((case dict_get (files s) ''README.md'' of Some (Markdown qs) \<Rightarrow> qs | _ \<Rightarrow> []) @ ps)) (files s))\<rparr>))"

definition build_index :: "script \<Rightarrow> json list \<Rightarrow> unit ghop" where
  "build_index sc items = pseq mkdir
     (pbind (plift (sbind (smap (sc_entry sc) items) sort_entries)) (\<lambda>index.
       pseq (put_file ''index.json'' (Json (JList index)))
      (pseq (put_file ''README.md'' (Markdown []))
      (pseq (append_summary (Inr (sc_head sc index)))
            (pfor (concat (map (sc_lines sc) index)) append_summary)))))"

section \<open>The commands\<close>

definition cmd_fetch :: "github \<Rightarrow> script \<Rightarrow> string \<Rightarrow> unit ghop" where
  "cmd_fetch G sc state = pbind (fetch_all G sc state) (\<lambda>items.
     if items = [] then ret ()
     else pseq (pfor items (write_item sc))
       (pbind (load_local sc) (\<lambda>local.
        pbind (plift (smap number_of items)) (\<lambda>ns.
          build_index sc (map snd (fold (\<lambda>(n, j). dict_set n j) (zip ns items) local))))))"

fun refresh_loop :: "github \<Rightarrow> script \<Rightarrow> int list \<Rightarrow> (int, json) dict \<Rightarrow> (int, json) dict ghop" where
  "refresh_loop G sc [] local = ret local"
| "refresh_loop G sc (n # ns) local = pbind (try_details G sc n) (\<lambda>r. case r of
      Some (Some j) \<Rightarrow>
        pbind (sc_enrich sc G j) (\<lambda>j.
        pseq (write_item sc j)
       (pseq (plift (sc_shown sc j))
       (pseq (sleep PER_ITEM_DELAY) (refresh_loop G sc ns (dict_set n j local)))))
    | _ \<Rightarrow> pseq (sleep PER_ITEM_DELAY) (refresh_loop G sc ns local))"

definition cmd_refresh :: "github \<Rightarrow> script \<Rightarrow> int list \<Rightarrow> unit ghop" where
  "cmd_refresh G sc ns = pbind (load_local sc) (\<lambda>local.
     pbind (refresh_loop G sc ns local) (\<lambda>local. build_index sc (map snd local)))"

definition cmd_update :: "github \<Rightarrow> script \<Rightarrow> unit ghop" where
  "cmd_update G sc = pbind (load_local sc) (\<lambda>local.
     if local = [] then ret () else cmd_refresh G sc (sort (dict_keys local)))"

fun carry_fields :: "string list \<Rightarrow> json \<Rightarrow> json \<Rightarrow> gh_exn + json" where
  "carry_fields [] old j = Inr j"
| "carry_fields (k # ks) old j = sbind (jget_or k (JList []) old) (\<lambda>v. sbind (jset k v j) (carry_fields ks old))"

text \<open>The loop of cleanup: the removed, the unconfirmed and the kept ones.\<close>

fun cleanup_loop :: "github \<Rightarrow> script \<Rightarrow> (int, json) dict \<Rightarrow> int list \<Rightarrow> int list \<Rightarrow> int list \<Rightarrow> (int, json) dict \<Rightarrow>
    (int list \<times> int list \<times> (int, json) dict) ghop" where
  "cleanup_loop G sc local [] removed skipped kept = ret (removed, skipped, kept)"
| "cleanup_loop G sc local (n # ns) removed skipped kept = pbind (try_details G sc n) (\<lambda>r. case r of
      None \<Rightarrow> pseq (sleep PER_ITEM_DELAY)
        (cleanup_loop G sc local ns removed (skipped @ [n]) (dict_set n (the (dict_get local n)) kept))
    | Some answer \<Rightarrow>
        pbind (plift (case answer of None \<Rightarrow> Inr JNull | Some j \<Rightarrow> jget_or ''state'' JNull j)) (\<lambda>state.
          if answer = None \<or> state \<noteq> JStr ''open'' then
            pseq (remove_item sc n)
           (pseq (sleep PER_ITEM_DELAY) (cleanup_loop G sc local ns (removed @ [n]) skipped kept))
          else pbind (plift (carry_fields (sc_carry sc) (the (dict_get local n)) (the answer))) (\<lambda>j.
            pseq (sleep PER_ITEM_DELAY) (cleanup_loop G sc local ns removed skipped (dict_set n j kept)))))"

definition cmd_cleanup :: "github \<Rightarrow> script \<Rightarrow> unit ghop" where
  "cmd_cleanup G sc = pbind (load_local sc) (\<lambda>local.
     if local = [] then ret ()
     else pbind (cleanup_loop G sc local (sort (dict_keys local)) [] [] []) (\<lambda>(removed, skipped, kept).
       build_index sc (map snd kept)))"

text \<open>\<open>main\<close>, for arguments that do not begin with a dash: a listing of one state may be asked for
  by the state alone, and no argument asks for the open items.\<close>

datatype command = FetchCmd string | RefreshCmd "int list" | UpdateCmd | CleanupCmd | UsageError

definition parse_args :: "script \<Rightarrow> string list \<Rightarrow> command" where
  "parse_args sc argv =
     (let argv = (if argv \<noteq> [] \<and> hd argv \<in> set (sc_states sc) then ''fetch'' # argv else argv);
          argv = (if argv = [] then [''fetch''] else argv); args = tl argv
      in if hd argv = ''fetch'' then
           (case args of [] \<Rightarrow> FetchCmd ''open'' | [st] \<Rightarrow> if st \<in> set (sc_states sc) then FetchCmd st else UsageError | _ \<Rightarrow> UsageError)
         else if hd argv = ''refresh'' then
           (if args \<noteq> [] \<and> list_all (\<lambda>a. py_int a \<noteq> None) args then RefreshCmd (map (the \<circ> py_int) args) else UsageError)
         else if hd argv = ''update'' then (if args = [] then UpdateCmd else UsageError)
         else if hd argv = ''cleanup'' then (if args = [] then CleanupCmd else UsageError)
         else UsageError)"

definition main_script :: "github \<Rightarrow> script \<Rightarrow> string list \<Rightarrow> unit ghop" where
  "main_script G sc argv = (case parse_args sc argv of
      FetchCmd st \<Rightarrow> cmd_fetch G sc st
    | RefreshCmd ns \<Rightarrow> cmd_refresh G sc ns
    | UpdateCmd \<Rightarrow> cmd_update G sc
    | CleanupCmd \<Rightarrow> cmd_cleanup G sc
    | UsageError \<Rightarrow> throw (SystemExit 2))"

section \<open>Pull requests\<close>

definition attach :: "string \<Rightarrow> json list ghop \<Rightarrow> json \<Rightarrow> json ghop" where
  "attach k op j = pbind op (\<lambda>xs. plift (jset k (JList xs) j))"

definition pr_headers :: "(string, string) dict" where
  "pr_headers = [(''User-Agent'', ''JPype-PR-Fetcher'')]"

definition fetch_comments :: "github \<Rightarrow> string \<Rightarrow> json list ghop" where
  "fetch_comments G n = fetch_paginated G pr_headers (API_BASE @ ''/issues/'' @ n @ ''/comments'')"

definition fetch_review_comments :: "github \<Rightarrow> string \<Rightarrow> json list ghop" where
  "fetch_review_comments G n = fetch_paginated G pr_headers (API_BASE @ ''/pulls/'' @ n @ ''/comments'')"

definition fetch_reviews :: "github \<Rightarrow> string \<Rightarrow> json list ghop" where
  "fetch_reviews G n = fetch_paginated G pr_headers (API_BASE @ ''/pulls/'' @ n @ ''/reviews'')"

definition fetch_commits :: "github \<Rightarrow> string \<Rightarrow> json list ghop" where
  "fetch_commits G n = fetch_paginated G pr_headers (API_BASE @ ''/pulls/'' @ n @ ''/commits'')"

definition enrich_pr :: "github \<Rightarrow> json \<Rightarrow> json ghop" where
  "enrich_pr G j = pbind (plift (number_text j)) (\<lambda>n.
     pbind (attach ''comment_chain'' (fetch_comments G n) j) (\<lambda>j.
     pbind (attach ''review_comments'' (fetch_review_comments G n) j) (\<lambda>j.
     pbind (attach ''reviews'' (fetch_reviews G n) j) (\<lambda>j.
     attach ''commits'' (fetch_commits G n) j))))"

definition unit_of :: "gh_exn + 'a \<Rightarrow> gh_exn + unit" where
  "unit_of r = map_sum id (\<lambda>_. ()) r"

definition label_names :: "json \<Rightarrow> gh_exn + json" where
  "label_names j = sbind (jget ''labels'' j) (\<lambda>ls. sbind (jiter ls) (\<lambda>xs. map_sum id JList (smap (jget ''name'') xs)))"

definition len_of :: "string \<Rightarrow> json \<Rightarrow> gh_exn + json" where
  "len_of k j = sbind (jget_or k (JList []) j) jlen"

definition pr_entry :: "json \<Rightarrow> gh_exn + json" where
  "pr_entry j = make_obj
     [(''number'', jget ''number'' j), (''title'', jget ''title'' j), (''state'', jget ''state'' j),
      (''draft'', jget_or ''draft'' (JBool False) j), (''created_at'', jget ''created_at'' j),
      (''updated_at'', jget ''updated_at'' j), (''merged_at'', jget_or ''merged_at'' JNull j),
      (''closed_at'', jget_or ''closed_at'' JNull j), (''user'', sbind (jget ''user'' j) (jget ''login'')),
      (''labels'', label_names j), (''comments'', len_of ''comment_chain'' j),
      (''review_comments'', len_of ''review_comments'' j), (''reviews'', len_of ''reviews'' j),
      (''commits'', len_of ''commits'' j), (''additions'', jget_or ''additions'' (JNum 0) j),
      (''deletions'', jget_or ''deletions'' (JNum 0) j), (''changed_files'', jget_or ''changed_files'' (JNum 0) j),
      (''url'', jget ''html_url'' j)]"

text \<open>Lines of the summary: \<open>Val\<close> stands for the text of a value in a format string.\<close>

definition nl :: string where
  "nl = [CHR 0x0A]"

definition utf8 :: "nat list \<Rightarrow> string" where
  "utf8 bs = map char_of bs"

definition val :: "string \<Rightarrow> json \<Rightarrow> gh_exn + piece" where
  "val k item = map_sum id Val (jget k item)"

definition day :: "string \<Rightarrow> json \<Rightarrow> gh_exn + piece" where
  "day k item = sbind (jget k item) (\<lambda>v. case v of
      JStr s \<Rightarrow> Inr (Val (JStr (take 10 s)))
    | JList xs \<Rightarrow> Inr (Val (JList (take 10 xs)))
    | _ \<Rightarrow> py_err TypeError ''not subscriptable by a slice'')"

definition field_is :: "string \<Rightarrow> string \<Rightarrow> json \<Rightarrow> bool" where
  "field_is k t item = (jget k item = Inr (JStr t))"

definition field_set :: "string \<Rightarrow> json \<Rightarrow> bool" where
  "field_set k item = (case jget k item of Inr v \<Rightarrow> truthy v | Inl _ \<Rightarrow> False)"

definition count_of :: "(json \<Rightarrow> bool) \<Rightarrow> json list \<Rightarrow> piece" where
  "count_of P index = Val (JNum (int (length (filter P index))))"

fun comma_join :: "json list \<Rightarrow> gh_exn + string" where
  "comma_join [] = Inr []"
| "comma_join [JStr s] = Inr s"
| "comma_join (JStr s # xs) = sbind (comma_join xs) (\<lambda>t. Inr (s @ '', '' @ t))"
| "comma_join xs = py_err TypeError ''sequence item: expected str instance''"

definition labels_str :: "json \<Rightarrow> gh_exn + string" where
  "labels_str item = sbind (jget ''labels'' item) (\<lambda>ls.
     if truthy ls then sbind (jiter ls) comma_join else Inr ''no labels'')"

definition pr_head :: "json list \<Rightarrow> piece list" where
  "pr_head index =
     [Txt (''# JPype Pull Requests'' @ nl @ nl),
      Txt ''Total: '', Val (JNum (int (length index))), Txt ('' PRs'' @ nl),
      Txt ''- Open: '', count_of (field_is ''state'' ''open'') index, Txt nl,
      Txt ''- Merged: '', count_of (field_set ''merged_at'') index, Txt nl,
      Txt ''- Closed (not merged): '', count_of (\<lambda>i. field_is ''state'' ''closed'' i \<and> \<not> field_set ''merged_at'' i) index, Txt (nl @ nl),
      Txt (''Fetched from: https://github.com/jpype-project/jpype/pulls'' @ nl @ nl),
      Txt (''## PR List'' @ nl @ nl)]"

definition pr_status :: "json \<Rightarrow> string" where
  "pr_status item =
     (if field_is ''state'' ''open'' item then utf8 [0xF0, 0x9F, 0x9F, 0xA2] @ '' OPEN''
      else if field_set ''merged_at'' item then utf8 [0xF0, 0x9F, 0x9F, 0xA3] @ '' MERGED''
      else utf8 [0xF0, 0x9F, 0x94, 0xB4] @ '' CLOSED'')"

definition line :: "(gh_exn + piece) list \<Rightarrow> gh_exn + piece list" where
  "line ps = smap (\<lambda>p. p) ps"

definition pr_lines :: "json \<Rightarrow> (gh_exn + piece list) list" where
  "pr_lines item = (case labels_str item of Inl e \<Rightarrow> [Inl e] | Inr labels \<Rightarrow>
     [line [Inr (Txt (''### '' @ pr_status item @ (if field_set ''draft'' item then '' [DRAFT]'' else []) @ '' [#'')), val ''number'' item,
        Inr (Txt ''](''), val ''url'' item, Inr (Txt ''): ''), val ''title'' item, Inr (Txt nl)],
      line [Inr (Txt ''- **Author**: ''), val ''user'' item, Inr (Txt nl)],
      Inr [Txt (''- **Labels**: '' @ labels @ nl)],
      line [Inr (Txt ''- **Stats**: +''), val ''additions'' item, Inr (Txt ''/-''), val ''deletions'' item, Inr (Txt '' (''),
        val ''changed_files'' item, Inr (Txt ('' files)'' @ nl))],
      line [Inr (Txt ''- **Discussion**: ''), val ''comments'' item, Inr (Txt '' comments, ''), val ''review_comments'' item,
        Inr (Txt ('' review comments'' @ nl))],
      line [Inr (Txt ''- **Created**: ''), day ''created_at'' item, Inr (Txt nl)]] @
     (if field_set ''merged_at'' item then [line [Inr (Txt ''- **Merged**: ''), day ''merged_at'' item, Inr (Txt nl)]]
      else if field_set ''closed_at'' item then [line [Inr (Txt ''- **Closed**: ''), day ''closed_at'' item, Inr (Txt nl)]]
      else []) @ [Inr [Txt nl]])"

definition pr_script :: script where
  "pr_script = \<lparr>sc_headers = pr_headers, sc_prefix = ''pr_'',
     sc_item_url = \<lambda>n. API_BASE @ ''/pulls/'' @ int_str n,
     sc_list_url = \<lambda>state page. API_BASE @ ''/pulls?state='' @ state @ ''&'' @ page_query page,
     sc_states = [''open'', ''closed'', ''all''],
     sc_accept = \<lambda>j. Inr (Some j), sc_keep = \<lambda>_. Inr True, sc_listed = \<lambda>j. unit_of (jget ''number'' j), sc_enrich = enrich_pr,
     sc_carry = [''comment_chain'', ''review_comments'', ''reviews'', ''commits''],
     sc_shown = \<lambda>j. sbind (jget ''title'' j) (\<lambda>_. unit_of (jget ''state'' j)),
     sc_entry = pr_entry, sc_head = pr_head, sc_lines = pr_lines\<rparr>"

section \<open>Issues\<close>

text \<open>The listing and the single items also hold pull requests, which are left out.\<close>

definition issue_headers :: "(string, string) dict" where
  "issue_headers = [(''User-Agent'', ''JPype-Issue-Fetcher'')]"

definition fetch_issue_comments :: "github \<Rightarrow> string \<Rightarrow> json list ghop" where
  "fetch_issue_comments G n = fetch_paginated G issue_headers (API_BASE @ ''/issues/'' @ n @ ''/comments'')"

definition has_comments :: "json \<Rightarrow> gh_exn + bool" where
  "has_comments j = sbind (jget ''comments'' j) (\<lambda>c. case c of
      JNum n \<Rightarrow> Inr (n > 0)
    | JBool b \<Rightarrow> Inr b
    | _ \<Rightarrow> py_err TypeError ''not supported between instances'')"

definition enrich_issue :: "github \<Rightarrow> json \<Rightarrow> json ghop" where
  "enrich_issue G j = pbind (plift (has_comments j)) (\<lambda>more.
     attach ''comment_chain'' (if more then pbind (plift (number_text j)) (fetch_issue_comments G) else ret []) j)"

definition accept_issue :: "json \<Rightarrow> gh_exn + json option" where
  "accept_issue j = sbind (jhas ''pull_request'' j) (\<lambda>pr. Inr (if pr then None else Some j))"

definition issue_entry :: "json \<Rightarrow> gh_exn + json" where
  "issue_entry j = make_obj
     [(''number'', jget ''number'' j), (''title'', jget ''title'' j), (''state'', jget ''state'' j),
      (''created_at'', jget ''created_at'' j), (''updated_at'', jget ''updated_at'' j), (''comments'', jget ''comments'' j),
      (''labels'', label_names j), (''url'', jget ''html_url'' j)]"

definition issue_head :: "json list \<Rightarrow> piece list" where
  "issue_head index =
     [Txt ''# JPype Issues ('', count_of (field_is ''state'' ''open'') index, Txt '' open, '', Val (JNum (int (length index))),
      Txt ('' cached)'' @ nl @ nl),
      Txt (''Fetched from: https://github.com/jpype-project/jpype/issues'' @ nl @ nl),
      Txt (''## Issue List'' @ nl @ nl)]"

definition issue_lines :: "json \<Rightarrow> (gh_exn + piece list) list" where
  "issue_lines item = (case labels_str item of Inl e \<Rightarrow> [Inl e] | Inr labels \<Rightarrow>
     [line [Inr (Txt ''- [#''), val ''number'' item, Inr (Txt ''](''), val ''url'' item, Inr (Txt ''): ''), val ''title'' item,
        Inr (Txt ((if field_is ''state'' ''open'' item then [] else '' [CLOSED]'') @ nl))],
      Inr [Txt (''  - Labels: '' @ labels @ nl)],
      line [Inr (Txt ''  - Comments: ''), val ''comments'' item, Inr (Txt nl)],
      line [Inr (Txt ''  - Updated: ''), day ''updated_at'' item, Inr (Txt (nl @ nl))]])"

definition issue_script :: script where
  "issue_script = \<lparr>sc_headers = issue_headers, sc_prefix = ''issue_'',
     sc_item_url = \<lambda>n. API_BASE @ ''/issues/'' @ int_str n,
     sc_list_url = \<lambda>state page. API_BASE @ ''/issues?state='' @ state @ ''&'' @ page_query page,
     sc_states = [''open'', ''closed'', ''all''],
     sc_accept = accept_issue, sc_keep = \<lambda>j. map_sum id Not (jhas ''pull_request'' j),
     sc_listed = \<lambda>j. sbind (jget ''number'' j) (\<lambda>_. unit_of (has_comments j)), sc_enrich = enrich_issue,
     sc_carry = [''comment_chain''],
     sc_shown = \<lambda>j. sbind (jget ''title'' j) (\<lambda>_. unit_of (jget ''state'' j)),
     sc_entry = issue_entry, sc_head = issue_head, sc_lines = issue_lines\<rparr>"

section \<open>Code scanning alerts\<close>

definition alert_headers :: "(string, string) dict" where
  "alert_headers = [(''User-Agent'', ''JPype-CodeScan-Fetcher''), (''Accept'', ''application/vnd.github+json'')]"

text \<open>\<open>j.get(k) or {}\<close>.\<close>

definition sub_obj :: "string \<Rightarrow> json \<Rightarrow> gh_exn + json" where
  "sub_obj k j = map_sum id (\<lambda>v. if truthy v then v else JObj []) (jget_or k JNull j)"

definition alert_entry :: "json \<Rightarrow> gh_exn + json" where
  "alert_entry j = sbind (sub_obj ''rule'' j) (\<lambda>rule. sbind (sub_obj ''most_recent_instance'' j) (\<lambda>inst.
     sbind (sub_obj ''location'' inst) (\<lambda>location. make_obj
     [(''number'', jget ''number'' j), (''state'', jget ''state'' j), (''rule_id'', jget_or ''id'' JNull rule),
      (''rule_description'', jget_or ''description'' JNull rule), (''severity'', jget_or ''severity'' JNull rule),
      (''security_severity_level'', jget_or ''security_severity_level'' JNull rule),
      (''tool'', sbind (sub_obj ''tool'' j) (jget_or ''name'' JNull)), (''path'', jget_or ''path'' JNull location),
      (''start_line'', jget_or ''start_line'' JNull location),
      (''message'', sbind (sub_obj ''message'' inst) (jget_or ''text'' JNull)),
      (''created_at'', jget ''created_at'' j), (''updated_at'', jget ''updated_at'' j),
      (''dismissed_at'', jget_or ''dismissed_at'' JNull j), (''dismissed_reason'', jget_or ''dismissed_reason'' JNull j),
      (''dismissed_comment'', jget_or ''dismissed_comment'' JNull j), (''fixed_at'', jget_or ''fixed_at'' JNull j),
      (''url'', jget ''html_url'' j)])))"

definition alert_head :: "json list \<Rightarrow> piece list" where
  "alert_head index =
     [Txt (''# JPype Code Scanning Alerts'' @ nl @ nl),
      Txt ''Total cached: '', Val (JNum (int (length index))), Txt nl,
      Txt ''- Open: '', count_of (field_is ''state'' ''open'') index, Txt nl,
      Txt ''- Dismissed: '', count_of (field_is ''state'' ''dismissed'') index, Txt nl,
      Txt ''- Fixed: '', count_of (field_is ''state'' ''fixed'') index, Txt (nl @ nl),
      Txt (''Fetched from: https://github.com/jpype-project/jpype/security/code-scanning'' @ nl @ nl),
      Txt (''## Alert List'' @ nl @ nl)]"

definition alert_status :: "json \<Rightarrow> gh_exn + string" where
  "alert_status item = sbind (jget ''state'' item) (\<lambda>v. case v of
      JStr s \<Rightarrow> Inr (if s = ''open'' then utf8 [0xF0, 0x9F, 0x9F, 0xA2] @ '' OPEN''
        else if s = ''dismissed'' then utf8 [0xE2, 0x9A, 0xAA] @ '' DISMISSED''
        else if s = ''fixed'' then utf8 [0xF0, 0x9F, 0x9F, 0xA3] @ '' FIXED'' else str_upper s)
    | _ \<Rightarrow> py_err AttributeError ''upper'')"

definition dismissed_note :: "json \<Rightarrow> gh_exn + piece" where
  "dismissed_note item = sbind (jget ''dismissed_comment'' item) (\<lambda>v.
     if truthy v then (case v of JStr s \<Rightarrow> Inr (Txt ('': '' @ s)) | _ \<Rightarrow> py_err TypeError ''can only concatenate str'')
     else Inr (Txt []))"

definition alert_lines :: "json \<Rightarrow> (gh_exn + piece list) list" where
  "alert_lines item = (case alert_status item of Inl e \<Rightarrow> [Inl e] | Inr status \<Rightarrow>
     [line [Inr (Txt (''### '' @ status @ '' [#'')), val ''number'' item, Inr (Txt ''](''), val ''url'' item, Inr (Txt ''): ''),
        val ''rule_description'' item, Inr (Txt nl)],
      line [Inr (Txt ''- **Rule**: `''), val ''rule_id'' item, Inr (Txt ''` (''), val ''tool'' item, Inr (Txt '', severity: ''),
        val ''severity'' item, Inr (Txt ('')'' @ nl))],
      line [Inr (Txt ''- **Location**: `''), val ''path'' item, Inr (Txt '':''), val ''start_line'' item, Inr (Txt (''`'' @ nl))]] @
     (if field_set ''message'' item then [line [Inr (Txt ''- **Message**: ''), val ''message'' item, Inr (Txt nl)]] else []) @
     [line [Inr (Txt ''- **Created**: ''), day ''created_at'' item, Inr (Txt nl)]] @
     (if field_set ''dismissed_at'' item then
        [line [Inr (Txt ''- **Dismissed**: ''), day ''dismissed_at'' item, Inr (Txt '' (''), val ''dismissed_reason'' item,
           Inr (Txt '')''), dismissed_note item, Inr (Txt nl)]] else []) @
     (if field_set ''fixed_at'' item then [line [Inr (Txt ''- **Fixed**: ''), day ''fixed_at'' item, Inr (Txt nl)]] else []) @
     [Inr [Txt nl]])"

definition alert_script :: script where
  "alert_script = \<lparr>sc_headers = alert_headers, sc_prefix = ''alert_'',
     sc_item_url = \<lambda>n. API_BASE @ ''/code-scanning/alerts/'' @ int_str n,
     sc_list_url = \<lambda>state page. API_BASE @ ''/code-scanning/alerts?'' @ page_query page @
        (if state = ''all'' then [] else ''&state='' @ state),
     sc_states = [''open'', ''dismissed'', ''fixed'', ''all''],
     sc_accept = \<lambda>j. Inr (Some j), sc_keep = \<lambda>_. Inr True, sc_listed = \<lambda>_. Inr (), sc_enrich = \<lambda>G j. ret j,
     sc_carry = [],
     sc_shown = \<lambda>j. sbind (sub_obj ''rule'' j) (\<lambda>rule. sbind (jget_or ''description'' JNull rule) (\<lambda>_. unit_of (jget ''state'' j))),
     sc_entry = alert_entry, sc_head = alert_head, sc_lines = alert_lines\<rparr>"

section \<open>The functions of the other two scripts\<close>

text \<open>\<open>fetch_issues.py\<close> and \<open>fetch_codescan.py\<close> repeat the functions of \<open>fetch_prs.py\<close> for their items.\<close>

definition fetch_issue_details :: "github \<Rightarrow> int \<Rightarrow> json option ghop" where
  "fetch_issue_details G = fetch_details G issue_script"

definition fetch_issues :: "github \<Rightarrow> string \<Rightarrow> json list ghop" where
  "fetch_issues G = fetch_all G issue_script"

definition load_local_issues :: "(int, json) dict ghop" where
  "load_local_issues = load_local issue_script"

definition write_issue_file :: "json \<Rightarrow> unit ghop" where
  "write_issue_file = write_item issue_script"

definition remove_issue_file :: "int \<Rightarrow> unit ghop" where
  "remove_issue_file = remove_item issue_script"

definition issue_build_index :: "json list \<Rightarrow> unit ghop" where
  "issue_build_index = build_index issue_script"

definition issue_cmd_fetch :: "github \<Rightarrow> string \<Rightarrow> unit ghop" where
  "issue_cmd_fetch G = cmd_fetch G issue_script"

definition issue_cmd_refresh :: "github \<Rightarrow> int list \<Rightarrow> unit ghop" where
  "issue_cmd_refresh G = cmd_refresh G issue_script"

definition issue_cmd_update :: "github \<Rightarrow> unit ghop" where
  "issue_cmd_update G = cmd_update G issue_script"

definition issue_cmd_cleanup :: "github \<Rightarrow> unit ghop" where
  "issue_cmd_cleanup G = cmd_cleanup G issue_script"

definition issue_main :: "github \<Rightarrow> string list \<Rightarrow> unit ghop" where
  "issue_main G = main_script G issue_script"

definition fetch_alert_details :: "github \<Rightarrow> int \<Rightarrow> json option ghop" where
  "fetch_alert_details G = fetch_details G alert_script"

definition fetch_alerts :: "github \<Rightarrow> string \<Rightarrow> json list ghop" where
  "fetch_alerts G = fetch_all G alert_script"

definition load_local_alerts :: "(int, json) dict ghop" where
  "load_local_alerts = load_local alert_script"

definition write_alert_file :: "json \<Rightarrow> unit ghop" where
  "write_alert_file = write_item alert_script"

definition remove_alert_file :: "int \<Rightarrow> unit ghop" where
  "remove_alert_file = remove_item alert_script"

definition alert_build_index :: "json list \<Rightarrow> unit ghop" where
  "alert_build_index = build_index alert_script"

definition alert_cmd_fetch :: "github \<Rightarrow> string \<Rightarrow> unit ghop" where
  "alert_cmd_fetch G = cmd_fetch G alert_script"

definition alert_cmd_refresh :: "github \<Rightarrow> int list \<Rightarrow> unit ghop" where
  "alert_cmd_refresh G = cmd_refresh G alert_script"

definition alert_cmd_update :: "github \<Rightarrow> unit ghop" where
  "alert_cmd_update G = cmd_update G alert_script"

definition alert_cmd_cleanup :: "github \<Rightarrow> unit ghop" where
  "alert_cmd_cleanup G = cmd_cleanup G alert_script"

definition alert_main :: "github \<Rightarrow> string list \<Rightarrow> unit ghop" where
  "alert_main G = main_script G alert_script"

section \<open>Numbers in file names\<close>

lemma digit_plain: "is_digit c \<Longrightarrow> \<not> py_space c \<and> c \<noteq> CHR ''_'' \<and> c \<noteq> CHR ''-'' \<and> c \<noteq> CHR ''+''"
  by (auto simp: is_digit_def py_space_def Let_def)

lemma dropWhile_none: "\<forall>c\<in>set s. \<not> P c \<Longrightarrow> dropWhile P s = s"
  by (cases s) simp_all

lemma strip_plain: "\<forall>c\<in>set s. \<not> py_space c \<Longrightarrow> py_strip s = s"
  by (simp add: py_strip_def dropWhile_none)

lemma py_digits_plain:
  assumes "s \<noteq> []" and "list_all is_digit s"
  shows "py_digits s = Some (nat_of_digits s)"
proof -
  have "CHR ''_'' \<notin> set s" using assms(2) digit_plain by (auto simp: list_all_iff)
  with assms show ?thesis by (simp add: py_digits_def py_split_plain)
qed

lemma py_int_nat: "py_int (nat_str n) = Some (int n)" and py_int_neg: "py_int (CHR ''-'' # nat_str n) = Some (- int n)"
proof -
  have d: "nat_str n \<noteq> []" "list_all is_digit (nat_str n)" "nat_of_digits (nat_str n) = n"
    using nat_str_digits [of n] by auto
  then have p: "\<forall>c\<in>set (nat_str n). \<not> py_space c" by (auto simp: list_all_iff dest: digit_plain)
  then have "py_strip (nat_str n) = nat_str n" "py_strip (CHR ''-'' # nat_str n) = CHR ''-'' # nat_str n"
    by (auto intro!: strip_plain simp: py_space_def)
  moreover have "hd (nat_str n) \<noteq> CHR ''-''" "hd (nat_str n) \<noteq> CHR ''+''"
    using d(1,2) digit_plain [of "hd (nat_str n)"] by (auto simp: list_all_iff)
  ultimately show "py_int (nat_str n) = Some (int n)" "py_int (CHR ''-'' # nat_str n) = Some (- int n)"
    using d(1) py_digits_plain [OF d(1,2)] d(3) by (cases "nat_str n"; simp add: py_int_def startswith_def Let_def)+
qed

lemma py_int_str: "py_int (int_str n) = Some n"
  by (simp add: int_str_def py_int_nat py_int_neg)

lemma remove_all_none: "p \<noteq> [] \<Longrightarrow> hd p \<notin> set s \<Longrightarrow> remove_all p s = s"
proof (induction s)
  case (Cons c s)
  then show ?case by (cases p) (auto simp: startswith_def)
qed simp

lemma remove_all_prefix:
  assumes "p \<noteq> []" and "hd p \<notin> set s"
  shows "remove_all p (p @ s) = s"
  using assms remove_all_none [OF assms] by (cases p) (simp_all add: startswith_def)

lemma int_str_chars: "c \<in> set (int_str n) \<Longrightarrow> is_digit c \<or> c = CHR ''-''"
  using nat_str_digits [of "nat n"] nat_str_digits [of "nat (- n)"] by (auto simp: int_str_def list_all_iff split: if_splits)

lemma item_number_name:
  assumes "sc_prefix sc \<noteq> []" and "\<not> is_digit (hd (sc_prefix sc))" and "hd (sc_prefix sc) \<noteq> CHR ''-''"
  shows "item_number sc (file_name sc n) = Some n"
proof -
  have "remove_all (sc_prefix sc) (sc_prefix sc @ int_str n) = int_str n"
    by (rule remove_all_prefix) (use assms int_str_chars in blast)+
  moreover have "endswith (sc_prefix sc @ int_str n @ ''.json'') ''.json''"
    using endswith_append [of "sc_prefix sc @ int_str n" "''.json''"] by simp
  ultimately show ?thesis by (simp add: item_number_def file_name_def startswith_def py_int_str)
qed

end
