(* ===== verification/MirrorSafety.thy ===== *)
theory MirrorSafety
  imports Mirrors
begin

text \<open>
  What the commands of \<open>Mirrors\<close> do to the files and to the server: nothing is removed or
  overwritten without an answer that says so, requests are bounded, and the index agrees with the
  files. The locale \<open>mirror_script\<close> has what the three scripts share.
\<close>

named_theorems grow \<open>operations that write no file\<close>

section \<open>Operations that only talk to the server\<close>

definition grows :: "'a ghop \<Rightarrow> bool" where
  "grows m = (\<forall>s. mi_dir (snd (m s)) = mi_dir s \<and> prefix (mi_log s) (mi_log (snd (m s))))"

lemma growsD: "grows m \<Longrightarrow> m s = (r, s') \<Longrightarrow> mi_dir s' = mi_dir s \<and> prefix (mi_log s) (mi_log s')"
  unfolding grows_def by (metis snd_conv)

lemma grows_ret [grow]: "grows (ret x)" and grows_throw [grow]: "grows (throw e)" and grows_plift [grow]: "grows (plift r)"
  by (simp_all add: grows_def pyrun)

lemma grows_request [grow]: "grows (make_request G hs url)" and grows_sleep [grow]: "grows (sleep ms)"
  by (simp_all add: grows_def make_request_def sleep_def pyrun)

lemma grows_bind [grow]:
  assumes "grows m" and "\<And>x. grows (f x)"
  shows "grows (pbind m f)"
  unfolding grows_def
proof
  fix s
  obtain r s1 where m: "m s = (r, s1)" by (cases "m s")
  show "mi_dir (snd (pbind m f s)) = mi_dir s \<and> prefix (mi_log s) (mi_log (snd (pbind m f s)))"
  proof (cases r)
    case (Inr x)
    obtain t s2 where "f x s1 = (t, s2)" by (cases "f x s1")
    with m Inr show ?thesis
      using growsD [OF assms(1) m] growsD [OF assms(2)] by (auto simp: pyrun intro: prefix_order.trans)
  qed (use growsD [OF assms(1) m] m in \<open>simp add: pyrun\<close>)
qed

lemma grows_seq [grow]: "grows m \<Longrightarrow> grows n \<Longrightarrow> grows (pseq m n)"
  by (simp add: pseq_def grows_bind)

lemma grows_catch [grow]:
  assumes "grows m" and "\<And>e. grows (h e)"
  shows "grows (pcatch m h)"
  unfolding grows_def
proof
  fix s
  obtain r s1 where m: "m s = (r, s1)" by (cases "m s")
  show "mi_dir (snd (pcatch m h s)) = mi_dir s \<and> prefix (mi_log s) (mi_log (snd (pcatch m h s)))"
  proof (cases r)
    case (Inl e)
    obtain t s2 where "h e s1 = (t, s2)" by (cases "h e s1")
    with m Inl show ?thesis
      using growsD [OF assms(1) m] growsD [OF assms(2)] by (auto simp: pyrun intro: prefix_order.trans)
  qed (use growsD [OF assms(1) m] m in \<open>simp add: pyrun\<close>)
qed

lemma grows_pages: "(\<And>p. grows (req p)) \<Longrightarrow> grows (pages_loop k req keep on_fail page items)"
proof (induction k arbitrary: page items)
  case (Suc k)
  then show ?case by (auto intro!: grow split: gh_exn.split option.split)
qed (simp add: grow)

lemma grows_paginated [grow]: "grows (fetch_paginated G hs url)"
  by (simp add: fetch_paginated_def grows_pages grow)

lemma grows_details_loop: "grows (details_loop G sc url k attempts)"
proof (induction attempts)
  case (Cons a as)
  then show ?case by (auto intro!: grow split: gh_exn.split option.split)
qed (simp add: grow)

lemma grows_details [grow]: "grows (fetch_details G sc n)"
  by (simp add: fetch_details_def grows_details_loop)

lemma grows_try [grow]: "grows (try_details G sc n)"
  by (auto simp: try_details_def intro!: grow split: gh_exn.split)

lemma grows_attach [grow]: "grows op \<Longrightarrow> grows (attach k op j)"
  by (simp add: attach_def grow)

section \<open>What the server said\<close>

text \<open>A request for this URL was made and answered so after the log was \<open>old\<close>.\<close>

definition answered :: "github \<Rightarrow> event list \<Rightarrow> event list \<Rightarrow> string \<Rightarrow> gh_exn + json \<Rightarrow> bool" where
  "answered G old log url reply \<longleftrightarrow>
     (\<exists>mid rq post. log = old @ mid @ Requested rq # post \<and> rq_url rq = url \<and> gh_server G (old @ mid) rq = reply)"

text \<open>The item is confirmed not to be open; it is open, or nothing is known.\<close>

definition gone :: "script \<Rightarrow> gh_exn + json \<Rightarrow> bool" where
  "gone sc reply = (case reply of
      Inl (HTTPError c t) \<Rightarrow> c = 404
    | Inl _ \<Rightarrow> False
    | Inr j \<Rightarrow> sc_accept sc j = Inr None \<or> sc_accept sc j = Inr (Some j) \<and> jget_or ''state'' JNull j \<noteq> Inr (JStr ''open''))"

definition stays :: "script \<Rightarrow> gh_exn + json \<Rightarrow> bool" where
  "stays sc reply = (case reply of
      Inl (HTTPError c t) \<Rightarrow> c \<noteq> 404
    | Inl URLError \<Rightarrow> True
    | Inl _ \<Rightarrow> False
    | Inr j \<Rightarrow> sc_accept sc j = Inr (Some j) \<and> jget_or ''state'' JNull j = Inr (JStr ''open''))"

lemma answered_later: "answered G old log url reply \<Longrightarrow> prefix log log' \<Longrightarrow> answered G old log' url reply"
  by (fastforce simp: answered_def prefix_def)

lemma answered_earlier:
  assumes "answered G old' log url reply" and "prefix old old'"
  shows "answered G old log url reply"
proof -
  obtain ext where "old' = old @ ext" using assms(2) by (auto simp: prefix_def)
  with assms(1) show ?thesis unfolding answered_def by (metis append.assoc)
qed

lemma answered_now:
  "make_request G hs url s = (r, s1) \<Longrightarrow> prefix (mi_log s1) log \<Longrightarrow> answered G (mi_log s) log url r"
  by (fastforce simp: answered_def make_request_def request_for_def prefix_def)

section \<open>One item\<close>

definition requests :: "event list \<Rightarrow> nat" where
  "requests evs = length (filter (\<lambda>e. case e of Requested _ \<Rightarrow> True | Slept _ \<Rightarrow> False) evs)"

lemma requests_simps [simp]:
  "requests [] = 0" "requests (Requested rq # evs) = Suc (requests evs)" "requests (Slept ms # evs) = requests evs"
  "requests (evs @ evs') = requests evs + requests evs'"
  by (simp_all add: requests_def)

text \<open>What the last answer means: an item is only missing when the server said so.\<close>

definition verdict :: "script \<Rightarrow> gh_exn + json \<Rightarrow> gh_exn + json option \<Rightarrow> bool" where
  "verdict sc reply r = (case r of
      Inr None \<Rightarrow> (\<exists>t. reply = Inl (HTTPError 404 t)) \<or> (\<exists>j. reply = Inr j \<and> sc_accept sc j = Inr None)
    | Inr (Some i) \<Rightarrow> \<exists>j. reply = Inr j \<and> sc_accept sc j = Inr (Some i)
    | Inl e \<Rightarrow> (\<exists>x. e = PyError x) \<or> reply = Inl e \<and> (\<forall>t. e \<noteq> HTTPError 404 t))"

text \<open>The exceptions of reading an item are Python's.\<close>

definition plain_accept :: "script \<Rightarrow> bool" where
  "plain_accept sc \<longleftrightarrow> (\<forall>j e. sc_accept sc j = Inl e \<longrightarrow> (\<exists>x. e = PyError x))"

lemma sleep_run: "sleep ms s = (r, s') \<Longrightarrow> (r = Inr () \<and> s' = s\<lparr>mi_log := mi_log s @ [Slept ms]\<rparr>) \<or> (\<exists>x. r = Inl (PyError x)) \<and> s' = s"
  by (auto simp: sleep_def pyrun py_err_def split: if_splits)

lemma request_run: "make_request G hs url s = (r, s') \<Longrightarrow>
    \<exists>rq. rq_url rq = url \<and> s' = s\<lparr>mi_log := mi_log s @ [Requested rq]\<rparr> \<and> r = gh_server G (mi_log s) rq"
  by (auto simp: make_request_def intro!: exI [of _ "request_for G hs url"]) (simp add: request_for_def)

lemma details_step:
  assumes "plain_accept sc" and "details_loop G sc url k (a # as) s = (r, s')"
  obtains rq reply where "rq_url rq = url" and "reply = gh_server G (mi_log s) rq"
    and "s' = s\<lparr>mi_log := mi_log s @ [Requested rq]\<rparr>" and "verdict sc reply r"
  | rq t wait s2 where "rq_url rq = url" and "gh_server G (mi_log s) rq = Inl (HTTPError 429 t)" and "a < k - 1"
    and "s2 = s\<lparr>mi_log := mi_log s @ [Requested rq, Slept wait]\<rparr>" and "details_loop G sc url k as s2 = (r, s')"
proof -
  obtain reply s1 where m: "make_request G (sc_headers sc) url s = (reply, s1)" by (cases "make_request G (sc_headers sc) url s")
  then obtain rq where rq: "rq_url rq = url" "s1 = s\<lparr>mi_log := mi_log s @ [Requested rq]\<rparr>" "reply = gh_server G (mi_log s) rq"
    using request_run by blast
  note run = assms(2) [unfolded details_loop.simps pcatch_run pbind_run plift_run m]
  show thesis
  proof (cases reply)
    case (Inr j)
    show thesis
    proof (cases "sc_accept sc j")
      case (Inl e)
      then obtain x where "e = PyError x" using assms(1) by (auto simp: plain_accept_def)
      moreover have "r = Inl e" "s' = s1" using Inl Inr run by (simp_all add: pyrun \<open>e = PyError x\<close>)
      ultimately show thesis by (intro that(1) [of rq reply]) (simp_all add: rq verdict_def)
    next
      case A: (Inr i)
      then have "r = Inr i" "s' = s1" using Inr run by (simp_all add: pyrun)
      with A Inr show thesis by (intro that(1) [of rq reply]) (auto simp: rq verdict_def split: option.split)
    qed
  next
    case (Inl e)
    show thesis
    proof (cases e)
      case (HTTPError c t)
      consider "c = 404" | "c = 429" "a < k - 1" | "c \<noteq> 404" "c = 429 \<longrightarrow> \<not> a < k - 1" by auto
      then show thesis
      proof cases
        case 1
        with HTTPError Inl run show thesis by (intro that(1) [of rq reply]) (auto simp: rq verdict_def pyrun)
      next
        case 3
        with HTTPError Inl run show thesis by (intro that(1) [of rq reply]) (auto simp: rq verdict_def pyrun)
      next
        case 2
        let ?w = "case t of None \<Rightarrow> Some 5 | Some t \<Rightarrow> py_int t"
        show thesis
        proof (cases ?w)
          case None
          with 2 HTTPError Inl run show thesis
            by (intro that(1) [of rq reply]) (auto simp: rq verdict_def pyrun py_err_def)
        next
          case (Some w)
          with 2 HTTPError Inl run have cont: "pseq (sleep (1000 * w)) (details_loop G sc url k as) s1 = (r, s')" by simp
          obtain z s2 where z: "sleep (1000 * w) s1 = (z, s2)" by (cases "sleep (1000 * w) s1")
          from sleep_run [OF z] show thesis
          proof
            assume "z = Inr () \<and> s2 = s1\<lparr>mi_log := mi_log s1 @ [Slept (1000 * w)]\<rparr>"
            with cont z Inl HTTPError 2 rq show thesis
              by (intro that(2) [of rq t s2 "1000 * w"]) (auto simp: pyrun)
          next
            assume "(\<exists>x. z = Inl (PyError x)) \<and> s2 = s1"
            with cont z Inl HTTPError 2 rq show thesis
              by (intro that(1) [of rq reply]) (auto simp: pyrun verdict_def)
          qed
        qed
      qed
    qed (use Inl run in \<open>intro that(1) [of rq reply]; auto simp: rq verdict_def pyrun\<close>)+
  qed
qed

lemma details_loop_outcome:
  assumes "plain_accept sc" and "details_loop G sc url k [a..<k] s = (r, s')" and "a < k"
  shows "\<exists>reply evs. mi_log s' = mi_log s @ evs \<and> requests evs \<le> k - a \<and> (\<forall>rq. Requested rq \<in> set evs \<longrightarrow> rq_url rq = url) \<and>
    answered G (mi_log s) (mi_log s') url reply \<and> verdict sc reply r"
  using assms(2,3)
proof (induction "k - a" arbitrary: a s)
  case (Suc d)
  then have attempts: "[a..<k] = a # [Suc a..<k]" by (simp add: upt_conv_Cons)
  from details_step [OF assms(1) Suc.prems(1) [unfolded attempts]] show ?case
  proof cases
    case (1 rq reply)
    have "answered G (mi_log s) (mi_log s') url reply"
      unfolding answered_def using 1 by (intro exI [of _ "[]"] exI [of _ rq]) simp
    with 1 Suc.prems(2) show ?thesis by (intro exI [of _ reply] exI [of _ "[Requested rq]"]) simp
  next
    case (2 rq t wait s2)
    then have "Suc a < k" "d = k - Suc a" using Suc.hyps(2) by auto
    from Suc.hyps(1) [OF this(2) 2(5) this(1)] obtain reply evs where
      IH: "mi_log s' = mi_log s2 @ evs" "requests evs \<le> k - Suc a" "\<forall>rq. Requested rq \<in> set evs \<longrightarrow> rq_url rq = url"
        "answered G (mi_log s2) (mi_log s') url reply" "verdict sc reply r" by blast
    have "answered G (mi_log s) (mi_log s') url reply"
      by (rule answered_earlier [OF IH(4)]) (simp add: 2(4))
    with IH 2 \<open>Suc a < k\<close> show ?thesis
      by (intro exI [of _ reply] exI [of _ "Requested rq # Slept wait # evs"]) auto
  qed
qed simp

section \<open>What the three scripts share\<close>

locale mirror_script =
  fixes sc :: script
  assumes name: "item_number sc (file_name sc n) = Some n"
    and index_file: "item_number sc ''index.json'' = None"
    and summary_file: "item_number sc ''README.md'' = None"
    and enrich_grows: "grows (sc_enrich sc G j)"
    and enrich_number: "sc_enrich sc G j s = (Inr i, s') \<Longrightarrow> jget ''number'' i = jget ''number'' j"
    and accept_plain: "plain_accept sc"
    and accept_same: "sc_accept sc j = Inr (Some i) \<Longrightarrow> i = j"
    and carry: "''number'' \<notin> set (sc_carry sc)"
    and entry_number: "sc_entry sc j = Inr e \<Longrightarrow> jget ''number'' e = jget ''number'' j"
begin

lemma name_inj: "file_name sc m = file_name sc n \<longleftrightarrow> m = n"
  using name by (metis option.inject)

lemma name_special: "file_name sc n \<noteq> ''index.json''" "file_name sc n \<noteq> ''README.md''"
  using name index_file summary_file by (metis option.distinct(1))+

lemma details_outcome:
  assumes "fetch_details G sc n s = (r, s')"
  shows "\<exists>reply evs. mi_log s' = mi_log s @ evs \<and> requests evs \<le> 4 \<and>
    (\<forall>rq. Requested rq \<in> set evs \<longrightarrow> rq_url rq = sc_item_url sc n) \<and>
    answered G (mi_log s) (mi_log s') (sc_item_url sc n) reply \<and> verdict sc reply r"
  using details_loop_outcome [OF accept_plain assms [unfolded fetch_details_def]] by auto

lemma try_outcome:
  assumes "try_details G sc n s = (r, s')"
  shows "mi_dir s' = mi_dir s \<and> (\<exists>reply. answered G (mi_log s) (mi_log s') (sc_item_url sc n) reply \<and>
    (r = Inr None \<longrightarrow> stays sc reply) \<and> (r = Inr (Some None) \<longrightarrow> gone sc reply) \<and>
    (\<forall>j. r = Inr (Some (Some j)) \<longrightarrow> reply = Inr j \<and> sc_accept sc j = Inr (Some j)))"
proof -
  obtain z s1 where d: "fetch_details G sc n s = (z, s1)" by (cases "fetch_details G sc n s")
  note same = growsD [OF grows_try assms] and out = assms [unfolded try_details_def pcatch_run pbind_run d]
  from details_outcome [OF d] obtain reply where
    reply: "answered G (mi_log s) (mi_log s1) (sc_item_url sc n) reply" "verdict sc reply z" by blast
  have s1: "s1 = s'" using out by (auto simp: pyrun split: sum.splits gh_exn.splits)
  have "r = Inr None \<longrightarrow> stays sc reply"
    using out reply(2) by (auto simp: pyrun verdict_def stays_def split: sum.splits gh_exn.splits option.splits)
  moreover have "r = Inr (Some None) \<longrightarrow> gone sc reply"
    using out reply(2) by (auto simp: pyrun verdict_def gone_def split: sum.splits gh_exn.splits option.splits)
  moreover have "r = Inr (Some (Some j)) \<longrightarrow> reply = Inr j \<and> sc_accept sc j = Inr (Some j)" for j
    using out reply(2) accept_same by (auto simp: pyrun verdict_def split: sum.splits gh_exn.splits option.splits)
  ultimately show ?thesis using same reply(1) s1 by blast
qed

lemma sleep_log: "sleep ms s = (r, s') \<Longrightarrow> mi_dir s' = mi_dir s \<and> prefix (mi_log s) (mi_log s')"
  by (rule growsD [OF grows_sleep])

lemma remove_run: "remove_item sc n s = (r, s') \<Longrightarrow> r = Inr () \<and> mi_log s' = mi_log s \<and>
    dict_get (files s') = (dict_get (files s))(file_name sc n := None)"
  by (auto simp: remove_item_def pyrun files_def fun_eq_iff dict_simps split: if_splits option.splits)

end

section \<open>Cleanup\<close>

definition decided :: "(script \<Rightarrow> gh_exn + json \<Rightarrow> bool) \<Rightarrow> github \<Rightarrow> script \<Rightarrow> event list \<Rightarrow> event list \<Rightarrow> int \<Rightarrow> bool" where
  "decided P G sc old log n \<longleftrightarrow> (\<exists>reply. answered G old log (sc_item_url sc n) reply \<and> P sc reply)"

lemma decided_mono:
  "decided P G sc old' log n \<Longrightarrow> prefix old old' \<Longrightarrow> prefix log log' \<Longrightarrow> decided P G sc old log' n"
  unfolding decided_def using answered_earlier answered_later by blast

lemma delay_run: "sleep PER_ITEM_DELAY s = (Inr (), s\<lparr>mi_log := mi_log s @ [Slept 300]\<rparr>)"
  by (simp add: sleep_def PER_ITEM_DELAY_def pyrun)

lemma files_log [simp]: "files (s\<lparr>mi_log := l\<rparr>) = files s"
  by (simp add: files_def)

text \<open>What a run of the loop leaves: the files of \<open>dead\<close> are gone.\<close>

definition cleaned :: "github \<Rightarrow> script \<Rightarrow> int set \<Rightarrow> mirror \<Rightarrow> mirror \<Rightarrow> int set \<Rightarrow> bool" where
  "cleaned G sc ns s s' dead \<longleftrightarrow> dead \<subseteq> ns \<and> prefix (mi_log s) (mi_log s') \<and>
     dict_get (files s') = (\<lambda>name. if \<exists>n\<in>dead. name = file_name sc n then None else dict_get (files s) name) \<and>
     (\<forall>n\<in>dead. decided gone G sc (mi_log s) (mi_log s') n)"

lemma cleaned_step:
  assumes "cleaned G sc ns s1 s' dead" and "prefix (mi_log s) (mi_log s1)"
    and "files s1 = files s"
  shows "cleaned G sc (insert n ns) s s' dead"
  using assms unfolding cleaned_def by (auto intro: decided_mono prefix_order.trans)

lemma cleaned_remove:
  assumes "cleaned G sc ns s1 s' dead" and "prefix (mi_log s) (mi_log s1)"
    and "dict_get (files s1) = (dict_get (files s))(file_name sc n := None)" and "decided gone G sc (mi_log s) (mi_log s1) n"
  shows "cleaned G sc (insert n ns) s s' (insert n dead)"
  unfolding cleaned_def
proof (intro conjI ballI)
  have p: "prefix (mi_log s1) (mi_log s')" using assms(1) by (simp add: cleaned_def)
  then show "prefix (mi_log s) (mi_log s')" using assms(2) by (rule prefix_order.trans [rotated])
  show "insert n dead \<subseteq> insert n ns" using assms(1) by (auto simp: cleaned_def)
  show "dict_get (files s') = (\<lambda>name. if \<exists>n\<in>insert n dead. name = file_name sc n then None else dict_get (files s) name)"
    using assms(1,3) by (auto simp: cleaned_def fun_eq_iff)
  fix m assume "m \<in> insert n dead"
  then show "decided gone G sc (mi_log s) (mi_log s') m"
    using assms p unfolding cleaned_def by (auto intro: decided_mono)
qed

context mirror_script
begin

lemma cleanup_loop_run:
  assumes "cleanup_loop G sc local ns removed skipped kept s = (r, s')"
  shows "\<exists>dead. cleaned G sc (set ns) s s' dead \<and>
    (\<forall>v. r = Inr v \<longrightarrow> (\<forall>n\<in>set ns - dead. decided stays G sc (mi_log s) (mi_log s') n))"
  using assms
proof (induction ns arbitrary: removed skipped kept s)
  case Nil
  then show ?case by (auto simp: pyrun cleaned_def)
next
  case (Cons n ns)
  obtain z s1 where t: "try_details G sc n s = (z, s1)" by (cases "try_details G sc n s")
  from try_outcome [OF t] obtain reply where
    reply: "answered G (mi_log s) (mi_log s1) (sc_item_url sc n) reply" "z = Inr None \<longrightarrow> stays sc reply"
      "z = Inr (Some None) \<longrightarrow> gone sc reply"
      "\<forall>j. z = Inr (Some (Some j)) \<longrightarrow> reply = Inr j \<and> sc_accept sc j = Inr (Some j)"
    and dir: "mi_dir s1 = mi_dir s" by blast
  have log: "prefix (mi_log s) (mi_log s1)" using growsD [OF grows_try t] by simp
  have files: "files s1 = files s" using dir by (simp add: files_def)
  note run = Cons.prems [unfolded cleanup_loop.simps pbind_run t]
  have stop: ?case if "r = Inl e" "s' = s1" for e
    by (rule exI [of _ "{}"]) (use that log files in \<open>simp add: cleaned_def\<close>)
  let ?s2 = "s1\<lparr>mi_log := mi_log s1 @ [Slept 300]\<rparr>"
  have stay: ?case if verd: "stays sc reply" and more: "cleanup_loop G sc local ns removed' skipped' kept' ?s2 = (r, s')" for removed' skipped' kept'
  proof -
    obtain dead where IH: "cleaned G sc (set ns) ?s2 s' dead"
        "\<forall>v. r = Inr v \<longrightarrow> (\<forall>m\<in>set ns - dead. decided stays G sc (mi_log ?s2) (mi_log s') m)"
      using Cons.IH [OF more] by blast
    have l: "prefix (mi_log s1) (mi_log s')" "prefix (mi_log s) (mi_log ?s2)"
      using IH(1) log unfolding cleaned_def by (auto dest: append_prefixD)
    have "decided stays G sc (mi_log s) (mi_log s') n"
      unfolding decided_def using answered_later [OF reply(1) l(1)] verd by blast
    moreover have "decided stays G sc (mi_log s) (mi_log s') m" if "decided stays G sc (mi_log ?s2) (mi_log s') m" for m
      using decided_mono [OF that l(2)] by simp
    ultimately show ?case
      using IH(2) cleaned_step [OF IH(1) l(2)] files by (intro exI [of _ dead]) auto
  qed
  have remove: ?case if verd: "gone sc reply" and rm: "remove_item sc n s1 = (Inr (), s2)"
      and more: "cleanup_loop G sc local ns removed' skipped' kept' (s2\<lparr>mi_log := mi_log s2 @ [Slept 300]\<rparr>) = (r, s')" for removed' skipped' kept' s2
  proof -
    let ?s3 = "s2\<lparr>mi_log := mi_log s2 @ [Slept 300]\<rparr>"
    from remove_run [OF rm] have s2: "mi_log s2 = mi_log s1" "dict_get (files s2) = (dict_get (files s1))(file_name sc n := None)"
      by auto
    obtain dead where IH: "cleaned G sc (set ns) ?s3 s' dead"
        "\<forall>v. r = Inr v \<longrightarrow> (\<forall>m\<in>set ns - dead. decided stays G sc (mi_log ?s3) (mi_log s') m)"
      using Cons.IH [OF more] by blast
    have l: "prefix (mi_log s) (mi_log ?s3)" "prefix (mi_log s1) (mi_log ?s3)" using s2(1) log by (auto intro: prefix_order.trans)
    have "decided gone G sc (mi_log s) (mi_log ?s3) n"
      unfolding decided_def using answered_later [OF reply(1) l(2)] verd by blast
    then have "cleaned G sc (insert n (set ns)) s s' (insert n dead)"
      using cleaned_remove [OF IH(1) l(1)] s2(2) files by simp
    moreover have "decided stays G sc (mi_log s) (mi_log s') m" if "decided stays G sc (mi_log ?s3) (mi_log s') m" for m
      using decided_mono [OF that l(1)] by simp
    ultimately show ?case using IH(2) by (intro exI [of _ "insert n dead"]) auto
  qed
  show ?case
  proof (cases z)
    case (Inl e)
    with run have "r = Inl e" "s' = s1" by simp_all
    then show ?thesis by (rule stop)
  next
    case (Inr a)
    show ?thesis
    proof (cases a)
      case None
      with Inr run stay reply(2) show ?thesis by (simp add: pyrun delay_run)
    next
      case (Some answer)
      show ?thesis
      proof (cases answer)
        case None
        obtain s2 where "remove_item sc n s1 = (Inr (), s2)" using remove_run by (metis surj_pair)
        with Inr Some None run remove reply(3) show ?thesis by (simp add: pyrun delay_run)
      next
        case A: (Some j)
        with Inr Some reply(4) have j: "reply = Inr j" "sc_accept sc j = Inr (Some j)" by auto
        obtain s2 where rm: "remove_item sc n s1 = (Inr (), s2)" using remove_run by (metis surj_pair)
        show ?thesis
        proof (cases "jget_or ''state'' JNull j")
          case E: (Inl e)
          with Inr Some A run have "r = Inl e" "s' = s1" by (simp_all add: pyrun)
          then show ?thesis by (rule stop)
        next
          case St: (Inr st)
          show ?thesis
          proof (cases "st = JStr ''open''")
            case False
            with j St have "gone sc reply" by (simp add: gone_def)
            with False Inr Some A St run remove rm show ?thesis by (simp add: pyrun delay_run)
          next
            case True
            with j St have "stays sc reply" by (simp add: stays_def)
            show ?thesis
            proof (cases "carry_fields (sc_carry sc) (the (dict_get local n)) j")
              case C: (Inl e)
              with True Inr Some A St run have "r = Inl e" "s' = s1" by (simp_all add: pyrun)
              then show ?thesis by (rule stop)
            next
              case (Inr k)
              with True \<open>z = Inr a\<close> Some A St run have
                "cleanup_loop G sc local ns removed skipped (dict_set n k kept) ?s2 = (r, s')" by (simp add: pyrun delay_run)
              with \<open>stays sc reply\<close> show ?thesis by (rule stay)
            qed
          qed
        qed
      qed
    qed
  qed
qed

end

section \<open>Files that are no items\<close>

definition same_items :: "(string \<Rightarrow> content option) \<Rightarrow> event list \<Rightarrow> mirror \<Rightarrow> bool" where
  "same_items f l s \<longleftrightarrow> mi_log s = l \<and>
     (\<forall>name. name \<noteq> ''index.json'' \<and> name \<noteq> ''README.md'' \<longrightarrow> dict_get (files s) name = f name)"

lemma files_dir [simp]: "files (s\<lparr>mi_dir := Some fs\<rparr>) = fs"
  by (simp add: files_def)

lemma build_index_keeps: "keeps (same_items f l) (build_index sc items)"
proof -
  have m: "keeps (same_items f l) mkdir"
    by (auto simp: mkdir_def same_items_def intro!: pytriple)
  have a: "keeps (same_items f l) (append_summary x)" for x
    by (rule keepsI) (cases x; simp add: append_summary_def pyrun same_items_def dict_simps)
  have p: "keeps (same_items f l) (put_file name c)" if "name \<in> {''index.json'', ''README.md''}" for name c
    using that by (auto simp: put_file_def same_items_def dict_simps intro!: pytriple)
  have q: "keeps (same_items f l) (pfor xs append_summary)" for xs
    by (rule triple_for) (rule a)
  have w: "keeps (same_items f l) (pseq (put_file ''index.json'' c) (pseq (put_file ''README.md'' d)
      (pseq (append_summary x) (pfor xs append_summary))))" for c d x xs
    by (rule triple_seq [OF p triple_seq [OF p triple_seq [OF a q]]]) simp_all
  have e: "triple (same_items f l) (plift x) (\<lambda>_. same_items f l) (\<lambda>_. same_items f l)" for x :: "gh_exn + json list"
    by (rule triple_plift) simp_all
  show ?thesis
    unfolding build_index_def by (rule triple_seq [OF m triple_bind [OF e w]])
qed

lemma build_index_run:
  assumes "build_index sc items s = (r, s')"
  shows "mi_log s' = mi_log s" and "name \<noteq> ''index.json'' \<Longrightarrow> name \<noteq> ''README.md'' \<Longrightarrow> dict_get (files s') name = dict_get (files s) name"
proof -
  have "same_items (dict_get (files s)) (mi_log s) s" by (simp add: same_items_def)
  from keepsD [OF build_index_keeps this] assms have "same_items (dict_get (files s)) (mi_log s) s'" by (metis snd_conv)
  then show "mi_log s' = mi_log s" and "name \<noteq> ''index.json'' \<Longrightarrow> name \<noteq> ''README.md'' \<Longrightarrow> dict_get (files s') name = dict_get (files s) name"
    by (auto simp: same_items_def)
qed

section \<open>Loading\<close>

lemma load_files_keys:
  "load_files sc fs local = Inr local' \<Longrightarrow>
     set (dict_keys local') = set (dict_keys local) \<union> {n. \<exists>name c. (name, c) \<in> set fs \<and> item_number sc name = Some n}"
proof (induction fs arbitrary: local)
  case (Cons f fs)
  obtain name c where f: "f = (name, c)" by (cases f)
  show ?case
  proof (cases "item_number sc name")
    case None
    with f Cons show ?thesis by auto
  next
    case (Some n)
    then obtain j where "c = Json j" using f Cons.prems by (cases c) (auto simp: py_err_def)
    with f Some Cons.prems Cons.IH show ?thesis by (auto simp: dict_simps)
  qed
qed simp

text \<open>The files of the cached items, by their numbers.\<close>

definition cached_items :: "script \<Rightarrow> mirror \<Rightarrow> int set" where
  "cached_items sc s = {n. dict_get (files s) (file_name sc n) \<noteq> None}"

context mirror_script
begin

lemma load_keys:
  assumes "load_files sc (files s) [] = Inr local"
  shows "cached_items sc s \<subseteq> set (dict_keys local)"
proof
  fix n assume "n \<in> cached_items sc s"
  then obtain c where "(file_name sc n, c) \<in> set (files s)" by (auto simp: cached_items_def dest: dict_get_in)
  with name show "n \<in> set (dict_keys local)" using load_files_keys [OF assms] by (auto simp: dict_keys_def)
qed

lemma cleanup_safe:
  assumes "cmd_cleanup G sc s = (r, s')"
  shows "\<forall>name. name \<noteq> ''index.json'' \<and> name \<noteq> ''README.md'' \<and> dict_get (files s') name \<noteq> dict_get (files s) name \<longrightarrow>
      dict_get (files s') name = None \<and> (\<exists>n. name = file_name sc n \<and> decided gone G sc (mi_log s) (mi_log s') n)"
    and "r = Inr () \<longrightarrow> (\<forall>n\<in>cached_items sc s \<inter> cached_items sc s'. decided stays G sc (mi_log s) (mi_log s') n)"
proof -
  have goal: "(\<forall>name. name \<noteq> ''index.json'' \<and> name \<noteq> ''README.md'' \<and> dict_get (files s') name \<noteq> dict_get (files s) name \<longrightarrow>
      dict_get (files s') name = None \<and> (\<exists>n. name = file_name sc n \<and> decided gone G sc (mi_log s) (mi_log s') n)) \<and>
    (r = Inr () \<longrightarrow> (\<forall>n\<in>cached_items sc s \<inter> cached_items sc s'. decided stays G sc (mi_log s) (mi_log s') n))"
  proof (cases "load_files sc (files s) []")
    case (Inl e)
    with assms show ?thesis by (auto simp: cmd_cleanup_def load_local_def pyrun)
  next
    case (Inr local)
    show ?thesis
    proof (cases "local = []")
      case True
      with load_keys [OF Inr] have "cached_items sc s = {}" by (simp add: dict_keys_def)
      with Inr True assms show ?thesis by (auto simp: cmd_cleanup_def load_local_def pyrun)
    next
      case False
      obtain z s1 where loop: "cleanup_loop G sc local (sort (dict_keys local)) [] [] [] s = (z, s1)"
        by (cases "cleanup_loop G sc local (sort (dict_keys local)) [] [] [] s")
      from cleanup_loop_run [OF loop] obtain dead where
        dead: "cleaned G sc (set (dict_keys local)) s s1 dead"
          "\<forall>v. z = Inr v \<longrightarrow> (\<forall>n\<in>set (dict_keys local) - dead. decided stays G sc (mi_log s) (mi_log s1) n)" by auto
      have rest: "mi_log s' = mi_log s1"
          "\<And>name. name \<noteq> ''index.json'' \<Longrightarrow> name \<noteq> ''README.md'' \<Longrightarrow> dict_get (files s') name = dict_get (files s1) name"
          "r = Inr () \<Longrightarrow> \<exists>v. z = Inr v"
        using assms loop Inr False build_index_run
        by (auto simp: cmd_cleanup_def load_local_def pyrun split: sum.splits prod.splits)
      have "n \<notin> dead" if "n \<in> cached_items sc s'" for n
        using that dead(1) rest(2) [of "file_name sc n"] name_special [of n] by (auto simp: cached_items_def cleaned_def split: if_splits)
      with dead(2) rest(1,3) load_keys [OF Inr]
      have "r = Inr () \<longrightarrow> (\<forall>n\<in>cached_items sc s \<inter> cached_items sc s'. decided stays G sc (mi_log s) (mi_log s') n)" by auto
      moreover have "dict_get (files s') name = None \<and> (\<exists>n. name = file_name sc n \<and> decided gone G sc (mi_log s) (mi_log s') n)"
        if "name \<noteq> ''index.json''" "name \<noteq> ''README.md''" "dict_get (files s') name \<noteq> dict_get (files s) name" for name
      proof -
        have "dict_get (files s') name = (if \<exists>n\<in>dead. name = file_name sc n then None else dict_get (files s) name)"
          using rest(2) [OF that(1,2)] dead(1) by (simp add: cleaned_def)
        with that(3) dead(1) rest(1) show ?thesis by (auto simp: cleaned_def split: if_splits)
      qed
      ultimately show ?thesis by blast
    qed
  qed
  then show "\<forall>name. name \<noteq> ''index.json'' \<and> name \<noteq> ''README.md'' \<and> dict_get (files s') name \<noteq> dict_get (files s) name \<longrightarrow>
      dict_get (files s') name = None \<and> (\<exists>n. name = file_name sc n \<and> decided gone G sc (mi_log s) (mi_log s') n)"
    and "r = Inr () \<longrightarrow> (\<forall>n\<in>cached_items sc s \<inter> cached_items sc s'. decided stays G sc (mi_log s) (mi_log s') n)"
    by simp_all
qed

end

section \<open>The index and the files\<close>

text \<open>Every file that counts as an item has the canonical name of the number that it holds.\<close>

definition items_ok :: "script \<Rightarrow> mirror \<Rightarrow> bool" where
  "items_ok sc s \<longleftrightarrow> (\<forall>(name, c)\<in>set (files s). \<forall>n. item_number sc name = Some n \<longrightarrow>
     name = file_name sc n \<and> (\<exists>j. c = Json j \<and> number_of j = Inr n))"

text \<open>A dictionary of the items of the files.\<close>

definition numbered :: "(int, json) dict \<Rightarrow> bool" where
  "numbered local \<longleftrightarrow> dict_ok local \<and> (\<forall>(n, j)\<in>set local. number_of j = Inr n)"

definition agrees :: "script \<Rightarrow> (int, json) dict \<Rightarrow> mirror \<Rightarrow> bool" where
  "agrees sc local s \<longleftrightarrow> items_ok sc s \<and> numbered local \<and> set (dict_keys local) = cached_items sc s"

text \<open>The index lists the numbers of the cached items, in ascending order.\<close>

definition index_lists :: "script \<Rightarrow> mirror \<Rightarrow> bool" where
  "index_lists sc s \<longleftrightarrow> (\<exists>es. dict_get (files s) ''index.json'' = Some (Json (JList es)) \<and>
     smap number_of es = Inr (sorted_list_of_set (cached_items sc s)))"

text \<open>The server answers a request for an item with an item of that number.\<close>

definition honest :: "github \<Rightarrow> script \<Rightarrow> bool" where
  "honest G sc \<longleftrightarrow> (\<forall>log rq n j. rq_url rq = sc_item_url sc n \<and> gh_server G log rq = Inr j \<and> sc_accept sc j = Inr (Some j) \<longrightarrow>
     number_of j = Inr n)"

lemma number_of_eq: "jget ''number'' i = jget ''number'' j \<Longrightarrow> number_of i = number_of j"
  by (simp add: number_of_def)

lemma number_of_text: "number_of j = Inr n \<Longrightarrow> number_text j = Inr (int_str n)"
  by (auto simp: number_of_def number_text_def sbind_Inr py_err_def split: json.splits)

lemma numbered_set: "numbered local \<Longrightarrow> number_of j = Inr n \<Longrightarrow> numbered (dict_set n j local)"
  unfolding numbered_def using pd.ok_put [of local n j]
  by (auto dest!: dict_in_get simp: dict_simps intro: dict_in_get split: if_splits dest: dict_get_in)

lemma smap_pairs: "\<forall>(n, e)\<in>set ps. f e = Inr n \<Longrightarrow> smap f (map snd ps) = Inr (map fst ps)"
  by (induction ps) auto

lemma smap_numbers: "numbered local \<Longrightarrow> smap number_of (map snd local) = Inr (dict_keys local)"
  unfolding dict_keys_def by (rule smap_pairs) (simp add: numbered_def)

lemma jget_set: "k \<noteq> k' \<Longrightarrow> jset k v j = Inr i \<Longrightarrow> jget k' i = jget k' j"
  by (cases j) (auto simp: jset_def jget_def dict_simps py_err_def)

lemma carry_number: "''number'' \<notin> set ks \<Longrightarrow> carry_fields ks old j = Inr i \<Longrightarrow> jget ''number'' i = jget ''number'' j"
proof (induction ks arbitrary: j)
  case (Cons k ks)
  then show ?case using jget_set [of k "''number''"] by (auto simp: sbind_Inr)
qed simp

lemma write_run:
  assumes "number_of j = Inr n" and "write_item sc j s = (r, s')"
  shows "r = Inr () \<and> mi_log s' = mi_log s \<and> dict_get (files s') = (dict_get (files s))(file_name sc n \<mapsto> Json j)"
  using assms(2) by (auto simp: write_item_def mkdir_def put_file_def pyrun number_of_text [OF assms(1)] file_name_def dict_simps fun_eq_iff)

lemma sorted_index:
  assumes "smap number_of es = Inr ns" and "distinct ns"
  shows "\<exists>index. sort_entries es = Inr index \<and> smap number_of index = Inr (sorted_list_of_set (set ns))"
proof -
  have len: "length ns = length es" "\<forall>i<length es. number_of (es ! i) = Inr (ns ! i)"
    using assms(1) by (auto simp: smap_Inr list_all2_conv_all_nth)
  let ?ps = "sort_key fst (zip ns es)"
  have "\<forall>(n, e)\<in>set ?ps. number_of e = Inr n" using len by (auto simp: set_zip)
  then have "smap number_of (map snd ?ps) = Inr (map fst ?ps)" by (rule smap_pairs)
  moreover have "map fst ?ps = sorted_list_of_set (set ns)"
  proof (rule sorted_distinct_set_unique)
    have "set (map fst ?ps) = set (map fst (zip ns es))" by simp
    then have same: "set (map fst ?ps) = set ns" using len(1) by (simp only: map_fst_zip)
    then show "set (map fst ?ps) = set (sorted_list_of_set (set ns))" by simp
    have "card (set (map fst ?ps)) = length (map fst ?ps)" using same len(1) distinct_card [OF assms(2)] by simp
    then show "distinct (map fst ?ps)" by (rule card_distinct)
  qed simp_all
  ultimately show ?thesis using assms(1) by (simp add: sort_entries_def)
qed

lemma dict_set_subset: "set (dict_set k v d) \<subseteq> insert (k, v) (set d)"
  by (induction d) (auto simp: dict_set_def)

lemma dict_del_subset: "set (dict_del k d) \<subseteq> set d"
  by (induction d) (auto simp: dict_del_def)

lemma items_okD: "items_ok sc s \<Longrightarrow> (name, c) \<in> set (files s) \<Longrightarrow> item_number sc name = Some n \<Longrightarrow>
    name = file_name sc n \<and> (\<exists>j. c = Json j \<and> number_of j = Inr n)"
  unfolding items_ok_def by blast

lemma items_ok_set:
  assumes "items_ok sc s" and "\<And>n. item_number sc name = Some n \<Longrightarrow> name = file_name sc n \<and> (\<exists>j. c = Json j \<and> number_of j = Inr n)"
  shows "items_ok sc (s\<lparr>mi_dir := Some (dict_set name c (files s))\<rparr>)"
  using assms dict_set_subset [of name c "files s"] unfolding items_ok_def files_dir by fastforce

lemma items_ok_dir: "files s' = files s \<Longrightarrow> items_ok sc s' = items_ok sc s" "files s' = files s \<Longrightarrow> cached_items sc s' = cached_items sc s"
  by (simp_all add: items_ok_def cached_items_def)

lemma agrees_dir: "mi_dir s' = mi_dir s \<Longrightarrow> agrees sc local s' = agrees sc local s"
  using items_ok_dir [of s' s] by (simp add: agrees_def files_def)

context mirror_script
begin

lemma load_agrees:
  assumes "items_ok sc s" and "load_files sc (files s) [] = Inr local"
  shows "agrees sc local s"
proof -
  have "numbered local'" if "load_files sc fs local0 = Inr local'" "numbered local0" "set fs \<subseteq> set (files s)" for fs local0 local'
    using that
  proof (induction fs arbitrary: local0)
    case (Cons f fs)
    obtain name c where f: "f = (name, c)" by (cases f)
    show ?case
    proof (cases "item_number sc name")
      case None
      with f Cons show ?thesis by auto
    next
      case (Some n)
      have "(name, c) \<in> set (files s)" using f Cons.prems(3) by simp
      from items_okD [OF assms(1) this Some] obtain j where j: "c = Json j" "number_of j = Inr n" by blast
      with f Some Cons numbered_set [OF Cons.prems(2) j(2)] show ?thesis by auto
    qed
  qed simp
  from this [OF assms(2)] have "numbered local" by (simp add: numbered_def)
  moreover have "set (dict_keys local) \<subseteq> cached_items sc s"
  proof
    fix n assume "n \<in> set (dict_keys local)"
    then obtain name c where "(name, c) \<in> set (files s)" "item_number sc name = Some n"
      using load_files_keys [OF assms(2)] by (auto simp: dict_keys_def)
    moreover from items_okD [OF assms(1) this] have "name = file_name sc n" by blast
    ultimately show "n \<in> cached_items sc s"
      by (force simp: cached_items_def dict_get_def map_of_eq_None_iff)
  qed
  ultimately show ?thesis using assms(1) load_keys [OF assms(2)] by (simp add: agrees_def)
qed

lemma write_ok:
  assumes "items_ok sc s" and "number_of j = Inr n" and "write_item sc j s = (r, s')"
  shows "items_ok sc s'" and "cached_items sc s' = insert n (cached_items sc s)"
proof -
  have s': "s' = s\<lparr>mi_dir := Some (dict_set (file_name sc n) (Json j) (files s))\<rparr>"
    using assms(3) by (auto simp: write_item_def mkdir_def put_file_def pyrun number_of_text [OF assms(2)] file_name_def)
  show "items_ok sc s'"
    unfolding s' by (rule items_ok_set) (use assms(1,2) name in auto)
  show "cached_items sc s' = insert n (cached_items sc s)"
    using write_run [OF assms(2,3)] by (auto simp: cached_items_def name_inj)
qed

lemma write_agrees:
  assumes "agrees sc local s" and "number_of j = Inr n" and "write_item sc j s = (r, s')"
  shows "agrees sc (dict_set n j local) s'"
  using assms(1) write_ok [OF _ assms(2,3)] numbered_set [OF _ assms(2)] by (simp add: agrees_def dict_simps)

lemma items_ok_special: "items_ok sc s \<Longrightarrow> name \<in> {''index.json'', ''README.md''} \<Longrightarrow>
    items_ok sc (s\<lparr>mi_dir := Some (dict_set name c (files s))\<rparr>)"
  by (rule items_ok_set) (auto simp: index_file summary_file)

lemma summary_keeps: "keeps (\<lambda>s. items_ok sc s \<and> dict_get (files s) ''index.json'' = i) (append_summary x)"
  by (rule keepsI) (cases x; simp add: append_summary_def pyrun dict_simps items_ok_special)

lemma build_agrees:
  assumes "agrees sc local s" and "build_index sc (map snd local) s = (Inr (), s')"
  shows "items_ok sc s' \<and> index_lists sc s'"
proof -
  have c: "items_ok sc s" "numbered local" "set (dict_keys local) = cached_items sc s" using assms(1) by (simp_all add: agrees_def)
  obtain es where es: "smap (sc_entry sc) (map snd local) = Inr es"
    using assms(2) by (cases "smap (sc_entry sc) (map snd local)") (auto simp: build_index_def mkdir_def pyrun)
  have "list_all2 (\<lambda>j e. number_of e = number_of j) (map snd local) es"
    using es unfolding smap_Inr by (rule list_all2_mono) (auto intro: number_of_eq entry_number)
  then have "smap number_of es = smap number_of (map snd local)"
    by (induction rule: list_all2_induct) simp_all
  with smap_numbers [OF c(2)] have "smap number_of es = Inr (dict_keys local)" by simp
  moreover have "distinct (dict_keys local)" using c(2) by (simp add: numbered_def dict_ok_def dict_keys_def)
  ultimately obtain index where index: "sort_entries es = Inr index" "smap number_of index = Inr (sorted_list_of_set (cached_items sc s))"
    using sorted_index [of es "dict_keys local"] c(3) by auto
  let ?s1 = "s\<lparr>mi_dir := Some (dict_set ''index.json'' (Json (JList index)) (files s))\<rparr>"
  let ?s2 = "?s1\<lparr>mi_dir := Some (dict_set ''README.md'' (Markdown []) (files ?s1))\<rparr>"
  let ?I = "\<lambda>s. items_ok sc s \<and> dict_get (files s) ''index.json'' = Some (Json (JList index))"
  have "?I ?s2" using items_ok_special [OF items_ok_special [OF c(1)]] by (simp add: dict_simps)
  moreover have "pseq (append_summary (Inr (sc_head sc index))) (pfor (concat (map (sc_lines sc) index)) append_summary) ?s2 = (Inr (), s')"
    using assms(2) es index(1) by (simp add: build_index_def mkdir_def put_file_def pyrun)
  moreover have "keeps ?I (pseq (append_summary (Inr (sc_head sc index))) (pfor (concat (map (sc_lines sc) index)) append_summary))"
    by (rule triple_seq [OF summary_keeps triple_for]) (rule summary_keeps)
  ultimately have "?I s'" using keepsD by fastforce
  moreover have "cached_items sc s' = cached_items sc s"
    using build_index_run(2) [OF assms(2)] name_special by (simp add: cached_items_def)
  ultimately show ?thesis using index(2) by (auto simp: index_lists_def)
qed

end

section \<open>The commands keep the index and the files together\<close>

text \<open>The server gave the item.\<close>

definition given :: "script \<Rightarrow> gh_exn + json \<Rightarrow> bool" where
  "given sc reply = (\<exists>j. reply = Inr j \<and> sc_accept sc j = Inr (Some j))"

context mirror_script
begin

lemma honest_number:
  assumes "honest G sc" and "answered G old log (sc_item_url sc n) (Inr j)" and "sc_accept sc j = Inr (Some j)"
  shows "number_of j = Inr n"
  using assms unfolding honest_def answered_def by blast

text \<open>One round of the loop of refresh.\<close>

lemma refresh_step:
  assumes "refresh_loop G sc (n # ns) local s = (r, s')" and "honest G sc"
  obtains s1 where "mi_dir s1 = mi_dir s" and "prefix (mi_log s) (mi_log s1)" and "refresh_loop G sc ns local s1 = (r, s')"
  | e where "r = Inl e" and "mi_dir s' = mi_dir s"
  | s1 j s2 where "mi_dir s1 = mi_dir s" and "decided given G sc (mi_log s) (mi_log s1) n" and "number_of j = Inr n"
      and "write_item sc j s1 = (Inr (), s2)" and "(\<exists>e. r = Inl e) \<and> s' = s2 \<or>
        refresh_loop G sc ns (dict_set n j local) (s2\<lparr>mi_log := mi_log s2 @ [Slept 300]\<rparr>) = (r, s')"
proof -
  obtain z s1 where t: "try_details G sc n s = (z, s1)" by (cases "try_details G sc n s")
  note run = assms(1) [unfolded refresh_loop.simps pbind_run t]
  note dir = growsD [OF grows_try t]
  show thesis
  proof (cases "\<exists>j. z = Inr (Some (Some j))")
    case False
    show thesis
    proof (cases z)
      case (Inl e)
      with run dir show thesis by (intro that(2)) auto
    next
      case (Inr a)
      with False run have "refresh_loop G sc ns local (s1\<lparr>mi_log := mi_log s1 @ [Slept 300]\<rparr>) = (r, s')"
        by (auto simp: pyrun delay_run split: option.splits)
      with dir show thesis by (intro that(1) [of "s1\<lparr>mi_log := mi_log s1 @ [Slept 300]\<rparr>"]) (auto intro: prefix_order.trans)
    qed
  next
    case True
    then obtain j where j: "z = Inr (Some (Some j))" by blast
    with try_outcome [OF t] have reply: "answered G (mi_log s) (mi_log s1) (sc_item_url sc n) (Inr j)" "sc_accept sc j = Inr (Some j)"
      by auto
    obtain y s2 where e: "sc_enrich sc G j s1 = (y, s2)" by (cases "sc_enrich sc G j s1")
    note dir2 = growsD [OF enrich_grows e]
    show thesis
    proof (cases y)
      case (Inl x)
      with run j e dir dir2 show thesis by (intro that(2)) (auto simp: pyrun)
    next
      case (Inr i)
      have i: "number_of i = Inr n"
        using honest_number [OF assms(2) reply] number_of_eq [OF enrich_number [OF e [unfolded Inr]]] by simp
      obtain s3 where w: "write_item sc i s2 = (Inr (), s3)" using write_run [OF i] by (metis surj_pair)
      have "decided given G sc (mi_log s) (mi_log s2) n"
        unfolding decided_def given_def using answered_later [OF reply(1)] dir2 reply(2) by blast
      moreover have "(\<exists>e. r = Inl e) \<and> s' = s3 \<or>
          refresh_loop G sc ns (dict_set n i local) (s3\<lparr>mi_log := mi_log s3 @ [Slept 300]\<rparr>) = (r, s')"
        using run j e Inr w by (cases "sc_shown sc i") (auto simp: pyrun delay_run)
      ultimately show thesis using dir dir2 w i by (intro that(3) [of s2 i s3]) auto
    qed
  qed
qed

lemma refresh_loop_agrees:
  assumes "refresh_loop G sc ns local s = (Inr local', s')" and "agrees sc local s" and "honest G sc"
  shows "agrees sc local' s'"
  using assms(1,2)
proof (induction ns arbitrary: local s)
  case (Cons n ns)
  from refresh_step [OF Cons.prems(1) assms(3)] show ?case
  proof cases
    case (1 s1)
    with Cons agrees_dir [of s1 s] show ?thesis by blast
  next
    case (3 s1 j s2)
    then have "agrees sc (dict_set n j local) s2"
      using write_agrees agrees_dir [of s1 s] Cons.prems(2) by blast
    with 3(5) Cons.IH agrees_dir [of "s2\<lparr>mi_log := mi_log s2 @ [Slept 300]\<rparr>" s2] show ?thesis by auto
  qed simp
qed (auto simp: pyrun)

lemma refresh_loop_safe:
  assumes "refresh_loop G sc ns local s = (r, s')" and "honest G sc"
    and "dict_get (files s') name \<noteq> dict_get (files s) name"
  shows "\<exists>n\<in>set ns. name = file_name sc n \<and> (\<exists>j. dict_get (files s') name = Some (Json j))"
  using assms(1,3)
proof (induction ns arbitrary: local s)
  case (Cons n ns)
  from refresh_step [OF Cons.prems(1) assms(2)] show ?case
  proof cases
    case (1 s1)
    then have "files s1 = files s" by (simp add: files_def)
    with Cons.IH [OF 1(3)] Cons.prems(2) show ?thesis by auto
  next
    case 2
    with Cons.prems(2) show ?thesis by (simp add: files_def)
  next
    case (3 s1 j s2)
    have f: "dict_get (files s2) = (dict_get (files s))(file_name sc n \<mapsto> Json j)"
      using write_run [OF 3(3,4)] 3(1) by (simp add: files_def)
    show ?thesis
    proof (cases "dict_get (files s') name = dict_get (files s2) name")
      case True
      with f Cons.prems(2) show ?thesis by (auto split: if_splits)
    next
      case False
      with 3(5) Cons.IH [of "dict_set n j local" "s2\<lparr>mi_log := mi_log s2 @ [Slept 300]\<rparr>"] show ?thesis by auto
    qed
  qed
qed (simp add: pyrun)

end

lemma numbered_get: "numbered local \<Longrightarrow> n \<in> set (dict_keys local) \<Longrightarrow> number_of (the (dict_get local n)) = Inr n"
  unfolding numbered_def by (metis (mono_tags, lifting) case_prodD dict_get_in option.exhaust_sel pd.keys_get)

context mirror_script
begin

lemma remove_agrees:
  assumes "items_ok sc s" and "remove_item sc n s = (r, s')"
  shows "items_ok sc s'" and "cached_items sc s' = cached_items sc s - {n}"
proof -
  have "set (files s') \<subseteq> set (files s)"
    using assms(2) dict_del_subset [of "file_name sc n" "files s"]
    by (auto simp: remove_item_def pyrun split: if_splits)
  with assms(1) show "items_ok sc s'" unfolding items_ok_def by blast
  show "cached_items sc s' = cached_items sc s - {n}"
    using remove_run [OF assms(2)] by (auto simp: cached_items_def name_inj)
qed

lemma cleanup_loop_agrees:
  assumes "cleanup_loop G sc local ns removed skipped kept s = (Inr (removed', skipped', kept'), s')"
    and "honest G sc" and "numbered local" and "items_ok sc s" and "numbered kept"
    and "distinct ns" and "set ns \<subseteq> set (dict_keys local)" and "set ns \<inter> set (dict_keys kept) = {}"
    and "cached_items sc s = set ns \<union> set (dict_keys kept)"
  shows "agrees sc kept' s'"
  using assms(1,4-)
proof (induction ns arbitrary: removed skipped kept s)
  case Nil
  then show ?case by (auto simp: pyrun agrees_def)
next
  case (Cons n ns)
  obtain z s1 where t: "try_details G sc n s = (z, s1)" by (cases "try_details G sc n s")
  note run = Cons.prems(1) [unfolded cleanup_loop.simps pbind_run t]
  have s1: "files s1 = files s" using growsD [OF grows_try t] by (simp add: files_def)
  then have ok: "items_ok sc s1" "cached_items sc s1 = insert n (set ns \<union> set (dict_keys kept))"
    using items_ok_dir [OF s1] Cons.prems(2,7) by simp_all
  have keep: ?case if j: "number_of j = Inr n" and more: "cleanup_loop G sc local ns removed'' skipped'' (dict_set n j kept)
      (s1\<lparr>mi_log := mi_log s1 @ [Slept 300]\<rparr>) = (Inr (removed', skipped', kept'), s')" for j removed'' skipped''
  proof (rule Cons.IH [OF more])
    show "items_ok sc (s1\<lparr>mi_log := mi_log s1 @ [Slept 300]\<rparr>)" using ok(1) items_ok_dir [of "s1\<lparr>mi_log := mi_log s1 @ [Slept 300]\<rparr>" s1] by simp
    show "numbered (dict_set n j kept)" by (rule numbered_set [OF Cons.prems(3) j])
    show "cached_items sc (s1\<lparr>mi_log := mi_log s1 @ [Slept 300]\<rparr>) = set ns \<union> set (dict_keys (dict_set n j kept))"
      using ok(2) items_ok_dir [of "s1\<lparr>mi_log := mi_log s1 @ [Slept 300]\<rparr>" s1] by (simp add: dict_simps)
  qed (use Cons.prems in \<open>auto simp: dict_simps\<close>)
  have remove: ?case if rm: "remove_item sc n s1 = (Inr (), s2)" and more: "cleanup_loop G sc local ns removed'' skipped kept
      (s2\<lparr>mi_log := mi_log s2 @ [Slept 300]\<rparr>) = (Inr (removed', skipped', kept'), s')" for s2 removed''
  proof (rule Cons.IH [OF more])
    note same = items_ok_dir [of "s2\<lparr>mi_log := mi_log s2 @ [Slept 300]\<rparr>" s2] remove_agrees [OF ok(1) rm]
    show "items_ok sc (s2\<lparr>mi_log := mi_log s2 @ [Slept 300]\<rparr>)" using same by simp
    show "cached_items sc (s2\<lparr>mi_log := mi_log s2 @ [Slept 300]\<rparr>) = set ns \<union> set (dict_keys kept)"
      using same ok(2) Cons.prems(4,6) by auto
  qed (use Cons.prems in auto)
  have old: "number_of (the (dict_get local n)) = Inr n" using numbered_get [OF assms(3)] Cons.prems(5) by simp
  show ?case
  proof (cases z)
    case (Inr a)
    show ?thesis
    proof (cases a)
      case None
      with Inr run have "cleanup_loop G sc local ns removed (skipped @ [n]) (dict_set n (the (dict_get local n)) kept)
          (s1\<lparr>mi_log := mi_log s1 @ [Slept 300]\<rparr>) = (Inr (removed', skipped', kept'), s')" by (simp add: pyrun delay_run)
      then show ?thesis by (rule keep [OF old])
    next
      case (Some answer)
      obtain s2 where rm: "remove_item sc n s1 = (Inr (), s2)" using remove_run by (metis surj_pair)
      show ?thesis
      proof (cases "\<exists>j. answer = Some j \<and> jget_or ''state'' JNull j = Inr (JStr ''open'')")
        case False
        with Inr Some run rm have "cleanup_loop G sc local ns (removed @ [n]) skipped kept
            (s2\<lparr>mi_log := mi_log s2 @ [Slept 300]\<rparr>) = (Inr (removed', skipped', kept'), s')"
          by (cases answer) (auto simp: pyrun delay_run split: sum.splits if_splits)
        then show ?thesis by (rule remove [OF rm])
      next
        case True
        then obtain j where j: "answer = Some j" "jget_or ''state'' JNull j = Inr (JStr ''open'')" by blast
        with Inr Some try_outcome [OF t] have "number_of j = Inr n" using honest_number [OF assms(2)] by blast
        moreover from Inr Some run j obtain i where
          i: "carry_fields (sc_carry sc) (the (dict_get local n)) j = Inr i"
            "cleanup_loop G sc local ns removed skipped (dict_set n i kept) (s1\<lparr>mi_log := mi_log s1 @ [Slept 300]\<rparr>) =
               (Inr (removed', skipped', kept'), s')"
          by (auto simp: pyrun delay_run split: sum.splits)
        ultimately have "number_of i = Inr n" using number_of_eq [OF carry_number [OF carry i(1)]] by simp
        then show ?thesis using i(2) by (rule keep)
      qed
    qed
  qed (use run in simp)
qed

lemma cleanup_agrees:
  assumes "cmd_cleanup G sc s = (Inr (), s')" and "honest G sc" and "items_ok sc s"
  shows "items_ok sc s' \<and> (s' = s \<or> index_lists sc s')"
proof -
  from assms(1) obtain local where l: "load_files sc (files s) [] = Inr local"
    by (cases "load_files sc (files s) []") (auto simp: cmd_cleanup_def load_local_def pyrun)
  note agree = load_agrees [OF assms(3) l]
  show ?thesis
  proof (cases "local = []")
    case True
    with assms(1,3) l show ?thesis by (auto simp: cmd_cleanup_def load_local_def pyrun)
  next
    case False
    with assms(1) l obtain removed skipped kept s1 where
      loop: "cleanup_loop G sc local (sort (dict_keys local)) [] [] [] s = (Inr (removed, skipped, kept), s1)"
      and build: "build_index sc (map snd kept) s1 = (Inr (), s')"
      by (auto simp: cmd_cleanup_def load_local_def pyrun split: sum.splits prod.splits)
    have "agrees sc kept s1"
      by (rule cleanup_loop_agrees [OF loop assms(2) _ assms(3)])
        (use agree in \<open>auto simp: agrees_def numbered_def dict_ok_def dict_keys_def\<close>)
    from build_agrees [OF this build] show ?thesis by simp
  qed
qed

lemma refresh_agrees:
  assumes "cmd_refresh G sc ns s = (Inr (), s')" and "honest G sc" and "items_ok sc s"
  shows "items_ok sc s' \<and> index_lists sc s'"
proof -
  from assms(1) obtain local local' s1 where l: "load_files sc (files s) [] = Inr local"
    and loop: "refresh_loop G sc ns local s = (Inr local', s1)" and build: "build_index sc (map snd local') s1 = (Inr (), s')"
    by (auto simp: cmd_refresh_def load_local_def pyrun split: sum.splits prod.splits)
  from build_agrees [OF refresh_loop_agrees [OF loop load_agrees [OF assms(3) l] assms(2)] build] show ?thesis .
qed

lemma update_agrees:
  assumes "cmd_update G sc s = (Inr (), s')" and "honest G sc" and "items_ok sc s"
  shows "items_ok sc s' \<and> (s' = s \<or> index_lists sc s')"
  using assms refresh_agrees [OF _ assms(2,3)]
  by (auto simp: cmd_update_def load_local_def pyrun split: sum.splits if_splits)

end

lemma grows_map: "(\<And>x. grows (f x)) \<Longrightarrow> grows (pmapM xs f)"
  by (induction xs) (auto intro!: grow)

context mirror_script
begin

lemma fetch_all_grows: "grows (fetch_all G sc state)"
  unfolding fetch_all_def by (intro grows_bind grows_pages grows_map grows_seq grow enrich_grows)

lemma writes_ok:
  assumes "pfor items (write_item sc) s = (Inr (), s')" and "list_all2 (\<lambda>j n. number_of j = Inr n) items ns" and "items_ok sc s"
  shows "items_ok sc s' \<and> cached_items sc s' = set ns \<union> cached_items sc s"
  using assms(2,1,3)
proof (induction arbitrary: s rule: list_all2_induct)
  case (Cons j js n ns)
  then obtain s1 where w: "write_item sc j s = (Inr (), s1)" and rest: "pfor js (write_item sc) s1 = (Inr (), s')"
    by (auto simp: pyrun split: prod.splits sum.splits)
  show ?case using Cons.IH [OF rest] write_ok [OF Cons.prems(2) Cons.hyps(1) w] by simp
qed (simp add: pyrun)

lemma updates_agree:
  assumes "agrees sc local s" and "list_all2 (\<lambda>j n. number_of j = Inr n) items ns" and "set ns \<subseteq> cached_items sc s"
  shows "agrees sc (fold (\<lambda>(n, j). dict_set n j) (zip ns items) local) s"
  using assms(2,1,3)
proof (induction arbitrary: local rule: list_all2_induct)
  case (Cons j js n ns)
  then have "agrees sc (dict_set n j local) s"
    using numbered_set [OF _ Cons.hyps(1)] by (auto simp: agrees_def dict_simps)
  with Cons.IH Cons.prems(2) show ?case by simp
qed simp

lemma fetch_agrees:
  assumes "cmd_fetch G sc state s = (Inr (), s')" and "items_ok sc s"
  shows "items_ok sc s' \<and> (files s' = files s \<or> index_lists sc s')"
proof -
  from assms(1) obtain items s1 where all: "fetch_all G sc state s = (Inr items, s1)"
    by (auto simp: cmd_fetch_def pyrun split: sum.splits prod.splits)
  have s1: "files s1 = files s" using growsD [OF fetch_all_grows all] by (simp add: files_def)
  show ?thesis
  proof (cases "items = []")
    case True
    with assms all s1 items_ok_dir [OF s1] show ?thesis by (auto simp: cmd_fetch_def pyrun)
  next
    case False
    with assms(1) all obtain s2 where w: "pfor items (write_item sc) s1 = (Inr (), s2)"
      by (auto simp: cmd_fetch_def pyrun split: sum.splits prod.splits)
    from False assms(1) all w obtain local ns where l: "load_files sc (files s2) [] = Inr local" and ns: "smap number_of items = Inr ns"
      and build: "build_index sc (map snd (fold (\<lambda>(n, j). dict_set n j) (zip ns items) local)) s2 = (Inr (), s')"
      by (auto simp: cmd_fetch_def load_local_def pyrun split: sum.splits prod.splits)
    have nums: "list_all2 (\<lambda>j n. number_of j = Inr n) items ns" using ns by (simp add: smap_Inr)
    have ok: "items_ok sc s2" "set ns \<subseteq> cached_items sc s2"
      using writes_ok [OF w nums] items_ok_dir [OF s1] assms(2) by auto
    from build_agrees [OF updates_agree [OF load_agrees [OF ok(1) l] nums ok(2)] build] show ?thesis by simp
  qed
qed

lemma main_agrees:
  assumes "main_script G sc argv s = (Inr (), s')" and "honest G sc" and "items_ok sc s"
  shows "items_ok sc s' \<and> (files s' = files s \<or> index_lists sc s')"
  using assms(1) fetch_agrees [OF _ assms(3)] refresh_agrees [OF _ assms(2,3)] update_agrees [OF _ assms(2,3)]
    cleanup_agrees [OF _ assms(2,3)]
  by (cases "parse_args sc argv") (auto simp: main_script_def pyrun)

end

section \<open>The three scripts\<close>

lemma attach_number:
  assumes "attach k op j s = (Inr i, s')" and "k \<noteq> ''number''"
  shows "jget ''number'' i = jget ''number'' j"
  using assms jget_set [OF assms(2)] by (auto simp: attach_def pyrun split: sum.splits prod.splits)

lemma pr_enrich_number:
  assumes "enrich_pr G j s = (Inr i, s')"
  shows "jget ''number'' i = jget ''number'' j"
  using assms unfolding enrich_pr_def
  by (auto simp: pbind_run plift_run split: sum.splits prod.splits dest!: attach_number)

lemma entry_first:
  assumes "make_obj ((''number'', jget ''number'' j) # kvs) = Inr e"
  shows "jget ''number'' e = jget ''number'' j"
  using assms by (cases "jget ''number'' j"; cases "smap snd kvs") (auto simp: make_obj_def jget_def [of _ "JObj _"] dict_get_def)

interpretation pr: mirror_script pr_script
proof unfold_locales
  show "item_number pr_script (file_name pr_script n) = Some n" for n
    by (rule item_number_name) (simp_all add: pr_script_def is_digit_def)
  show "jget ''number'' e = jget ''number'' j" if "sc_entry pr_script j = Inr e" for j e
    using that by (intro entry_first) (simp add: pr_script_def pr_entry_def)
  show "grows (sc_enrich pr_script G j)" for G j
    by (auto simp: pr_script_def enrich_pr_def fetch_comments_def fetch_review_comments_def fetch_reviews_def fetch_commits_def
        intro!: grow)
  show "jget ''number'' i = jget ''number'' j" if "sc_enrich pr_script G j s = (Inr i, s')" for G j s i s'
    using that pr_enrich_number by (simp add: pr_script_def)
qed (auto simp: pr_script_def item_number_def startswith_def plain_accept_def)

interpretation issue: mirror_script issue_script
proof unfold_locales
  show "item_number issue_script (file_name issue_script n) = Some n" for n
    by (rule item_number_name) (simp_all add: issue_script_def is_digit_def)
  show "jget ''number'' e = jget ''number'' j" if "sc_entry issue_script j = Inr e" for j e
    using that by (intro entry_first) (simp add: issue_script_def issue_entry_def)
  show "grows (sc_enrich issue_script G j)" for G j
    by (auto simp: issue_script_def enrich_issue_def fetch_issue_comments_def intro!: grow)
  show "jget ''number'' i = jget ''number'' j" if "sc_enrich issue_script G j s = (Inr i, s')" for G j s i s'
    using that by (auto simp: issue_script_def enrich_issue_def pbind_run plift_run split: sum.splits dest!: attach_number)
  show "plain_accept issue_script"
    by (auto simp: plain_accept_def issue_script_def accept_issue_def sbind_def jhas_def py_err_def split: json.splits sum.splits)
  show "i = j" if "sc_accept issue_script j = Inr (Some i)" for j i
    using that by (auto simp: issue_script_def accept_issue_def sbind_Inr split: if_splits)
qed (auto simp: issue_script_def item_number_def startswith_def)

interpretation alert: mirror_script alert_script
proof unfold_locales
  show "item_number alert_script (file_name alert_script n) = Some n" for n
    by (rule item_number_name) (simp_all add: alert_script_def is_digit_def)
  show "jget ''number'' e = jget ''number'' j" if "sc_entry alert_script j = Inr e" for j e
    using that by (auto simp: alert_script_def alert_entry_def sbind_Inr dest!: entry_first)
qed (auto simp: alert_script_def item_number_def startswith_def plain_accept_def pyrun intro!: grow)

abbreviation scripts :: "script set" where
  "scripts \<equiv> {pr_script, issue_script, alert_script}"

lemma scripts_share: "sc \<in> scripts \<Longrightarrow> mirror_script sc"
  using pr.mirror_script_axioms issue.mirror_script_axioms alert.mirror_script_axioms by blast

text \<open>C26: Cleanup, however it ends and whatever the server answers: no item file is changed, and one
  that is removed is named by a number for which the server said, during this run, that the item
  does not exist (404), is no item of this kind, or is not open. When it ends normally, the
  server said of every file that is left that its item is open, or the check failed.\<close>
theorem mirror_cleanup:
  assumes "sc \<in> scripts" and "cmd_cleanup G sc s = (r, s')"
  shows "(\<forall>name. name \<noteq> ''index.json'' \<and> name \<noteq> ''README.md'' \<and> dict_get (files s') name \<noteq> dict_get (files s) name \<longrightarrow>
      dict_get (files s') name = None \<and> (\<exists>n. name = file_name sc n \<and> decided gone G sc (mi_log s) (mi_log s') n)) \<and>
    (r = Inr () \<longrightarrow> (\<forall>n\<in>cached_items sc s \<inter> cached_items sc s'. decided stays G sc (mi_log s) (mi_log s') n))"
  using mirror_script.cleanup_safe [OF scripts_share [OF assms(1)] assms(2)] by (rule conjI)

lemma int_str_inj [simp]: "int_str m = int_str n \<longleftrightarrow> m = n"
  using py_int_str by (metis option.inject)

text \<open>Two alerts are cached; the server says that the first is open and the second fixed.\<close>

definition demo_alert :: "int \<Rightarrow> string \<Rightarrow> json" where
  "demo_alert n state = JObj [(''number'', JNum n), (''state'', JStr state), (''created_at'', JStr ''2026''),
     (''updated_at'', JStr ''2026''), (''html_url'', JStr ''u'')]"

definition demo_github :: github where
  "demo_github = \<lparr>gh_token = None,
     gh_server = \<lambda>log rq. if rq_url rq = sc_item_url alert_script 1 then Inr (demo_alert 1 ''open'')
       else if rq_url rq = sc_item_url alert_script 2 then Inr (demo_alert 2 ''fixed'')
       else Inl URLError,
     gh_fuel = 5\<rparr>"

definition demo_mirror :: mirror where
  "demo_mirror = \<lparr>mi_dir = Some (map (\<lambda>n. (file_name alert_script n, Json (demo_alert n ''open''))) [1, 2]), mi_log = []\<rparr>"

lemma demo_honest: "honest demo_github alert_script"
  by (auto simp: honest_def demo_github_def demo_alert_def number_of_def jget_def dict_get_def alert_script_def)

abbreviation demo_asked :: "int \<Rightarrow> mirror \<Rightarrow> mirror" where
  "demo_asked n s \<equiv> s\<lparr>mi_log := mi_log s @ [Requested (request_for demo_github alert_headers (sc_item_url alert_script n))]\<rparr>"

lemma demo_try:
  "try_details demo_github alert_script 1 s = (Inr (Some (Some (demo_alert 1 ''open''))), demo_asked 1 s)"
  "try_details demo_github alert_script 2 s = (Inr (Some (Some (demo_alert 2 ''fixed''))), demo_asked 2 s)"
  by (simp_all add: try_details_def fetch_details_def upt_conv_Cons pyrun make_request_def request_for_def
      demo_github_def alert_script_def)

lemma demo_state: "jget_or ''state'' JNull (demo_alert n st) = Inr (JStr st)" and demo_carry: "sc_carry alert_script = []"
  by (simp_all add: demo_alert_def jget_or_def dict_get_def alert_script_def)

lemma demo_load: "load_files alert_script (files demo_mirror) [] = Inr [(1, demo_alert 1 ''open''), (2, demo_alert 2 ''open'')]"
  by (simp add: demo_mirror_def files_def alert.name dict_set_def)

lemma demo_loop: "\<exists>s. cleanup_loop demo_github alert_script [(1, demo_alert 1 ''open''), (2, demo_alert 2 ''open'')] [1, 2] [] [] [] demo_mirror =
    (Inr ([2], [], [(1, demo_alert 1 ''open'')]), s) \<and>
    files s = [(file_name alert_script 1, Json (demo_alert 1 ''open''))]"
  by (simp add: demo_try demo_state demo_carry pyrun delay_run remove_item_def demo_mirror_def dict_get_def dict_set_def
      dict_del_def files_def alert.name_inj)

theorem mirror_cleanup_witness:
  "dict_get (files (snd (cmd_cleanup demo_github alert_script demo_mirror))) (file_name alert_script 2) = None \<and>
   decided gone demo_github alert_script [] (mi_log (snd (cmd_cleanup demo_github alert_script demo_mirror))) 2"
proof -
  obtain s where s: "cleanup_loop demo_github alert_script [(1, demo_alert 1 ''open''), (2, demo_alert 2 ''open'')] [1, 2] [] [] [] demo_mirror =
      (Inr ([2], [], [(1, demo_alert 1 ''open'')]), s)" "files s = [(file_name alert_script 1, Json (demo_alert 1 ''open''))]"
    using demo_loop by blast
  obtain r s' where build: "build_index alert_script [demo_alert 1 ''open''] s = (r, s')"
    by (cases "build_index alert_script [demo_alert 1 ''open''] s")
  then have run: "cmd_cleanup demo_github alert_script demo_mirror = (r, s')"
    using s(1) demo_load by (simp add: cmd_cleanup_def load_local_def dict_keys_def pyrun)
  have removed: "dict_get (files s') (file_name alert_script 2) = None"
    using build_index_run(2) [OF build] alert.name_special s(2) by (simp add: dict_get_def alert.name_inj)
  moreover have "dict_get (files demo_mirror) (file_name alert_script 2) \<noteq> None"
    by (simp add: demo_mirror_def files_def dict_get_def)
  ultimately have "\<exists>n. file_name alert_script 2 = file_name alert_script n \<and>
      decided gone demo_github alert_script (mi_log demo_mirror) (mi_log s') n"
    using mirror_cleanup [of alert_script, OF _ run, THEN conjunct1, rule_format, of "file_name alert_script 2"]
      alert.name_special [of 2] by force
  with removed run show ?thesis by (simp add: demo_mirror_def alert.name_inj)
qed

text \<open>Refresh, however it ends, changes no item file but those of the items it was asked for, and
  removes none, when the server answers with the items asked for.\<close>
theorem mirror_refresh:
  assumes "sc \<in> scripts" and "honest G sc" and "cmd_refresh G sc ns s = (r, s')"
    and "name \<noteq> ''index.json''" and "name \<noteq> ''README.md''" and "dict_get (files s') name \<noteq> dict_get (files s) name"
  shows "\<exists>n\<in>set ns. name = file_name sc n \<and> (\<exists>j. dict_get (files s') name = Some (Json j))"
proof (cases "load_files sc (files s) []")
  case (Inl e)
  with assms(3,6) show ?thesis by (auto simp: cmd_refresh_def load_local_def pyrun)
next
  case (Inr local)
  obtain z s1 where loop: "refresh_loop G sc ns local s = (z, s1)" by (cases "refresh_loop G sc ns local s")
  then have "dict_get (files s') name = dict_get (files s1) name"
    using assms(3) Inr build_index_run(2) [OF _ assms(4,5)]
    by (auto simp: cmd_refresh_def load_local_def pyrun split: sum.splits)
  with mirror_script.refresh_loop_safe [OF scripts_share [OF assms(1)] loop assms(2)] assms(6) show ?thesis by simp
qed

text \<open>C27: The index and the files: when every item file has the canonical name of the number that it
  holds, this stays so after every call of a script that ends normally, and then the index lists
  exactly the numbers of the cached items, in ascending order, or the call found nothing to do
  and left all files alone. The server may fail, and change its mind, at any request.\<close>
theorem mirror_index:
  assumes "sc \<in> scripts" and "honest G sc" and "items_ok sc s" and "main_script G sc argv s = (Inr (), s')"
  shows "items_ok sc s' \<and> (files s' = files s \<or> index_lists sc s')"
  using mirror_script.main_agrees [OF scripts_share [OF assms(1)] assms(4,2,3)] .

lemma demo_cache: "items_ok alert_script demo_mirror"
  by (simp add: items_ok_def demo_mirror_def files_def alert.name demo_alert_def number_of_def jget_def dict_get_def)

lemma demo_summary: "list_all (\<lambda>x. \<exists>ps. x = Inr ps) xs \<Longrightarrow> \<exists>s'. pfor xs append_summary s = (Inr (), s')"
  by (induction xs arbitrary: s) (auto simp: append_summary_def pyrun)

lemma demo_lines:
  "alert_entry (demo_alert 1 ''open'') = Inr e \<Longrightarrow> list_all (\<lambda>x. \<exists>ps. x = Inr ps) (alert_lines e)"
  by (auto simp: alert_entry_def demo_alert_def sub_obj_def make_obj_def jget_def jget_or_def dict_get_def truthy_def
      alert_lines_def alert_status_def field_set_def line_def val_def day_def)

lemma demo_entry: "\<exists>e. alert_entry (demo_alert 1 ''open'') = Inr e \<and> sort_entries [e] = Inr [e]"
  by (auto simp: alert_entry_def demo_alert_def sub_obj_def make_obj_def jget_def jget_or_def dict_get_def truthy_def
      sort_entries_def number_of_def)

lemma demo_build: "\<exists>s'. build_index alert_script [demo_alert 1 ''open''] s = (Inr (), s')"
proof -
  obtain e where e: "alert_entry (demo_alert 1 ''open'') = Inr e" "sort_entries [e] = Inr [e]" using demo_entry by blast
  have sc: "sc_entry alert_script = alert_entry" "sc_lines alert_script = alert_lines" by (simp_all add: alert_script_def)
  show ?thesis
    using demo_summary [OF demo_lines [OF e(1)]]
    by (simp add: build_index_def mkdir_def put_file_def append_summary_def [of "Inr x" for x] pyrun sc e)
qed

theorem mirror_index_witness:
  "index_lists alert_script (snd (main_script demo_github alert_script [''cleanup''] demo_mirror))"
proof -
  obtain s where s: "cleanup_loop demo_github alert_script [(1, demo_alert 1 ''open''), (2, demo_alert 2 ''open'')] [1, 2] [] [] [] demo_mirror =
      (Inr ([2], [], [(1, demo_alert 1 ''open'')]), s)" "files s = [(file_name alert_script 1, Json (demo_alert 1 ''open''))]"
    using demo_loop by blast
  obtain s' where build: "build_index alert_script [demo_alert 1 ''open''] s = (Inr (), s')" using demo_build by blast
  have "parse_args alert_script [''cleanup''] = CleanupCmd" by (simp add: parse_args_def alert_script_def)
  then have run: "main_script demo_github alert_script [''cleanup''] demo_mirror = (Inr (), s')"
    using s(1) build demo_load by (simp add: main_script_def cmd_cleanup_def load_local_def dict_keys_def pyrun)
  have "dict_get (files s') (file_name alert_script 2) = None"
    using build_index_run(2) [OF build] alert.name_special s(2) by (simp add: dict_get_def alert.name_inj)
  moreover have "dict_get (files demo_mirror) (file_name alert_script 2) \<noteq> None"
    by (simp add: demo_mirror_def files_def dict_get_def)
  ultimately have "files s' \<noteq> files demo_mirror" by metis
  with mirror_index [OF _ demo_honest demo_cache run] run show ?thesis by simp
qed

section \<open>A refresh that loses comments\<close>

lemma no_first_page:
  assumes "gh_fuel G = Suc k" and "\<And>log q. gh_server G log (request_for G hs (url @ ''?'' @ q)) = Inl (HTTPError c t)"
  shows "\<exists>s'. fetch_paginated G hs url s = (Inr [], s') \<and> files s' = files s"
  using assms by (simp add: fetch_paginated_def pyrun make_request_def)

lemma refused_enrich:
  assumes "gh_fuel G = Suc k" and "dict_get d ''number'' = Some (JNum n)"
    and refused: "\<And>log rq. rq_url rq \<noteq> sc_item_url pr_script n \<Longrightarrow> gh_server G log rq = Inl (HTTPError c t)"
  shows "\<exists>s'. enrich_pr G (JObj d) s = (Inr (JObj (dict_set ''commits'' (JList []) (dict_set ''reviews'' (JList [])
      (dict_set ''review_comments'' (JList []) (dict_set ''comment_chain'' (JList []) d))))), s') \<and> files s' = files s"
proof -
  have page: "\<exists>s'. fetch_paginated G pr_headers (API_BASE @ p @ int_str n @ x) s = (Inr [], s') \<and> files s' = files s"
    if "p = ''/issues/'' \<and> x = ''/comments'' \<or> p = ''/pulls/'' \<and> x \<noteq> []" for p x s
  proof (rule no_first_page [OF assms(1)])
    fix log q
    have "rq_url (request_for G pr_headers ((API_BASE @ p @ int_str n @ x) @ ''?'' @ q)) \<noteq> sc_item_url pr_script n"
      using that by (auto simp: request_for_def pr_script_def)
    then show "gh_server G log (request_for G pr_headers ((API_BASE @ p @ int_str n @ x) @ ''?'' @ q)) = Inl (HTTPError c t)"
      by (rule refused)
  qed
  have num: "number_text (JObj d) = Inr (int_str n)"
    using assms(2) by (simp add: number_text_def jget_def)
  obtain s1 where 1: "fetch_comments G (int_str n) s = (Inr [], s1)" "files s1 = files s"
    using page [of "''/issues/''" "''/comments''" s] unfolding fetch_comments_def by blast
  obtain s2 where 2: "fetch_review_comments G (int_str n) s1 = (Inr [], s2)" "files s2 = files s1"
    using page [of "''/pulls/''" "''/comments''" s1] unfolding fetch_review_comments_def by blast
  obtain s3 where 3: "fetch_reviews G (int_str n) s2 = (Inr [], s3)" "files s3 = files s2"
    using page [of "''/pulls/''" "''/reviews''" s2] unfolding fetch_reviews_def by blast
  obtain s4 where 4: "fetch_commits G (int_str n) s3 = (Inr [], s4)" "files s4 = files s3"
    using page [of "''/pulls/''" "''/commits''" s3] unfolding fetch_commits_def by blast
  show ?thesis
    using 1 2 3 4 by (simp add: enrich_pr_def attach_def num pyrun jset_def)
qed

text \<open>C31: Refreshing a pull request whose details arrive while the requests for its comments are
  refused, as under GitHub's rate limit: whatever comments, reviews and commits its file held,
  afterwards they are empty lists. The care taken for the details (\<open>fetch_pr_details\<close> raises, so
  that good local data is not lost over a transient error) is missing for the rest.\<close>
theorem refresh_loses_comments:
  assumes "load_files pr_script (files s) [] = Inr local" and "gh_fuel G > 0"
    and "gh_server G (mi_log s) (request_for G pr_headers (sc_item_url pr_script n)) = Inr (JObj d)"
    and "dict_get d ''number'' = Some (JNum n)"
    and "\<And>log rq. rq_url rq \<noteq> sc_item_url pr_script n \<Longrightarrow> gh_server G log rq = Inl (HTTPError 403 t)"
  shows "\<exists>e. dict_get (files (snd (cmd_refresh G pr_script [n] s))) (file_name pr_script n) = Some (Json (JObj e)) \<and>
    map (dict_get e) [''comment_chain'', ''review_comments'', ''reviews'', ''commits''] = replicate 4 (Some (JList []))"
proof -
  let ?e = "dict_set ''commits'' (JList []) (dict_set ''reviews'' (JList [])
      (dict_set ''review_comments'' (JList []) (dict_set ''comment_chain'' (JList []) d)))"
  let ?s1 = "s\<lparr>mi_log := mi_log s @ [Requested (request_for G pr_headers (sc_item_url pr_script n))]\<rparr>"
  obtain k where k: "gh_fuel G = Suc k" using assms(2) by (cases "gh_fuel G") simp_all
  have got: "try_details G pr_script n s = (Inr (Some (Some (JObj d))), ?s1)"
    using assms(3) by (simp add: try_details_def fetch_details_def upt_conv_Cons pyrun make_request_def pr_script_def)
  obtain s2 where enrich: "enrich_pr G (JObj d) ?s1 = (Inr (JObj ?e), s2)" "files s2 = files s"
    using refused_enrich [OF k assms(4,5), of ?s1] by auto
  have num: "number_of (JObj ?e) = Inr n" using assms(4) by (simp add: number_of_def jget_def dict_simps)
  obtain s3 where w: "write_item pr_script (JObj ?e) s2 = (Inr (), s3)" using write_run [OF num] by (metis surj_pair)
  have f: "dict_get (files s3) (file_name pr_script n) = Some (Json (JObj ?e))" using write_run [OF num w] by simp
  obtain z s4 where loop: "refresh_loop G pr_script [n] local s = (z, s4)" by (cases "refresh_loop G pr_script [n] local s")
  have "files s4 = files s3"
    using loop got enrich(1) w
    by (cases "sc_shown pr_script (JObj ?e)") (auto simp: pyrun delay_run pr_script_def [THEN arg_cong, of sc_enrich])
  moreover obtain r s' where run: "cmd_refresh G pr_script [n] s = (r, s')" by (cases "cmd_refresh G pr_script [n] s")
  moreover have "dict_get (files s') (file_name pr_script n) = dict_get (files s4) (file_name pr_script n)"
    using run loop assms(1) build_index_run(2) [OF _ pr.name_special]
    by (auto simp: cmd_refresh_def load_local_def pyrun split: sum.splits)
  ultimately show ?thesis using f by (intro exI [of _ ?e]) (simp add: dict_simps numeral_eq_Suc)
qed

text \<open>Pull request 7 is cached with a comment.\<close>

definition limited_github :: github where
  "limited_github = \<lparr>gh_token = None,
     gh_server = \<lambda>log rq. if rq_url rq = sc_item_url pr_script 7 then Inr (JObj [(''number'', JNum 7)]) else Inl (HTTPError 403 None),
     gh_fuel = 5\<rparr>"

definition commented_mirror :: mirror where
  "commented_mirror = \<lparr>mi_dir = Some [(file_name pr_script 7, Json (JObj [(''number'', JNum 7), (''comment_chain'', JList [JStr ''hi''])]))],
     mi_log = []\<rparr>"

theorem refresh_loses_comments_witness:
  "\<exists>e. dict_get (files (snd (cmd_refresh limited_github pr_script [7] commented_mirror))) (file_name pr_script 7) = Some (Json (JObj e)) \<and>
     dict_get e ''comment_chain'' = Some (JList [])"
proof -
  have "load_files pr_script (files commented_mirror) [] =
      Inr [(7, JObj [(''number'', JNum 7), (''comment_chain'', JList [JStr ''hi''])])]"
    by (simp add: commented_mirror_def files_def pr.name dict_set_def)
  from refresh_loses_comments [OF this, of limited_github 7 "[(''number'', JNum 7)]" None] show ?thesis
    by (force simp: limited_github_def request_for_def dict_get_def numeral_eq_Suc)
qed

section \<open>All pages\<close>

lemma pages_loop_complete:
  assumes "\<And>i log. i < length pages \<Longrightarrow> gh_server G log (request_for G hs (u (page + int i))) = Inr (JList (pages ! i))"
    and "\<forall>p\<in>set pages. p \<noteq> []" and "\<And>log. gh_server G log (request_for G hs (u (page + int (length pages)))) = Inr (JList [])"
    and "length pages < k"
  shows "\<exists>evs. pages_loop k (\<lambda>p. make_request G hs (u p)) (\<lambda>_. Inr True) on_fail page items s =
      (Inr (items @ concat pages), s\<lparr>mi_log := mi_log s @ evs\<rparr>) \<and> requests evs = Suc (length pages) \<and> length evs = Suc (length pages)"
  using assms
proof (induction pages arbitrary: k page items s)
  case Nil
  then obtain k' where "k = Suc k'" by (cases k) auto
  with Nil.prems(3) show ?case
    by (intro exI [of _ "[Requested (request_for G hs (u page))]"]) (simp add: pyrun make_request_def truthy_def)
next
  case (Cons p ps)
  then obtain k' where k: "k = Suc k'" by (cases k) auto
  let ?rq = "request_for G hs (u page)"
  let ?s1 = "s\<lparr>mi_log := mi_log s @ [Requested ?rq]\<rparr>"
  have first: "gh_server G (mi_log s) ?rq = Inr (JList p)" using Cons.prems(1) [of 0] by simp
  have keep: "smap (\<lambda>_. Inr True :: gh_exn + bool) xs = Inr (replicate (length xs) True)" for xs :: "json list"
    by (induction xs) simp_all
  have all: "map fst (filter snd (zip xs (replicate (length xs) True))) = xs" for xs :: "json list"
    by (induction xs) simp_all
  have "\<exists>evs. pages_loop k' (\<lambda>p. make_request G hs (u p)) (\<lambda>_. Inr True) on_fail (page + 1) (items @ p) ?s1 =
      (Inr ((items @ p) @ concat ps), ?s1\<lparr>mi_log := mi_log ?s1 @ evs\<rparr>) \<and> requests evs = Suc (length ps) \<and> length evs = Suc (length ps)"
  proof (rule Cons.IH)
    show "gh_server G log (request_for G hs (u (page + 1 + int i))) = Inr (JList (ps ! i))" if "i < length ps" for i log
      using Cons.prems(1) [of "Suc i" log] that by (simp add: add.assoc)
    show "gh_server G log (request_for G hs (u (page + 1 + int (length ps)))) = Inr (JList [])" for log
      using Cons.prems(3) [of log] by (simp add: add.assoc)
  qed (use Cons.prems(2,4) k in simp_all)
  then obtain evs where evs: "pages_loop k' (\<lambda>p. make_request G hs (u p)) (\<lambda>_. Inr True) on_fail (page + 1) (items @ p) ?s1 =
      (Inr ((items @ p) @ concat ps), ?s1\<lparr>mi_log := mi_log ?s1 @ evs\<rparr>)" "requests evs = Suc (length ps)" "length evs = Suc (length ps)"
    by blast
  show ?case
    using evs first Cons.prems(2)
    by (intro exI [of _ "Requested ?rq # evs"]) (simp add: k pyrun make_request_def truthy_def jiter_def keep all)
qed

text \<open>When the server gives the pages of a sub-resource, the first empty one ends the loop: all items
  are returned in order, with one request for each page and one for the end, and fuel that
  exceeds the number of pages is enough.\<close>
theorem pages_complete:
  assumes "\<And>i log. i < length pages \<Longrightarrow> gh_server G log (request_for G hs (url @ ''?'' @ page_query (1 + int i))) = Inr (JList (pages ! i))"
    and "\<forall>p\<in>set pages. p \<noteq> []"
    and "\<And>log. gh_server G log (request_for G hs (url @ ''?'' @ page_query (1 + int (length pages)))) = Inr (JList [])"
    and "length pages < gh_fuel G"
  shows "\<exists>evs. fetch_paginated G hs url s = (Inr (concat pages), s\<lparr>mi_log := mi_log s @ evs\<rparr>) \<and> requests evs = Suc (length pages)"
  using pages_loop_complete [of pages G hs "\<lambda>p. url @ ''?'' @ page_query p" 1 "gh_fuel G" True "[]" s, OF assms]
  unfolding fetch_paginated_def by auto

end
